(* ===== verification/Prelude.thy ===== *)
theory Prelude
  imports Main
begin

text \<open>
  Shared vocabulary of the development: the collections of facts the component theories
  fill, the outcome type of a Go computation that may panic, the sum type used for a Go
  \<open>(value, error)\<close> pair, and generic facts on lists and association lists.

  A Go function that returns \<open>(T, error)\<close> is modelled with the type \<open>'a res\<close>: \<open>Inl msg\<close>
  carries the text of the error, \<open>Inr v\<close> the value returned with a nil error. A Go
  function that may panic (nil dereference, slice bounds, closing a closed channel) has
  the result type \<open>'a go\<close>.
\<close>

named_theorems float_simps
named_theorems detector_defs
named_theorems store_defs

type_synonym 'a res = "string + 'a"

datatype 'a go = Ret 'a | Panic string

definition go_bind :: "'a go \<Rightarrow> ('a \<Rightarrow> 'b go) \<Rightarrow> 'b go" where
  "go_bind m f = (case m of Ret x \<Rightarrow> f x | Panic s \<Rightarrow> Panic s)"

definition panics :: "'a go \<Rightarrow> bool" where
  "panics m = (case m of Ret _ \<Rightarrow> False | Panic _ \<Rightarrow> True)"

lemma go_bind_simps [simp]:
  "go_bind (Ret x) f = f x"
  "go_bind (Panic s) f = Panic s"
  by (simp_all add: go_bind_def)

lemma panics_simps [simp]:
  "panics (Ret x) = False"
  "panics (Panic s) = True"
  by (simp_all add: panics_def)

lemma panics_bind:
  "panics (go_bind m f) \<longleftrightarrow> panics m \<or> (\<exists>x. m = Ret x \<and> panics (f x))"
  by (cases m) simp_all

lemma not_panics_iff: "\<not> panics m \<longleftrightarrow> (\<exists>x. m = Ret x)"
  by (cases m) simp_all

text \<open>A condition on the value of an outcome that did not panic.\<close>

definition ret_all :: "('a \<Rightarrow> bool) \<Rightarrow> 'a go \<Rightarrow> bool" where
  "ret_all P m = (case m of Ret x \<Rightarrow> P x | Panic _ \<Rightarrow> True)"

lemma ret_all_simps [simp]: "ret_all P (Ret x) = P x" "ret_all P (Panic s)"
  by (simp_all add: ret_all_def)

text \<open>Rules that walk through the structure of a function's body without unfolding its lets.\<close>

lemma ret_all_intros:
  "(\<And>x. ret_all P (f x)) \<Longrightarrow> ret_all P (Let t f)"
  "(b \<Longrightarrow> ret_all P m) \<Longrightarrow> (\<not> b \<Longrightarrow> ret_all P m') \<Longrightarrow> ret_all P (if b then m else m')"
  "(\<And>x y. ret_all P (g x y)) \<Longrightarrow> ret_all P (case p of (x, y) \<Rightarrow> g x y)"
  "ret_all P m \<Longrightarrow> (\<And>x. ret_all P (h x)) \<Longrightarrow> ret_all P (case z of None \<Rightarrow> m | Some x \<Rightarrow> h x)"
  "P x \<Longrightarrow> ret_all P (Ret x)" "ret_all P (Panic s)"
  by (auto split: prod.split option.split)

lemma pred_intros:
  "(\<And>x. P (f x)) \<Longrightarrow> P (Let t f)"
  "(b \<Longrightarrow> P u) \<Longrightarrow> (\<not> b \<Longrightarrow> P v) \<Longrightarrow> P (if b then u else v)"
  "(\<And>x y. P (g x y)) \<Longrightarrow> P (case p of (x, y) \<Rightarrow> g x y)"
  "P u \<Longrightarrow> (\<And>x. P (h x)) \<Longrightarrow> P (case z of None \<Rightarrow> u | Some x \<Rightarrow> h x)"
  by (auto split: prod.split option.split)

lemma no_panic_intros:
  "(\<And>x. \<not> panics (f x)) \<Longrightarrow> \<not> panics (Let t f)"
  "(b \<Longrightarrow> \<not> panics m) \<Longrightarrow> (\<not> b \<Longrightarrow> \<not> panics m') \<Longrightarrow> \<not> panics (if b then m else m')"
  "(\<And>x y. p = (x, y) \<Longrightarrow> \<not> panics (g x y)) \<Longrightarrow> \<not> panics (case p of (x, y) \<Rightarrow> g x y)"
  "(z = None \<Longrightarrow> \<not> panics m) \<Longrightarrow> (\<And>x. z = Some x \<Longrightarrow> \<not> panics (h x)) \<Longrightarrow>
    \<not> panics (case z of None \<Rightarrow> m | Some x \<Rightarrow> h x)"
  "(\<And>e. u = Inl e \<Longrightarrow> \<not> panics (k e)) \<Longrightarrow> (\<And>x. u = Inr x \<Longrightarrow> \<not> panics (l x)) \<Longrightarrow>
    \<not> panics (case u of Inl e \<Rightarrow> k e | Inr x \<Rightarrow> l x)"
  "\<not> panics m \<Longrightarrow> (\<And>x. m = Ret x \<Longrightarrow> \<not> panics (f x)) \<Longrightarrow> \<not> panics (go_bind m f)"
  "\<not> panics (Ret x)"
  by (auto simp: panics_bind Let_def split: prod.split option.split sum.split)

lemma ret_all_iff: "ret_all P m \<longleftrightarrow> (\<forall>x. m = Ret x \<longrightarrow> P x)"
  by (cases m) auto

lemma ret_allD: "ret_all P m \<Longrightarrow> m = Ret x \<Longrightarrow> P x"
  by simp

definition is_err :: "'a res \<Rightarrow> bool" where
  "is_err r = (case r of Inl _ \<Rightarrow> True | Inr _ \<Rightarrow> False)"

lemma is_err_simps [simp]: "is_err (Inl e)" "\<not> is_err (Inr v)"
  by (simp_all add: is_err_def)

subsection \<open>Association lists standing for Go maps\<close>

text \<open>
  A Go map whose keys are enumerated later (JSON encoding, copying) is an association
  list with at most one entry per key; \<open>mput\<close> replaces or appends, \<open>mget\<close> looks up.
\<close>

fun mput :: "'k \<Rightarrow> 'v \<Rightarrow> ('k \<times> 'v) list \<Rightarrow> ('k \<times> 'v) list" where
  "mput k v [] = [(k, v)]"
| "mput k v ((k', v') # m) = (if k = k' then (k, v) # m else (k', v') # mput k v m)"

abbreviation mget :: "('k \<times> 'v) list \<Rightarrow> 'k \<Rightarrow> 'v option" where
  "mget m k \<equiv> map_of m k"

definition mputs :: "('k \<times> 'v) list \<Rightarrow> ('k \<times> 'v) list \<Rightarrow> ('k \<times> 'v) list" where
  "mputs kvs m = fold (\<lambda>(k, v). mput k v) kvs m"

lemma mget_mput [simp]: "mget (mput k v m) k' = (if k' = k then Some v else mget m k')"
  by (induction m) auto

lemma map_fst_mput:
  "map fst (mput k v m) = (if k \<in> fst ` set m then map fst m else map fst m @ [k])"
  by (induction m) force+

lemma fst_set_mput [simp]: "fst ` set (mput k v m) = insert k (fst ` set m)"
proof -
  have "set (map fst (mput k v m)) = insert k (set (map fst m))"
    by (subst map_fst_mput) (auto simp: insert_absorb)
  then show ?thesis by simp
qed

lemma distinct_mput [simp]: "distinct (map fst m) \<Longrightarrow> distinct (map fst (mput k v m))"
  by (simp add: map_fst_mput)

subsection \<open>Lists\<close>

lemma find_filter_hd: "find P xs = (case filter P xs of [] \<Rightarrow> None | x # _ \<Rightarrow> Some x)"
  by (induction xs) auto

lemma distinct_snoc: "distinct (xs @ [x]) \<longleftrightarrow> distinct xs \<and> x \<notin> set xs"
  by simp

lemma last_drop_length: "n < length xs \<Longrightarrow> last (drop n xs) = last xs"
  by (simp add: last_drop)

lemma length_drop_window: "w \<le> length xs \<Longrightarrow> length (drop (length xs - w) xs) = w"
  by simp

end
