(* ===== verification/GoFloat.thy ===== *)
theory GoFloat
  imports Complex_Main Prelude "HOL-Library.Log_Nat"
begin

text \<open>
  Go's \<open>float64\<close> as the code uses it. A value is finite (\<open>Fin q\<close> with \<open>q\<close> a rational),
  an infinity or NaN. Every arithmetic operation computes the exact rational result and
  rounds it to binary64 with round-to-nearest-even (\<open>rnd\<close>): 53 bits of precision,
  exponents down to \<open>-1074\<close>, overflow to an infinity. The comparison operators are Go's:
  each is false when an operand is NaN. The instance of \<open>linorder\<close> is the order of
  \<open>sort.Float64s\<close>, which puts NaN first.

  Two things of IEEE 754 are left out because no branch of the code depends on them: the
  sign of a zero and the payload of a NaN. Multiply-add is not fused (the amd64 rule).
\<close>

datatype f64 = Fin rat | PInf | NInf | NaN

subsection \<open>The order of sort.Float64s\<close>

fun frank :: "f64 \<Rightarrow> nat" where
  "frank NaN = 0"
| "frank NInf = 1"
| "frank (Fin _) = 2"
| "frank PInf = 3"

fun fin_le :: "f64 \<Rightarrow> f64 \<Rightarrow> bool" where
  "fin_le (Fin x) (Fin y) = (x \<le> y)"
| "fin_le a b = (frank a \<le> frank b)"

instantiation f64 :: linorder
begin
definition less_eq_f64 :: "f64 \<Rightarrow> f64 \<Rightarrow> bool" where
  "less_eq_f64 a b = fin_le a b"
definition less_f64 :: "f64 \<Rightarrow> f64 \<Rightarrow> bool" where
  "less_f64 a b = (fin_le a b \<and> \<not> fin_le b a)"
instance
proof
  fix x y z :: f64
  show "x < y \<longleftrightarrow> x \<le> y \<and> \<not> y \<le> x" by (simp add: less_eq_f64_def less_f64_def)
  show "x \<le> x" by (cases x) (simp_all add: less_eq_f64_def)
  show "x \<le> y \<Longrightarrow> y \<le> z \<Longrightarrow> x \<le> z"
    by (cases x; cases y; cases z) (simp_all add: less_eq_f64_def)
  show "x \<le> y \<Longrightarrow> y \<le> x \<Longrightarrow> x = y"
    by (cases x; cases y) (simp_all add: less_eq_f64_def)
  show "x \<le> y \<or> y \<le> x" by (cases x; cases y) (auto simp: less_eq_f64_def)
qed
end

lemma f64_le_simps [simp]:
  "Fin x \<le> Fin y \<longleftrightarrow> x \<le> y" "NaN \<le> a" "a \<le> PInf" "NInf \<le> Fin x"
  "\<not> PInf \<le> Fin x" "\<not> Fin x \<le> NInf" "\<not> PInf \<le> NInf" "\<not> Fin x \<le> NaN"
  "\<not> PInf \<le> NaN" "\<not> NInf \<le> NaN" "NInf \<le> PInf" "NInf \<le> NInf"
  by (cases a; simp add: less_eq_f64_def)+

lemma f64_less_simps [simp]:
  "Fin x < Fin y \<longleftrightarrow> x < y" "Fin x < PInf" "NInf < Fin x" "NInf < PInf"
  "NaN < Fin x" "NaN < PInf" "NaN < NInf"
  "\<not> PInf < a" "\<not> a < NaN" "\<not> Fin x < NInf"
  by (auto simp: less_le_not_le)

subsection \<open>Rounding\<close>

definition ilog2 :: "rat \<Rightarrow> int" where
  "ilog2 x = (let (a, b) = quotient_of x; k = int (floorlog 2 (nat a)) - int (floorlog 2 (nat b))
     in if 2 powi k \<le> x then k else k - 1)"

definition rne :: "rat \<Rightarrow> int" where
  "rne x = (let f = \<lfloor>x\<rfloor>; d = x - of_int f
     in if d < 1 / 2 then f else if 1 / 2 < d then f + 1 else if even f then f else f + 1)"

definition ulp_exp :: "rat \<Rightarrow> int" where
  "ulp_exp x = max (- 1074) (ilog2 \<bar>x\<bar> - 52)"

definition rnd_unbounded :: "rat \<Rightarrow> rat" where
  "rnd_unbounded x = (if x = 0 then 0
     else let u = 2 powi ulp_exp x in of_int (rne (x / u)) * u)"

definition overflow_bound :: rat where
  "overflow_bound = 2 powi 1024"

definition rnd :: "rat \<Rightarrow> f64" where
  "rnd x = (let y = rnd_unbounded x
     in if overflow_bound \<le> y then PInf
        else if y \<le> - overflow_bound then NInf else Fin y)"

text \<open>The rationals that are float64 values.\<close>

definition is_f64 :: "rat \<Rightarrow> bool" where
  "is_f64 q \<longleftrightarrow> (\<exists>m e. q = of_int m * 2 powi e \<and> \<bar>m\<bar> < 2 ^ 53 \<and> - 1074 \<le> e \<and> \<bar>q\<bar> < overflow_bound)"

definition wf64 :: "f64 \<Rightarrow> bool" where
  "wf64 a = (case a of Fin q \<Rightarrow> is_f64 q | _ \<Rightarrow> True)"

subsection \<open>Arithmetic and comparison\<close>

fun fneg :: "f64 \<Rightarrow> f64" where
  "fneg (Fin x) = Fin (- x)"
| "fneg PInf = NInf"
| "fneg NInf = PInf"
| "fneg NaN = NaN"

fun fadd :: "f64 \<Rightarrow> f64 \<Rightarrow> f64" where
  "fadd (Fin x) (Fin y) = rnd (x + y)"
| "fadd NaN b = NaN"
| "fadd a NaN = NaN"
| "fadd PInf NInf = NaN"
| "fadd NInf PInf = NaN"
| "fadd PInf b = PInf"
| "fadd a PInf = PInf"
| "fadd NInf b = NInf"
| "fadd a NInf = NInf"

definition fsub :: "f64 \<Rightarrow> f64 \<Rightarrow> f64" where
  "fsub a b = fadd a (fneg b)"

fun fsgn :: "f64 \<Rightarrow> int" where
  "fsgn (Fin x) = (if x = 0 then 0 else if x > 0 then 1 else - 1)"
| "fsgn PInf = 1"
| "fsgn NInf = - 1"
| "fsgn NaN = 0"

definition finf :: "int \<Rightarrow> f64" where
  "finf s = (if s = 0 then NaN else if s > 0 then PInf else NInf)"

fun fmul :: "f64 \<Rightarrow> f64 \<Rightarrow> f64" where
  "fmul (Fin x) (Fin y) = rnd (x * y)"
| "fmul NaN b = NaN"
| "fmul a NaN = NaN"
| "fmul a b = finf (fsgn a * fsgn b)"

fun fdiv :: "f64 \<Rightarrow> f64 \<Rightarrow> f64" where
  "fdiv (Fin x) (Fin y) = (if y = 0 then finf (fsgn (Fin x)) else rnd (x / y))"
| "fdiv NaN b = NaN"
| "fdiv a NaN = NaN"
| "fdiv (Fin x) b = Fin 0"
| "fdiv a (Fin y) = finf (if y < 0 then - fsgn a else fsgn a)"
| "fdiv a b = NaN"

fun fabs :: "f64 \<Rightarrow> f64" where
  "fabs (Fin x) = Fin \<bar>x\<bar>"
| "fabs NaN = NaN"
| "fabs a = PInf"

definition flt :: "f64 \<Rightarrow> f64 \<Rightarrow> bool" where
  "flt a b = (a \<noteq> NaN \<and> b \<noteq> NaN \<and> a < b)"

definition fle :: "f64 \<Rightarrow> f64 \<Rightarrow> bool" where
  "fle a b = (a \<noteq> NaN \<and> b \<noteq> NaN \<and> a \<le> b)"

definition feq :: "f64 \<Rightarrow> f64 \<Rightarrow> bool" where
  "feq a b = (a \<noteq> NaN \<and> a = b)"

abbreviation fgt :: "f64 \<Rightarrow> f64 \<Rightarrow> bool" where "fgt a b \<equiv> flt b a"

abbreviation fge :: "f64 \<Rightarrow> f64 \<Rightarrow> bool" where "fge a b \<equiv> fle b a"

definition isNaN :: "f64 \<Rightarrow> bool" where
  "isNaN a = (a = NaN)"

definition isInf0 :: "f64 \<Rightarrow> bool" where
  "isInf0 a = (a = PInf \<or> a = NInf)"

definition f_of_int :: "int \<Rightarrow> f64" where
  "f_of_int z = rnd (of_int z)"

abbreviation f0 :: f64 where "f0 \<equiv> Fin 0"

text \<open>
  \<open>math.Sqrt\<close>: the integer square root of the argument scaled by \<open>4 ^ k\<close>, with a sticky
  half unit when the root is not exact, rounded once. The scale leaves at least 55 bits in
  the root, so the sticky bit decides the rounding as the exact root would.
\<close>

function isqrt_search :: "int \<Rightarrow> int \<Rightarrow> int \<Rightarrow> int" where
  "isqrt_search n lo hi = (if hi - lo \<le> 1 then lo
     else let mid = (lo + hi) div 2
       in if mid * mid \<le> n then isqrt_search n mid hi else isqrt_search n lo mid)"
  by pat_completeness auto
termination
  by (relation "measure (\<lambda>(n, lo, hi). nat (hi - lo))") auto

declare isqrt_search.simps [simp del]

definition isqrt :: "int \<Rightarrow> int" where
  "isqrt n = isqrt_search n 0 (2 ^ (floorlog 2 (nat n) div 2 + 1))"

definition sqrt_scale :: "rat \<Rightarrow> nat" where
  "sqrt_scale x = (let (a, b) = quotient_of x in max (floorlog 2 (nat b)) (nat (56 - ilog2 x)))"

definition sqrt_q :: "rat \<Rightarrow> rat" where
  "sqrt_q x = (let k = sqrt_scale x; n = \<lfloor>x * 4 ^ k\<rfloor>; q = isqrt n
     in (2 * of_int q + (if q * q = n then 0 else 1)) / 2 ^ (k + 1))"

fun fsqrt :: "f64 \<Rightarrow> f64" where
  "fsqrt (Fin x) = (if x < 0 then NaN else if x = 0 then Fin 0 else rnd (sqrt_q x))"
| "fsqrt PInf = PInf"
| "fsqrt NInf = NaN"
| "fsqrt NaN = NaN"

subsection \<open>Facts on rounding\<close>

lemma two_powi_pos [simp]: "(0::rat) < 2 powi e"
  by (simp add: zero_less_power_int)

lemma two_powi_nonzero [simp]: "(2::rat) powi e \<noteq> 0"
  by simp

lemma two_powi_mono: "d \<le> e \<Longrightarrow> (2::rat) powi d \<le> 2 powi e"
  by (rule power_int_increasing) auto

lemma two_powi_le_iff [simp]: "(2::rat) powi d \<le> 2 powi e \<longleftrightarrow> d \<le> e"
  using two_powi_mono [of d e] power_int_strict_increasing [of e d "2::rat"]
  by (auto simp: not_less [symmetric])

lemma two_powi_less_iff [simp]: "(2::rat) powi d < 2 powi e \<longleftrightarrow> d < e"
  by (simp add: less_le_not_le)

lemma two_powi_add: "(2::rat) powi (d + e) = 2 powi d * 2 powi e"
  by (simp add: power_int_add)

lemma two_powi_nat: "0 \<le> e \<Longrightarrow> (2::rat) powi e = of_int (2 ^ nat e)"
  by (simp add: power_int_def)

lemma rat_floorlog:
  assumes "0 < a" shows "(2::rat) powi (int (floorlog 2 (nat a)) - 1) \<le> of_int a"
    and "(of_int a :: rat) < 2 powi int (floorlog 2 (nat a))"
proof -
  define l where "l = floorlog 2 (nat a)"
  have b: "2 ^ (l - 1) \<le> nat a" "nat a < 2 ^ l"
    using floorlog_bounds [of "nat a" 2] assms unfolding l_def by auto
  have l: "0 < l"
  proof (rule ccontr)
    assume "\<not> 0 < l"
    with b(2) assms show False by simp
  qed
  have a: "rat_of_int a = of_nat (nat a)" using assms by simp
  have "rat_of_nat (2 ^ (l - 1)) \<le> of_nat (nat a)" using b(1) by (rule of_nat_mono)
  moreover have "(2::rat) powi (int l - 1) = of_nat (2 ^ (l - 1))"
    using l by (simp add: power_int_def nat_diff_distrib)
  ultimately have "(2::rat) powi (int l - 1) \<le> of_int a" unfolding a by simp
  moreover have "rat_of_nat (nat a) < of_nat (2 ^ l)"
    using b(2) by (rule of_nat_less_iff [THEN iffD2])
  then have "(of_int a :: rat) < 2 powi int l" unfolding a by simp
  ultimately show "(2::rat) powi (int (floorlog 2 (nat a)) - 1) \<le> of_int a"
    and "(of_int a :: rat) < 2 powi int (floorlog 2 (nat a))" unfolding l_def by auto
qed

lemma ilog2_bounds:
  assumes "0 < x" shows "2 powi ilog2 x \<le> x" and "x < 2 powi (ilog2 x + 1)"
proof -
  obtain a b where q: "quotient_of x = (a, b)" by (cases "quotient_of x")
  then have b: "0 < b" and x: "x = of_int a / of_int b"
    by (auto simp: quotient_of_denom_pos quotient_of_div)
  with assms have a: "0 < a" by (simp add: zero_less_divide_iff)
  define la where "la = int (floorlog 2 (nat a))"
  define lb where "lb = int (floorlog 2 (nat b))"
  note fa = rat_floorlog [OF a, folded la_def] and fb = rat_floorlog [OF b, folded lb_def]
  have xb: "x * of_int b = of_int a" using b x by simp
  have "x * 2 powi (lb - 1) \<le> x * of_int b"
    using assms fb(1) by (intro mult_left_mono) auto
  also have "\<dots> < 2 powi la" using fa(2) xb by simp
  finally have up: "x < 2 powi (la - lb + 1)"
    using two_powi_add [of "la - lb + 1" "lb - 1"] by (simp add: mult_less_cancel_right_pos)
  have "2 powi (la - 1) \<le> x * of_int b" using fa(1) xb by simp
  also have "\<dots> < x * 2 powi lb" using assms fb(2) by simp
  finally have lo: "2 powi (la - lb - 1) < x"
    using two_powi_add [of "la - lb - 1" lb] by (simp add: mult_less_cancel_right_pos)
  show "2 powi ilog2 x \<le> x" and "x < 2 powi (ilog2 x + 1)"
    using up lo q by (auto simp: ilog2_def Let_def la_def lb_def)
qed

lemma ilog2_less: "0 < x \<Longrightarrow> x < 2 powi k \<Longrightarrow> ilog2 x < k"
  using ilog2_bounds(1) [of x] by (meson le_less_trans two_powi_less_iff)

lemma ilog2_mono: "0 < x \<Longrightarrow> x \<le> y \<Longrightarrow> ilog2 x \<le> ilog2 y"
  using ilog2_less [of x "ilog2 y + 1"] ilog2_bounds(2) [of y] by force

lemma rne_bounds: "\<lfloor>x\<rfloor> \<le> rne x" "rne x \<le> \<lfloor>x\<rfloor> + 1"
  by (auto simp: rne_def Let_def)

lemma rne_of_int [simp]: "rne (of_int z) = z"
  by (simp add: rne_def)

lemma rne_mono: "x \<le> y \<Longrightarrow> rne x \<le> rne y"
proof (cases "\<lfloor>x\<rfloor> = \<lfloor>y\<rfloor>")
  case True
  then show "x \<le> y \<Longrightarrow> rne x \<le> rne y" by (auto simp: rne_def Let_def)
next
  case False
  assume "x \<le> y"
  with False have "\<lfloor>x\<rfloor> + 1 \<le> \<lfloor>y\<rfloor>" using floor_mono [of x y] by linarith
  then show ?thesis using rne_bounds(2) [of x] rne_bounds(1) [of y] by linarith
qed

lemma rne_minus: "rne (- x) = - rne x"
proof (cases "x = of_int \<lfloor>x\<rfloor>")
  case True
  then obtain z where "x = of_int z" by blast
  then show ?thesis using rne_of_int [of "- z"] by simp
next
  case False
  have f: "\<lfloor>- x\<rfloor> = - \<lfloor>x\<rfloor> - 1" using False by linarith
  show ?thesis unfolding rne_def Let_def f by auto
qed

lemma rne_le_int: "x \<le> of_int z \<Longrightarrow> rne x \<le> z"
  using rne_mono [of x "of_int z"] by simp

lemma rne_ge_int: "of_int z \<le> x \<Longrightarrow> z \<le> rne x"
  using rne_mono [of "of_int z" x] by simp

text \<open>Rounding a positive rational: the grid it is rounded to and the value it yields.\<close>

lemma rnd_unbounded_eq:
  "x \<noteq> 0 \<Longrightarrow> rnd_unbounded x = of_int (rne (x / 2 powi ulp_exp x)) * 2 powi ulp_exp x"
  by (simp add: rnd_unbounded_def Let_def)

lemma rnd_unbounded_minus: "rnd_unbounded (- x) = - rnd_unbounded x"
proof (cases "x = 0")
  case False
  have "ulp_exp (- x) = ulp_exp x" by (simp add: ulp_exp_def)
  with False show ?thesis by (simp add: rnd_unbounded_eq rne_minus)
qed (simp add: rnd_unbounded_def)

lemma rnd_unbounded_nonneg: "0 \<le> x \<Longrightarrow> 0 \<le> rnd_unbounded x"
  using rne_ge_int [of 0 "x / 2 powi ulp_exp x"]
  by (simp add: rnd_unbounded_def Let_def zero_le_mult_iff)

lemma rnd_unbounded_le_pow:
  assumes "0 < x" "x \<le> 2 powi k" "ulp_exp x \<le> k" shows "rnd_unbounded x \<le> 2 powi k"
proof -
  let ?e = "ulp_exp x"
  have k: "(2::rat) powi k = of_int (2 ^ nat (k - ?e)) * 2 powi ?e"
    using two_powi_add [of "k - ?e" ?e] two_powi_nat [of "k - ?e"] assms(3) by simp
  then have "x / 2 powi ?e \<le> of_int (2 ^ nat (k - ?e))"
    using assms(2) by (simp add: divide_le_eq)
  then have "rne (x / 2 powi ?e) \<le> 2 ^ nat (k - ?e)" by (rule rne_le_int)
  then have "rat_of_int (rne (x / 2 powi ?e)) \<le> of_int (2 ^ nat (k - ?e))"
    by (simp only: of_int_le_iff)
  then show ?thesis using assms(1) k by (simp add: rnd_unbounded_eq)
qed

lemma rnd_unbounded_ge_pow:
  assumes "0 < x" "2 powi k \<le> x" "ulp_exp x \<le> k" shows "2 powi k \<le> rnd_unbounded x"
proof -
  let ?e = "ulp_exp x"
  have k: "(2::rat) powi k = of_int (2 ^ nat (k - ?e)) * 2 powi ?e"
    using two_powi_add [of "k - ?e" ?e] two_powi_nat [of "k - ?e"] assms(3) by simp
  then have "of_int (2 ^ nat (k - ?e)) \<le> x / 2 powi ?e"
    using assms(2) by (simp add: le_divide_eq)
  then have "2 ^ nat (k - ?e) \<le> rne (x / 2 powi ?e)" by (rule rne_ge_int)
  then have "rat_of_int (2 ^ nat (k - ?e)) \<le> of_int (rne (x / 2 powi ?e))"
    by (simp only: of_int_le_iff)
  then show ?thesis using assms(1) k by (simp add: rnd_unbounded_eq)
qed

lemma rnd_unbounded_mono_pos:
  assumes "0 < x" "x \<le> y" shows "rnd_unbounded x \<le> rnd_unbounded y"
proof (cases "ulp_exp x = ulp_exp y")
  case True
  have "x / 2 powi ulp_exp y \<le> y / 2 powi ulp_exp y"
    using assms by (intro divide_right_mono) auto
  then have "rat_of_int (rne (x / 2 powi ulp_exp y)) \<le> of_int (rne (y / 2 powi ulp_exp y))"
    by (simp add: rne_mono)
  with assms True show ?thesis by (simp add: rnd_unbounded_eq)
next
  case False
  have le: "ilog2 x \<le> ilog2 y" using assms by (rule ilog2_mono)
  with False assms have k: "ilog2 x + 1 \<le> ilog2 y"
      "ulp_exp x \<le> ilog2 y" "ulp_exp y \<le> ilog2 y"
    by (auto simp: ulp_exp_def max_def split: if_splits)
  have "x \<le> 2 powi (ilog2 y)"
    using ilog2_bounds(2) [OF assms(1)] two_powi_mono [OF k(1)] by linarith
  then have "rnd_unbounded x \<le> 2 powi ilog2 y" using assms(1) k(2)
    by (intro rnd_unbounded_le_pow)
  also have "\<dots> \<le> rnd_unbounded y"
    using assms k(3) by (intro rnd_unbounded_ge_pow ilog2_bounds(1)) auto
  finally show ?thesis .
qed

lemma rnd_unbounded_mono: "x \<le> y \<Longrightarrow> rnd_unbounded x \<le> rnd_unbounded y"
proof (cases "0 < x")
  case True
  then show "x \<le> y \<Longrightarrow> ?thesis" by (rule rnd_unbounded_mono_pos)
next
  case False
  assume le: "x \<le> y"
  show ?thesis
  proof (cases "0 \<le> y")
    case True
    have "0 \<le> rnd_unbounded (- x)" using False by (intro rnd_unbounded_nonneg) auto
    then show ?thesis using rnd_unbounded_nonneg [OF True] by (simp add: rnd_unbounded_minus)
  next
    case neg: False
    then have "rnd_unbounded (- y) \<le> rnd_unbounded (- x)"
      using le by (intro rnd_unbounded_mono_pos) auto
    then show ?thesis by (simp add: rnd_unbounded_minus)
  qed
qed

lemma ulp_exp_le:
  assumes "x = of_int m * 2 powi e" "\<bar>m\<bar> < 2 ^ 53" "- 1074 \<le> e" "x \<noteq> 0"
  shows "ulp_exp x \<le> e"
proof -
  have "\<bar>x\<bar> = of_int \<bar>m\<bar> * 2 powi e" using assms(1) by (simp add: abs_mult)
  also have "\<dots> < 2 ^ 53 * 2 powi e"
  proof (rule mult_strict_right_mono)
    have "rat_of_int \<bar>m\<bar> < of_int (2 ^ 53)" using assms(2) by (simp only: of_int_less_iff)
    then show "rat_of_int \<bar>m\<bar> < 2 ^ 53" by simp
  qed simp
  also have "(2::rat) ^ 53 * 2 powi e = 2 powi (53 + e)"
    unfolding two_powi_add by simp
  finally have "ilog2 \<bar>x\<bar> < 53 + e" using assms(4) by (intro ilog2_less) auto
  with assms(3) show ?thesis by (simp add: ulp_exp_def)
qed

lemma rnd_unbounded_exact: "is_f64 q \<Longrightarrow> rnd_unbounded q = q"
proof (cases "q = 0")
  case False
  assume "is_f64 q"
  then obtain m e where q: "q = of_int m * 2 powi e" "\<bar>m\<bar> < 2 ^ 53" "- 1074 \<le> e"
    by (auto simp: is_f64_def)
  let ?u = "ulp_exp q"
  have u: "?u \<le> e" using q False by (rule ulp_exp_le)
  then have "(2::rat) powi e = of_int (2 ^ nat (e - ?u)) * 2 powi ?u"
    using two_powi_add [of "e - ?u" ?u] two_powi_nat [of "e - ?u"] by simp
  then have "q = of_int (m * 2 ^ nat (e - ?u)) * 2 powi ?u" using q(1) by simp
  then have "q / 2 powi ?u = of_int (m * 2 ^ nat (e - ?u))"
    by (metis nonzero_mult_div_cancel_right two_powi_nonzero)
  then have "rat_of_int (rne (q / 2 powi ?u)) = q / 2 powi ?u" by (metis rne_of_int)
  with False show ?thesis by (simp add: rnd_unbounded_eq)
qed (simp add: rnd_unbounded_def)

lemma rnd_unbounded_grid:
  obtains m e where "rnd_unbounded x = of_int m * 2 powi e" "\<bar>m\<bar> < 2 ^ 53" "- 1074 \<le> e"
proof (cases "x = 0")
  case True
  then show ?thesis using that [of 0 0] by (simp add: rnd_unbounded_def)
next
  case False
  let ?e = "ulp_exp x" and ?r = "rne (x / 2 powi ulp_exp x)"
  have e: "- 1074 \<le> ?e" by (simp add: ulp_exp_def)
  have "\<bar>x\<bar> < 2 powi (ilog2 \<bar>x\<bar> + 1)" using False by (intro ilog2_bounds) auto
  also have "\<dots> \<le> 2 powi (53 + ?e)" by (simp add: ulp_exp_def)
  also have "\<dots> = 2 ^ 53 * 2 powi ?e" unfolding two_powi_add by simp
  finally have "\<bar>x\<bar> / 2 powi ?e < 2 ^ 53" by (simp add: divide_less_eq)
  then have q: "\<bar>x / 2 powi ?e\<bar> < of_int (2 ^ 53)" by (simp add: abs_divide)
  have "?r \<le> 2 ^ 53" using q by (intro rne_le_int) linarith
  moreover have "of_int (- (2 ^ 53)) \<le> x / 2 powi ?e"
    using q unfolding abs_less_iff of_int_minus by linarith
  then have "- (2 ^ 53) \<le> ?r" by (rule rne_ge_int)
  ultimately have r: "\<bar>?r\<bar> \<le> 2 ^ 53" by linarith
  show ?thesis
  proof (cases "\<bar>?r\<bar> = 2 ^ 53")
    case True
    have "rnd_unbounded x = of_int (?r div 2) * 2 powi (?e + 1)"
    proof -
      have "even ?r" using True by (metis dvd_abs_iff even_numeral even_power zero_less_numeral)
      then have "rat_of_int ?r = of_int (?r div 2) * 2" by (metis dvd_div_mult_self of_int_mult of_int_numeral)
      moreover have "(2::rat) powi (?e + 1) = 2 powi ?e * 2" unfolding two_powi_add by simp
      ultimately show ?thesis using \<open>x \<noteq> 0\<close> by (simp add: rnd_unbounded_eq)
    qed
    moreover have "\<bar>?r div 2\<bar> < 2 ^ 53" using True by auto
    ultimately show ?thesis using that e by fastforce
  next
    case small: False
    show ?thesis using that [of ?r ?e] rnd_unbounded_eq [OF False] r small e by auto
  qed
qed

lemma rnd_not_nan [simp]: "rnd x \<noteq> NaN"
  by (simp add: rnd_def Let_def)

lemma rnd_exact: "is_f64 q \<Longrightarrow> rnd q = Fin q"
  using rnd_unbounded_exact [of q] by (auto simp: rnd_def is_f64_def abs_less_iff)

lemma rnd_mono: "x \<le> y \<Longrightarrow> rnd x \<le> rnd y"
  using rnd_unbounded_mono [of x y] by (auto simp: rnd_def Let_def)

lemma rnd_is_f64: "rnd x = Fin y \<Longrightarrow> is_f64 y"
proof -
  assume "rnd x = Fin y"
  then have y: "y = rnd_unbounded x" "\<bar>y\<bar> < overflow_bound"
    by (auto simp: rnd_def Let_def abs_less_iff not_le split: if_splits)
  obtain m e where "rnd_unbounded x = of_int m * 2 powi e" "\<bar>m\<bar> < 2 ^ 53" "- 1074 \<le> e"
    by (rule rnd_unbounded_grid)
  with y show ?thesis unfolding is_f64_def by (intro exI [of _ m] exI [of _ e]) simp
qed

lemma is_f64_minus [simp]: "is_f64 (- q) \<longleftrightarrow> is_f64 q"
proof -
  have *: "is_f64 (- q)" if "is_f64 q" for q :: rat
  proof -
    from that obtain m e where "q = of_int m * 2 powi e" "\<bar>m\<bar> < 2 ^ 53" "- 1074 \<le> e"
        "\<bar>q\<bar> < overflow_bound"
      by (auto simp: is_f64_def)
    then show ?thesis unfolding is_f64_def
      by (intro exI [of _ "- m"] exI [of _ e]) auto
  qed
  from * [of q] * [of "- q"] show ?thesis by auto
qed

lemma overflow_bound_gt: "(2::rat) ^ 53 \<le> overflow_bound"
proof -
  have "(2::rat) powi 53 \<le> 2 powi 1024" by (rule two_powi_mono) simp
  then show ?thesis by (simp add: overflow_bound_def power_int_def)
qed

lemma overflow_bound_pos [simp]: "0 < overflow_bound"
  by (simp add: overflow_bound_def)

lemma is_f64_of_int: "\<bar>z\<bar> < 2 ^ 53 \<Longrightarrow> is_f64 (of_int z)"
proof -
  assume z: "\<bar>z\<bar> < 2 ^ 53"
  have "rat_of_int \<bar>z\<bar> < of_int (2 ^ 53)" using z by (simp only: of_int_less_iff)
  also have "\<dots> \<le> overflow_bound" using overflow_bound_gt by simp
  finally have "\<bar>rat_of_int z\<bar> < overflow_bound" by simp
  moreover have "rat_of_int z = of_int z * 2 powi 0" by simp
  ultimately show ?thesis using z unfolding is_f64_def by (intro exI [of _ z] exI [of _ 0]) auto
qed

lemma is_f64_0 [simp]: "is_f64 0"
  using is_f64_of_int [of 0] by simp

lemma rnd_minus: "rnd (- x) = fneg (rnd x)"
proof -
  define y where "y = rnd_unbounded x"
  consider "overflow_bound \<le> y" | "overflow_bound \<le> - y"
    | "y < overflow_bound" "- y < overflow_bound" by linarith
  then show ?thesis
  proof cases
    case 1
    with overflow_bound_pos have "\<not> overflow_bound \<le> - y" "- y \<le> - overflow_bound" by linarith+
    with 1 show ?thesis by (simp add: rnd_def Let_def rnd_unbounded_minus flip: y_def)
  next
    case 2
    with overflow_bound_pos have "\<not> overflow_bound \<le> y" "y \<le> - overflow_bound" by linarith+
    with 2 show ?thesis by (simp add: rnd_def Let_def rnd_unbounded_minus flip: y_def)
  next
    case 3
    then have "\<not> - y \<le> - overflow_bound" "\<not> y \<le> - overflow_bound" by linarith+
    with 3 show ?thesis by (simp add: rnd_def Let_def rnd_unbounded_minus flip: y_def)
  qed
qed

lemma rnd_of_int: "\<bar>z\<bar> < 2 ^ 53 \<Longrightarrow> rnd (of_int z) = Fin (of_int z)"
  by (intro rnd_exact is_f64_of_int)

lemma rnd_0 [simp]: "rnd 0 = Fin 0"
  by (simp add: rnd_exact)

text \<open>Evaluation of rounded integers.\<close>

lemma rnd_numeral [float_simps]:
  "rnd 1 = Fin 1" "rnd (- 1) = Fin (- 1)"
  "numeral n < (2::int) ^ 53 \<Longrightarrow> rnd (numeral n) = Fin (numeral n)"
  "numeral n < (2::int) ^ 53 \<Longrightarrow> rnd (- numeral n) = Fin (- numeral n)"
  using rnd_of_int [of 1] rnd_of_int [of "- 1"] rnd_of_int [of "numeral n"] rnd_of_int [of "- numeral n"]
  by simp_all

subsection \<open>The contract of a rounding, and what follows from it\<close>

text \<open>
  The detectors rely on four laws of float64 rounding: it is monotone, exact on
  representable values, odd, and its finite results are representable. The locale states
  them; its lemmas are the facts on rounded sums, differences and products that the
  component proofs use, and the interpretation below discharges the laws for \<open>rnd\<close>.
\<close>

locale rounding =
  fixes rd :: "rat \<Rightarrow> f64" and rep :: "rat \<Rightarrow> bool"
  assumes mono: "x \<le> y \<Longrightarrow> rd x \<le> rd y"
    and exact: "rep x \<Longrightarrow> rd x = Fin x"
    and result_rep: "rd x = Fin y \<Longrightarrow> rep y"
    and no_nan: "rd x \<noteq> NaN"
    and odd_rd: "rd (- x) = fneg (rd x)"
    and rep_0: "rep 0"
begin

lemma lower: "rep a \<Longrightarrow> a \<le> x \<Longrightarrow> Fin a \<le> rd x"
  using mono [of a x] by (simp add: exact)

lemma upper: "rep b \<Longrightarrow> x \<le> b \<Longrightarrow> rd x \<le> Fin b"
  using mono [of x b] by (simp add: exact)

lemma between: "rep a \<Longrightarrow> rep b \<Longrightarrow> a \<le> x \<Longrightarrow> x \<le> b \<Longrightarrow> \<exists>y. rd x = Fin y \<and> a \<le> y \<and> y \<le> b"
  using lower [of a x] upper [of b x] no_nan [of x] by (cases "rd x") auto

lemma nonneg: "0 \<le> x \<Longrightarrow> Fin 0 \<le> rd x"
  using lower [OF rep_0] .

lemma nonpos: "x \<le> 0 \<Longrightarrow> rd x \<le> Fin 0"
  using upper [OF rep_0] .

lemma add_up: "rep a \<Longrightarrow> 0 \<le> t \<Longrightarrow> Fin a \<le> rd (a + t)"
  by (rule lower) auto

lemma sub_down: "rep a \<Longrightarrow> 0 \<le> t \<Longrightarrow> rd (a - t) \<le> Fin a"
  by (rule upper) auto

lemma idem: "rd x = Fin y \<Longrightarrow> rd y = Fin y"
  by (rule exact) (rule result_rep)

lemma finite_between: "rd x = Fin a \<Longrightarrow> rd z = Fin b \<Longrightarrow> x \<le> y \<Longrightarrow> y \<le> z \<Longrightarrow> \<exists>q. rd y = Fin q"
  using mono [of x y] mono [of y z] no_nan [of y] by (cases "rd y") auto

end

interpretation ieee: rounding rnd is_f64
  by unfold_locales (auto intro: rnd_mono rnd_exact rnd_is_f64 simp: rnd_minus)

end
