(* ===== verification/GoTime.thy ===== *)
theory GoTime
  imports Main Prelude GoText GoFloat "HOL-Library.Signed_Division" "HOL-Library.Word"
begin

text \<open>
  Go's \<open>time.Time\<close> and \<open>time.Duration\<close>. An instant is the number of nanoseconds since
  the zero time (0001-01-01T00:00:00Z), so \<open>IsZero\<close> is equality with 0; the monotonic
  reading and the zone an instant is printed in are not kept. A duration is an \<open>int\<close> in the
  range of \<open>int64\<close>: conversions wrap (\<open>wrap64\<close>), subtraction saturates. RFC 3339 text is
  written and read concretely, with the proleptic Gregorian calendar.
\<close>

subsection \<open>Durations\<close>

definition wrap64 :: "int \<Rightarrow> int" where
  "wrap64 z = (z + 2 ^ 63) mod 2 ^ 64 - 2 ^ 63"

definition int64 :: "int \<Rightarrow> bool" where
  "int64 z = (- (2 ^ 63) \<le> z \<and> z < 2 ^ 63)"

abbreviation second_ns :: int where "second_ns \<equiv> 1000000000"

definition seconds :: "int \<Rightarrow> int" where
  "seconds n = wrap64 (n * second_ns)"

definition time_sub :: "int \<Rightarrow> int \<Rightarrow> int" where
  "time_sub t u = max (- (2 ^ 63)) (min (2 ^ 63 - 1) (t - u))"

definition dur_seconds :: "int \<Rightarrow> f64" where
  "dur_seconds d = fadd (f_of_int (d sdiv second_ns)) (fdiv (f_of_int (d smod second_ns)) (Fin 1000000000))"

lemma wrap64_word: "wrap64 z = sint (word_of_int z :: 64 word)"
  by (simp add: wrap64_def int_word_sint)

lemma wrap64_range: "int64 (wrap64 z)"
  using pos_mod_bound [of "2 ^ 64" "z + 2 ^ 63"] pos_mod_sign [of "2 ^ 64" "z + 2 ^ 63"]
  by (simp add: int64_def wrap64_def)

lemma wrap64_id [simp]: "int64 z \<Longrightarrow> wrap64 z = z"
  by (simp add: int64_def wrap64_def)

lemma seconds_eq: "\<bar>n\<bar> \<le> 9223372036 \<Longrightarrow> seconds n = n * second_ns"
  unfolding seconds_def by (rule wrap64_id) (simp add: int64_def abs_le_iff)

lemma time_sub_range: "int64 (time_sub t u)"
  by (simp add: time_sub_def int64_def)

lemma time_sub_exact: "int64 (t - u) \<Longrightarrow> time_sub t u = t - u"
  by (simp add: time_sub_def int64_def)

lemma time_sub_mono: "t \<le> t' \<Longrightarrow> time_sub t u \<le> time_sub t' u"
  by (simp add: time_sub_def)

lemma time_sub_gt_iff: "int64 l \<Longrightarrow> l < 2 ^ 63 - 1 \<Longrightarrow> l < time_sub t u \<longleftrightarrow> l < t - u"
  by (auto simp: time_sub_def int64_def)

subsection \<open>The calendar\<close>

definition is_leap :: "int \<Rightarrow> bool" where
  "is_leap y = (y mod 4 = 0 \<and> (y mod 100 \<noteq> 0 \<or> y mod 400 = 0))"

text \<open>Days from 0001-01-01 to the first of January of a year, and the year of a day.\<close>

definition year_start :: "int \<Rightarrow> int" where
  "year_start y = 365 * (y - 1) + (y - 1) div 4 - (y - 1) div 100 + (y - 1) div 400"

definition year_of :: "int \<Rightarrow> int" where
  "year_of d = (let a = d div 146097; r = d mod 146097;
       b = min 3 (r div 36524); r2 = r - 36524 * b;
       c = r2 div 1461; r3 = r2 mod 1461; e = min 3 (r3 div 365)
     in 400 * a + 100 * b + 4 * c + e + 1)"

definition month_lens :: "int \<Rightarrow> int list" where
  "month_lens y = [31, if is_leap y then 29 else 28, 31, 30, 31, 30, 31, 31, 30, 31, 30, 31]"

fun month_split :: "nat \<Rightarrow> int \<Rightarrow> int list \<Rightarrow> nat \<times> int" where
  "month_split i n [] = (i, n + 1)"
| "month_split i n (m # ms) = (if n < m then (i, n + 1) else month_split (i + 1) (n - m) ms)"

definition civil_of_days :: "int \<Rightarrow> int \<times> nat \<times> int" where
  "civil_of_days d = (let y = year_of d in (y, month_split 1 (d - year_start y) (month_lens y)))"

definition days_of_civil :: "int \<Rightarrow> nat \<Rightarrow> int \<Rightarrow> int" where
  "days_of_civil y m d = year_start y + sum_list (take (m - 1) (month_lens y)) + d - 1"

definition days_in :: "int \<Rightarrow> nat \<Rightarrow> int" where
  "days_in y m = month_lens y ! (m - 1)"

lemma year_start_parts:
  assumes "0 \<le> b" "b \<le> 3" "0 \<le> c" "c \<le> 24" "0 \<le> e" "e \<le> 3"
  shows "year_start (400 * a + 100 * b + 4 * c + e + 1) = 146097 * a + 36524 * b + 1461 * c + 365 * e"
proof -
  let ?z = "400 * a + 100 * b + 4 * c + e"
  have "?z div 4 = 100 * a + 25 * b + c" "?z div 100 = 4 * a + b" "?z div 400 = a"
    using assms by (auto intro!: int_div_pos_eq [of _ _ _ e] int_div_pos_eq [of _ _ _ "4 * c + e"]
      int_div_pos_eq [of _ _ _ "100 * b + 4 * c + e"])
  then show ?thesis by (simp add: year_start_def)
qed

lemma year_of_bounds: "year_start (year_of d) \<le> d \<and> d < year_start (year_of d + 1)"
proof -
  define a where "a = d div 146097"
  define r where "r = d mod 146097"
  define b where "b = min 3 (r div 36524)"
  define r2 where "r2 = r - 36524 * b"
  define c where "c = r2 div 1461"
  define r3 where "r3 = r2 mod 1461"
  define e where "e = min 3 (r3 div 365)"
  have y: "year_of d = 400 * a + 100 * b + 4 * c + e + 1"
    by (simp add: year_of_def Let_def a_def b_def c_def e_def r_def r2_def r3_def)
  have d: "d = 146097 * a + r" "0 \<le> r" "r < 146097" by (simp_all add: a_def r_def)
  have b: "0 \<le> b" "b \<le> 3" "0 \<le> r2" "b < 3 \<longrightarrow> r2 < 36524" "r2 \<le> 36524"
    using d(2,3) unfolding b_def r2_def by (auto simp: min_def)
  have c: "0 \<le> c" "c \<le> 24" "r2 = 1461 * c + r3" "0 \<le> r3" "r3 < 1461"
    using b by (auto simp: c_def r3_def)
  have e: "0 \<le> e" "e \<le> 3" "365 * e \<le> r3" "e < 3 \<longrightarrow> r3 < 365 * e + 365"
    using c(4,5) unfolding e_def by (auto simp: min_def)
  have lo: "year_start (year_of d) = 146097 * a + 36524 * b + 1461 * c + 365 * e"
    unfolding y using b c e by (intro year_start_parts) auto
  have hi: "d < year_start (year_of d + 1)"
  proof -
    consider "e < 3" | "e = 3" "c < 24" | "e = 3" "c = 24" "b < 3" | "e = 3" "c = 24" "b = 3"
      using b c e by linarith
    then show ?thesis
    proof cases
      case 1
      then show ?thesis using year_start_parts [of b c "e + 1" a] b c d e r2_def
        unfolding y by (simp add: algebra_simps)
    next
      case 2
      then show ?thesis using year_start_parts [of b "c + 1" 0 a] b c d e r2_def
        unfolding y by (simp add: algebra_simps)
    next
      case 3
      then show ?thesis using year_start_parts [of "b + 1" 0 0 a] b c d e r2_def
        unfolding y by (simp add: algebra_simps)
    next
      case 4
      then show ?thesis using year_start_parts [of 0 0 0 "a + 1"] b c d e r2_def
        unfolding y by (simp add: algebra_simps)
    qed
  qed
  show ?thesis using hi lo d(1) e(3) c(3) r2_def by linarith
qed

lemma div_pred: "0 < k \<Longrightarrow> y div k = (y - 1) div k + (if y mod k = 0 then 1 else 0)" for y k :: int
proof (cases "y mod k = 0")
  case True
  assume k: "0 < k"
  have "y = k * (y div k)" using True by auto
  then have "(y - 1) div k = y div k - 1"
    using k by (intro int_div_pos_eq [of _ _ _ "k - 1"]) (auto simp: algebra_simps)
  with True show ?thesis by simp
next
  case False
  assume k: "0 < k"
  have "y = k * (y div k) + y mod k" "0 \<le> y mod k" "y mod k < k" using k by auto
  with False have "(y - 1) div k = y div k"
    by (intro int_div_pos_eq [of _ _ _ "y mod k - 1"]) auto
  with False show ?thesis by simp
qed

lemma dvd_4_100: "(4::int) dvd 100" and dvd_100_400: "(100::int) dvd 400"
  by simp_all

lemma year_length: "year_start (y + 1) = year_start y + sum_list (month_lens y)"
proof -
  have c: "a + (if P then 1 else 0) - (b + (if Q then 1 else 0)) + (c + (if R then 1 else 0))
      = a - b + c + (if P \<and> (\<not> Q \<or> R) then 1 else 0)"
    if "Q \<longrightarrow> P" "R \<longrightarrow> Q" for a b c :: int and P Q R
    using that by (cases P; cases Q; cases R) simp_all
  have m: "y mod 100 = 0 \<longrightarrow> y mod 4 = 0" "y mod 400 = 0 \<longrightarrow> y mod 100 = 0"
    unfolding dvd_eq_mod_eq_0 [symmetric]
    by (blast intro: dvd_trans [of 4 100 y, OF dvd_4_100] dvd_trans [of 100 400 y, OF dvd_100_400])+
  have "y div 4 - y div 100 + y div 400
      = (y - 1) div 4 - (y - 1) div 100 + (y - 1) div 400 + (if is_leap y then 1 else 0)"
    unfolding div_pred [of 4 y, simplified] div_pred [of 100 y, simplified]
      div_pred [of 400 y, simplified] is_leap_def
    by (rule c) (rule m)+
  moreover have "year_start (y + 1) = 365 * y + (y div 4 - y div 100 + y div 400)"
    by (simp add: year_start_def)
  moreover have "year_start y = 365 * y - 365 + ((y - 1) div 4 - (y - 1) div 100 + (y - 1) div 400)"
    by (simp add: year_start_def)
  ultimately have "year_start (y + 1) = year_start y + (365 + (if is_leap y then 1 else 0))"
    by simp
  then show ?thesis by (simp add: month_lens_def)
qed

lemma year_start_mono: "y \<le> z \<Longrightarrow> year_start y \<le> year_start z"
proof (induction z rule: int_ge_induct)
  case (step z)
  then show ?case using year_length [of z] by (simp add: month_lens_def)
qed simp

lemma month_split_inv:
  assumes "month_split i n ms = (m, d)" "0 \<le> n" "n < sum_list ms"
  shows "i \<le> m \<and> m < i + length ms \<and> n = sum_list (take (m - i) ms) + d - 1
    \<and> 1 \<le> d \<and> d \<le> ms ! (m - i)"
  using assms
proof (induction i n ms rule: month_split.induct)
  case (2 i n k ms)
  show ?case
  proof (cases "n < k")
    case True
    with 2 show ?thesis by auto
  next
    case False
    with 2 have "i + 1 \<le> m \<and> m < i + 1 + length ms \<and> n - k = sum_list (take (m - (i + 1)) ms) + d - 1
        \<and> 1 \<le> d \<and> d \<le> ms ! (m - (i + 1))" by simp
    moreover from this obtain j where "m - i = Suc j" "m - (i + 1) = j"
      by (metis Suc_diff_Suc Suc_eq_plus1 Suc_le_lessD)
    ultimately show ?thesis by auto
  qed
qed simp

lemma civil_of_days:
  assumes "civil_of_days n = (y, m, d)"
  shows "days_of_civil y m d = n" "1 \<le> m" "m \<le> 12" "1 \<le> d" "d \<le> days_in y m" "d \<le> 31"
    "y = year_of n"
proof -
  from assms have y: "y = year_of n" and s: "month_split 1 (n - year_start y) (month_lens y) = (m, d)"
    by (auto simp: civil_of_days_def Let_def)
  have b: "0 \<le> n - year_start y" "n - year_start y < sum_list (month_lens y)"
    using year_of_bounds [of n] year_length [of y] y by auto
  note inv = month_split_inv [OF s b]
  have len: "length (month_lens y) = 12" by (simp add: month_lens_def)
  show "days_of_civil y m d = n" "1 \<le> m" "m \<le> 12" "1 \<le> d" "d \<le> days_in y m" "y = year_of n"
    using inv len y by (auto simp: days_of_civil_def days_in_def)
  have "k \<le> 31" if "k \<in> set (month_lens y)" for k using that by (auto simp: month_lens_def)
  moreover have "month_lens y ! (m - 1) \<in> set (month_lens y)" using inv len by (intro nth_mem) auto
  ultimately have "days_in y m \<le> 31" by (simp add: days_in_def)
  with \<open>d \<le> days_in y m\<close> show "d \<le> 31" by simp
qed

subsection \<open>RFC 3339 text\<close>

text \<open>
  \<open>t.UTC().Format(time.RFC3339)\<close>, and \<open>time.Parse(time.RFC3339, s)\<close>: Go reads an hour of
  one or two digits, accepts a fraction of a second that the layout does not have (nine
  digits count), and a zone \<open>Z\<close> or \<open>+hh:mm\<close> with up to 24 hours and 60 minutes.
\<close>

definition pad2 :: "nat \<Rightarrow> string" where
  "pad2 n = [digit_char (n div 10 mod 10), digit_char (n mod 10)]"

definition pad4 :: "nat \<Rightarrow> string" where
  "pad4 n = (if n < 10000 then pad2 (n div 100) @ pad2 (n mod 100) else nat_str n)"

definition format_rfc3339 :: "int \<Rightarrow> string" where
  "format_rfc3339 t = (let s = t div second_ns; sod = nat (s mod 86400);
       (y, m, d) = civil_of_days (s div 86400)
     in (if y < 0 then CHR 0x2D # pad4 (nat (- y)) else pad4 (nat y)) @ CHR 0x2D # pad2 m
        @ CHR 0x2D # pad2 (nat d) @ CHR 0x54 # pad2 (sod div 3600)
        @ CHR 0x3A # pad2 (sod div 60 mod 60) @ CHR 0x3A # pad2 (sod mod 60) @ [CHR 0x5A])"

fun getnum :: "bool \<Rightarrow> string \<Rightarrow> (nat \<times> string) option" where
  "getnum fixed (a # b # s) = (if \<not> is_digit a then None
     else if is_digit b then Some (10 * digit_val a + digit_val b, s)
     else if fixed then None else Some (digit_val a, b # s))"
| "getnum fixed [a] = (if is_digit a \<and> \<not> fixed then Some (digit_val a, []) else None)"
| "getnum fixed [] = None"

definition get_year :: "string \<Rightarrow> (nat \<times> string) option" where
  "get_year s = (if 4 \<le> length s \<and> list_all is_digit (take 4 s)
     then Some (digits_val (take 4 s), drop 4 s) else None)"

fun expect :: "char \<Rightarrow> string \<Rightarrow> string option" where
  "expect c (x # s) = (if x = c then Some s else None)"
| "expect c [] = None"

definition get_fraction :: "string \<Rightarrow> int \<times> string" where
  "get_fraction s = (case s of
       p # d # _ \<Rightarrow> if (p = CHR 0x2E \<or> p = CHR 0x2C) \<and> is_digit d
         then let ds = takeWhile is_digit (tl s); k = take 9 ds
              in (int (digits_val k) * 10 ^ (9 - length k), drop (Suc (length ds)) s)
         else (0, s)
     | _ \<Rightarrow> (0, s))"

definition get_zone :: "string \<Rightarrow> int option" where
  "get_zone s = (if s = [CHR 0x5A] then Some 0 else case s of
       [sg, h1, h2, c, m1, m2] \<Rightarrow>
         if (sg = CHR 0x2B \<or> sg = CHR 0x2D) \<and> c = CHR 0x3A \<and> list_all is_digit [h1, h2, m1, m2]
         then let h = digits_val [h1, h2]; m = digits_val [m1, m2]; z = int (60 * (60 * h + m))
              in if h \<le> 24 \<and> m \<le> 60 then Some (if sg = CHR 0x2D then - z else z) else None
         else None
     | _ \<Rightarrow> None)"

definition parse_rfc3339 :: "string \<Rightarrow> int option" where
  "parse_rfc3339 s = Option.bind (get_year s) (\<lambda>(y, s).
     Option.bind (expect (CHR 0x2D) s) (\<lambda>s. Option.bind (getnum True s) (\<lambda>(m, s).
     Option.bind (expect (CHR 0x2D) s) (\<lambda>s. Option.bind (getnum True s) (\<lambda>(d, s).
     Option.bind (expect (CHR 0x54) s) (\<lambda>s. Option.bind (getnum False s) (\<lambda>(hh, s).
     Option.bind (expect (CHR 0x3A) s) (\<lambda>s. Option.bind (getnum True s) (\<lambda>(mi, s).
     Option.bind (expect (CHR 0x3A) s) (\<lambda>s. Option.bind (getnum True s) (\<lambda>(ss, s).
     let (f, s) = get_fraction s in Option.bind (get_zone s) (\<lambda>z.
       if 1 \<le> m \<and> m \<le> 12 \<and> 1 \<le> d \<and> int d \<le> days_in (int y) m \<and> hh < 24 \<and> mi < 60 \<and> ss < 60
       then Some ((days_of_civil (int y) m (int d) * 86400
              + int (3600 * hh + 60 * mi + ss) - z) * second_ns + f)
       else None))))))))))))"

lemma getnum_pad2 [simp]: "n < 100 \<Longrightarrow> getnum f (pad2 n @ s) = Some (n, s)"
  by (simp add: pad2_def)

lemma get_year_pad4 [simp]: "n < 10000 \<Longrightarrow> get_year (pad4 n @ s) = Some (n, s)"
  by (simp add: get_year_def pad4_def pad2_def digits_val_def)

lemma year_of_range: "0 \<le> d \<Longrightarrow> d < year_start 10000 \<Longrightarrow> 1 \<le> year_of d \<and> year_of d < 10000"
proof -
  assume d: "0 \<le> d" "d < year_start 10000"
  note b = year_of_bounds [of d]
  have "year_start 1 = 0" by (simp add: year_start_def)
  then have "\<not> year_of d + 1 \<le> 1" using b d year_start_mono [of "year_of d + 1" 1] by auto
  moreover have "\<not> 10000 \<le> year_of d" using b d year_start_mono [of 10000 "year_of d"] by auto
  ultimately show ?thesis by simp
qed

text \<open>The text of an instant reads back as the instant cut to the second.\<close>

definition rfc3339_end :: int where
  "rfc3339_end = year_start 10000 * 86400 * second_ns"

lemma parse_format:
  assumes "0 \<le> t" "t < rfc3339_end"
  shows "parse_rfc3339 (format_rfc3339 t) = Some (t - t mod second_ns)"
proof -
  define s where "s = t div second_ns"
  define n where "n = s div 86400"
  define sod where "sod = nat (s mod 86400)"
  obtain y m d where c: "civil_of_days n = (y, m, d)" by (cases "civil_of_days n") auto
  note cv = civil_of_days [OF c]
  have "0 \<le> n" using assms by (simp add: n_def s_def)
  moreover have "n < year_start 10000"
    using assms unfolding n_def s_def rfc3339_end_def by (simp add: div_mult2_eq [symmetric])
  ultimately have y: "1 \<le> y" "y < 10000" using year_of_range cv(7) by auto
  have sod: "sod < 86400" "int sod = s mod 86400" by (simp_all add: sod_def)
  have hms: "sod div 3600 < 24" "sod div 60 mod 60 < 60" "sod mod 60 < 60"
      "3600 * (sod div 3600) + 60 * (sod div 60 mod 60) + sod mod 60 = sod"
  proof -
    have q: "sod div 3600 = sod div 60 div 60" by (simp add: div_mult2_eq [symmetric])
    show "sod div 3600 < 24" using sod(1) by (simp add: less_mult_imp_div_less)
    show "sod div 60 mod 60 < 60" "sod mod 60 < 60" by simp_all
    have "3600 * (sod div 60 div 60) + 60 * (sod div 60 mod 60) = 60 * (sod div 60)"
      using div_mult_mod_eq [of "sod div 60" 60] by linarith
    then show "3600 * (sod div 3600) + 60 * (sod div 60 mod 60) + sod mod 60 = sod"
      using div_mult_mod_eq [of sod 60] unfolding q by linarith
  qed
  have f: "format_rfc3339 t = pad4 (nat y) @ CHR 0x2D # pad2 m @ CHR 0x2D # pad2 (nat d)
      @ CHR 0x54 # pad2 (sod div 3600) @ CHR 0x3A # pad2 (sod div 60 mod 60)
      @ CHR 0x3A # pad2 (sod mod 60) @ [CHR 0x5A]"
    using y c by (simp add: format_rfc3339_def Let_def s_def n_def sod_def)
  have nums: "nat y < 10000" "m < 100" "nat d < 100" "int (nat y) = y" "int (nat d) = d"
    using y cv by auto
  have "parse_rfc3339 (format_rfc3339 t)
      = Some ((days_of_civil y m d * 86400 + int sod) * second_ns)"
    unfolding f parse_rfc3339_def using nums hms cv
    by (simp add: get_fraction_def get_zone_def)
  also have "(days_of_civil y m d * 86400 + int sod) * second_ns = s * second_ns"
    unfolding cv(1) sod(2) n_def by (simp add: algebra_simps)
  also have "\<dots> = t - t mod second_ns" by (simp add: s_def minus_mod_eq_div_mult)
  finally show ?thesis .
qed

end
