(* ===== verification/GoValue.thy ===== *)
theory GoValue
  imports Main Prelude GoFloat GoText GoTime "HOL-Library.List_Lexorder"
begin

text \<open>
  Dynamic values (\<open>any\<close>) as JSON decoding and database rows produce them, the texts the
  code prints from them, and \<open>strconv.ParseFloat\<close>. A \<open>Sprint\<close> or \<open>Sprintf\<close> of a float or a
  dynamic value stays symbolic (\<open>Fmt\<close> of the verb string and the operands): no branch of the
  code reads it back.
\<close>

datatype goval = VNil | VBool bool | VFloat f64 | VInt int | VStr string | VTime int
  | VBytes string | VList "goval list" | VMap "(string \<times> goval) list" | VOther string

datatype gotext = Txt string | Fmt string "goval list"

definition sprint :: "goval \<Rightarrow> gotext" where
  "sprint v = (case v of VStr s \<Rightarrow> Txt s | _ \<Rightarrow> Fmt ''%v'' [v])"

definition sprint_f :: "f64 \<Rightarrow> gotext" where
  "sprint_f x = Fmt ''%v'' [VFloat x]"

text \<open>
  \<open>json.Marshal\<close> refuses a value that holds an infinity or a NaN.
\<close>

fun json_ok :: "goval \<Rightarrow> bool" where
  "json_ok (VFloat x) = (\<not> isNaN x \<and> \<not> isInf0 x)"
| "json_ok (VList vs) = list_all json_ok vs"
| "json_ok (VMap kvs) = list_all (\<lambda>kv. json_ok (snd kv)) kvs"
| "json_ok _ = True"

subsection \<open>strconv.ParseFloat\<close>

definition digit_in :: "nat \<Rightarrow> char \<Rightarrow> nat option" where
  "digit_in b c = (if is_digit c then Some (digit_val c)
     else let l = ord (lower_char c) in if b = 16 \<and> 97 \<le> l \<and> l \<le> 102 then Some (l - 87) else None)"

text \<open>
  The mantissa scan: digits of the base, underscores and one point; it returns the digits'
  value, how many followed the point, whether there was one at all, and what is left.
\<close>

fun scan_mantissa :: "nat \<Rightarrow> bool \<Rightarrow> nat \<Rightarrow> nat \<Rightarrow> bool \<Rightarrow> string \<Rightarrow> nat \<times> nat \<times> bool \<times> string" where
  "scan_mantissa b dot m fr dg [] = (m, fr, dg, [])"
| "scan_mantissa b dot m fr dg (c # s) =
     (if c = CHR 0x5F then scan_mantissa b dot m fr dg s
      else if c = CHR 0x2E \<and> \<not> dot then scan_mantissa b True m fr dg s
      else case digit_in b c of
        Some v \<Rightarrow> scan_mantissa b dot (b * m + v) (if dot then fr + 1 else fr) True s
      | None \<Rightarrow> (m, fr, dg, c # s))"

fun scan_exponent :: "nat \<Rightarrow> string \<Rightarrow> nat \<times> string" where
  "scan_exponent e [] = (e, [])"
| "scan_exponent e (c # s) = (if c = CHR 0x5F then scan_exponent e s
     else if is_digit c then scan_exponent (if e < 10000 then 10 * e + digit_val c else e) s
     else (e, c # s))"

fun underscores_ok :: "bool \<Rightarrow> nat \<Rightarrow> string \<Rightarrow> bool" where
  "underscores_ok hex st [] = (st \<noteq> 2)"
| "underscores_ok hex st (c # s) =
     (if is_digit c \<or> hex \<and> digit_in 16 c \<noteq> None then underscores_ok hex 1 s
      else if c = CHR 0x5F then st = 1 \<and> underscores_ok hex 2 s
      else st \<noteq> 2 \<and> underscores_ok hex 0 s)"

definition split_sign :: "string \<Rightarrow> bool \<times> string" where
  "split_sign s = (case s of [] \<Rightarrow> (False, []) | c # cs \<Rightarrow>
     if c = CHR 0x2D then (True, cs) else if c = CHR 0x2B then (False, cs) else (False, s))"

definition special_float :: "string \<Rightarrow> f64 option" where
  "special_float s = (let (neg, r) = split_sign s in
     if to_lower s = ''nan'' then Some NaN
     else if to_lower r = ''inf'' \<or> to_lower r = ''infinity'' then Some (if neg then NInf else PInf)
     else None)"

definition parse_exponent :: "string \<Rightarrow> (int \<times> string) option" where
  "parse_exponent s = (let (neg, r) = split_sign s in
     if r = [] \<or> \<not> is_digit (hd r) then None
     else let (e, rest) = scan_exponent 0 r in Some (if neg then - int e else int e, rest))"

definition hex_prefix :: "string \<Rightarrow> bool" where
  "hex_prefix r = (2 < length r \<and> hd r = CHR 0x30 \<and> lower_char (r ! 1) = CHR 0x78)"

definition read_float :: "string \<Rightarrow> rat option" where
  "read_float s = (let (neg, r) = split_sign s;
       hex = hex_prefix r;
       body = (if hex then drop 2 r else r); b = (if hex then 16 else 10);
       (m, fr, dg, rest) = scan_mantissa b False 0 0 False body;
       ex = (if rest \<noteq> [] \<and> lower_char (hd rest) = (if hex then CHR 0x70 else CHR 0x65)
             then parse_exponent (tl rest) else if hex then None else Some (0, rest))
     in if \<not> dg \<or> CHR 0x5F \<in> set s \<and> \<not> underscores_ok hex (if hex then 1 else 0) body then None
        else case ex of
          Some (e, []) \<Rightarrow> let v = of_nat m / of_nat b ^ fr * (if hex then 2 else 10) powi e
            in Some (if neg then - v else v)
        | _ \<Rightarrow> None)"

text \<open>The value Go returns and whether the error is nil; a range error carries an infinity.\<close>

definition parse_float :: "string \<Rightarrow> f64 \<times> bool" where
  "parse_float s = (case special_float s of Some x \<Rightarrow> (x, True) | None \<Rightarrow>
     (case read_float s of None \<Rightarrow> (f0, False)
      | Some q \<Rightarrow> let x = rnd q in (x, \<not> isInf0 x)))"

lemma parse_float_decimal:
  "list_all is_digit s \<Longrightarrow> s \<noteq> [] \<Longrightarrow> int (digits_val s) < 2 ^ 53 \<Longrightarrow>
   parse_float s = (Fin (of_nat (digits_val s)), True)"
proof -
  assume s: "list_all is_digit s" "s \<noteq> []" "int (digits_val s) < 2 ^ 53"
  have scan: "scan_mantissa 10 False m 0 d t = (foldl (\<lambda>n c. 10 * n + digit_val c) m t, 0, d \<or> t \<noteq> [], [])"
    if "list_all is_digit t" for m d t
    using that
  proof (induction t arbitrary: m d)
    case (Cons c t)
    then have "c \<noteq> CHR 0x5F" "c \<noteq> CHR 0x2E" by (auto simp: is_digit_def)
    with Cons show ?case by (simp add: digit_in_def)
  qed simp
  obtain c t where st: "s = c # t" using s(2) by (cases s) auto
  then have c: "is_digit c" using s(1) by simp
  have ns: "split_sign s = (False, s)" using digit_not_sign [OF c] st by (simp add: split_sign_def)
  have us: "CHR 0x5F \<notin> set s" using s(1) by (auto simp: list_all_iff is_digit_def)
  have x: "\<not> hex_prefix s"
  proof (cases "2 < length s")
    case True
    then have "is_digit (s ! 1)" using s(1) by (simp add: list_all_length)
    then show ?thesis by (auto simp: is_digit_def lower_char_def hex_prefix_def)
  qed (simp add: hex_prefix_def)
  have sp: "special_float s = None"
  proof -
    have "is_digit (hd (to_lower s))" using c st by (auto simp: to_lower_def lower_char_def is_digit_def)
    then show ?thesis using ns by (auto simp: special_float_def is_digit_def)
  qed
  have r: "read_float s = Some (of_nat (digits_val s))"
    using s scan [OF s(1)] ns us x by (simp add: read_float_def Let_def digits_val_def)
  have "rnd (of_nat (digits_val s)) = Fin (of_nat (digits_val s))"
    using rnd_of_int [of "int (digits_val s)"] s(3) by simp
  then show ?thesis by (simp add: parse_float_def sp r isInf0_def)
qed

subsection \<open>Printing a value with the verb v\<close>

text \<open>
  The shortest decimal that reads back as the float (at most 17 digits): for each number of
  digits the two neighbours of the scaled value are tried and the nearer one that rounds
  back is taken. \<open>format_float\<close> is the \<open>%v\<close> form: exponent notation for an exponent below
  -4 or from 6 on, as \<open>strconv\<close> decides for the shortest form. An instant prints in UTC.
\<close>

definition ilog10 :: "rat \<Rightarrow> int" where
  "ilog10 q = (let k = ilog2 q * 30103 div 100000 in
     if 10 powi (k + 1) \<le> q then k + 1 else if 10 powi k \<le> q then k else k - 1)"

definition reads_back :: "rat \<Rightarrow> int \<Rightarrow> int \<Rightarrow> bool" where
  "reads_back q c e = (rnd (of_int c * 10 powi e) = Fin q)"

fun shortest :: "nat \<Rightarrow> nat \<Rightarrow> rat \<Rightarrow> int \<Rightarrow> int \<times> int" where
  "shortest 0 p q e = (rne (q / 10 powi (e - 16)), e - 16)"
| "shortest (Suc n) p q e = (let k = e - int p + 1; x = q / 10 powi k; lo = \<lfloor>x\<rfloor>; hi = lo + 1 in
     if of_int lo = x then (lo, k)
     else if reads_back q (rne x) k then (rne x, k)
     else if reads_back q lo k then (lo, k)
     else if reads_back q hi k then (hi, k)
     else shortest n (p + 1) q e)"

definition strip_zeros :: "string \<Rightarrow> string" where
  "strip_zeros s = rev (dropWhile (\<lambda>c. c = CHR 0x30) (rev s))"

definition zeros :: "nat \<Rightarrow> string" where
  "zeros n = replicate n (CHR 0x30)"

definition format_digits :: "string \<Rightarrow> int \<Rightarrow> string" where
  "format_digits ds dp = (let ex = dp - 1 in
     if ex < - 4 \<or> 6 \<le> ex then
       (case ds of [] \<Rightarrow> [] | d # r \<Rightarrow> d # (if r = [] then [] else CHR 0x2E # r))
       @ CHR 0x65 # (if ex < 0 then CHR 0x2D else CHR 0x2B)
       # (if \<bar>ex\<bar> < 10 then CHR 0x30 # nat_str (nat \<bar>ex\<bar>) else nat_str (nat \<bar>ex\<bar>))
     else if dp \<le> 0 then ''0.'' @ zeros (nat (- dp)) @ ds
     else if int (length ds) \<le> dp then ds @ zeros (nat dp - length ds)
     else take (nat dp) ds @ CHR 0x2E # drop (nat dp) ds)"

definition format_float :: "f64 \<Rightarrow> string" where
  "format_float x = (case x of NaN \<Rightarrow> ''NaN'' | PInf \<Rightarrow> ''+Inf'' | NInf \<Rightarrow> ''-Inf''
     | Fin q \<Rightarrow> if q = 0 then ''0'' else
         let (c, k) = shortest 17 1 \<bar>q\<bar> (ilog10 \<bar>q\<bar>); ds = nat_str (nat c)
         in (if q < 0 then ''-'' else []) @ format_digits (strip_zeros ds) (k + int (length ds)))"

text \<open>The fraction of a second that the layouts with nines print: no trailing zeros, nothing for zero.\<close>

definition time_fraction :: "int \<Rightarrow> string" where
  "time_fraction t = (let f = t mod second_ns in
     if f = 0 then [] else CHR 0x2E # strip_zeros (drop 1 (nat_str (nat (second_ns + f)))))"

definition format_rfc3339_nano :: "int \<Rightarrow> string" where
  "format_rfc3339_nano t = take 19 (format_rfc3339 t) @ time_fraction t @ ''Z''"

fun insert_key :: "string \<times> string \<Rightarrow> (string \<times> string) list \<Rightarrow> (string \<times> string) list" where
  "insert_key kv [] = [kv]"
| "insert_key kv (kv' # m) = (if map ord (fst kv) \<le> (map ord (fst kv') :: nat list)
     then kv # kv' # m else kv' # insert_key kv m)"

fun sprint_key :: "goval \<Rightarrow> string" where
  "sprint_key VNil = ''<nil>''"
| "sprint_key (VBool b) = (if b then ''true'' else ''false'')"
| "sprint_key (VFloat x) = format_float x"
| "sprint_key (VInt z) = itoa z"
| "sprint_key (VStr s) = s"
| "sprint_key (VTime t) = replace_char (take 19 (format_rfc3339 t)) (CHR 0x54) '' '' @ time_fraction t @ '' +0000 UTC''"
| "sprint_key (VBytes bs) = ''['' @ join (map (\<lambda>b. nat_str (ord b)) bs) '' '' @ '']''"
| "sprint_key (VList vs) = ''['' @ join (map sprint_key vs) '' '' @ '']''"
| "sprint_key (VMap kvs) = ''map['' @ join (map (\<lambda>(k, v). k @ '':'' @ v)
     (fold insert_key (map (\<lambda>kv. (fst kv, sprint_key (snd kv))) kvs) [])) '' '' @ '']''"
| "sprint_key (VOther s) = s"

end
