(* ===== verification/SchedTypes.thy ===== *)
theory SchedTypes
  imports Main GoValue
begin

text \<open>
  The rule specification of the scheduler (\<open>internal/scheduler/types.go\<close>; the rule service's
  \<open>internal/rules/types.go\<close> declares the same structs) and the detector results
  (\<open>detectors.go\<close>, \<open>samples.go\<close>). A pointer field is an option; a slice is a list.
\<close>

record WhereClause =
  cl_column :: string
  cl_op :: string
  cl_value :: goval

record WhereSpec =
  wh_type :: string
  wh_clauses :: "WhereClause list"

record SourceSpec =
  so_table :: string
  so_timestamp :: string
  so_where :: "WhereSpec option"
  so_value_column :: string

record ThresholdSpec =
  th_op :: string
  th_value :: goval
  th_min :: "f64 option"
  th_max :: "f64 option"

record RobustZSpec =
  rz_baseline_window :: int
  rz_eval_window :: int
  rz_warn :: f64
  rz_crit :: f64
  rz_min_samples :: int

record MissingDataSpec =
  md_max_gap :: int

record SpecLimitBounds =
  sb_usl :: "f64 option"
  sb_lsl :: "f64 option"

record ControlLimitBounds =
  cb_ucl :: "f64 option"
  cb_lcl :: "f64 option"

record SpecLimitSpec =
  sl_spec :: "SpecLimitBounds option"
  sl_control :: "ControlLimitBounds option"
  sl_mode :: string
  sl_epsilon :: "f64 option"

record TimeRangeSpec =
  tr_start :: string
  tr_end :: string

record BaselineSpec =
  bl_last_n :: "int option"
  bl_time_range :: "TimeRangeSpec option"

record ShewhartSpec =
  sh_baseline :: BaselineSpec
  sh_sigma :: f64
  sh_min_n :: int
  sh_population :: bool

record SubgroupingSpec =
  sg_mode :: string
  sg_column :: string

record RangeChartSpec =
  rc_size :: int
  rc_subgrouping :: SubgroupingSpec
  rc_baseline :: BaselineSpec
  rc_min_subgroups :: int

record TrendSpec =
  tn_window :: int
  tn_epsilon :: f64
  tn_consecutive :: bool

record TPASpec =
  tp_window :: int
  tp_basis :: string
  tp_slope :: "f64 option"
  tp_time_to_spec :: "f64 option"
  tp_require_limits :: bool
  tp_limits :: "SpecLimitBounds option"
  tp_epsilon :: f64

record DetectorSpec =
  d_type :: string
  d_threshold :: "ThresholdSpec option"
  d_robust_z :: "RobustZSpec option"
  d_missing :: "MissingDataSpec option"
  d_spec_limit :: "SpecLimitSpec option"
  d_shewhart :: "ShewhartSpec option"
  d_range_chart :: "RangeChartSpec option"
  d_trend :: "TrendSpec option"
  d_tpa :: "TPASpec option"

record ParameterSpec =
  p_name :: string
  p_column :: string
  p_detector :: DetectorSpec

record ConditionSpec =
  co_op :: string
  co_value :: goval
  co_min :: "f64 option"
  co_max :: "f64 option"

record RuleSpec =
  r_name :: string
  r_description :: string
  r_connection :: string
  r_source :: SourceSpec
  r_parameters :: "ParameterSpec list"
  r_poll :: int
  r_cooldown :: "int option"
  r_enabled :: bool
  r_parameter_name :: string
  r_aggregation :: string
  r_window :: "int option"
  r_condition :: ConditionSpec

record Sample =
  s_ts :: int
  s_value :: f64
  s_subgroup :: string

record Violation =
  v_timestamp :: "int option"
  v_index :: "int option"
  v_value :: f64
  v_reason :: string
  v_limit_name :: string
  v_limit_value :: f64
  v_delta :: f64

record DetectorResult =
  dr_hit :: bool
  dr_status :: string
  dr_severity :: string
  dr_observed :: gotext
  dr_limit_expr :: gotext
  dr_metadata :: "(string \<times> goval) list"
  dr_score :: "f64 option"
  dr_median :: "f64 option"
  dr_mad :: "f64 option"
  dr_window_start :: "int option"
  dr_window_end :: "int option"
  dr_baseline_start :: "int option"
  dr_baseline_end :: "int option"
  dr_violations :: "Violation list"

text \<open>The zero value of the result struct.\<close>

definition empty_result :: DetectorResult where
  "empty_result = \<lparr> dr_hit = False, dr_status = [], dr_severity = [], dr_observed = Txt [],
     dr_limit_expr = Txt [], dr_metadata = [], dr_score = None, dr_median = None, dr_mad = None,
     dr_window_start = None, dr_window_end = None, dr_baseline_start = None,
     dr_baseline_end = None, dr_violations = [] \<rparr>"

lemma empty_result_simps [simp]:
  "dr_hit empty_result = False" "dr_status empty_result = []" "dr_violations empty_result = []"
  "dr_metadata empty_result = []" "dr_window_start empty_result = None"
  "dr_window_end empty_result = None" "dr_score empty_result = None" "dr_severity empty_result = []"
  by (simp_all add: empty_result_def)

text \<open>Zero values used to write concrete specifications.\<close>

definition no_where :: SourceSpec where
  "no_where = \<lparr> so_table = [], so_timestamp = [], so_where = None, so_value_column = [] \<rparr>"

definition empty_detector :: DetectorSpec where
  "empty_detector = \<lparr> d_type = [], d_threshold = None, d_robust_z = None, d_missing = None,
     d_spec_limit = None, d_shewhart = None, d_range_chart = None, d_trend = None, d_tpa = None \<rparr>"

definition empty_condition :: ConditionSpec where
  "empty_condition = \<lparr> co_op = [], co_value = VNil, co_min = None, co_max = None \<rparr>"

definition empty_rule :: RuleSpec where
  "empty_rule = \<lparr> r_name = [], r_description = [], r_connection = [], r_source = no_where,
     r_parameters = [], r_poll = 0, r_cooldown = None, r_enabled = False, r_parameter_name = [],
     r_aggregation = [], r_window = None, r_condition = empty_condition \<rparr>"

end
