(* ===== verification/SchedStats.thy ===== *)
theory SchedStats
  imports Main Prelude GoFloat "HOL-Library.Multiset"
begin

text \<open>
  The statistics the detectors use: \<open>internal/scheduler/stats.go\<close> and the median and median
  absolute deviation of \<open>detectors.go\<close>. The lemmas bound the median by any representable
  bounds of its data, show the deviations nonnegative and the constant case exact.
\<close>

definition f_len :: "'a list \<Rightarrow> f64" where
  "f_len xs = f_of_int (int (length xs))"

definition Mean :: "f64 list \<Rightarrow> f64" where
  "Mean values = (if values = [] then f0 else fdiv (foldl fadd f0 values) (f_len values))"

definition StdDev :: "f64 list \<Rightarrow> bool \<Rightarrow> f64" where
  "StdDev values population = (if values = [] then f0
     else let mean = Mean values;
            sum = foldl (\<lambda>s v. let diff = fsub v mean in fadd s (fmul diff diff)) f0 values
       in if population then fsqrt (fdiv sum (f_len values))
          else if length values < 2 then f0
          else fsqrt (fdiv sum (f_of_int (int (length values) - 1))))"

definition LinearRegression :: "f64 list \<Rightarrow> f64 list \<Rightarrow> f64 \<times> f64 \<times> f64 \<times> bool" where
  "LinearRegression xs ys = (if length xs \<noteq> length ys \<or> length xs < 2 then (f0, f0, f0, False)
     else let n = f_len xs;
            sumX = foldl fadd f0 xs; sumY = foldl fadd f0 ys;
            sumXY = foldl (\<lambda>s (x, y). fadd s (fmul x y)) f0 (zip xs ys);
            sumX2 = foldl (\<lambda>s x. fadd s (fmul x x)) f0 xs;
            denom = fsub (fmul n sumX2) (fmul sumX sumX)
       in if feq denom f0 then (f0, f0, f0, False)
          else let slope = fdiv (fsub (fmul n sumXY) (fmul sumX sumY)) denom;
                 intercept = fdiv (fsub sumY (fmul slope sumX)) n;
                 meanY = fdiv sumY n;
                 ssTot = foldl (\<lambda>s y. let diff = fsub y meanY in fadd s (fmul diff diff)) f0 ys;
                 ssRes = foldl (\<lambda>s (x, y). let res = fsub y (fadd (fmul slope x) intercept)
                           in fadd s (fmul res res)) f0 (zip xs ys)
            in if feq ssTot f0 then (slope, intercept, Fin 1, True)
               else (slope, intercept, fsub (Fin 1) (fdiv ssRes ssTot), True))"

definition Median :: "f64 list \<Rightarrow> f64" where
  "Median values = (if values = [] then f0
     else let sorted = sort values; mid = length sorted div 2
       in if even (length sorted) then fdiv (fadd (sorted ! (mid - 1)) (sorted ! mid)) (Fin 2)
          else sorted ! mid)"

definition MAD :: "f64 list \<Rightarrow> f64 \<Rightarrow> f64" where
  "MAD values median = (if values = [] then f0 else Median (map (\<lambda>v. fabs (fsub v median)) values))"

subsection \<open>Bounds of the median\<close>

text \<open>A finite value between two rationals.\<close>

definition fin_in :: "rat \<Rightarrow> rat \<Rightarrow> f64 \<Rightarrow> bool" where
  "fin_in a b v = (case v of Fin q \<Rightarrow> a \<le> q \<and> q \<le> b | _ \<Rightarrow> False)"

lemma fin_in_iff: "fin_in a b v \<longleftrightarrow> (\<exists>q. v = Fin q \<and> a \<le> q \<and> q \<le> b)"
  by (cases v) (auto simp: fin_in_def)

lemma fin_in_simps [simp]: "fin_in a b (Fin q) \<longleftrightarrow> a \<le> q \<and> q \<le> b"
  "\<not> fin_in a b PInf" "\<not> fin_in a b NInf" "\<not> fin_in a b NaN"
  by (simp_all add: fin_in_def)

lemma is_f64_double:
  assumes "is_f64 q" "\<bar>2 * q\<bar> < overflow_bound" shows "is_f64 (2 * q)"
proof -
  obtain m e where "q = of_int m * 2 powi e" "\<bar>m\<bar> < 2 ^ 53" "- 1074 \<le> e"
    using assms(1) by (auto simp: is_f64_def)
  moreover have "(2::rat) powi (e + 1) = 2 * 2 powi e" unfolding two_powi_add by simp
  ultimately show ?thesis using assms(2) unfolding is_f64_def
    by (intro exI [of _ m] exI [of _ "e + 1"]) auto
qed

text \<open>A bound that a sum of two data values cannot push past the largest float.\<close>

definition median_bound :: "rat \<Rightarrow> bool" where
  "median_bound q = (is_f64 q \<and> \<bar>2 * q\<bar> < overflow_bound)"

lemma midpoint_in:
  assumes "median_bound a" "median_bound b" "fin_in a b u" "fin_in a b v"
  shows "fin_in a b (fdiv (fadd u v) (Fin 2))"
proof -
  obtain p q where pq: "u = Fin p" "v = Fin q" "a \<le> p" "p \<le> b" "a \<le> q" "q \<le> b"
    using assms(3,4) by (auto simp: fin_in_iff)
  obtain s where s: "rnd (p + q) = Fin s" "2 * a \<le> s" "s \<le> 2 * b"
    using ieee.between [of "2 * a" "2 * b" "p + q"] assms(1,2) pq
    by (auto simp: median_bound_def is_f64_double)
  obtain t where "rnd (s / 2) = Fin t" "a \<le> t" "t \<le> b"
    using ieee.between [of a b "s / 2"] assms(1,2) s by (auto simp: median_bound_def)
  with s pq show ?thesis by simp
qed

lemma Median_in:
  assumes "median_bound a" "median_bound b" "values \<noteq> []" "\<forall>v \<in> set values. fin_in a b v"
  shows "fin_in a b (Median values)"
proof -
  let ?s = "sort values"
  have nth: "fin_in a b (?s ! i)" if "i < length values" for i
    using that assms(4) nth_mem [of i ?s] by simp
  have "length values div 2 < length values" "length values div 2 - 1 < length values"
    using assms(3) by (auto simp: less_imp_diff_less)
  with nth assms show ?thesis by (auto simp: Median_def Let_def midpoint_in)
qed

lemma Median_mset: "mset xs = mset ys \<Longrightarrow> Median xs = Median ys"
proof -
  assume m: "mset xs = mset ys"
  then have "sort xs = sort ys" by (intro properties_for_sort) simp_all
  moreover have "length xs = length ys" using m by (metis size_mset)
  ultimately show ?thesis by (auto simp: Median_def)
qed

lemma median_bound_0 [simp]: "median_bound 0"
  by (simp add: median_bound_def)

lemma fdiv2_nonneg: "Fin 0 \<le> v \<Longrightarrow> Fin 0 \<le> fdiv v (Fin 2)"
  by (cases v) (auto simp: finf_def ieee.nonneg)

lemma fadd_nonneg: "Fin 0 \<le> u \<Longrightarrow> Fin 0 \<le> v \<Longrightarrow> Fin 0 \<le> fadd u v"
  by (cases u; cases v) (auto simp: ieee.nonneg)

lemma Median_nonneg: "\<forall>v \<in> set values. Fin 0 \<le> v \<Longrightarrow> Fin 0 \<le> Median values"
proof (cases "values = []")
  case False
  assume a: "\<forall>v \<in> set values. Fin 0 \<le> v"
  have nth: "Fin 0 \<le> sort values ! i" if "i < length values" for i
    using that a nth_mem [of i "sort values"] by simp
  have "length values div 2 < length values" "length values div 2 - 1 < length values"
    using False by (auto simp: less_imp_diff_less)
  with nth show ?thesis by (auto simp: Median_def Let_def intro!: fdiv2_nonneg fadd_nonneg)
qed (simp add: Median_def)

lemma fabs_nonneg: "v \<noteq> NaN \<Longrightarrow> Fin 0 \<le> fabs v"
  by (cases v) auto

lemma fsub_not_nan: "u \<noteq> NaN \<Longrightarrow> v = Fin q \<Longrightarrow> fsub u v \<noteq> NaN"
  by (cases u) (auto simp: fsub_def)

lemma MAD_nonneg:
  "\<forall>v \<in> set values. v \<noteq> NaN \<Longrightarrow> Fin 0 \<le> MAD values (Fin m)"
proof -
  assume "\<forall>v \<in> set values. v \<noteq> NaN"
  then have "\<forall>v \<in> set values. Fin 0 \<le> fabs (fsub v (Fin m))"
    by (metis fabs_nonneg fsub_not_nan)
  then show ?thesis by (auto simp: MAD_def intro!: Median_nonneg)
qed

lemma fsub_self: "fsub (Fin q) (Fin q) = Fin 0"
  by (simp add: fsub_def)

lemma Median_const:
  assumes "median_bound c" "values \<noteq> []" "\<forall>v \<in> set values. v = Fin c"
  shows "Median values = Fin c"
proof -
  have "\<forall>v \<in> set values. fin_in c c v" using assms(3) by (metis fin_in_simps(1) order_refl)
  then have "fin_in c c (Median values)" using assms by (intro Median_in) auto
  then show ?thesis by (auto simp: fin_in_iff)
qed

lemma MAD_const:
  "\<forall>v \<in> set values. v = Fin c \<Longrightarrow> MAD values (Fin c) = Fin 0"
proof -
  assume "\<forall>v \<in> set values. v = Fin c"
  then have "\<forall>v \<in> set values. fabs (fsub v (Fin c)) = Fin 0" by (auto simp: fsub_self)
  then show ?thesis by (auto simp: MAD_def intro!: Median_const)
qed

subsection \<open>Means and deviations\<close>

lemma fmul_self_nonneg: "v \<noteq> NaN \<Longrightarrow> Fin 0 \<le> fmul v v"
  by (cases v) (auto simp: ieee.nonneg finf_def)

lemma isqrt_nonneg: "0 \<le> isqrt n"
  proof -
    have "lo \<le> isqrt_search n lo hi" if "lo \<le> hi" for lo hi
      using that
    proof (induction n lo hi rule: isqrt_search.induct)
      case (1 n lo hi)
      let ?mid = "(lo + hi) div 2"
      show ?case
      proof (cases "hi - lo \<le> 1")
        case False
        then have "lo \<le> ?mid" "?mid \<le> hi" by auto
        with 1 False show ?thesis
          by (subst isqrt_search.simps) (auto simp: Let_def intro: order.trans)
      qed (simp add: isqrt_search.simps)
    qed
    then show ?thesis by (simp add: isqrt_def)
  qed

lemma sqrt_q_nonneg: "0 \<le> sqrt_q x"
proof -
  have "rat_of_int 0 \<le> of_int (isqrt n)" for n
    unfolding of_int_le_iff by (rule isqrt_nonneg)
  then show ?thesis unfolding sqrt_q_def Let_def
    by (intro divide_nonneg_pos add_nonneg_nonneg) auto
qed

lemma fsqrt_nonneg: "v \<noteq> NaN \<Longrightarrow> Fin 0 \<le> v \<Longrightarrow> Fin 0 \<le> fsqrt v"
proof (cases v)
  case (Fin x)
  assume "v \<noteq> NaN" "Fin 0 \<le> v"
  then show ?thesis using Fin
    by (simp add: sqrt_q_nonneg ieee.nonneg)
qed auto

text \<open>A float that is not a NaN and not negative.\<close>

definition nonneg :: "f64 \<Rightarrow> bool" where
  "nonneg v = (v \<noteq> NaN \<and> Fin 0 \<le> v)"

lemma nonneg_simps [simp]: "nonneg (Fin q) \<longleftrightarrow> 0 \<le> q" "nonneg PInf" "\<not> nonneg NInf" "\<not> nonneg NaN"
  by (simp_all add: nonneg_def)

lemma nonneg_fadd: "nonneg u \<Longrightarrow> nonneg v \<Longrightarrow> nonneg (fadd u v)"
  by (cases u; cases v) (auto simp: nonneg_def ieee.nonneg)

lemma nonneg_sq: "v \<noteq> NaN \<Longrightarrow> nonneg (fmul v v)"
  by (cases v) (auto simp: nonneg_def ieee.nonneg finf_def)

lemma nonneg_sum: "\<forall>v \<in> set values. nonneg (f v) \<Longrightarrow> nonneg s \<Longrightarrow> nonneg (foldl (\<lambda>s v. fadd s (f v)) s values)"
  by (induction "values" arbitrary: s) (auto intro: nonneg_fadd)

lemma nonneg_fdiv: "nonneg u \<Longrightarrow> 0 < q \<Longrightarrow> nonneg (fdiv u (Fin q))"
  by (cases u) (auto simp: nonneg_def ieee.nonneg finf_def)

lemma nonneg_fsqrt: "nonneg u \<Longrightarrow> nonneg (fsqrt u)"
  using fsqrt_nonneg [of u] by (cases u) (auto simp: nonneg_def)

lemma StdDev_nonneg:
  assumes "Mean values = Fin m" "\<forall>v \<in> set values. v \<noteq> NaN" "int (length values) < 2 ^ 53"
  shows "nonneg (StdDev values population)"
proof -
  have sq: "\<forall>v \<in> set values. nonneg (fmul (fsub v (Fin m)) (fsub v (Fin m)))"
    using assms(2) by (auto intro: nonneg_sq simp: fsub_not_nan)
  have n: "f_of_int k = Fin (of_int k)" if "0 \<le> k" "k \<le> int (length values)" for k
    using that assms(3) by (simp add: f_of_int_def rnd_of_int)
  have len: "f_len values = Fin (of_int (int (length values)))"
    unfolding f_len_def by (rule n) auto
  have pred: "2 \<le> length values \<Longrightarrow>
      f_of_int (int (length values) - 1) = Fin (of_int (int (length values) - 1))"
    by (rule n) auto
  show ?thesis
    unfolding StdDev_def Let_def assms(1) using nonneg_sum [OF sq, of f0] pred
    by (auto simp: len not_less intro!: nonneg_fsqrt nonneg_fdiv)
qed

end
