(* ===== verification/SchedEval.thy ===== *)
theory SchedEval
  imports Main SchedTypes SchedStats
begin

text \<open>
  The threshold, robust z-score and missing-data detectors: \<open>evaluator.go\<close> and
  \<open>detectors.go\<close> of \<open>internal/scheduler\<close>.
\<close>

definition statusOK :: string where "statusOK = ''OK''"
definition statusViolation :: string where "statusViolation = ''VIOLATION''"
definition statusInsufficient :: string where "statusInsufficient = ''INSUFFICIENT_DATA''"
definition statusInvalidConfig :: string where "statusInvalidConfig = ''INVALID_CONFIG''"

lemmas status_defs = statusOK_def statusViolation_def statusInsufficient_def statusInvalidConfig_def

definition statusFromHit :: "bool \<Rightarrow> string" where
  "statusFromHit hit = (if hit then statusViolation else statusOK)"

text \<open>\<open>toFloat\<close>: the value and whether the error is nil.\<close>

definition toFloat :: "goval \<Rightarrow> f64 \<times> bool" where
  "toFloat v = (case v of VFloat x \<Rightarrow> (x, True) | VInt z \<Rightarrow> (f_of_int z, True)
     | VStr s \<Rightarrow> parse_float s | _ \<Rightarrow> (f0, False))"

definition cmp_text :: "string \<Rightarrow> f64 \<Rightarrow> gotext" where
  "cmp_text op target = Fmt (op @ '' %v'') [VFloat target]"

definition EvaluateCondition :: "ConditionSpec \<Rightarrow> goval \<Rightarrow> bool \<times> gotext \<times> gotext" where
  "EvaluateCondition cond v = (let (x, ok) = toFloat v; target = fst (toFloat (co_value cond)) in
     if \<not> ok then (False, sprint v, Fmt ''%s %v'' [VStr (co_op cond), co_value cond])
     else if co_op cond = ''>'' then (fgt x target, sprint_f x, cmp_text ''>'' target)
     else if co_op cond = ''>='' then (fge x target, sprint_f x, cmp_text ''>='' target)
     else if co_op cond = ''<'' then (flt x target, sprint_f x, cmp_text ''<'' target)
     else if co_op cond = ''<='' then (fle x target, sprint_f x, cmp_text ''<='' target)
     else if co_op cond = ''=='' then (feq x target, sprint_f x, cmp_text ''=='' target)
     else if co_op cond = ''!='' then (\<not> feq x target, sprint_f x, cmp_text ''!='' target)
     else if co_op cond = ''between'' then
       (case (co_min cond, co_max cond) of
          (Some lo, Some hi) \<Rightarrow> (fge x lo \<and> fle x hi, sprint_f x,
             Fmt ''between %v and %v'' [VFloat lo, VFloat hi])
        | _ \<Rightarrow> (False, sprint_f x, Txt ''between''))
     else (False, sprint v, Txt (co_op cond)))"

definition EvaluateThresholdDetector :: "ThresholdSpec \<Rightarrow> goval \<Rightarrow> DetectorResult res" where
  "EvaluateThresholdDetector th v = (let cond = \<lparr> co_op = th_op th, co_value = th_value th,
         co_min = th_min th, co_max = th_max th \<rparr>;
       (hit, observed, expr) = EvaluateCondition cond v
     in Inr (empty_result \<lparr> dr_hit := hit, dr_status := statusFromHit hit, dr_severity := ''high'',
          dr_observed := observed, dr_limit_expr := expr \<rparr>))"

definition defaultEpsilon :: f64 where
  "defaultEpsilon = rnd (1 / 1000000000)"

definition z_const :: f64 where
  "z_const = rnd (6745 / 10000)"

definition EvaluateRobustZ :: "f64 list \<Rightarrow> f64 \<Rightarrow> f64 \<Rightarrow> f64 \<Rightarrow> DetectorResult" where
  "EvaluateRobustZ samples latest zWarn zCrit = (let median = Median samples; mad = MAD samples median;
       result = empty_result \<lparr> dr_status := statusOK, dr_observed := sprint_f latest,
         dr_limit_expr := Fmt ''robust_zscore warn>=%.2f crit>=%.2f'' [VFloat zWarn, VFloat zCrit],
         dr_median := Some median, dr_mad := Some mad \<rparr>
     in if feq mad f0 then
          (if fle (fabs (fsub latest median)) defaultEpsilon then result
           else result \<lparr> dr_score := Some PInf, dr_hit := True, dr_status := statusViolation,
                  dr_severity := ''high'' \<rparr>)
        else let score = fdiv (fmul z_const (fsub latest median)) mad; absScore = fabs score;
               result = result \<lparr> dr_score := Some score \<rparr>
             in if fge absScore zCrit then result \<lparr> dr_hit := True, dr_status := statusViolation,
                  dr_severity := ''high'' \<rparr>
                else if fge absScore zWarn then result \<lparr> dr_hit := True, dr_status := statusViolation,
                  dr_severity := ''medium'' \<rparr>
                else result)"

definition EvaluateMissingData :: "int \<Rightarrow> int \<Rightarrow> int \<Rightarrow> DetectorResult" where
  "EvaluateMissingData latestTS maxGapSeconds now = (let gap = time_sub now latestTS;
       limit = seconds maxGapSeconds
     in empty_result \<lparr> dr_hit := gap > limit, dr_status := statusFromHit (gap > limit),
          dr_severity := ''high'', dr_observed := Fmt ''rfc3339'' [VTime latestTS],
          dr_limit_expr := Txt (''missing_data > '' @ itoa maxGapSeconds @ ''s''),
          dr_metadata := [(''gapSeconds'', VFloat (dur_seconds gap))] \<rparr>)"

definition parseTimeValue :: "goval \<Rightarrow> int res" where
  "parseTimeValue v = (case v of VTime t \<Rightarrow> Inr t
     | VStr s \<Rightarrow> (case parse_rfc3339 s of Some t \<Rightarrow> Inr t | None \<Rightarrow> Inl ''unsupported timestamp'')
     | _ \<Rightarrow> Inl ''unsupported timestamp'')"

subsection \<open>Facts\<close>

lemma statusFromHit_iff [simp]:
  "statusFromHit b = statusViolation \<longleftrightarrow> b" "statusFromHit b = statusOK \<longleftrightarrow> \<not> b"
  by (auto simp: statusFromHit_def status_defs)

lemma EvaluateCondition_between:
  assumes "toFloat v = (Fin x, True)" "co_op cond = ''between''"
  shows "fst (EvaluateCondition cond v) \<longleftrightarrow>
    (\<exists>lo hi. co_min cond = Some lo \<and> co_max cond = Some hi \<and> fle lo (Fin x) \<and> fle (Fin x) hi)"
  using assms by (auto simp: EvaluateCondition_def Let_def split: option.splits)

text \<open>The states a robust z-score can end in.\<close>

lemma EvaluateRobustZ_fields:
  "dr_median (EvaluateRobustZ xs l w c) = Some (Median xs)"
  "dr_mad (EvaluateRobustZ xs l w c) = Some (MAD xs (Median xs))"
  "dr_violations (EvaluateRobustZ xs l w c) = []"
  by (simp_all add: EvaluateRobustZ_def Let_def)

end
