(* ===== verification/SchedRules.thy ===== *)
theory SchedRules
  imports Main SchedEval
begin

text \<open>
  The phase-1 detectors of \<open>internal/scheduler/phase1_rules.go\<close> with the control chart
  constants of \<open>constants.go\<close>: specification limits, Shewhart chart, trend of a window, range
  chart and trend projection (TPA). A detector whose Go code can index or slice out of range
  returns a \<open>go\<close> outcome.
\<close>

definition defaultBaselineMinN :: int where "defaultBaselineMinN = 20"
definition defaultBaselineSubgroups :: int where "defaultBaselineSubgroups = 10"
definition defaultTrendWindowSize :: int where "defaultTrendWindowSize = 6"

text \<open>The rows of \<open>rangeChartConstants\<close>: subgroup size, \<open>D3\<close>, \<open>D4\<close> in thousandths.\<close>

definition rangeChartTable :: "(int \<times> int \<times> int) list" where
  "rangeChartTable = [(2, 0, 3267), (3, 0, 2574), (4, 0, 2282), (5, 0, 2114), (6, 0, 2004),
     (7, 76, 1924), (8, 136, 1864), (9, 184, 1816), (10, 223, 1777)]"

definition rangeChartConstants :: "int \<Rightarrow> (f64 \<times> f64) option" where
  "rangeChartConstants n = map_option (\<lambda>(d3, d4). (rnd (of_int d3 / 1000), rnd (of_int d4 / 1000)))
     (map_of rangeChartTable n)"

definition timePtr :: "int \<Rightarrow> int option" where
  "timePtr ts = (if ts = 0 then None else Some ts)"

definition addViolation :: "Violation \<Rightarrow> DetectorResult \<Rightarrow> DetectorResult" where
  "addViolation v res = res \<lparr> dr_violations := dr_violations res @ [v] \<rparr>"

definition put_meta :: "string \<Rightarrow> goval \<Rightarrow> DetectorResult \<Rightarrow> DetectorResult" where
  "put_meta k v res = res \<lparr> dr_metadata := mput k v (dr_metadata res) \<rparr>"

definition set_hit :: "DetectorResult \<Rightarrow> DetectorResult" where
  "set_hit res = res \<lparr> dr_hit := True, dr_status := statusViolation \<rparr>"

definition invalidConfig :: "string \<Rightarrow> DetectorResult" where
  "invalidConfig message = empty_result \<lparr> dr_status := statusInvalidConfig,
     dr_metadata := [(''error'', VStr message)] \<rparr>"

definition insufficientData :: "string \<Rightarrow> DetectorResult" where
  "insufficientData message = empty_result \<lparr> dr_status := statusInsufficient,
     dr_metadata := [(''error'', VStr message)] \<rparr>"

definition ok_result :: "gotext \<Rightarrow> gotext \<Rightarrow> (string \<times> goval) list \<Rightarrow> DetectorResult" where
  "ok_result observed expr meta = empty_result \<lparr> dr_status := statusOK, dr_severity := ''high'',
     dr_observed := observed, dr_limit_expr := expr, dr_metadata := meta \<rparr>"

definition extractValues :: "Sample list \<Rightarrow> f64 list" where
  "extractValues samples = map s_value samples"

definition violation :: "int \<Rightarrow> int option \<Rightarrow> f64 \<Rightarrow> string \<Rightarrow> string \<Rightarrow> f64 \<Rightarrow> f64 \<Rightarrow> Violation" where
  "violation ts idx value reason name limit delta = \<lparr> v_timestamp = timePtr ts, v_index = idx,
     v_value = value, v_reason = reason, v_limit_name = name, v_limit_value = limit, v_delta = delta \<rparr>"

subsection \<open>Specification and control limits of one sample\<close>

definition breach :: "Sample \<Rightarrow> f64 \<Rightarrow> string \<Rightarrow> DetectorResult \<Rightarrow> DetectorResult" where
  "breach sample limit kind res = addViolation
     (violation (s_ts sample) None (s_value sample) ''limit_breach'' kind limit (fsub (s_value sample) limit))
     (put_meta ''delta'' (VFloat (fsub (s_value sample) limit)) (put_meta ''limitValue'' (VFloat limit)
       (put_meta ''limitBreached'' (VStr kind) (set_hit res))))"

definition check_upper :: "Sample \<Rightarrow> f64 option \<Rightarrow> f64 \<Rightarrow> string \<Rightarrow> DetectorResult \<Rightarrow> DetectorResult" where
  "check_upper sample bound eps kind res = (case bound of None \<Rightarrow> res
     | Some l \<Rightarrow> if fgt (s_value sample) (fadd l eps) then breach sample l kind res else res)"

definition check_lower :: "Sample \<Rightarrow> f64 option \<Rightarrow> f64 \<Rightarrow> string \<Rightarrow> DetectorResult \<Rightarrow> DetectorResult" where
  "check_lower sample bound eps kind res = (case bound of None \<Rightarrow> res
     | Some l \<Rightarrow> if flt (s_value sample) (fsub l eps) then breach sample l kind res else res)"

definition meta_opt :: "string \<Rightarrow> f64 option \<Rightarrow> DetectorResult \<Rightarrow> DetectorResult" where
  "meta_opt k v res = (case v of None \<Rightarrow> res | Some x \<Rightarrow> put_meta k (VFloat x) res)"

definition limit_mode :: "SpecLimitSpec \<Rightarrow> string" where
  "limit_mode spec = (if sl_mode spec = [] then ''spec'' else sl_mode spec)"

definition limit_epsilon :: "SpecLimitSpec \<Rightarrow> f64" where
  "limit_epsilon spec = (case sl_epsilon spec of None \<Rightarrow> f0 | Some e \<Rightarrow> e)"

definition check_spec_part :: "Sample \<Rightarrow> SpecLimitSpec \<Rightarrow> DetectorResult \<Rightarrow> DetectorResult option" where
  "check_spec_part sample spec res = (case sl_spec spec of None \<Rightarrow> None
     | Some b \<Rightarrow> if sb_usl b = None \<and> sb_lsl b = None then None
         else Some (check_lower sample (sb_lsl b) (limit_epsilon spec) ''LSL''
           (check_upper sample (sb_usl b) (limit_epsilon spec) ''USL''
             (meta_opt ''spec_lsl'' (sb_lsl b) (meta_opt ''spec_usl'' (sb_usl b) res)))))"

definition check_control_part :: "Sample \<Rightarrow> SpecLimitSpec \<Rightarrow> DetectorResult \<Rightarrow> DetectorResult option" where
  "check_control_part sample spec res = (case sl_control spec of None \<Rightarrow> None
     | Some b \<Rightarrow> if cb_ucl b = None \<and> cb_lcl b = None then None
         else Some (check_lower sample (cb_lcl b) (limit_epsilon spec) ''LCL''
           (check_upper sample (cb_ucl b) (limit_epsilon spec) ''UCL''
             (meta_opt ''control_lcl'' (cb_lcl b) (meta_opt ''control_ucl'' (cb_ucl b) res)))))"

definition EvaluateSpecLimit :: "Sample \<Rightarrow> SpecLimitSpec \<Rightarrow> DetectorResult" where
  "EvaluateSpecLimit sample spec = (let mode = limit_mode spec;
       result = (ok_result (sprint_f (s_value sample)) (Txt mode)
                 [(''mode'', VStr mode), (''epsilon'', VFloat (limit_epsilon spec))]) \<lparr> dr_window_start := timePtr (s_ts sample), dr_window_end := timePtr (s_ts sample) \<rparr>;
       r1 = (if mode = ''spec'' \<or> mode = ''both'' then check_spec_part sample spec result else Some result)
     in case r1 of None \<Rightarrow> invalidConfig ''spec limits required''
        | Some r \<Rightarrow> if mode = ''control'' \<or> mode = ''both'' then
            (case check_control_part sample spec r of None \<Rightarrow> invalidConfig ''control limits required''
             | Some r' \<Rightarrow> r')
          else r)"

subsection \<open>Shewhart chart\<close>

definition shewhart_limits :: "f64 list \<Rightarrow> bool \<Rightarrow> f64 \<Rightarrow> f64 \<times> f64 \<times> f64 \<times> f64" where
  "shewhart_limits vs population k = (let mean = Mean vs; sigma = StdDev vs population
     in (mean, sigma, fadd mean (fmul k sigma), fsub mean (fmul k sigma)))"

definition shewhart_hit :: "Sample \<Rightarrow> f64 \<Rightarrow> string \<Rightarrow> string \<Rightarrow> DetectorResult \<Rightarrow> DetectorResult" where
  "shewhart_hit sample limit kind reason res = addViolation
     (violation (s_ts sample) None (s_value sample) reason kind limit (fsub (s_value sample) limit))
     (put_meta ''delta'' (VFloat (fsub (s_value sample) limit))
       (put_meta ''limitBreached'' (VStr kind) (set_hit res)))"

definition EvaluateShewhart :: "Sample list \<Rightarrow> ShewhartSpec \<Rightarrow> f64 \<Rightarrow> DetectorResult go" where
  "EvaluateShewhart samples spec sigmaMultiplier = (let vals = extractValues samples;
       minBaseline = (if sh_min_n spec = 0 then defaultBaselineMinN else sh_min_n spec)
     in if int (length vals) < minBaseline then Ret (insufficientData ''baseline too small'')
        else if samples = [] then Panic ''index out of range''
        else let lastSample = last samples; latest = s_value lastSample;
               (mean, sigma, ucl, lcl) = shewhart_limits vals (sh_population spec) sigmaMultiplier;
               result = ok_result (sprint_f latest) (Fmt (''mean'' @ [CHR 0xC2, CHR 0xB1] @ ''%.1f'' @ [CHR 0xCF, CHR 0x83])
                   [VFloat sigmaMultiplier])
                 [(''mu'', VFloat mean), (''sigma'', VFloat sigma), (''ucl'', VFloat ucl),
                   (''lcl'', VFloat lcl), (''sigmaMultiplier'', VFloat sigmaMultiplier)]
             in if feq sigma f0 then
                  (if \<not> feq latest mean then
                     Ret (addViolation (violation (s_ts lastSample) None latest ''mean_shift'' ''mean'' mean
                       (fsub latest mean)) (put_meta ''limitBreached'' (VStr ''mean'') (set_hit result)))
                   else Ret result)
                else let r1 = (if fgt latest ucl then shewhart_hit lastSample ucl ''UCL'' ''above_ucl'' result
                               else result)
                  in Ret (if flt latest lcl then shewhart_hit lastSample lcl ''LCL'' ''below_lcl'' r1 else r1))"

subsection \<open>Trend of a window\<close>

fun all_steps :: "(f64 \<Rightarrow> f64 \<Rightarrow> bool) \<Rightarrow> Sample list \<Rightarrow> bool" where
  "all_steps P (x # y # zs) = (P (s_value x) (s_value y) \<and> all_steps P (y # zs))"
| "all_steps P _ = True"

definition EvaluateTrend6 :: "Sample list \<Rightarrow> TrendSpec \<Rightarrow> DetectorResult go" where
  "EvaluateTrend6 samples spec = (let
       window = (if tn_window spec = 0 then defaultTrendWindowSize else tn_window spec)
     in if int (length samples) < window then Ret (insufficientData ''not enough points'')
        else if window < 0 then Panic ''slice bounds out of range''
        else let segment = drop (length samples - nat window) samples; epsilon = tn_epsilon spec;
               lastSample = last segment;
               increasing = all_steps (\<lambda>x y. fgt y (fadd x epsilon)) segment;
               decreasing = all_steps (\<lambda>x y. flt y (fsub x epsilon)) segment;
               result = ok_result (sprint_f (s_value lastSample)) (Txt (''trend_'' @ itoa window))
                 [(''direction'', VStr ''none''), (''windowSize'', VInt window),
                   (''epsilon'', VFloat epsilon)]
             in if increasing \<or> decreasing then
                  Ret (addViolation (violation (s_ts lastSample) (Some (int (length samples) - 1))
                      (s_value lastSample) (if increasing then ''increasing'' else ''decreasing'') ''trend'' f0 f0)
                    (put_meta ''direction'' (VStr (if increasing then ''up'' else ''down'')) (set_hit result)))
                else Ret result)"

subsection \<open>Range chart\<close>

definition subgroupRange :: "Sample list \<Rightarrow> f64" where
  "subgroupRange grp = (let
       mn = foldl (\<lambda>m s. if flt (s_value s) m then s_value s else m) PInf grp;
       mx = foldl (\<lambda>m s. if fgt (s_value s) m then s_value s else m) NInf grp
     in if isInf0 mn \<or> isInf0 mx then f0 else fsub mx mn)"

definition EvaluateRangeChart :: "Sample list list \<Rightarrow> RangeChartSpec \<Rightarrow> DetectorResult go" where
  "EvaluateRangeChart groups spec = (if groups = [] then Ret (insufficientData ''no valid subgroups'')
     else let minGroups = (if rc_min_subgroups spec = 0 then defaultBaselineSubgroups
                           else rc_min_subgroups spec)
     in if int (length groups) < minGroups then Ret (insufficientData ''baseline subgroups too small'')
     else case rangeChartConstants (rc_size spec) of
       None \<Rightarrow> Ret (invalidConfig ''unsupported subgroup size'')
     | Some (d3, d4) \<Rightarrow> let ranges = map subgroupRange groups; avg = Mean ranges;
           ucl = fmul d4 avg; lcl = fmul d3 avg; latestRange = last ranges; lastGroup = last groups
         in if lastGroup = [] then Panic ''index out of range''
            else let lastSample = last lastGroup;
              result = ok_result (sprint_f latestRange) (Txt ''range_chart'')
                 [(''rbar'', VFloat avg), (''ucl_r'', VFloat ucl), (''lcl_r'', VFloat lcl),
                  (''subgroupSize'', VInt (rc_size spec))]
            in if fgt latestRange ucl \<or> flt latestRange lcl then
                 let below = flt latestRange lcl; limit = (if below then lcl else ucl)
                 in Ret (addViolation (violation (s_ts lastSample) None latestRange
                      (if below then ''below_lcl_r'' else ''above_ucl_r'') ''R'' limit (fsub latestRange limit))
                    (put_meta ''delta'' (VFloat (fsub latestRange ucl))
                      (put_meta ''limitBreached'' (VStr ''range'') (set_hit result))))
               else Ret result)"

subsection \<open>Trend projection\<close>

definition unix_epoch :: int where
  "unix_epoch = 62135596800"

definition time_unix :: "int \<Rightarrow> int" where
  "time_unix t = t div second_ns - unix_epoch"

definition computeTimeToSpec :: "f64 \<Rightarrow> f64 \<Rightarrow> SpecLimitBounds \<Rightarrow> f64 \<times> bool" where
  "computeTimeToSpec slope current limits =
     (case (fgt slope f0, sb_usl limits) of (True, Some usl) \<Rightarrow> (fdiv (fsub usl current) slope, True)
      | _ \<Rightarrow> case (flt slope f0, sb_lsl limits) of
          (True, Some lsl) \<Rightarrow> (fdiv (fsub current lsl) (fabs slope), True)
        | _ \<Rightarrow> (f0, False))"

definition tpa_x_values :: "string \<Rightarrow> Sample list \<Rightarrow> f64 list" where
  "tpa_x_values basis window = (let
       xs = map (\<lambda>(i, s). if basis = ''timestamp'' then f_of_int (time_unix (s_ts s)) else f_of_int (int i + 1))
              (zip [0..<length window] window)
     in case xs of [] \<Rightarrow> [] | x0 # _ \<Rightarrow> map (\<lambda>x. fsub x x0) xs)"

definition EvaluateTPA :: "Sample list \<Rightarrow> TPASpec \<Rightarrow> DetectorResult" where
  "EvaluateTPA samples spec = (if tp_window spec < 3 then invalidConfig ''windowN must be >= 3''
     else if int (length samples) < tp_window spec then insufficientData ''not enough samples''
     else let window = drop (length samples - nat (tp_window spec)) samples;
            lastSample = last window;
            basis = (if tp_basis spec = [] then ''timestamp'' else tp_basis spec);
            (slope, intercept, r2, ok) = LinearRegression (tpa_x_values basis window) (map s_value window)
       in if \<not> ok then invalidConfig ''regression failed''
          else let latest = s_value lastSample; epsilon = (if feq (tp_epsilon spec) f0 then f0 else tp_epsilon spec);
              result = ok_result (sprint_f latest) (Txt ''tpa'')
                 [(''slope'', VFloat slope), (''intercept'', VFloat intercept),
                  (''r2'', VFloat r2), (''windowN'', VInt (tp_window spec)), (''regressionBasis'', VStr basis)]
            in if fle (fabs slope) epsilon then result
               else let r1 = (case tp_slope spec of None \<Rightarrow> result
                    | Some th \<Rightarrow> if fge (fabs slope) th then
                        addViolation (violation (s_ts lastSample) None latest ''slope_threshold'' ''slope'' th
                          (fsub (fabs slope) th)) (put_meta ''trigger'' (VStr ''slope'') (set_hit result))
                      else result)
                 in case tp_time_to_spec spec of None \<Rightarrow> r1
                    | Some tt \<Rightarrow> (case tp_limits spec of
                        None \<Rightarrow> if tp_require_limits spec
                                then invalidConfig ''spec limits required for timeToSpec'' else r1
                      | Some lims \<Rightarrow> let (ts, ok) = computeTimeToSpec slope latest lims
                          in if \<not> ok then r1
                             else let r2' = put_meta ''timeToSpec'' (VFloat ts) r1
                               in if fge ts f0 \<and> fle ts tt then
                                    addViolation (violation (s_ts lastSample) None latest ''time_to_spec''
                                      ''timeToSpec'' tt (fsub ts tt))
                                      (put_meta ''trigger'' (VStr ''timeToSpec'') (set_hit r2'))
                                  else r2'))"

subsection \<open>Projections of the building blocks\<close>

lemma addViolation_sel [simp]:
  "dr_hit (addViolation v r) = dr_hit r" "dr_status (addViolation v r) = dr_status r"
  "dr_violations (addViolation v r) = dr_violations r @ [v]"
  "dr_metadata (addViolation v r) = dr_metadata r" "dr_limit_expr (addViolation v r) = dr_limit_expr r"
  "dr_window_start (addViolation v r) = dr_window_start r"
  "dr_window_end (addViolation v r) = dr_window_end r"
  by (simp_all add: addViolation_def)

lemma put_meta_sel [simp]:
  "dr_hit (put_meta k x r) = dr_hit r" "dr_status (put_meta k x r) = dr_status r"
  "dr_violations (put_meta k x r) = dr_violations r"
  "dr_metadata (put_meta k x r) = mput k x (dr_metadata r)"
  "dr_limit_expr (put_meta k x r) = dr_limit_expr r"
  "dr_window_start (put_meta k x r) = dr_window_start r"
  "dr_window_end (put_meta k x r) = dr_window_end r"
  by (simp_all add: put_meta_def)

lemma set_hit_sel [simp]:
  "dr_hit (set_hit r) = True" "dr_status (set_hit r) = statusViolation"
  "dr_violations (set_hit r) = dr_violations r" "dr_metadata (set_hit r) = dr_metadata r"
  "dr_limit_expr (set_hit r) = dr_limit_expr r" "dr_window_start (set_hit r) = dr_window_start r"
  "dr_window_end (set_hit r) = dr_window_end r"
  by (simp_all add: set_hit_def)

lemma failed_sel [simp]:
  "dr_hit (invalidConfig m) = False" "dr_status (invalidConfig m) = statusInvalidConfig"
  "dr_violations (invalidConfig m) = []" "dr_hit (insufficientData m) = False"
  "dr_status (insufficientData m) = statusInsufficient" "dr_violations (insufficientData m) = []"
  by (simp_all add: invalidConfig_def insufficientData_def)

lemma ok_result_sel [simp]:
  "dr_hit (ok_result ob e m) = False" "dr_status (ok_result ob e m) = statusOK"
  "dr_violations (ok_result ob e m) = []" "dr_metadata (ok_result ob e m) = m"
  "dr_limit_expr (ok_result ob e m) = e" "dr_observed (ok_result ob e m) = ob"
  by (simp_all add: ok_result_def)

lemma violation_sel [simp]:
  "v_limit_name (violation t i x rs nm l d) = nm" "v_limit_value (violation t i x rs nm l d) = l"
  "v_value (violation t i x rs nm l d) = x" "v_reason (violation t i x rs nm l d) = rs"
  "v_timestamp (violation t i x rs nm l d) = timePtr t" "v_delta (violation t i x rs nm l d) = d"
  by (simp_all add: violation_def)

text \<open>
  The invariant of every detector result: it is a hit exactly when its status is
  \<open>VIOLATION\<close>, and exactly when it carries a violation.
\<close>

definition consistent :: "DetectorResult \<Rightarrow> bool" where
  "consistent r = ((dr_hit r \<longleftrightarrow> dr_status r = statusViolation) \<and> (dr_hit r \<longleftrightarrow> dr_violations r \<noteq> []))"

lemma status_distinct [simp]:
  "statusOK \<noteq> statusViolation" "statusInvalidConfig \<noteq> statusViolation"
  "statusInsufficient \<noteq> statusViolation" "statusViolation \<noteq> []" "[] \<noteq> statusViolation"
  "statusOK \<noteq> statusInvalidConfig" "statusOK \<noteq> statusInsufficient"
  "statusInsufficient \<noteq> statusInvalidConfig"
  by (simp_all add: status_defs)

lemmas status_distinct' [simp] = status_distinct [symmetric]

lemma consistent_failed [intro!]: "consistent (invalidConfig m)" "consistent (insufficientData m)"
  by (simp_all add: consistent_def)

lemma consistent_empty [intro!]: "consistent empty_result"
  by (simp add: consistent_def)

lemma consistent_ok [intro!]: "consistent (ok_result ob e m)"
  by (simp add: consistent_def)

lemma consistent_put_meta [simp]: "consistent (put_meta k x r) = consistent r"
  by (simp add: consistent_def)

lemma consistent_violation [intro!]: "dr_hit r \<and> dr_status r = statusViolation \<Longrightarrow> consistent (addViolation v r)"
  by (simp add: consistent_def)

subsection \<open>Specification limits against a reference\<close>

text \<open>
  The reference reads the limits that the mode selects in order and keeps those the value
  is beyond, by more than the tolerance.
\<close>

definition beyond :: "f64 \<Rightarrow> f64 \<Rightarrow> string \<times> f64 option \<times> bool \<Rightarrow> (string \<times> f64) list" where
  "beyond x eps l = (case l of (nm, None, _) \<Rightarrow> []
     | (nm, Some b, True) \<Rightarrow> if fgt x (fadd b eps) then [(nm, b)] else []
     | (nm, Some b, False) \<Rightarrow> if flt x (fsub b eps) then [(nm, b)] else [])"

definition spec_bounds :: "SpecLimitSpec \<Rightarrow> (string \<times> f64 option \<times> bool) list" where
  "spec_bounds spec = (case sl_spec spec of None \<Rightarrow> []
     | Some b \<Rightarrow> [(''USL'', sb_usl b, True), (''LSL'', sb_lsl b, False)])"

definition control_bounds :: "SpecLimitSpec \<Rightarrow> (string \<times> f64 option \<times> bool) list" where
  "control_bounds spec = (case sl_control spec of None \<Rightarrow> []
     | Some b \<Rightarrow> [(''UCL'', cb_ucl b, True), (''LCL'', cb_lcl b, False)])"

definition uses_spec :: "SpecLimitSpec \<Rightarrow> bool" where
  "uses_spec spec = (limit_mode spec = ''spec'' \<or> limit_mode spec = ''both'')"

definition uses_control :: "SpecLimitSpec \<Rightarrow> bool" where
  "uses_control spec = (limit_mode spec = ''control'' \<or> limit_mode spec = ''both'')"

definition some_bound :: "(string \<times> f64 option \<times> bool) list \<Rightarrow> bool" where
  "some_bound ls = list_ex (\<lambda>(_, b, _). b \<noteq> None) ls"

definition limits_configured :: "SpecLimitSpec \<Rightarrow> bool" where
  "limits_configured spec = ((uses_spec spec \<longrightarrow> some_bound (spec_bounds spec))
     \<and> (uses_control spec \<longrightarrow> some_bound (control_bounds spec)))"

definition breached_limits :: "Sample \<Rightarrow> SpecLimitSpec \<Rightarrow> (string \<times> f64) list" where
  "breached_limits s spec = concat (map (beyond (s_value s) (limit_epsilon spec))
     ((if uses_spec spec then spec_bounds spec else []) @ (if uses_control spec then control_bounds spec else [])))"

definition limits_of :: "DetectorResult \<Rightarrow> (string \<times> f64) list" where
  "limits_of r = map (\<lambda>v. (v_limit_name v, v_limit_value v)) (dr_violations r)"

text \<open>One upper or lower check appends what the reference keeps for it.\<close>

definition extends :: "(string \<times> f64) list \<Rightarrow> DetectorResult \<Rightarrow> DetectorResult \<Rightarrow> bool" where
  "extends bs r r' = (limits_of r' = limits_of r @ bs \<and>
     dr_hit r' = (dr_hit r \<or> bs \<noteq> []) \<and>
     dr_status r' = (if bs = [] then dr_status r else statusViolation))"

lemma extends_check_upper: "extends (beyond (s_value s) eps (nm, b, True)) r (check_upper s b eps nm r)"
  by (auto simp: extends_def check_upper_def beyond_def breach_def limits_of_def split: option.splits)

lemma extends_check_lower: "extends (beyond (s_value s) eps (nm, b, False)) r (check_lower s b eps nm r)"
  by (auto simp: extends_def check_lower_def beyond_def breach_def limits_of_def split: option.splits)

lemma extends_trans: "extends bs r r' \<Longrightarrow> extends cs r' r'' \<Longrightarrow> extends (bs @ cs) r r''"
  by (auto simp: extends_def)

lemma meta_opt_sel [simp]:
  "dr_hit (meta_opt k x r) = dr_hit r" "dr_status (meta_opt k x r) = dr_status r"
  "dr_violations (meta_opt k x r) = dr_violations r"
  by (simp_all add: meta_opt_def split: option.split)

lemma extends_meta_opt: "extends bs (meta_opt k x r) r' = extends bs r r'"
  by (simp add: extends_def limits_of_def)

lemma extends_pair:
  "extends (beyond (s_value s) eps (n, b, True) @ beyond (s_value s) eps (n', b', False)) r
     (check_lower s b' eps n' (check_upper s b eps n (meta_opt k x (meta_opt k' x' r))))"
  (is "extends ?bs r ?r'")
proof -
  have "extends ?bs (meta_opt k x (meta_opt k' x' r)) ?r'"
    by (rule extends_trans [OF extends_check_upper extends_check_lower])
  then show ?thesis unfolding extends_meta_opt .
qed

lemma check_spec_part:
  "check_spec_part s spec r = None \<longleftrightarrow> \<not> some_bound (spec_bounds spec)"
  "check_spec_part s spec r = Some r' \<Longrightarrow>
     extends (concat (map (beyond (s_value s) (limit_epsilon spec)) (spec_bounds spec))) r r'"
  by (auto simp: check_spec_part_def spec_bounds_def some_bound_def split: option.splits if_splits
      intro!: extends_pair)

lemma check_control_part:
  "check_control_part s spec r = None \<longleftrightarrow> \<not> some_bound (control_bounds spec)"
  "check_control_part s spec r = Some r' \<Longrightarrow>
     extends (concat (map (beyond (s_value s) (limit_epsilon spec)) (control_bounds spec))) r r'"
  by (auto simp: check_control_part_def control_bounds_def some_bound_def split: option.splits if_splits
      intro!: extends_pair)

lemma extends_refl: "extends [] r r"
  by (simp add: extends_def)

lemma EvaluateSpecLimit_cases:
  "(if limits_configured spec
    then \<exists>r. dr_status r = statusOK \<and> dr_hit r = False \<and> dr_violations r = [] \<and>
      extends (breached_limits s spec) r (EvaluateSpecLimit s spec)
    else \<exists>m. EvaluateSpecLimit s spec = invalidConfig m)"
proof -
  define r0 where "r0 = (ok_result (sprint_f (s_value s)) (Txt (limit_mode spec))
                 [(''mode'', VStr (limit_mode spec)), (''epsilon'', VFloat (limit_epsilon spec))]) \<lparr> dr_window_start := timePtr (s_ts s), dr_window_end := timePtr (s_ts s) \<rparr>"
  define cs where "cs = concat (map (beyond (s_value s) (limit_epsilon spec)) (spec_bounds spec))"
  define cc where "cc = concat (map (beyond (s_value s) (limit_epsilon spec)) (control_bounds spec))"
  define r1 where "r1 = (if uses_spec spec then check_spec_part s spec r0 else Some r0)"
  have ev: "EvaluateSpecLimit s spec = (case r1 of None \<Rightarrow> invalidConfig ''spec limits required''
      | Some r \<Rightarrow> if uses_control spec then
          (case check_control_part s spec r of None \<Rightarrow> invalidConfig ''control limits required'' | Some r' \<Rightarrow> r')
        else r)"
    unfolding EvaluateSpecLimit_def Let_def r1_def r0_def uses_spec_def uses_control_def by (rule refl)
  have r0: "dr_status r0 = statusOK" "dr_hit r0 = False" "dr_violations r0 = []"
    by (simp_all add: r0_def)
  have e1: "extends (if uses_spec spec then cs else []) r0 r" if "r1 = Some r" for r
    using that check_spec_part(2) [of s spec r0 r] unfolding r1_def cs_def
    by (auto simp: extends_refl split: if_splits)
  have e2: "extends (breached_limits s spec) r0 (EvaluateSpecLimit s spec)"
    if r: "r1 = Some r" and c: "uses_control spec \<longrightarrow> check_control_part s spec r = Some r'" for r r'
  proof (cases "uses_control spec")
    case True
    then have "extends ((if uses_spec spec then cs else []) @ cc) r0 r'"
      using check_control_part(2) [of s spec r r'] c
      by (intro extends_trans [OF e1 [OF r]]) (simp add: cc_def)
    then show ?thesis using True r c by (auto simp: ev breached_limits_def cs_def cc_def)
  next
    case False
    then show ?thesis using e1 [OF r] r by (auto simp: ev breached_limits_def cs_def)
  qed
  show ?thesis
  proof (cases "limits_configured spec")
    case True
    then have "r1 \<noteq> None"
      using check_spec_part(1) [of s spec r0] by (auto simp: r1_def limits_configured_def)
    then obtain r where r: "r1 = Some r" by blast
    have "uses_control spec \<longrightarrow> check_control_part s spec r \<noteq> None"
      using True check_control_part(1) [of s spec r] by (auto simp: limits_configured_def)
    then obtain r' where "uses_control spec \<longrightarrow> check_control_part s spec r = Some r'" by blast
    from e2 [OF r this] r0 True show ?thesis by auto
  next
    case False
    then show ?thesis using check_spec_part(1) [of s spec r0] check_control_part(1) [of s spec]
      by (auto simp: ev limits_configured_def r1_def split: option.splits)
  qed
qed

lemma EvaluateSpecLimit_consistent: "consistent (EvaluateSpecLimit s spec)"
  using EvaluateSpecLimit_cases [of spec s]
  by (auto simp: consistent_def extends_def limits_of_def split: if_splits)

subsection \<open>Facts on the charts\<close>

lemma consistent_shewhart_hit [intro!]: "consistent (shewhart_hit x l k rs r)"
  unfolding shewhart_hit_def by (intro consistent_violation) simp

lemma consistent_hit_meta [intro!]:
  "consistent (addViolation v (set_hit r))" "consistent (addViolation v (put_meta k x (set_hit r)))"
  "consistent (addViolation v (put_meta k x (put_meta k' x' (set_hit r))))"
  by (intro consistent_violation; simp)+

lemma consistent_lets:
  fixes t :: DetectorResult
  shows "consistent t \<Longrightarrow> (\<And>x. consistent x \<Longrightarrow> consistent (f x)) \<Longrightarrow> consistent (Let t f)"
    and "consistent t \<Longrightarrow> (\<And>x. consistent x \<Longrightarrow> ret_all consistent (g x)) \<Longrightarrow> ret_all consistent (Let t g)"
  by auto

lemmas consistent_intros = consistent_lets consistent_failed consistent_ok consistent_hit_meta
  consistent_shewhart_hit pred_intros [where P = consistent] ret_all_intros [where P = consistent]

lemma EvaluateShewhart_consistent: "ret_all consistent (EvaluateShewhart samples spec k)"
  unfolding EvaluateShewhart_def by (intro consistent_intros; simp)

lemma EvaluateTrend6_consistent: "ret_all consistent (EvaluateTrend6 samples spec)"
  unfolding EvaluateTrend6_def by (intro consistent_intros; simp)

lemma EvaluateRangeChart_consistent: "ret_all consistent (EvaluateRangeChart groups spec)"
  unfolding EvaluateRangeChart_def by (intro consistent_intros; simp)

lemma EvaluateTPA_consistent: "consistent (EvaluateTPA samples spec)"
  unfolding EvaluateTPA_def
  by (intro consistent_intros; simp)

lemma all_steps_nth: "all_steps P xs \<longleftrightarrow> (\<forall>i. i + 1 < length xs \<longrightarrow> P (s_value (xs ! i)) (s_value (xs ! (i + 1))))"
proof (induction P xs rule: all_steps.induct)
  case (1 P x y zs)
  have "(\<forall>i. i + 1 < length (x # y # zs) \<longrightarrow> P (s_value ((x # y # zs) ! i)) (s_value ((x # y # zs) ! (i + 1))))
    \<longleftrightarrow> P (s_value x) (s_value y) \<and>
      (\<forall>i. i + 1 < length (y # zs) \<longrightarrow> P (s_value ((y # zs) ! i)) (s_value ((y # zs) ! (i + 1))))"
    (is "?l \<longleftrightarrow> ?r")
  proof
    assume l: ?l
    show ?r using l [rule_format, of 0] l [rule_format, of "Suc i" for i] by auto
  next
    assume ?r
    then show ?l by (auto simp: nth_Cons split: nat.split)
  qed
  then show ?case using 1 by simp
qed auto

lemma StdDev_rep_nonneg: "nonneg (StdDev vs p) \<Longrightarrow> nonneg k \<Longrightarrow> nonneg (fmul k (StdDev vs p)) \<or> fmul k (StdDev vs p) = NaN"
  by (cases k; cases "StdDev vs p") (auto simp: nonneg_def ieee.nonneg finf_def split: if_splits)

text \<open>The limits around a representable mean are ordered whenever they are numbers.\<close>

lemma limits_ordered:
  assumes "is_f64 m" "nonneg d"
  shows "fsub (Fin m) d \<le> Fin m" "Fin m \<le> fadd (Fin m) d"
proof -
  show "fsub (Fin m) d \<le> Fin m" using assms ieee.sub_down [of m]
    by (cases d) (auto simp: fsub_def)
  show "Fin m \<le> fadd (Fin m) d" using assms ieee.add_up [of m]
    by (cases d) (auto simp: nonneg_def)
qed

lemma limits_not_crossed:
  assumes "lo \<le> m" "m \<le> m'" "m' \<le> hi" shows "\<not> (flt hi x \<and> flt x lo)"
proof
  assume "flt hi x \<and> flt x lo"
  then have "hi < lo" by (auto simp: flt_def intro: less_trans)
  moreover have "lo \<le> hi" using assms by (metis order.trans)
  ultimately show False by simp
qed

lemma wf64_foldl_fadd: "wf64 s \<Longrightarrow> \<forall>v \<in> set vs. wf64 v \<Longrightarrow> wf64 (foldl fadd s vs)"
proof (induction vs arbitrary: s)
  case (Cons v vs)
  have "wf64 (fadd s v)" using Cons.prems
    by (cases s; cases v) (auto simp: wf64_def split: f64.split intro: rnd_is_f64)
  with Cons show ?case by simp
qed simp

lemma wf64_fdiv: "wf64 (fdiv u v)"
  by (cases u; cases v) (auto simp: wf64_def finf_def split: f64.split intro: rnd_is_f64)

lemma wf64_Mean: "wf64 (Mean vs)"
  by (auto simp: Mean_def wf64_fdiv) (simp add: wf64_def)

end
