(* ===== verification/SchedSamples.thy ===== *)
theory SchedSamples
  imports Main SchedRules "HOL-Library.Char_ord" "HOL-Library.List_Lexorder" "HOL-Library.Multiset"
begin

text \<open>
  The adapter interface of \<open>internal/mcp/adapter.go\<close> and the sample pipeline of
  \<open>internal/scheduler/samples.go\<close> and \<open>baseline.go\<close>: fetching rows, filtering by range,
  subgroups, continuity of timestamps and the baseline window. The database behind an
  adapter is not modelled: an adapter is a record of its operations.
\<close>

record Column =
  col_name :: string
  col_type :: string

record LatestValueRequest =
  lq_connection :: string
  lq_table :: string
  lq_value_column :: string
  lq_timestamp :: string
  lq_where :: "WhereSpec option"

record AggregateRequest =
  aq_connection :: string
  aq_table :: string
  aq_value_column :: string
  aq_timestamp :: string
  aq_where :: "WhereSpec option"
  aq_agg :: string
  aq_window :: int

record LatestValueResult =
  lr_value :: goval
  lr_ts :: string

record AggregateResult =
  ar_value :: goval
  ar_start :: string
  ar_end :: string

type_synonym row = "(string \<times> goval) list"

record FetchRecentRowsRequest =
  fq_connection :: string
  fq_table :: string
  fq_columns :: "string list"
  fq_timestamp :: string
  fq_where :: "WhereSpec option"
  fq_since :: string
  fq_limit :: int

record Capabilities =
  cap_read_only :: bool
  cap_aggregate :: bool
  cap_introspection :: bool

record DbMcpAdapter =
  ad_capabilities :: Capabilities
  ad_list_tables :: "string \<Rightarrow> string list res"
  ad_list_columns :: "string \<Rightarrow> string \<Rightarrow> Column list res"
  ad_latest :: "LatestValueRequest \<Rightarrow> LatestValueResult res"
  ad_aggregate :: "AggregateRequest \<Rightarrow> AggregateResult res"
  ad_fetch :: "FetchRecentRowsRequest \<Rightarrow> row list res"

text \<open>\<open>toWhere\<close> copies the clauses; both packages declare the same struct.\<close>

definition toWhere :: "WhereSpec option \<Rightarrow> WhereSpec option" where
  "toWhere spec = (case spec of None \<Rightarrow> None
     | Some w \<Rightarrow> Some \<lparr> wh_type = wh_type w,
         wh_clauses = map (\<lambda>c. \<lparr> cl_column = cl_column c, cl_op = cl_op c, cl_value = cl_value c \<rparr>) (wh_clauses w) \<rparr>)"

lemma toWhere_id [simp]: "toWhere w = w"
proof -
  have "(\<lambda>c. \<lparr> cl_column = cl_column c, cl_op = cl_op c, cl_value = cl_value c \<rparr>) = (\<lambda>c :: WhereClause. c)"
    by (rule ext) simp
  then have "map (\<lambda>c. \<lparr> cl_column = cl_column c, cl_op = cl_op c, cl_value = cl_value c \<rparr>) cs = cs"
    for cs :: "WhereClause list" by (metis list.map_ident)
  moreover have "\<lparr> wh_type = wh_type x, wh_clauses = wh_clauses x \<rparr> = x" for x :: WhereSpec by simp
  ultimately show ?thesis by (cases w) (simp_all add: toWhere_def)
qed

subsection \<open>Fetching\<close>

text \<open>One row of the answer: skipped, or a sample.\<close>

definition sample_of_row :: "string \<Rightarrow> string \<Rightarrow> string \<Rightarrow> row \<Rightarrow> Sample option" where
  "sample_of_row valueColumn timestampColumn subgroupColumn r =
     (case mget r valueColumn of None \<Rightarrow> None | Some v \<Rightarrow>
        (let (x, ok) = toFloat v in if \<not> ok \<or> isNaN x \<or> isInf0 x then None
         else case mget r timestampColumn of None \<Rightarrow> None | Some tv \<Rightarrow>
           (case parseTimeValue tv of Inl _ \<Rightarrow> None | Inr ts \<Rightarrow>
              Some \<lparr> s_ts = ts, s_value = x,
                s_subgroup = (if subgroupColumn = [] then []
                  else case mget r subgroupColumn of None \<Rightarrow> [] | Some sv \<Rightarrow> sprint_key sv) \<rparr>)))"

definition fetch_request :: "RuleSpec \<Rightarrow> ParameterSpec \<Rightarrow> string list \<Rightarrow> int \<Rightarrow> int \<Rightarrow> string \<Rightarrow> FetchRecentRowsRequest" where
  "fetch_request spec param columns since limit subgroupColumn = \<lparr> fq_connection = r_connection spec,
     fq_table = so_table (r_source spec),
     fq_columns = [p_column param, so_timestamp (r_source spec)] @ columns
       @ (if subgroupColumn \<noteq> [] then [subgroupColumn] else []),
     fq_timestamp = so_timestamp (r_source spec), fq_where = toWhere (so_where (r_source spec)),
     fq_since = format_rfc3339 since, fq_limit = limit \<rparr>"

definition fetchSamples :: "DbMcpAdapter option \<Rightarrow> RuleSpec \<Rightarrow> ParameterSpec \<Rightarrow> string list \<Rightarrow> int \<Rightarrow> int
    \<Rightarrow> string \<Rightarrow> Sample list res" where
  "fetchSamples adapter spec param columns since limit subgroupColumn = (case adapter of
       None \<Rightarrow> Inl ''adapter not configured''
     | Some ad \<Rightarrow> (case ad_fetch ad (fetch_request spec param columns since limit subgroupColumn) of
         Inl e \<Rightarrow> Inl e
       | Inr rows \<Rightarrow> Inr (rev (List.map_filter
           (sample_of_row (p_column param) (so_timestamp (r_source spec)) subgroupColumn) rows))))"

definition filterSamplesByRange :: "Sample list \<Rightarrow> int option \<Rightarrow> int option \<Rightarrow> Sample list" where
  "filterSamplesByRange samples start end' = (if start = None \<and> end' = None then samples
     else filter (\<lambda>s. \<not> (case start of Some a \<Rightarrow> s_ts s < a | None \<Rightarrow> False)
       \<and> \<not> (case end' of Some b \<Rightarrow> s_ts s > b | None \<Rightarrow> False)) samples)"

subsection \<open>Subgroups\<close>

function group_from :: "Sample list \<Rightarrow> int \<Rightarrow> nat \<Rightarrow> Sample list list" where
  "group_from samples sz i = (if 0 < sz \<and> int i + sz \<le> int (length samples)
     then take (nat sz) (drop i samples) # group_from samples sz (i + nat sz) else [])"
  by pat_completeness auto
termination
  by (relation "measure (\<lambda>(samples, sz, i). Suc (length samples) - i)") auto

declare group_from.simps [simp del]

definition groupConsecutive :: "Sample list \<Rightarrow> int \<Rightarrow> Sample list list" where
  "groupConsecutive samples sz = (if sz \<le> 0 then [] else group_from samples sz 0)"

fun group_add :: "Sample \<Rightarrow> (string \<times> Sample list) list \<Rightarrow> (string \<times> Sample list) list" where
  "group_add s [] = [(s_subgroup s, [s])]"
| "group_add s ((k, ss) # g) = (if k = s_subgroup s then (k, ss @ [s]) # g else (k, ss) # group_add s g)"

definition group_samples :: "Sample list \<Rightarrow> (string \<times> Sample list) list" where
  "group_samples samples = fold (\<lambda>s g. if s_subgroup s = [] then g else group_add s g) samples []"

definition groupBySubgroup :: "Sample list \<Rightarrow> int \<Rightarrow> Sample list list go" where
  "groupBySubgroup samples sz = (let grouped = group_samples samples; order = sort (map fst grouped);
       vals = map (\<lambda>key. the (map_of grouped key)) order;
       kept = filter (\<lambda>vs. \<not> int (length vs) < sz) vals
     in if sz < 0 \<and> kept \<noteq> [] then Panic ''slice bounds out of range''
        else Ret (map (take (nat sz)) kept))"

subsection \<open>Continuity of timestamps\<close>

definition ts_deltas :: "Sample list \<Rightarrow> f64 list" where
  "ts_deltas samples = map (\<lambda>(a, b). dur_seconds (time_sub (s_ts b) (s_ts a))) (zip samples (tl samples))"

definition hasConsecutiveTimestamps :: "Sample list \<Rightarrow> bool" where
  "hasConsecutiveTimestamps samples = (if length samples < 2 then True
     else let deltas = ts_deltas samples in
       if list_ex (\<lambda>d. fle d f0) deltas then False
       else let median = Median deltas in
         if feq median f0 then False
         else \<not> list_ex (\<lambda>d. fgt d (fmul median (Fin 2))) deltas)"

subsection \<open>The baseline window\<close>

definition defaultBaselineLastN :: int where "defaultBaselineLastN = 50"

definition year_ns :: int where
  "year_ns = 365 * 24 * 3600 * second_ns"

definition clampLimit :: "int \<Rightarrow> int \<Rightarrow> int" where
  "clampLimit v maxRows = (if maxRows = 0 \<or> v \<le> maxRows then v else maxRows)"

definition parseTimeRange :: "TimeRangeSpec \<Rightarrow> (int \<times> int) res" where
  "parseTimeRange spec = (case parse_rfc3339 (tr_start spec) of None \<Rightarrow> Inl ''parsing time''
     | Some a \<Rightarrow> (case parse_rfc3339 (tr_end spec) of None \<Rightarrow> Inl ''parsing time''
        | Some b \<Rightarrow> if b < a then Inl ''end must be after start'' else Inr (a, b)))"

definition buildBaselineWindow :: "int \<Rightarrow> BaselineSpec \<Rightarrow> int \<Rightarrow> (int \<times> int option \<times> int option \<times> int) res" where
  "buildBaselineWindow now baseline maxRows =
     (if bl_last_n baseline = None \<and> bl_time_range baseline = None then
        Inr (now - year_ns, None, None, clampLimit defaultBaselineLastN maxRows)
      else case bl_time_range baseline of
        Some tr \<Rightarrow> (case parseTimeRange tr of Inl e \<Rightarrow> Inl e
          | Inr (start, end') \<Rightarrow> Inr (start, Some start, Some end', maxRows))
      | None \<Rightarrow> (case bl_last_n baseline of
          None \<Rightarrow> Inl ''lastN must be > 0''
        | Some n \<Rightarrow> if n \<le> 0 then Inl ''lastN must be > 0''
            else Inr (now - year_ns, None, None, clampLimit n maxRows)))"

subsection \<open>Facts\<close>

lemma sample_of_row_finite: "sample_of_row v t g r = Some s \<Longrightarrow> \<exists>q. s_value s = Fin q"
proof -
  have fin: "x \<noteq> NaN \<Longrightarrow> x \<noteq> PInf \<Longrightarrow> x \<noteq> NInf \<Longrightarrow> \<exists>q. x = Fin q" for x by (cases x) auto
  assume "sample_of_row v t g r = Some s"
  then show ?thesis
    by (auto simp: sample_of_row_def Let_def isNaN_def isInf0_def fin
      split: option.splits prod.splits if_splits sum.splits)
qed

lemma fetchSamples_finite:
  "fetchSamples ad spec p cols since limit g = Inr ss \<Longrightarrow> s \<in> set ss \<Longrightarrow> \<exists>q. s_value s = Fin q"
  by (auto simp: fetchSamples_def List.map_filter_def split: option.splits sum.splits)
    (drule sample_of_row_finite, simp)

lemma sorted_map_filter:
  assumes "sorted_wrt R (List.map_filter f xs)" shows "sorted_wrt (\<lambda>a b. R b a) (rev (List.map_filter f xs))"
  using assms by (simp add: sorted_wrt_rev)

lemma group_from_sizes: "g \<in> set (group_from samples sz i) \<Longrightarrow> int (length g) = sz"
proof (induction samples sz i rule: group_from.induct)
  case (1 samples sz i)
  then show ?case by (subst (asm) group_from.simps) (auto split: if_splits)
qed

lemma groupConsecutive_sizes: "g \<in> set (groupConsecutive samples sz) \<Longrightarrow> int (length g) = sz \<and> 0 < sz"
  by (auto simp: groupConsecutive_def group_from_sizes split: if_splits)

lemma group_from_concat:
  "0 < sz \<Longrightarrow> i \<le> length samples \<Longrightarrow>
   concat (group_from samples sz i) = take ((length samples - i) div nat sz * nat sz) (drop i samples)"
proof (induction samples sz i rule: group_from.induct)
  case (1 samples sz i)
  define n where "n = nat sz"
  have n: "0 < n" "sz = int n" using 1(2) by (simp_all add: n_def)
  show ?case
  proof (cases "i + n \<le> length samples")
    case True
    have d: "(length samples - i) div n = Suc ((length samples - (i + n)) div n)"
      using True n le_div_geq [of n "length samples - i"] by simp
    have "concat (group_from samples sz (i + n))
        = take ((length samples - (i + n)) div n * n) (drop (i + n) samples)"
    proof -
      have "0 < sz \<and> int i + sz \<le> int (length samples)" using True n by simp
      from "1.IH" [OF this 1(2)] True show ?thesis unfolding n_def [symmetric] by simp
    qed
    moreover have "group_from samples sz i = take n (drop i samples) # group_from samples sz (i + n)"
    proof -
      have "0 < sz \<and> int i + sz \<le> int (length samples)" using True n by simp
      then show ?thesis unfolding n_def by (subst group_from.simps) simp
    qed
    ultimately have "concat (group_from samples sz i)
        = take (n + (length samples - (i + n)) div n * n) (drop i samples)"
      by (simp only: concat.simps take_add drop_drop add.commute)
    then show ?thesis unfolding n_def [symmetric] d by simp
  next
    case False
    then have "(length samples - i) div n = 0" using 1(3) by simp
    then show ?thesis using False n by (subst group_from.simps) simp
  qed
qed

lemma group_add_lookup:
  "map_of (group_add s g) k = (if k = s_subgroup s
     then Some ((case map_of g k of None \<Rightarrow> [] | Some ss \<Rightarrow> ss) @ [s]) else map_of g k)"
  by (induction g) auto

lemma group_add_keys:
  "map fst (group_add s g) = (if s_subgroup s \<in> fst ` set g then map fst g else map fst g @ [s_subgroup s])"
  by (induction g) force+

lemma group_samples_snoc:
  "group_samples (ss @ [s]) = (if s_subgroup s = [] then group_samples ss else group_add s (group_samples ss))"
  by (simp add: group_samples_def)

lemma group_samples_keys:
  "distinct (map fst (group_samples ss)) \<and>
   fst ` set (group_samples ss) = {k. k \<noteq> [] \<and> (\<exists>s \<in> set ss. s_subgroup s = k)}"
proof (induction ss rule: rev_induct)
  case (snoc s ss)
  have "set (map fst (group_add s g)) = insert (s_subgroup s) (fst ` set g)" for g
    by (subst group_add_keys) auto
  then have "fst ` set (group_add s g) = insert (s_subgroup s) (fst ` set g)" for g by simp
  with snoc show ?case by (auto simp: group_samples_snoc group_add_keys)
qed (simp add: group_samples_def)

lemma group_samples_lookup:
  "k \<noteq> [] \<Longrightarrow> map_of (group_samples ss) k =
    (let vs = filter (\<lambda>s. s_subgroup s = k) ss in if vs = [] then None else Some vs)"
proof (induction ss rule: rev_induct)
  case (snoc s ss)
  then show ?case by (auto simp: group_samples_snoc group_add_lookup Let_def)
qed (simp add: group_samples_def)

end
