(* ===== verification/SchedStore.thy ===== *)
theory SchedStore
  imports Main SchedSamples
begin

text \<open>
  What the scheduler shares: the limits and the allowlist (\<open>internal/security\<close>), the tables it
  reads and writes in Postgres (\<open>internal/storage/repository.go\<close>) and the cooldown test
  (\<open>internal/monitor/cooldown.go\<close>). A database call can fail at any time: the world holds
  the clock readings and the availability of the database, both indexed by a step counter
  that every reading and every call advances.
\<close>

record Limits =
  li_min_poll :: int
  li_max_poll :: int
  li_max_window :: int
  li_max_query_duration :: int
  li_max_concurrent :: int
  li_max_result :: int
  li_max_sample_rows :: int

definition DefaultLimits :: Limits where
  "DefaultLimits = \<lparr> li_min_poll = 5, li_max_poll = 3600, li_max_window = 86400,
     li_max_query_duration = 5 * second_ns, li_max_concurrent = 8, li_max_result = 1000,
     li_max_sample_rows = 2000 \<rparr>"

definition AllowsTable :: "string list \<Rightarrow> string \<Rightarrow> bool" where
  "AllowsTable tables t = (tables = [] \<or> list_ex (\<lambda>x. x = t) tables)"

text \<open>The identifier pattern \<open>^[a-zA-Z_][a-zA-Z0-9_]*$\<close>.\<close>

definition ident_start :: "char \<Rightarrow> bool" where
  "ident_start c = (is_alpha c \<or> c = CHR 0x5F)"

definition ident_rest :: "char \<Rightarrow> bool" where
  "ident_rest c = (is_alpha c \<or> is_digit c \<or> c = CHR 0x5F)"

definition IsSafeIdentifier :: "string \<Rightarrow> bool" where
  "IsSafeIdentifier s = (case s of [] \<Rightarrow> False | c # cs \<Rightarrow> ident_start c \<and> list_all ident_rest cs)"

lemma IsSafeIdentifier_chars: "IsSafeIdentifier s \<Longrightarrow> s \<noteq> [] \<and> list_all ident_rest s"
  by (cases s) (auto simp: IsSafeIdentifier_def ident_start_def ident_rest_def)

subsection \<open>Tables\<close>

text \<open>
  \<open>rr_spec\<close> is what \<open>json.Unmarshal\<close> makes of the rule's JSON: \<open>None\<close> when it is refused.
\<close>

record RuleRecord =
  rr_id :: string
  rr_connection :: string
  rr_spec :: "RuleSpec option"
  rr_enabled :: bool
  rr_status :: string
  rr_last_error :: "string option"
  rr_last_validated :: "int option"
  rr_last_run :: "int option"

text \<open>An alert row. Its metadata column is null when marshalling it failed.\<close>

record AlertRecord =
  al_rule :: string
  al_ts :: int
  al_parameter :: string
  al_observed :: gotext
  al_limit_expr :: gotext
  al_detector :: string
  al_severity :: string
  al_score :: "f64 option"
  al_median :: "f64 option"
  al_mad :: "f64 option"
  al_hit :: bool
  al_treated :: bool
  al_metadata :: "((string \<times> goval) list \<times> Violation list \<times> gotext) option"

record DB =
  db_rules :: "RuleRecord list"
  db_connections :: "(string \<times> string) list"
  db_alerts :: "AlertRecord list"

record World =
  w_db :: DB
  w_clock :: "nat \<Rightarrow> int"
  w_up :: "nat \<Rightarrow> bool"
  w_step :: nat

definition tick :: "World \<Rightarrow> World" where
  "tick w = w \<lparr> w_step := Suc (w_step w) \<rparr>"

definition read_clock :: "World \<Rightarrow> int \<times> World" where
  "read_clock w = (w_clock w (w_step w), tick w)"

definition db_query :: "(DB \<Rightarrow> 'a res) \<Rightarrow> World \<Rightarrow> 'a res \<times> World" where
  "db_query q w = (if w_up w (w_step w) then q (w_db w) else Inl ''database unavailable'', tick w)"

definition db_exec :: "(DB \<Rightarrow> DB res) \<Rightarrow> World \<Rightarrow> unit res \<times> World" where
  "db_exec f w = (if w_up w (w_step w) then
       (case f (w_db w) of Inl e \<Rightarrow> (Inl e, tick w) | Inr d \<Rightarrow> (Inr (), tick (w \<lparr> w_db := d \<rparr>)))
     else (Inl ''database unavailable'', tick w))"

subsection \<open>Queries and updates\<close>

definition find_rule :: "string \<Rightarrow> DB \<Rightarrow> RuleRecord option" where
  "find_rule i d = find (\<lambda>r. rr_id r = i) (db_rules d)"

definition ListEnabledRules :: "World \<Rightarrow> RuleRecord list res \<times> World" where
  "ListEnabledRules = db_query (\<lambda>d. Inr (filter rr_enabled (db_rules d)))"

text \<open>\<open>GetRule\<close> answers \<open>not found\<close> on every error of the scan, a failed query included.\<close>

definition GetRule :: "string \<Rightarrow> World \<Rightarrow> RuleRecord res \<times> World" where
  "GetRule i w = (case db_query (\<lambda>d. case find_rule i d of None \<Rightarrow> Inl ''no rows'' | Some r \<Rightarrow> Inr r) w of
     (Inl _, w') \<Rightarrow> (Inl ''not found'', w') | (Inr r, w') \<Rightarrow> (Inr r, w'))"

definition GetConnectionType :: "string \<Rightarrow> World \<Rightarrow> string res \<times> World" where
  "GetConnectionType i w = (case db_query (\<lambda>d. case map_of (db_connections d) i of
       None \<Rightarrow> Inl ''no rows'' | Some t \<Rightarrow> Inr t) w of
     (Inl _, w') \<Rightarrow> (Inl ''not found'', w') | (Inr t, w') \<Rightarrow> (Inr t, w'))"

definition update_rule :: "string \<Rightarrow> (RuleRecord \<Rightarrow> RuleRecord) \<Rightarrow> DB \<Rightarrow> DB" where
  "update_rule i f d = d \<lparr> db_rules := map (\<lambda>r. if rr_id r = i then f r else r) (db_rules d) \<rparr>"

definition UpdateRuleStatus :: "string \<Rightarrow> string \<Rightarrow> string option \<Rightarrow> World \<Rightarrow> unit res \<times> World" where
  "UpdateRuleStatus i status err w = db_exec (\<lambda>d. Inr (update_rule i (\<lambda>r. r \<lparr> rr_status := status,
     rr_last_error := err, rr_last_validated := Some (w_clock w (w_step w)) \<rparr>) d)) w"

definition UpdateLastRunAt :: "string \<Rightarrow> int \<Rightarrow> World \<Rightarrow> unit res \<times> World" where
  "UpdateLastRunAt i ts = db_exec (\<lambda>d. Inr (update_rule i (\<lambda>r. r \<lparr> rr_last_run := Some ts \<rparr>) d))"

text \<open>The foreign key of the alerts table refuses an alert of a rule that is gone.\<close>

definition CreateAlert :: "AlertRecord \<Rightarrow> World \<Rightarrow> unit res \<times> World" where
  "CreateAlert a = db_exec (\<lambda>d. if find_rule (al_rule a) d = None then Inl ''foreign key violation''
     else Inr (d \<lparr> db_alerts := db_alerts d @ [a] \<rparr>))"

definition latest_of :: "int list \<Rightarrow> int res" where
  "latest_of ts = (case ts of [] \<Rightarrow> Inl ''no rows'' | t # r \<Rightarrow> Inr (fold max r t))"

definition GetLastAlert :: "string \<Rightarrow> World \<Rightarrow> int res \<times> World" where
  "GetLastAlert rule w = (case db_query (\<lambda>d. latest_of (map al_ts (filter (\<lambda>a. al_rule a = rule) (db_alerts d)))) w of
     (Inl _, w') \<Rightarrow> (Inl ''not found'', w') | (Inr t, w') \<Rightarrow> (Inr t, w'))"

definition alert_key :: "AlertRecord \<Rightarrow> string \<times> string \<times> string" where
  "alert_key a = (al_rule a, al_parameter a, al_detector a)"

definition GetLastAlertForKey :: "string \<Rightarrow> string \<Rightarrow> string \<Rightarrow> World \<Rightarrow> int res \<times> World" where
  "GetLastAlertForKey rule param det w = (case db_query (\<lambda>d. latest_of (map al_ts
       (filter (\<lambda>a. al_rule a = rule \<and> al_parameter a = param \<and> al_detector a = det) (db_alerts d)))) w of
     (Inl _, w') \<Rightarrow> (Inl ''not found'', w') | (Inr t, w') \<Rightarrow> (Inr t, w'))"

definition WithinCooldown :: "int \<Rightarrow> int \<Rightarrow> int \<Rightarrow> bool" where
  "WithinCooldown now lastAlert cooldownSeconds = (time_sub now lastAlert < seconds cooldownSeconds)"

subsection \<open>Facts\<close>

lemma tick_sel [simp]: "w_db (tick w) = w_db w" "w_clock (tick w) = w_clock w" "w_up (tick w) = w_up w"
  "w_step (tick w) = Suc (w_step w)"
  by (simp_all add: tick_def)

lemma db_query_sel [simp]: "w_db (snd (db_query q w)) = w_db w" "w_clock (snd (db_query q w)) = w_clock w"
  "w_up (snd (db_query q w)) = w_up w" "w_step (snd (db_query q w)) = Suc (w_step w)"
  by (simp_all add: db_query_def)

lemma db_exec_sel [simp]: "w_clock (snd (db_exec f w)) = w_clock w" "w_up (snd (db_exec f w)) = w_up w"
  "w_step (snd (db_exec f w)) = Suc (w_step w)"
  by (simp_all add: db_exec_def split: sum.split)

lemma snd_query_cases: "snd (case db_query q w of (Inl e, w') \<Rightarrow> (Inl (g e), w') | (Inr r, w') \<Rightarrow> (Inr r, w'))
    = snd (db_query q w)"
  by (simp split: prod.split sum.split)

lemma lookup_world [simp]:
  "snd (GetRule i w) = tick w" "snd (GetConnectionType i w) = tick w" "snd (GetLastAlertForKey r p d w) = tick w"
  "snd (GetLastAlert r w) = tick w" "snd (ListEnabledRules w) = tick w"
  by (simp_all add: GetRule_def GetConnectionType_def GetLastAlertForKey_def GetLastAlert_def
      ListEnabledRules_def db_query_def split: sum.split)

lemma find_rule_update:
  "(\<And>r. rr_id (f r) = rr_id r) \<Longrightarrow>
   find_rule j (update_rule i f d) = map_option (\<lambda>r. if rr_id r = i then f r else r) (find_rule j d)"
proof -
  assume f: "\<And>r. rr_id (f r) = rr_id r"
  have "find (\<lambda>r. rr_id r = j) (map (\<lambda>r. if rr_id r = i then f r else r) rs)
      = map_option (\<lambda>r. if rr_id r = i then f r else r) (find (\<lambda>r. rr_id r = j) rs)" for rs
    by (induction rs) (auto simp: f)
  then show ?thesis by (simp add: find_rule_def update_rule_def)
qed

lemma find_rule_id: "find_rule i d = Some r \<Longrightarrow> rr_id r = i \<and> r \<in> set (db_rules d)"
  by (auto simp: find_rule_def find_Some_iff)

lemma latest_of_ge: "latest_of ts = Inr t \<Longrightarrow> t \<in> set ts \<and> (\<forall>u \<in> set ts. u \<le> t)"
proof -
  have f: "fold max r t \<in> insert t (set r) \<and> t \<le> fold max r t \<and> (\<forall>u \<in> set r. u \<le> fold max r t)" for r and t :: int
  proof (induction r arbitrary: t)
    case (Cons a r)
    show ?case using Cons.IH [of "max a t"] by (auto simp: max_def split: if_splits)
  qed simp
  assume "latest_of ts = Inr t"
  then show ?thesis using f by (cases ts) (auto simp: latest_of_def)
qed

lemma latest_of_error: "latest_of ts = Inl e \<Longrightarrow> ts = []"
  by (cases ts) (auto simp: latest_of_def)

end
