(* ===== verification/SchedEvaluate.thy ===== *)
theory SchedEvaluate
  imports Main SchedStore
begin

text \<open>
  Evaluation of one parameter and one run of a rule (\<open>internal/scheduler/scheduler.go\<close>:
  \<open>windowSince\<close>, \<open>evaluateParameterSince\<close>, \<open>normalizeParameters\<close>, \<open>buildExplain\<close>,
  \<open>applyWindowAndBaseline\<close>, \<open>execute\<close>). Each branch of the evaluation reads the clock at
  most once, so the reading is an argument. Query timeouts show as errors of the adapter.
\<close>

definition fallbackParamName :: "string \<Rightarrow> string \<Rightarrow> string" where
  "fallbackParamName name valueColumn = (if name \<noteq> [] then name else valueColumn)"

definition legacy_threshold :: "RuleSpec \<Rightarrow> DetectorSpec" where
  "legacy_threshold spec = empty_detector \<lparr> d_type := ''threshold'',
     d_threshold := Some \<lparr> th_op = co_op (r_condition spec), th_value = co_value (r_condition spec),
       th_min = co_min (r_condition spec), th_max = co_max (r_condition spec) \<rparr> \<rparr>"

definition normalizeParameters :: "RuleSpec \<Rightarrow> ParameterSpec list" where
  "normalizeParameters spec = (if r_parameters spec \<noteq> [] then
       map (\<lambda>p. if p_name p = [] then p \<lparr> p_name := p_column p \<rparr> else p) (r_parameters spec)
     else if so_value_column (r_source spec) = [] then []
     else [\<lparr> p_name = fallbackParamName (r_parameter_name spec) (so_value_column (r_source spec)),
         p_column = so_value_column (r_source spec), p_detector = legacy_threshold spec \<rparr>])"

definition windowSince :: "RuleSpec \<Rightarrow> int option \<Rightarrow> int \<Rightarrow> int" where
  "windowSince spec lastRunAt now = (case lastRunAt of Some t \<Rightarrow> t
     | None \<Rightarrow> now + seconds (wrap64 (- (if r_poll spec \<le> 0 then 60 else r_poll spec))))"

definition applyWindowAndBaseline :: "Sample list \<Rightarrow> int option \<Rightarrow> int option \<Rightarrow> bool
    \<Rightarrow> DetectorResult \<Rightarrow> DetectorResult" where
  "applyWindowAndBaseline samples bstart bend used res = (if samples = [] then res
     else let first = s_ts (hd samples); lst = s_ts (last samples);
            r1 = (if first \<noteq> 0 then res \<lparr> dr_window_start := Some first \<rparr> else res);
            r2 = (if lst \<noteq> 0 then r1 \<lparr> dr_window_end := Some lst \<rparr> else r1)
       in if \<not> used then r2
          else let r3 = (if bstart \<noteq> None then r2 \<lparr> dr_baseline_start := bstart \<rparr> else r2);
                 r4 = (if bend \<noteq> None then r3 \<lparr> dr_baseline_end := bend \<rparr> else r3)
            in if bstart = None \<and> bend = None then
                 r4 \<lparr> dr_baseline_start := dr_window_start r4, dr_baseline_end := dr_window_end r4 \<rparr>
               else r4)"

definition latest_request :: "RuleSpec \<Rightarrow> string \<Rightarrow> LatestValueRequest" where
  "latest_request spec column = \<lparr> lq_connection = r_connection spec, lq_table = so_table (r_source spec),
     lq_value_column = column, lq_timestamp = so_timestamp (r_source spec),
     lq_where = toWhere (so_where (r_source spec)) \<rparr>"

subsection \<open>One definition per detector branch\<close>

definition eval_missing :: "RuleSpec \<Rightarrow> MissingDataSpec \<Rightarrow> DbMcpAdapter \<Rightarrow> int \<Rightarrow> DetectorResult list res" where
  "eval_missing spec md ad now =
     (case ad_latest ad (latest_request spec (so_timestamp (r_source spec))) of
        Inl e \<Rightarrow> if contains_sub e ''no rows'' then Inr [EvaluateMissingData 0 (md_max_gap md) now] else Inl e
      | Inr resp \<Rightarrow> (case parseTimeValue (lr_value resp) of
          Inr ts \<Rightarrow> Inr [EvaluateMissingData ts (md_max_gap md) now]
        | Inl _ \<Rightarrow> (case parseTimeValue (VStr (lr_ts resp)) of
            Inr ts \<Rightarrow> Inr [EvaluateMissingData ts (md_max_gap md) now]
          | Inl e \<Rightarrow> Inl e)))"

definition row_float :: "string \<Rightarrow> row \<Rightarrow> f64 option" where
  "row_float column r = (case mget r column of None \<Rightarrow> None
     | Some v \<Rightarrow> (case toFloat v of (x, True) \<Rightarrow> Some x | (x, False) \<Rightarrow> None))"

definition robust_request :: "RuleSpec \<Rightarrow> ParameterSpec \<Rightarrow> int \<Rightarrow> int \<Rightarrow> FetchRecentRowsRequest" where
  "robust_request spec param since limit = \<lparr> fq_connection = r_connection spec,
     fq_table = so_table (r_source spec), fq_columns = [p_column param, so_timestamp (r_source spec)],
     fq_timestamp = so_timestamp (r_source spec), fq_where = toWhere (so_where (r_source spec)),
     fq_since = format_rfc3339 since, fq_limit = limit \<rparr>"

definition eval_robust :: "Limits \<Rightarrow> RuleSpec \<Rightarrow> ParameterSpec \<Rightarrow> RobustZSpec \<Rightarrow> DbMcpAdapter \<Rightarrow> int
    \<Rightarrow> DetectorResult list res" where
  "eval_robust lims spec param rz ad now =
     (case ad_fetch ad (robust_request spec param (now + seconds (wrap64 (- rz_baseline_window rz)))
          (li_max_sample_rows lims)) of
        Inl e \<Rightarrow> Inl e
      | Inr rows \<Rightarrow> if int (length rows) < rz_min_samples rz then Inr [empty_result]
          else let samples = List.map_filter (row_float (p_column param)) rows;
                 latest = (case rows of [] \<Rightarrow> f0 | r # _ \<Rightarrow> (case row_float (p_column param) r of
                             None \<Rightarrow> f0 | Some x \<Rightarrow> x))
            in if int (length samples) < rz_min_samples rz then Inr [empty_result]
               else Inr [EvaluateRobustZ samples latest (rz_warn rz) (rz_crit rz)])"

definition eval_spec_limit :: "Limits \<Rightarrow> RuleSpec \<Rightarrow> ParameterSpec \<Rightarrow> SpecLimitSpec \<Rightarrow> DbMcpAdapter
    \<Rightarrow> int option \<Rightarrow> int \<Rightarrow> DetectorResult list res" where
  "eval_spec_limit lims spec param sl ad lastRunAt now =
     (case fetchSamples (Some ad) spec param [] (windowSince spec lastRunAt now) (li_max_sample_rows lims) [] of
        Inl e \<Rightarrow> Inl e
      | Inr samples \<Rightarrow> let results = filter dr_hit (map (\<lambda>s. EvaluateSpecLimit s sl) samples)
          in if samples = [] \<or> results = [] then Inr [empty_result] else Inr results)"

definition stale :: "Sample list \<Rightarrow> int option \<Rightarrow> bool" where
  "stale samples lastRunAt = (samples \<noteq> [] \<and> (case lastRunAt of None \<Rightarrow> False
     | Some t \<Rightarrow> \<not> s_ts (last samples) > t))"

definition eval_shewhart :: "Limits \<Rightarrow> RuleSpec \<Rightarrow> ParameterSpec \<Rightarrow> ShewhartSpec \<Rightarrow> DbMcpAdapter
    \<Rightarrow> int option \<Rightarrow> int \<Rightarrow> DetectorResult list res go" where
  "eval_shewhart lims spec param sh ad lastRunAt now =
     (case buildBaselineWindow now (sh_baseline sh) (li_max_sample_rows lims) of
        Inl e \<Rightarrow> Ret (Inl e)
      | Inr (since, start, end', limit) \<Rightarrow>
         (case fetchSamples (Some ad) spec param [] since limit [] of
            Inl e \<Rightarrow> Ret (Inl e)
          | Inr fetched \<Rightarrow> let samples = filterSamplesByRange fetched start end' in
              if stale samples lastRunAt then Ret (Inr [empty_result])
              else let sigma = (if feq (sh_sigma sh) f0 then Fin 3 else sh_sigma sh)
                in go_bind (EvaluateShewhart samples sh sigma)
                     (\<lambda>r. Ret (Inr [applyWindowAndBaseline samples start end' True r]))))"

definition eval_range_chart :: "Limits \<Rightarrow> RuleSpec \<Rightarrow> ParameterSpec \<Rightarrow> RangeChartSpec \<Rightarrow> DbMcpAdapter
    \<Rightarrow> int option \<Rightarrow> int \<Rightarrow> DetectorResult list res go" where
  "eval_range_chart lims spec param rc ad lastRunAt now =
     (case buildBaselineWindow now (rc_baseline rc) (li_max_sample_rows lims) of
        Inl e \<Rightarrow> Ret (Inl e)
      | Inr (since, start, end', limit) \<Rightarrow>
         let subgroupColumn = (if sg_mode (rc_subgrouping rc) = ''column'' then sg_column (rc_subgrouping rc) else [])
         in (case fetchSamples (Some ad) spec param [] since limit subgroupColumn of
            Inl e \<Rightarrow> Ret (Inl e)
          | Inr fetched \<Rightarrow> let samples = filterSamplesByRange fetched start end' in
              if stale samples lastRunAt then Ret (Inr [empty_result])
              else go_bind (if subgroupColumn \<noteq> [] then groupBySubgroup samples (rc_size rc)
                            else Ret (groupConsecutive samples (rc_size rc)))
                     (\<lambda>groups. go_bind (EvaluateRangeChart groups rc)
                       (\<lambda>r. Ret (Inr [applyWindowAndBaseline samples start end' True r])))))"

definition eval_trend :: "Limits \<Rightarrow> RuleSpec \<Rightarrow> ParameterSpec \<Rightarrow> TrendSpec \<Rightarrow> DbMcpAdapter
    \<Rightarrow> int option \<Rightarrow> int \<Rightarrow> DetectorResult list res go" where
  "eval_trend lims spec param tn ad lastRunAt now =
     (let window = (if tn_window tn = 0 then 6 else tn_window tn) in
      case fetchSamples (Some ad) spec param [] (windowSince spec lastRunAt now)
             (clampLimit window (li_max_sample_rows lims)) [] of
        Inl e \<Rightarrow> Ret (Inl e)
      | Inr samples \<Rightarrow> if tn_consecutive tn \<and> \<not> hasConsecutiveTimestamps samples then
            Ret (Inr [applyWindowAndBaseline samples None None False (insufficientData ''non-consecutive timestamps'')])
          else go_bind (EvaluateTrend6 samples tn)
            (\<lambda>r. Ret (Inr [applyWindowAndBaseline samples None None False r])))"

definition eval_tpa :: "Limits \<Rightarrow> RuleSpec \<Rightarrow> ParameterSpec \<Rightarrow> TPASpec \<Rightarrow> DbMcpAdapter
    \<Rightarrow> int option \<Rightarrow> int \<Rightarrow> DetectorResult list res" where
  "eval_tpa lims spec param tp ad lastRunAt now =
     (let limit = (if tp_window tp = 0 then 3 else tp_window tp) in
      case fetchSamples (Some ad) spec param [] (windowSince spec lastRunAt now)
             (clampLimit limit (li_max_sample_rows lims)) [] of
        Inl e \<Rightarrow> Inl e
      | Inr samples \<Rightarrow> Inr [applyWindowAndBaseline samples None None False (EvaluateTPA samples tp)])"

definition uses_aggregate :: "RuleSpec \<Rightarrow> bool" where
  "uses_aggregate spec = (r_aggregation spec \<noteq> [] \<and> r_aggregation spec \<noteq> ''latest'' \<and> r_window spec \<noteq> None)"

definition aggregate_request :: "RuleSpec \<Rightarrow> ParameterSpec \<Rightarrow> AggregateRequest" where
  "aggregate_request spec param = \<lparr> aq_connection = r_connection spec, aq_table = so_table (r_source spec),
     aq_value_column = p_column param, aq_timestamp = so_timestamp (r_source spec),
     aq_where = toWhere (so_where (r_source spec)), aq_agg = r_aggregation spec,
     aq_window = the (r_window spec) \<rparr>"

definition eval_threshold :: "RuleSpec \<Rightarrow> ParameterSpec \<Rightarrow> ThresholdSpec \<Rightarrow> DbMcpAdapter
    \<Rightarrow> DetectorResult list res" where
  "eval_threshold spec param th ad =
     (let answer = (if uses_aggregate spec
          then (case ad_aggregate ad (aggregate_request spec param) of Inl e \<Rightarrow> Inl e | Inr r \<Rightarrow> Inr (ar_value r))
          else (case ad_latest ad (latest_request spec (p_column param)) of Inl e \<Rightarrow> Inl e | Inr r \<Rightarrow> Inr (lr_value r)))
      in case answer of Inl e \<Rightarrow> Inl e
         | Inr v \<Rightarrow> (case EvaluateThresholdDetector th v of Inl e \<Rightarrow> Inl e | Inr r \<Rightarrow> Inr [r]))"

definition missing_config :: "string \<Rightarrow> DetectorResult list res go" where
  "missing_config kind = Ret (Inl (kind @ '' detector missing config''))"

definition evaluateParameterSince :: "Limits \<Rightarrow> RuleSpec \<Rightarrow> ParameterSpec \<Rightarrow> DbMcpAdapter option
    \<Rightarrow> int option \<Rightarrow> int \<Rightarrow> DetectorResult list res go" where
  "evaluateParameterSince lims spec param adapter lastRunAt now = (case adapter of
      None \<Rightarrow> Ret (Inl ''adapter not configured'')
    | Some ad \<Rightarrow> let d = p_detector param; ty = d_type d in
        if ty = ''missing_data'' then (case d_missing d of None \<Rightarrow> missing_config ''missing_data''
          | Some md \<Rightarrow> Ret (eval_missing spec md ad now))
        else if ty = ''robust_zscore'' then (case d_robust_z d of None \<Rightarrow> missing_config ''robust_zscore''
          | Some rz \<Rightarrow> Ret (eval_robust lims spec param rz ad now))
        else if ty = ''spec_limit'' then (case d_spec_limit d of None \<Rightarrow> missing_config ''spec_limit''
          | Some sl \<Rightarrow> Ret (eval_spec_limit lims spec param sl ad lastRunAt now))
        else if ty = ''shewhart'' then (case d_shewhart d of None \<Rightarrow> missing_config ''shewhart''
          | Some sh \<Rightarrow> eval_shewhart lims spec param sh ad lastRunAt now)
        else if ty = ''range_chart'' then (case d_range_chart d of None \<Rightarrow> missing_config ''range_chart''
          | Some rc \<Rightarrow> eval_range_chart lims spec param rc ad lastRunAt now)
        else if ty = ''trend'' then (case d_trend d of None \<Rightarrow> missing_config ''trend''
          | Some tn \<Rightarrow> eval_trend lims spec param tn ad lastRunAt now)
        else if ty = ''tpa'' then (case d_tpa d of None \<Rightarrow> missing_config ''tpa''
          | Some tp \<Rightarrow> Ret (eval_tpa lims spec param tp ad lastRunAt now))
        else (case d_threshold d of None \<Rightarrow> missing_config ''threshold''
          | Some th \<Rightarrow> Ret (eval_threshold spec param th ad)))"

subsection \<open>One run\<close>

definition buildExplain :: "DetectorResult \<Rightarrow> ParameterSpec \<Rightarrow> gotext go" where
  "buildExplain res param = (let d = p_detector param; ty = d_type d in
     if ty = ''robust_zscore'' then
       (case (dr_score res, dr_median res, dr_mad res) of
          (Some sc, Some med, Some mad) \<Rightarrow> (case d_robust_z d of None \<Rightarrow> Panic ''nil dereference''
            | Some rz \<Rightarrow> Ret (Fmt ''robust_zscore=%.2f (warn>=%.2f, crit>=%.2f), median=%.2f, mad=%.2f''
                (map VFloat [sc, rz_warn rz, rz_crit rz, med, mad])))
        | _ \<Rightarrow> Ret (Txt ''robust_zscore''))
     else if ty = ''missing_data'' then (case d_missing d of None \<Rightarrow> Panic ''nil dereference''
       | Some md \<Rightarrow> Ret (Txt (''missing_data max_gap='' @ itoa (md_max_gap md) @ ''s'')))
     else if ty \<in> {''threshold'', ''spec_limit'', ''shewhart'', ''range_chart'', ''trend'', ''tpa''}
       then Ret (dr_limit_expr res)
     else Ret (Txt ''detector''))"

definition put_time :: "string \<Rightarrow> int option \<Rightarrow> (string \<times> goval) list \<Rightarrow> (string \<times> goval) list" where
  "put_time k t m = (case t of None \<Rightarrow> m | Some x \<Rightarrow> mput k (VTime x) m)"

definition alert_metadata :: "RuleSpec \<Rightarrow> ParameterSpec \<Rightarrow> DetectorResult \<Rightarrow> (string \<times> goval) list" where
  "alert_metadata spec param res = put_time ''baselineEnd'' (dr_baseline_end res)
     (put_time ''baselineStart'' (dr_baseline_start res) (put_time ''windowEnd'' (dr_window_end res)
       (put_time ''windowStart'' (dr_window_start res) (mputs (dr_metadata res)
         [(''table'', VStr (so_table (r_source spec))), (''valueColumn'', VStr (p_column param)),
          (''timestampColumn'', VStr (so_timestamp (r_source spec))),
          (''detector'', VStr (d_type (p_detector param)))]))))"

definition violation_json_ok :: "Violation \<Rightarrow> bool" where
  "violation_json_ok v = (json_ok (VFloat (v_value v)) \<and> json_ok (VFloat (v_limit_value v))
     \<and> json_ok (VFloat (v_delta v)))"

definition make_alert :: "string \<Rightarrow> RuleSpec \<Rightarrow> ParameterSpec \<Rightarrow> DetectorResult \<Rightarrow> gotext \<Rightarrow> int \<Rightarrow> AlertRecord" where
  "make_alert rule spec param res explain ts = (let meta = alert_metadata spec param res in
     \<lparr> al_rule = rule, al_ts = ts, al_parameter = p_name param, al_observed = dr_observed res,
       al_limit_expr = dr_limit_expr res, al_detector = d_type (p_detector param),
       al_severity = dr_severity res, al_score = dr_score res, al_median = dr_median res,
       al_mad = dr_mad res, al_hit = True, al_treated = False,
       al_metadata = (if list_all (\<lambda>kv. json_ok (snd kv)) meta \<and> list_all violation_json_ok (dr_violations res)
          then Some (meta, dr_violations res, explain) else None) \<rparr>)"

text \<open>The test of the cooldown: a failed or empty lookup lets the alert through.\<close>

definition in_cooldown :: "RuleSpec \<Rightarrow> string \<Rightarrow> ParameterSpec \<Rightarrow> World \<Rightarrow> bool \<times> World" where
  "in_cooldown spec rule param w = (let cooldown = (case r_cooldown spec of None \<Rightarrow> 0 | Some c \<Rightarrow> c) in
     if cooldown > 0 then
       (case GetLastAlertForKey rule (p_name param) (d_type (p_detector param)) w of
          (Inl _, w1) \<Rightarrow> (False, w1)
        | (Inr t, w1) \<Rightarrow> let (now, w2) = read_clock w1 in (WithinCooldown now t cooldown, w2))
     else (False, w))"

definition raise_alert :: "string \<Rightarrow> RuleSpec \<Rightarrow> ParameterSpec \<Rightarrow> DetectorResult \<Rightarrow> World \<Rightarrow> World go" where
  "raise_alert rule spec param res w = (if \<not> dr_hit res then Ret w
     else let (cold, w1) = in_cooldown spec rule param w in
       if cold then Ret w1
       else go_bind (buildExplain res param) (\<lambda>explain.
         let (now, w2) = read_clock w1
         in Ret (snd (CreateAlert (make_alert rule spec param res explain now) w2))))"

fun raise_alerts :: "string \<Rightarrow> RuleSpec \<Rightarrow> ParameterSpec \<Rightarrow> DetectorResult list \<Rightarrow> World \<Rightarrow> World go" where
  "raise_alerts rule spec param [] w = Ret w"
| "raise_alerts rule spec param (r # rs) w = go_bind (raise_alert rule spec param r w) (raise_alerts rule spec param rs)"

text \<open>The adapter is asked at the step the world has reached.\<close>

fun run_params :: "Limits \<Rightarrow> string \<Rightarrow> RuleSpec \<Rightarrow> (nat \<Rightarrow> DbMcpAdapter) option \<Rightarrow> int option
    \<Rightarrow> ParameterSpec list \<Rightarrow> World \<Rightarrow> World go" where
  "run_params lims rule spec adapter lastRunAt [] w = Ret w"
| "run_params lims rule spec adapter lastRunAt (p # ps) w = (let (now, w1) = read_clock w in
     go_bind (evaluateParameterSince lims spec p (map_option (\<lambda>f. f (w_step w)) adapter) lastRunAt now)
       (\<lambda>r. case r of Inl _ \<Rightarrow> run_params lims rule spec adapter lastRunAt ps w1
         | Inr results \<Rightarrow> go_bind (raise_alerts rule spec p results w1)
             (run_params lims rule spec adapter lastRunAt ps)))"

text \<open>
  \<open>execute\<close> from the reading of \<open>runAt\<close> and \<open>lastRunAt\<close> on; the result says whether the
  run reached \<open>setLastRunAt\<close>, which stores \<open>runAt\<close> in the job and in the rule's row.
\<close>

definition execute_run :: "Limits \<Rightarrow> string \<Rightarrow> RuleSpec \<Rightarrow> (nat \<Rightarrow> DbMcpAdapter) option \<Rightarrow> int option
    \<Rightarrow> int \<Rightarrow> World \<Rightarrow> (bool \<times> World) go" where
  "execute_run lims rule spec adapter lastRunAt runAt w = (let params = normalizeParameters spec in
     if params = [] then Ret (False, w)
     else go_bind (run_params lims rule spec adapter lastRunAt params w)
       (\<lambda>w1. Ret (True, snd (UpdateLastRunAt rule runAt w1))))"

end
