(* ===== verification/SchedValidation.thy ===== *)
theory SchedValidation
  imports Main SchedEvaluate
begin

text \<open>
  \<open>internal/validation/runtime_validate_rule.go\<close>: what a rule must satisfy before the worker
  schedules it. The parameter loop dereferences the robust z-score configuration without a
  check, so the outcome can be a panic.
\<close>

definition isNumericType :: "string \<Rightarrow> bool" where
  "isNumericType t = (let v = to_lower t in
     contains_sub v ''int'' \<or> contains_sub v ''decimal'' \<or> contains_sub v ''numeric''
     \<or> contains_sub v ''float'' \<or> contains_sub v ''double'' \<or> contains_sub v ''real'')"

definition isSupportedRangeChartSize :: "int \<Rightarrow> bool" where
  "isSupportedRangeChartSize n = (n \<in> {2, 3, 4, 5, 6, 7, 8, 9, 10})"

definition validation_parameters :: "RuleSpec \<Rightarrow> ParameterSpec list" where
  "validation_parameters spec = (if r_parameters spec \<noteq> [] then r_parameters spec
     else if so_value_column (r_source spec) = [] then []
     else [\<lparr> p_name = r_parameter_name spec, p_column = so_value_column (r_source spec),
         p_detector = legacy_threshold spec \<rparr>])"

definition colTypes :: "Column list \<Rightarrow> string \<Rightarrow> string option" where
  "colTypes cols name = map_of (rev (map (\<lambda>c. (col_name c, col_type c)) cols)) name"

definition type_of_column :: "Column list \<Rightarrow> string \<Rightarrow> string" where
  "type_of_column cols name = (case colTypes cols name of None \<Rightarrow> [] | Some t \<Rightarrow> t)"

definition fetch_check :: "DbMcpAdapter \<Rightarrow> Limits \<Rightarrow> RuleSpec \<Rightarrow> ParameterSpec \<Rightarrow> int \<Rightarrow> int \<Rightarrow> unit res" where
  "fetch_check ad lims spec param windowSeconds now =
     (case ad_fetch ad (robust_request spec param (now + seconds (wrap64 (- windowSeconds)))
         (li_max_sample_rows lims)) of Inl e \<Rightarrow> Inl e | Inr _ \<Rightarrow> Inr ())"

definition check_range_chart :: "DbMcpAdapter \<Rightarrow> Limits \<Rightarrow> RuleSpec \<Rightarrow> Column list \<Rightarrow> int \<Rightarrow> ParameterSpec \<Rightarrow> unit res" where
  "check_range_chart ad lims spec cols now param = (case d_range_chart (p_detector param) of
       None \<Rightarrow> Inl ''range_chart config missing''
     | Some rc \<Rightarrow> if \<not> isSupportedRangeChartSize (rc_size rc) then Inl ''unsupported subgroup size''
         else if \<not> isNumericType (type_of_column cols (p_column param)) then Inl ''non-numeric column for range_chart''
         else if sg_mode (rc_subgrouping rc) = ''column'' \<and> sg_column (rc_subgrouping rc) = [] then
           Inl ''subgrouping column required''
         else if sg_mode (rc_subgrouping rc) = ''column'' \<and> colTypes cols (sg_column (rc_subgrouping rc)) = None then
           Inl ''subgrouping column not found''
         else fetch_check ad lims spec param (li_max_window lims) now)"

definition validate_param :: "DbMcpAdapter \<Rightarrow> Limits \<Rightarrow> RuleSpec \<Rightarrow> Column list \<Rightarrow> int \<Rightarrow> ParameterSpec \<Rightarrow> unit res go" where
  "validate_param ad lims spec cols now param = (let ty = d_type (p_detector param) in
     if colTypes cols (p_column param) = None then Ret (Inl ''value column not found'')
     else if ty = ''robust_zscore'' then
       (if \<not> isNumericType (type_of_column cols (p_column param)) then Ret (Inl ''non-numeric column for robust_zscore'')
        else case d_robust_z (p_detector param) of None \<Rightarrow> Panic ''nil dereference''
          | Some rz \<Rightarrow> Ret (fetch_check ad lims spec param (rz_baseline_window rz) now))
     else if ty = ''range_chart'' then Ret (check_range_chart ad lims spec cols now param)
     else if ty \<in> {''shewhart'', ''trend'', ''tpa'', ''spec_limit''}
         \<and> \<not> isNumericType (type_of_column cols (p_column param)) then Ret (Inl ''non-numeric column for detector'')
     else if ty = ''threshold'' \<and> uses_aggregate spec then
       Ret (case ad_aggregate ad (aggregate_request spec param) of Inl e \<Rightarrow> Inl e | Inr _ \<Rightarrow> Inr ())
     else Ret (case ad_latest ad (latest_request spec (p_column param)) of Inl e \<Rightarrow> Inl e | Inr _ \<Rightarrow> Inr ()))"

fun validate_params :: "DbMcpAdapter \<Rightarrow> Limits \<Rightarrow> RuleSpec \<Rightarrow> Column list \<Rightarrow> int \<Rightarrow> ParameterSpec list \<Rightarrow> unit res go" where
  "validate_params ad lims spec cols now [] = Ret (Inr ())"
| "validate_params ad lims spec cols now (p # ps) = go_bind (validate_param ad lims spec cols now p)
     (\<lambda>r. case r of Inl e \<Rightarrow> Ret (Inl e) | Inr _ \<Rightarrow> validate_params ad lims spec cols now ps)"

definition validate_shape :: "Limits \<Rightarrow> string list \<Rightarrow> RuleSpec \<Rightarrow> unit res" where
  "validate_shape lims tables spec =
     (if r_poll spec < li_min_poll lims \<or> r_poll spec > li_max_poll lims then Inl ''poll interval out of bounds''
      else if r_aggregation spec \<noteq> [] \<and> r_aggregation spec \<noteq> ''latest''
          \<and> (case r_window spec of None \<Rightarrow> True | Some w \<Rightarrow> w \<le> 0) then Inl ''windowSeconds required''
      else if r_aggregation spec \<noteq> [] \<and> r_aggregation spec \<noteq> ''latest''
          \<and> the (r_window spec) > li_max_window lims then Inl ''windowSeconds exceeds limit''
      else if \<not> IsSafeIdentifier (so_table (r_source spec)) \<or> \<not> IsSafeIdentifier (so_timestamp (r_source spec)) then
        Inl ''unsafe identifier''
      else if validation_parameters spec = [] then Inl ''parameters required''
      else if \<not> list_all (\<lambda>p. IsSafeIdentifier (p_column p)) (validation_parameters spec) then Inl ''unsafe value column''
      else if (case so_where (r_source spec) of None \<Rightarrow> False
          | Some wh \<Rightarrow> \<not> list_all (\<lambda>c. IsSafeIdentifier (cl_column c)) (wh_clauses wh)) then Inl ''unsafe where identifier''
      else if \<not> AllowsTable tables (so_table (r_source spec)) then Inl ''table not allowlisted''
      else Inr ())"

definition RuntimeValidateRule :: "DbMcpAdapter \<Rightarrow> RuleSpec \<Rightarrow> string list \<Rightarrow> Limits \<Rightarrow> int \<Rightarrow> unit res go" where
  "RuntimeValidateRule ad spec allowlist lims now = (case validate_shape lims allowlist spec of
       Inl e \<Rightarrow> Ret (Inl e)
     | Inr _ \<Rightarrow> if \<not> cap_introspection (ad_capabilities ad) then Ret (Inl ''adapter does not support introspection'')
         else (case ad_list_tables ad (r_connection spec) of Inl e \<Rightarrow> Ret (Inl e)
           | Inr tables \<Rightarrow> if so_table (r_source spec) \<notin> set tables then Ret (Inl ''table not found'')
             else (case ad_list_columns ad (r_connection spec) (so_table (r_source spec)) of Inl e \<Rightarrow> Ret (Inl e)
               | Inr cols \<Rightarrow> if colTypes cols (so_timestamp (r_source spec)) = None then
                     Ret (Inl ''timestamp column not found'')
                   else validate_params ad lims spec cols now (validation_parameters spec))))"

subsection \<open>What a validated rule satisfies\<close>

definition poll_in_limits :: "Limits \<Rightarrow> RuleSpec \<Rightarrow> bool" where
  "poll_in_limits lims spec = (li_min_poll lims \<le> r_poll spec \<and> r_poll spec \<le> li_max_poll lims)"

definition identifiers_safe :: "RuleSpec \<Rightarrow> bool" where
  "identifiers_safe spec = (IsSafeIdentifier (so_table (r_source spec))
     \<and> IsSafeIdentifier (so_timestamp (r_source spec))
     \<and> list_all (\<lambda>p. IsSafeIdentifier (p_column p)) (validation_parameters spec)
     \<and> (case so_where (r_source spec) of None \<Rightarrow> True
         | Some wh \<Rightarrow> list_all (\<lambda>c. IsSafeIdentifier (cl_column c)) (wh_clauses wh)))"

lemma validate_shape_ok:
  "validate_shape lims tables spec = Inr () \<Longrightarrow> poll_in_limits lims spec \<and> identifiers_safe spec
     \<and> validation_parameters spec \<noteq> [] \<and> AllowsTable tables (so_table (r_source spec))"
  by (auto simp: validate_shape_def poll_in_limits_def identifiers_safe_def split: if_splits option.splits)

lemma validate_params_ok:
  "validate_params ad lims spec cols now ps = Ret (Inr ()) \<Longrightarrow>
   \<forall>p \<in> set ps. validate_param ad lims spec cols now p = Ret (Inr ())"
proof (induction ps)
  case (Cons p ps)
  from Cons.prems obtain r where r: "validate_param ad lims spec cols now p = Ret r"
    by (cases "validate_param ad lims spec cols now p") auto
  with Cons.prems obtain u where "r = Inr u" by (cases r) auto
  with Cons r show ?case by simp
qed simp

lemma RuntimeValidateRule_ok:
  assumes "RuntimeValidateRule ad spec allowlist lims now = Ret (Inr ())"
  shows "validate_shape lims allowlist spec = Inr ()"
    and "\<exists>cols. validate_params ad lims spec cols now (validation_parameters spec) = Ret (Inr ())"
  using assms by (auto simp: RuntimeValidateRule_def split: sum.splits if_splits)

lemma normalize_columns: "map p_column (normalizeParameters spec) = map p_column (validation_parameters spec)"
  "map p_detector (normalizeParameters spec) = map p_detector (validation_parameters spec)"
  by (auto simp: normalizeParameters_def validation_parameters_def)

text \<open>The one panic of the validation: a robust z-score parameter without its configuration.\<close>

definition robust_without_config :: "RuleSpec \<Rightarrow> bool" where
  "robust_without_config spec = list_ex (\<lambda>p. d_type (p_detector p) = ''robust_zscore''
     \<and> d_robust_z (p_detector p) = None) (validation_parameters spec)"

lemma validate_param_panics:
  "panics (validate_param ad lims spec cols now p) \<Longrightarrow>
   d_type (p_detector p) = ''robust_zscore'' \<and> d_robust_z (p_detector p) = None"
  by (auto simp: validate_param_def Let_def split: if_splits option.splits)

lemma validate_params_panics:
  "panics (validate_params ad lims spec cols now ps) \<Longrightarrow>
   list_ex (\<lambda>p. d_type (p_detector p) = ''robust_zscore'' \<and> d_robust_z (p_detector p) = None) ps"
proof (induction ps)
  case (Cons p ps)
  show ?case
  proof (cases "validate_param ad lims spec cols now p")
    case (Ret r)
    with Cons show ?thesis by (cases r) auto
  next
    case (Panic m)
    then show ?thesis using validate_param_panics [of ad lims spec cols now p] by auto
  qed
qed simp

lemma RuntimeValidateRule_panics:
  "panics (RuntimeValidateRule ad spec allow lims now) \<Longrightarrow> robust_without_config spec"
  unfolding RuntimeValidateRule_def robust_without_config_def
  by (auto split: sum.splits if_splits intro: validate_params_panics)

end
