(* ===== verification/SchedRegistry.thy ===== *)
theory SchedRegistry
  imports Main SchedValidation
begin

text \<open>
  The job registry of \<open>internal/scheduler/scheduler.go\<close>: jobs live in a heap (a job is named
  by its index, as Go shares it by pointer), the registry maps a rule to its current job,
  and every job has a ticker goroutine. \<open>Schedule\<close>, \<open>Unschedule\<close>, \<open>Stop\<close> and \<open>ListJobs\<close> run
  under the registry's mutex, so each is one function. Closing a closed channel and a
  ticker with a non-positive interval are panics.
\<close>

record Job =
  j_rule :: string
  j_spec :: RuleSpec
  j_adapter :: "(nat \<Rightarrow> DbMcpAdapter) option"
  j_stop :: bool
  j_last_run :: "int option"

record JobRun =
  jr_rule :: string
  jr_job :: nat
  jr_spec :: RuleSpec
  jr_adapter :: "(nat \<Rightarrow> DbMcpAdapter) option"

text \<open>A ticker waits in its select, blocks sending a run, or has returned.\<close>

datatype ticker = TLoop | TSend | TDone

text \<open>A worker waits for a run, executes one (with the readings it started from), or has returned.\<close>

datatype worker = WIdle | WBusy JobRun int "int option" | WDone

record Registry =
  g_heap :: "Job list"
  g_jobs :: "(string \<times> nat) list"
  g_queue :: "JobRun list"
  g_cancelled :: bool
  g_tickers :: "ticker list"
  g_workers :: "worker list"
  g_limits :: Limits
  g_world :: World

definition queue_capacity :: nat where "queue_capacity = 128"

definition NewRegistry :: "Limits \<Rightarrow> nat \<Rightarrow> World \<Rightarrow> Registry" where
  "NewRegistry lims workers w = \<lparr> g_heap = [], g_jobs = [], g_queue = [], g_cancelled = False,
     g_tickers = [], g_workers = replicate workers WIdle, g_limits = lims, g_world = w \<rparr>"

definition close_stop :: "nat \<Rightarrow> Registry \<Rightarrow> Registry go" where
  "close_stop k g = (if k < length (g_heap g) \<and> \<not> j_stop (g_heap g ! k)
     then Ret (g \<lparr> g_heap := (g_heap g)[k := (g_heap g ! k) \<lparr> j_stop := True \<rparr>] \<rparr>)
     else Panic ''close of closed channel'')"

fun close_all :: "nat list \<Rightarrow> Registry \<Rightarrow> Registry go" where
  "close_all [] g = Ret g"
| "close_all (k # ks) g = go_bind (close_stop k g) (close_all ks)"

definition Stop :: "Registry \<Rightarrow> Registry go" where
  "Stop g = go_bind (close_all (map snd (g_jobs g)) (g \<lparr> g_cancelled := True \<rparr>))
     (\<lambda>g. Ret (g \<lparr> g_jobs := [] \<rparr>))"

definition delete_key :: "'k \<Rightarrow> ('k \<times> 'v) list \<Rightarrow> ('k \<times> 'v) list" where
  "delete_key k m = filter (\<lambda>kv. fst kv \<noteq> k) m"

text \<open>The job table is a Go map: the order of its entries means nothing.\<close>

definition last_run_of :: "RuleRecord res \<Rightarrow> int option" where
  "last_run_of r = (case r of Inl _ \<Rightarrow> None | Inr rec \<Rightarrow> rr_last_run rec)"

definition Schedule :: "string \<Rightarrow> RuleSpec \<Rightarrow> (nat \<Rightarrow> DbMcpAdapter) option \<Rightarrow> Registry \<Rightarrow> Registry go" where
  "Schedule ruleID spec adapter g =
     go_bind (case map_of (g_jobs g) ruleID of None \<Rightarrow> Ret g | Some k \<Rightarrow> close_stop k g)
      (\<lambda>g. let (rec, w) = GetRule ruleID (g_world g);
             job = \<lparr> j_rule = ruleID, j_spec = spec, j_adapter = adapter, j_stop = False,
                     j_last_run = last_run_of rec \<rparr>
        in if seconds (r_poll spec) \<le> 0 then Panic ''non-positive interval for NewTicker''
           else Ret (g \<lparr> g_world := w, g_heap := g_heap g @ [job],
             g_jobs := (ruleID, length (g_heap g)) # delete_key ruleID (g_jobs g), g_tickers := g_tickers g @ [TLoop] \<rparr>))"

definition Unschedule :: "string \<Rightarrow> Registry \<Rightarrow> Registry go" where
  "Unschedule ruleID g = (case map_of (g_jobs g) ruleID of None \<Rightarrow> Ret g
     | Some k \<Rightarrow> go_bind (close_stop k g) (\<lambda>g. Ret (g \<lparr> g_jobs := delete_key ruleID (g_jobs g) \<rparr>)))"

definition ListJobs :: "Registry \<Rightarrow> (string \<times> int) list" where
  "ListJobs g = map (\<lambda>(i, k). (i, r_poll (j_spec (g_heap g ! k)))) (g_jobs g)"

subsection \<open>The invariant\<close>

definition job_ok :: "Registry \<Rightarrow> string \<times> nat \<Rightarrow> bool" where
  "job_ok g e = (snd e < length (g_heap g) \<and> \<not> j_stop (g_heap g ! snd e) \<and> j_rule (g_heap g ! snd e) = fst e)"

definition run_ok :: "Registry \<Rightarrow> JobRun \<Rightarrow> bool" where
  "run_ok g r = (jr_job r < length (g_heap g) \<and> jr_rule r = j_rule (g_heap g ! jr_job r)
     \<and> jr_spec r = j_spec (g_heap g ! jr_job r))"

definition worker_run :: "worker \<Rightarrow> JobRun list" where
  "worker_run w = (case w of WBusy r _ _ \<Rightarrow> [r] | _ \<Rightarrow> [])"

definition runs_of :: "Registry \<Rightarrow> JobRun list" where
  "runs_of g = g_queue g @ concat (map worker_run (g_workers g))"

definition Inv :: "Registry \<Rightarrow> bool" where
  "Inv g = (distinct (map fst (g_jobs g)) \<and> list_all (job_ok g) (g_jobs g)
     \<and> (\<forall>k < length (g_heap g). j_stop (g_heap g ! k) \<or> (j_rule (g_heap g ! k), k) \<in> set (g_jobs g))
     \<and> length (g_tickers g) = length (g_heap g) \<and> length (g_queue g) \<le> queue_capacity
     \<and> list_all (run_ok g) (runs_of g) \<and> list_all (\<lambda>j. 0 < seconds (r_poll (j_spec j))) (g_heap g))"

text \<open>The abstract table: the specification each rule is scheduled with.\<close>

definition scheduled :: "Registry \<Rightarrow> string \<Rightarrow> RuleSpec option" where
  "scheduled g i = map_option (\<lambda>k. j_spec (g_heap g ! k)) (map_of (g_jobs g) i)"

definition live :: "Registry \<Rightarrow> string \<Rightarrow> nat \<Rightarrow> bool" where
  "live g i k = (k < length (g_heap g) \<and> \<not> j_stop (g_heap g ! k) \<and> j_rule (g_heap g ! k) = i)"

lemma Inv_job: "Inv g \<Longrightarrow> map_of (g_jobs g) i = Some k \<Longrightarrow> live g i k"
  by (auto simp: Inv_def list_all_iff job_ok_def live_def dest!: map_of_SomeD)

lemma Inv_live_iff: "Inv g \<Longrightarrow> live g i k \<longleftrightarrow> map_of (g_jobs g) i = Some k"
proof
  assume "Inv g" "live g i k"
  then show "map_of (g_jobs g) i = Some k"
    by (auto simp: Inv_def live_def intro!: map_of_is_SomeI)
qed (rule Inv_job)

lemma map_of_delete_key [simp]: "map_of (delete_key k m) k' = (if k' = k then None else map_of m k')"
  by (induction m) (auto simp: delete_key_def)

lemma delete_key_absent: "map_of m k = None \<Longrightarrow> delete_key k m = m"
  by (induction m) (auto simp: delete_key_def split: if_splits)

lemma set_delete_key: "set (delete_key k m) = {e \<in> set m. fst e \<noteq> k}"
  by (auto simp: delete_key_def)

lemma distinct_delete_key: "distinct (map fst m) \<Longrightarrow> distinct (map fst (delete_key k m))"
  by (simp add: delete_key_def distinct_map_filter)

subsection \<open>Preservation\<close>

text \<open>Stopping the current job of a rule and dropping its entry.\<close>

definition stop_job :: "nat \<Rightarrow> Registry \<Rightarrow> Registry" where
  "stop_job k g = g \<lparr> g_heap := (g_heap g)[k := (g_heap g ! k) \<lparr> j_stop := True \<rparr>] \<rparr>"

lemma stop_job_sel [simp]:
  "g_jobs (stop_job k g) = g_jobs g" "g_queue (stop_job k g) = g_queue g" "g_cancelled (stop_job k g) = g_cancelled g"
  "g_tickers (stop_job k g) = g_tickers g" "g_workers (stop_job k g) = g_workers g"
  "g_limits (stop_job k g) = g_limits g" "g_world (stop_job k g) = g_world g"
  "length (g_heap (stop_job k g)) = length (g_heap g)"
  by (simp_all add: stop_job_def)

lemma stop_job_nth: "i < length (g_heap g) \<Longrightarrow> g_heap (stop_job k g) ! i
    = (if i = k then (g_heap g ! k) \<lparr> j_stop := True \<rparr> else g_heap g ! i)"
  by (auto simp: stop_job_def nth_list_update)

lemma close_stop_live: "live g i k \<Longrightarrow> close_stop k g = Ret (stop_job k g)"
  by (simp add: live_def close_stop_def stop_job_def)

lemma runs_of_stop [simp]: "runs_of (stop_job k g) = runs_of g"
  by (simp add: runs_of_def)

lemma run_ok_stop [simp]: "run_ok (stop_job k g) r = run_ok g r"
  by (auto simp: run_ok_def stop_job_nth)

lemma heap_poll_stop: "list_all (\<lambda>j. 0 < seconds (r_poll (j_spec j))) (g_heap g) \<Longrightarrow>
    list_all (\<lambda>j. 0 < seconds (r_poll (j_spec j))) (g_heap (stop_job k g))"
  by (auto simp: list_all_length stop_job_nth)

lemma Inv_drop:
  assumes "Inv g" "map_of (g_jobs g) i = Some k"
  shows "Inv ((stop_job k g) \<lparr> g_jobs := delete_key i (g_jobs g) \<rparr>)" (is "Inv ?g")
proof -
  have lv: "live g i k" using assms by (rule Inv_job)
  have jobs: "job_ok ?g e" if "e \<in> set (delete_key i (g_jobs g))" for e
  proof -
    have e: "e \<in> set (g_jobs g)" "fst e \<noteq> i" using that by (auto simp: set_delete_key)
    then have "job_ok g e" using assms(1) by (auto simp: Inv_def list_all_iff)
    moreover from this have "snd e \<noteq> k" using lv e(2) by (auto simp: job_ok_def live_def)
    ultimately show ?thesis by (auto simp: job_ok_def stop_job_nth)
  qed
  have heap: "j_stop (g_heap ?g ! n) \<or> (j_rule (g_heap ?g ! n), n) \<in> set (delete_key i (g_jobs g))"
    if "n < length (g_heap g)" for n
    using that assms Inv_live_iff [of g i n]
    by (auto simp: Inv_def stop_job_nth set_delete_key live_def)
  have runs: "run_ok ?g r = run_ok g r" for r using run_ok_stop [of k g r] by (simp add: run_ok_def)
  have "runs_of ?g = runs_of g" by (simp add: runs_of_def)
  then show ?thesis using assms(1) jobs heap runs heap_poll_stop [of g k]
    by (auto simp: Inv_def list_all_iff distinct_delete_key)
qed

lemma Unschedule_Inv: "Inv g \<Longrightarrow> \<exists>g'. Unschedule i g = Ret g' \<and> Inv g' \<and>
    scheduled g' = (scheduled g)(i := None)"
proof (cases "map_of (g_jobs g) i")
  case None
  assume "Inv g"
  with None show ?thesis by (auto simp: Unschedule_def scheduled_def)
next
  case (Some k)
  assume inv: "Inv g"
  let ?g = "(stop_job k g) \<lparr> g_jobs := delete_key i (g_jobs g) \<rparr>"
  have u: "Unschedule i g = Ret ?g"
    using close_stop_live [OF Inv_job [OF inv Some]] Some by (simp add: Unschedule_def)
  have "scheduled ?g j = ((scheduled g)(i := None)) j" for j
  proof (cases "map_of (g_jobs g) j")
    case (Some n)
    then have "live g j n" using inv by (simp add: Inv_live_iff)
    then have "n < length (g_heap g)" by (simp add: live_def)
    with Some show ?thesis by (simp add: scheduled_def stop_job_nth)
  qed (simp add: scheduled_def)
  with u Inv_drop [OF inv Some] show ?thesis by blast
qed

text \<open>Adding a job for a rule that has none.\<close>

definition add_job :: "Job \<Rightarrow> World \<Rightarrow> Registry \<Rightarrow> Registry" where
  "add_job job w g = g \<lparr> g_world := w, g_heap := g_heap g @ [job],
     g_jobs := (j_rule job, length (g_heap g)) # delete_key (j_rule job) (g_jobs g), g_tickers := g_tickers g @ [TLoop] \<rparr>"

lemma Inv_add:
  assumes inv: "Inv g" and fresh: "map_of (g_jobs g) (j_rule job) = None"
    and job: "\<not> j_stop job" "0 < seconds (r_poll (j_spec job))"
  shows "Inv (add_job job w g)" (is "Inv ?g")
proof -
  have keys: "distinct (map fst (g_jobs g))" and jobs: "list_all (job_ok g) (g_jobs g)"
    using inv by (auto simp: Inv_def)
  have jobs': "g_jobs ?g = (j_rule job, length (g_heap g)) # g_jobs g"
    using fresh by (simp add: add_job_def delete_key_absent)
  have ok: "job_ok ?g e" if "e \<in> set (g_jobs ?g)" for e
    using that jobs job unfolding jobs' by (auto simp: job_ok_def add_job_def nth_append list_all_iff)
  have heap: "j_stop (g_heap ?g ! k) \<or> (j_rule (g_heap ?g ! k), k) \<in> set (g_jobs ?g)"
    if "k < length (g_heap ?g)" for k
    using that inv unfolding jobs' by (auto simp: Inv_def add_job_def nth_append less_Suc_eq)
  have runs: "run_ok ?g r" if "run_ok g r" for r
    using that by (auto simp: run_ok_def add_job_def nth_append)
  have "runs_of ?g = runs_of g" by (simp add: runs_of_def add_job_def)
  moreover have "distinct (map fst (g_jobs ?g))"
    using keys fresh unfolding jobs' by (auto simp: map_of_eq_None_iff)
  ultimately show ?thesis using inv ok heap runs job
    by (auto simp: Inv_def list_all_iff add_job_def)
qed

text \<open>\<open>Schedule\<close> is a drop of the current job followed by an addition.\<close>

definition drop_current :: "string \<Rightarrow> Registry \<Rightarrow> Registry" where
  "drop_current i g = (case map_of (g_jobs g) i of None \<Rightarrow> g
     | Some k \<Rightarrow> (stop_job k g) \<lparr> g_jobs := delete_key i (g_jobs g) \<rparr>)"

lemma Inv_drop_current: "Inv g \<Longrightarrow> Inv (drop_current i g)"
  by (auto simp: drop_current_def Inv_drop split: option.split)

lemma drop_current_sel [simp]:
  "map_of (g_jobs (drop_current i g)) i = None" "length (g_heap (drop_current i g)) = length (g_heap g)"
  "g_world (drop_current i g) = g_world g"
  by (auto simp: drop_current_def split: option.split)

definition new_job :: "string \<Rightarrow> RuleSpec \<Rightarrow> (nat \<Rightarrow> DbMcpAdapter) option \<Rightarrow> World \<Rightarrow> Job" where
  "new_job i spec adapter w = \<lparr> j_rule = i, j_spec = spec, j_adapter = adapter, j_stop = False,
     j_last_run = last_run_of (fst (GetRule i w)) \<rparr>"

lemma new_job_sel [simp]: "j_rule (new_job i spec ad w) = i" "j_spec (new_job i spec ad w) = spec"
  "\<not> j_stop (new_job i spec ad w)"
  by (simp_all add: new_job_def)

lemma delete_key_twice [simp]: "delete_key k (delete_key k m) = delete_key k m"
  by (simp add: delete_key_def)

lemma GetRule_pair: "GetRule i w = (fst (GetRule i w), tick w)"
  using lookup_world(1) [of i w] by (metis prod.collapse)

lemma Schedule_eq:
  assumes "Inv g" "0 < seconds (r_poll spec)"
  shows "Schedule i spec ad g = Ret (add_job (new_job i spec ad (g_world g)) (tick (g_world g)) (drop_current i g))"
proof (cases "map_of (g_jobs g) i")
  case None
  then show ?thesis using assms(2) GetRule_pair [of i "g_world g"]
    by (simp add: Schedule_def Let_def add_job_def new_job_def drop_current_def case_prod_unfold)
next
  case (Some k)
  then show ?thesis
    using assms(2) GetRule_pair [of i "g_world g"] close_stop_live [OF Inv_job [OF assms(1) Some]]
    by (simp add: Schedule_def Let_def add_job_def new_job_def drop_current_def case_prod_unfold)
qed

lemma scheduled_drop: "Inv g \<Longrightarrow> scheduled (drop_current i g) = (scheduled g)(i := None)"
proof (cases "map_of (g_jobs g) i")
  case (Some k)
  assume inv: "Inv g"
  have "scheduled (drop_current i g) j = ((scheduled g)(i := None)) j" for j
  proof (cases "map_of (g_jobs g) j")
    case s: (Some n)
    then have "live g j n" using inv by (simp add: Inv_live_iff)
    then have "n < length (g_heap g)" by (simp add: live_def)
    with s Some show ?thesis by (simp add: scheduled_def stop_job_nth drop_current_def)
  qed (use Some in \<open>simp add: scheduled_def drop_current_def\<close>)
  then show ?thesis by blast
qed (auto simp: drop_current_def scheduled_def)

lemma scheduled_add: "Inv g \<Longrightarrow> scheduled (add_job job w g) = (scheduled g)(j_rule job \<mapsto> j_spec job)"
proof (rule ext)
  fix i assume inv: "Inv g"
  show "scheduled (add_job job w g) i = ((scheduled g)(j_rule job \<mapsto> j_spec job)) i"
  proof (cases "map_of (g_jobs g) i")
    case (Some n)
    then have "live g i n" using inv by (simp add: Inv_live_iff)
    then have "n < length (g_heap g)" by (simp add: live_def)
    with Some show ?thesis by (simp add: scheduled_def add_job_def nth_append)
  qed (simp add: scheduled_def add_job_def)
qed

lemma Schedule_Inv:
  assumes "Inv g" "0 < seconds (r_poll spec)"
  shows "\<exists>g'. Schedule i spec ad g = Ret g' \<and> Inv g' \<and> scheduled g' = (scheduled g)(i \<mapsto> spec)"
proof -
  let ?h = "add_job (new_job i spec ad (g_world g)) (tick (g_world g)) (drop_current i g)"
  have "Inv ?h" using assms by (intro Inv_add Inv_drop_current) auto
  moreover have "scheduled ?h = (scheduled g)(i \<mapsto> spec)"
    using assms(1) by (simp add: scheduled_add Inv_drop_current scheduled_drop)
  ultimately show ?thesis using Schedule_eq [OF assms] by blast
qed

subsection \<open>Stopping the registry\<close>

lemma close_all_open:
  "distinct ks \<Longrightarrow> \<forall>k \<in> set ks. k < length (g_heap g) \<and> \<not> j_stop (g_heap g ! k) \<Longrightarrow>
   close_all ks g = Ret (fold stop_job ks g)"
proof (induction ks arbitrary: g)
  case (Cons k ks)
  then have "close_stop k g = Ret (stop_job k g)" by (simp add: close_stop_def stop_job_def)
  moreover have "\<forall>n \<in> set ks. n < length (g_heap (stop_job k g)) \<and> \<not> j_stop (g_heap (stop_job k g) ! n)"
    using Cons.prems by (auto simp: stop_job_nth)
  ultimately show ?case using Cons by simp
qed simp

lemma fold_stop_sel [simp]:
  "g_jobs (fold stop_job ks g) = g_jobs g" "g_queue (fold stop_job ks g) = g_queue g"
  "g_cancelled (fold stop_job ks g) = g_cancelled g" "g_tickers (fold stop_job ks g) = g_tickers g"
  "g_workers (fold stop_job ks g) = g_workers g" "length (g_heap (fold stop_job ks g)) = length (g_heap g)"
  by (induction ks arbitrary: g) simp_all

lemma fold_stop_nth: "i < length (g_heap g) \<Longrightarrow> g_heap (fold stop_job ks g) ! i
    = (if i \<in> set ks then (g_heap g ! i) \<lparr> j_stop := True \<rparr> else g_heap g ! i)"
proof (induction ks arbitrary: g)
  case (Cons k ks)
  then show ?case using Cons.IH [of "stop_job k g"] by (auto simp: stop_job_nth)
qed simp

lemma Inv_jobs_distinct: "Inv g \<Longrightarrow> distinct (map snd (g_jobs g))"
proof -
  assume inv: "Inv g"
  have "inj_on snd (set (g_jobs g))"
  proof (rule inj_onI)
    fix e e' assume e: "e \<in> set (g_jobs g)" "e' \<in> set (g_jobs g)" "snd e = snd e'"
    then have "job_ok g e" "job_ok g e'" using inv by (auto simp: Inv_def list_all_iff)
    with e(3) show "e = e'" by (simp add: job_ok_def prod_eq_iff)
  qed
  moreover have "distinct (g_jobs g)" using inv by (simp add: Inv_def distinct_map)
  ultimately show ?thesis by (simp add: distinct_map)
qed

lemma Stop_Inv: "Inv g \<Longrightarrow> \<exists>g'. Stop g = Ret g' \<and> Inv g' \<and> scheduled g' = Map.empty
    \<and> g_cancelled g' \<and> list_all j_stop (g_heap g')"
proof -
  assume inv: "Inv g"
  let ?c = "g \<lparr> g_cancelled := True \<rparr>" and ?ks = "map snd (g_jobs g)"
  define h where "h = fold stop_job ?ks ?c"
  have "\<forall>k \<in> set ?ks. k < length (g_heap ?c) \<and> \<not> j_stop (g_heap ?c ! k)"
    using inv by (auto simp: Inv_def list_all_iff job_ok_def)
  then have "close_all ?ks ?c = Ret h"
    unfolding h_def using Inv_jobs_distinct [OF inv] by (intro close_all_open)
  then have st: "Stop g = Ret (h \<lparr> g_jobs := [] \<rparr>)" by (simp add: Stop_def)
  have nth: "g_heap h ! i = (if i \<in> set ?ks then (g_heap g ! i) \<lparr> j_stop := True \<rparr> else g_heap g ! i)"
    if "i < length (g_heap g)" for i using that by (simp add: h_def fold_stop_nth)
  have len: "length (g_heap h) = length (g_heap g)" by (simp add: h_def)
  have stopped: "j_stop (g_heap h ! i)" if "i < length (g_heap g)" for i
    using that inv by (force simp: nth Inv_def)
  have runs: "runs_of (h \<lparr> g_jobs := [] \<rparr>) = runs_of g" by (simp add: runs_of_def h_def)
  have run: "run_ok (h \<lparr> g_jobs := [] \<rparr>) r = run_ok g r" for r
    by (auto simp: run_ok_def nth len)
  have "Inv (h \<lparr> g_jobs := [] \<rparr>)"
    using inv stopped unfolding Inv_def runs by (auto simp: run list_all_length len nth) (simp_all add: h_def)
  with st stopped show ?thesis
    by (auto simp: scheduled_def fun_eq_iff list_all_length len h_def)
qed

subsection \<open>The interface of a job table\<close>

text \<open>
  What the worker relies on: a table from rules to specifications under an invariant, where
  an insertion and a removal never fail and act as on a finite map. The lemmas are the laws
  a client uses; the interpretation shows that the registry provides them.
\<close>

locale job_table =
  fixes ok :: "'s \<Rightarrow> bool" and entry :: "'s \<Rightarrow> string \<Rightarrow> 'v option"
    and admissible :: "'v \<Rightarrow> bool"
    and put :: "string \<Rightarrow> 'v \<Rightarrow> 'a \<Rightarrow> 's \<Rightarrow> 's go" and remove :: "string \<Rightarrow> 's \<Rightarrow> 's go"
  assumes put_law: "ok s \<Longrightarrow> admissible v \<Longrightarrow>
      \<exists>s'. put k v a s = Ret s' \<and> ok s' \<and> entry s' = (entry s)(k \<mapsto> v)"
    and remove_law: "ok s \<Longrightarrow> \<exists>s'. remove k s = Ret s' \<and> ok s' \<and> entry s' = (entry s)(k := None)"
begin

lemma put_ret: "ok s \<Longrightarrow> admissible v \<Longrightarrow> put k v a s = Ret s' \<Longrightarrow> ok s' \<and> entry s' = (entry s)(k \<mapsto> v)"
  using put_law [of s v k a] by auto

lemma remove_ret: "ok s \<Longrightarrow> remove k s = Ret s' \<Longrightarrow> ok s' \<and> entry s' = (entry s)(k := None)"
  using remove_law [of s k] by auto

lemma put_safe: "ok s \<Longrightarrow> admissible v \<Longrightarrow> \<not> panics (put k v a s)"
  using put_law [of s v k a] by auto

lemma remove_safe: "ok s \<Longrightarrow> \<not> panics (remove k s)"
  using remove_law [of s k] by auto

lemma put_then_remove:
  "ok s \<Longrightarrow> admissible v \<Longrightarrow> go_bind (put k v a s) (remove k) = Ret t \<Longrightarrow> entry t = (entry s)(k := None)"
  using put_law [of s v k a] remove_ret by fastforce

lemma remove_twice: "ok s \<Longrightarrow> go_bind (remove k s) (remove k) = Ret t \<Longrightarrow> entry t = (entry s)(k := None)"
  using remove_law [of s k] remove_ret by fastforce

end

text \<open>A table that can also be emptied for good.\<close>

locale stoppable_table = job_table ok entry admissible put remove
  for ok :: "'s \<Rightarrow> bool" and entry :: "'s \<Rightarrow> string \<Rightarrow> 'v option" and admissible :: "'v \<Rightarrow> bool"
    and put :: "string \<Rightarrow> 'v \<Rightarrow> 'a \<Rightarrow> 's \<Rightarrow> 's go" and remove :: "string \<Rightarrow> 's \<Rightarrow> 's go" +
  fixes halt :: "'s \<Rightarrow> 's go"
  assumes halt_law: "ok s \<Longrightarrow> \<exists>s'. halt s = Ret s' \<and> ok s' \<and> entry s' = Map.empty"
begin

lemma halt_safe: "ok s \<Longrightarrow> \<not> panics (halt s)"
  using halt_law [of s] by auto

lemma halt_twice: "ok s \<Longrightarrow> \<exists>t. go_bind (halt s) halt = Ret t \<and> entry t = Map.empty"
  using halt_law [of s] halt_law by fastforce

end

definition schedulable :: "RuleSpec \<Rightarrow> bool" where
  "schedulable spec = (0 < seconds (r_poll spec))"

interpretation registry: stoppable_table Inv scheduled schedulable Schedule Unschedule Stop
proof unfold_locales
  fix g :: Registry and i spec and ad :: "(nat \<Rightarrow> DbMcpAdapter) option"
  show "Inv g \<Longrightarrow> schedulable spec \<Longrightarrow>
      \<exists>g'. Schedule i spec ad g = Ret g' \<and> Inv g' \<and> scheduled g' = (scheduled g)(i \<mapsto> spec)"
    unfolding schedulable_def by (rule Schedule_Inv)
  show "Inv g \<Longrightarrow> \<exists>g'. Unschedule i g = Ret g' \<and> Inv g' \<and> scheduled g' = (scheduled g)(i := None)"
    by (rule Unschedule_Inv)
  show "Inv g \<Longrightarrow> \<exists>g'. Stop g = Ret g' \<and> Inv g' \<and> scheduled g' = Map.empty"
    using Stop_Inv [of g] by blast
qed

end
