(* ===== verification/SchedMachine.thy ===== *)
theory SchedMachine
  imports Main SchedRegistry
begin

text \<open>
  The scheduler as a step relation: ticker goroutines (\<open>runTicker\<close>), worker goroutines
  (\<open>worker\<close>, \<open>execute\<close>) and the registry's operations interleave; every step is one action
  between two synchronisation points. A ticker's select picks any ready case, so it may tick
  after its stop channel is closed; once it has ticked it blocks until the queue has room.
  \<open>execute\<close> is split at its two ends: taking the run (with the readings of the clock and of
  \<open>lastRunAt\<close>) and finishing it. The world moves on its own: time passes and the other
  services change the tables.
\<close>

definition set_last_run :: "nat \<Rightarrow> int \<Rightarrow> Registry \<Rightarrow> Registry" where
  "set_last_run k t g = g \<lparr> g_heap := (g_heap g)[k := (g_heap g ! k) \<lparr> j_last_run := Some t \<rparr>] \<rparr>"

definition run_of :: "nat \<Rightarrow> Registry \<Rightarrow> JobRun" where
  "run_of k g = (let j = g_heap g ! k in
     \<lparr> jr_rule = j_rule j, jr_job = k, jr_spec = j_spec j, jr_adapter = j_adapter j \<rparr>)"

inductive step :: "Registry \<Rightarrow> Registry \<Rightarrow> bool" where
  tick: "i < length (g_tickers g) \<Longrightarrow> g_tickers g ! i = TLoop \<Longrightarrow>
    step g (g \<lparr> g_tickers := (g_tickers g)[i := TSend] \<rparr>)"
| send: "i < length (g_tickers g) \<Longrightarrow> g_tickers g ! i = TSend \<Longrightarrow> length (g_queue g) < queue_capacity \<Longrightarrow>
    step g (g \<lparr> g_queue := g_queue g @ [run_of i g], g_tickers := (g_tickers g)[i := TLoop] \<rparr>)"
| ticker_exit: "i < length (g_tickers g) \<Longrightarrow> g_tickers g ! i = TLoop \<Longrightarrow>
    j_stop (g_heap g ! i) \<or> g_cancelled g \<Longrightarrow>
    step g (g \<lparr> g_tickers := (g_tickers g)[i := TDone] \<rparr>)"
| take_run: "k < length (g_workers g) \<Longrightarrow> g_workers g ! k = WIdle \<Longrightarrow> g_queue g = r # q \<Longrightarrow>
    read_clock (g_world g) = (now, w) \<Longrightarrow>
    step g (g \<lparr> g_queue := q, g_world := w,
      g_workers := (g_workers g)[k := WBusy r now (j_last_run (g_heap g ! jr_job r))] \<rparr>)"
| finish_run: "k < length (g_workers g) \<Longrightarrow> g_workers g ! k = WBusy r now since \<Longrightarrow>
    execute_run (g_limits g) (jr_rule r) (jr_spec r) (jr_adapter r) since now (g_world g) = Ret (done_run, w) \<Longrightarrow>
    step g ((if done_run then set_last_run (jr_job r) now g else g)
      \<lparr> g_world := w, g_workers := (g_workers g)[k := WIdle] \<rparr>)"
| worker_exit: "k < length (g_workers g) \<Longrightarrow> g_workers g ! k = WIdle \<Longrightarrow> g_cancelled g \<Longrightarrow>
    step g (g \<lparr> g_workers := (g_workers g)[k := WDone] \<rparr>)"
| schedule: "schedulable spec \<Longrightarrow> Schedule i spec ad g = Ret g' \<Longrightarrow> step g g'"
| unschedule: "Unschedule i g = Ret g' \<Longrightarrow> step g g'"
| stop: "Stop g = Ret g' \<Longrightarrow> step g g'"
| world: "step g (g \<lparr> g_world := w \<rparr>)"

inductive reachable :: "Registry \<Rightarrow> bool" where
  start: "reachable (NewRegistry lims workers w)"
| more: "reachable g \<Longrightarrow> step g g' \<Longrightarrow> reachable g'"

inductive_cases step_cases: "step g g'"

subsection \<open>The invariant holds in every reachable state\<close>

lemma Inv_NewRegistry: "Inv (NewRegistry lims workers w)"
proof -
  have "runs_of (NewRegistry lims workers w) = []"
    by (simp add: runs_of_def NewRegistry_def worker_run_def)
  then show ?thesis by (simp add: Inv_def NewRegistry_def queue_capacity_def)
qed

text \<open>Changes that leave the jobs' rule, specification and stop channel alone.\<close>

definition same_jobs :: "Registry \<Rightarrow> Registry \<Rightarrow> bool" where
  "same_jobs g h = (length (g_heap h) = length (g_heap g) \<and> g_jobs h = g_jobs g
     \<and> (\<forall>i < length (g_heap g). j_stop (g_heap h ! i) = j_stop (g_heap g ! i)
        \<and> j_rule (g_heap h ! i) = j_rule (g_heap g ! i) \<and> j_spec (g_heap h ! i) = j_spec (g_heap g ! i)))"

lemma same_jobs_heap: "g_heap h = g_heap g \<Longrightarrow> g_jobs h = g_jobs g \<Longrightarrow> same_jobs g h"
  by (simp add: same_jobs_def)

lemma same_jobs_run: "same_jobs g h \<Longrightarrow> run_ok h r = run_ok g r"
  by (auto simp: run_ok_def same_jobs_def)

lemma Inv_same_jobs:
  assumes inv: "Inv g" and s: "same_jobs g h" and t: "length (g_tickers h) = length (g_tickers g)"
    and q: "length (g_queue h) \<le> queue_capacity" and runs: "\<forall>r \<in> set (runs_of h). run_ok g r"
  shows "Inv h"
proof -
  have len: "length (g_heap h) = length (g_heap g)" and jobs: "g_jobs h = g_jobs g"
    using s by (simp_all add: same_jobs_def)
  have job: "list_all (job_ok h) (g_jobs h)"
    using inv s by (auto simp: Inv_def list_all_iff job_ok_def same_jobs_def)
  have stopped: "j_stop (g_heap h ! k) \<or> (j_rule (g_heap h ! k), k) \<in> set (g_jobs h)"
    if "k < length (g_heap h)" for k
    using that inv s by (simp add: Inv_def same_jobs_def)
  have poll: "list_all (\<lambda>j. 0 < seconds (r_poll (j_spec j))) (g_heap h)"
    using inv s by (simp add: Inv_def same_jobs_def list_all_length)
  have "list_all (run_ok h) (runs_of h)"
    using runs same_jobs_run [OF s] by (simp add: list_all_iff)
  with inv job stopped poll t q len jobs show ?thesis by (simp add: Inv_def)
qed

lemma Inv_runs: "Inv g \<Longrightarrow> r \<in> set (runs_of g) \<Longrightarrow> run_ok g r"
  by (auto simp: Inv_def list_all_iff)

lemma Inv_fewer_runs:
  "Inv g \<Longrightarrow> same_jobs g h \<Longrightarrow> length (g_tickers h) = length (g_tickers g) \<Longrightarrow>
   length (g_queue h) \<le> length (g_queue g) \<Longrightarrow> set (runs_of h) \<subseteq> set (runs_of g) \<Longrightarrow> Inv h"
  by (rule Inv_same_jobs) (auto simp: Inv_def list_all_iff)

lemma Inv_tickers: "Inv g \<Longrightarrow> length (g_tickers g) = length (g_heap g)"
  by (simp add: Inv_def)

lemma run_of_ok: "i < length (g_heap g) \<Longrightarrow> run_ok g (run_of i g)"
  by (simp add: run_ok_def run_of_def Let_def)

lemma worker_runs_update:
  "set (concat (map worker_run (ws[k := w]))) \<subseteq> set (worker_run w) \<union> set (concat (map worker_run ws))"
  by (auto dest!: set_update_subset_insert [THEN subsetD])

lemma runs_update:
  assumes "g_workers h = (g_workers g)[k := w]" "set (g_queue h) \<union> set (worker_run w) \<subseteq> set (runs_of g)"
  shows "set (runs_of h) \<subseteq> set (runs_of g)"
  using assms(2) worker_runs_update [of "g_workers g" k w] unfolding runs_of_def set_append assms(1) by blast

lemma same_jobs_last_run: "same_jobs g (set_last_run k t g)"
  by (cases "k < length (g_heap g)") (auto simp: same_jobs_def set_last_run_def nth_list_update)

lemma Inv_set_last_run: "Inv g \<Longrightarrow> Inv (set_last_run k t g)"
  by (rule Inv_fewer_runs [OF _ same_jobs_last_run]) (simp_all add: set_last_run_def runs_of_def)

lemma step_Inv: "step g g' \<Longrightarrow> Inv g \<Longrightarrow> Inv g'"
proof (induction rule: step.induct)
  case (tick i g)
  then show ?case by (elim Inv_fewer_runs) (simp_all add: runs_of_def same_jobs_heap)
next
  case (send i g)
  then have i: "run_ok g (run_of i g)" using Inv_tickers [of g] by (intro run_of_ok) simp
  have runs: "\<forall>r \<in> set (runs_of g). run_ok g r" using send(4) by (simp add: Inv_runs)
  show ?case
  proof (rule Inv_same_jobs [OF send(4)])
    show "\<forall>r \<in> set (runs_of (g \<lparr> g_queue := g_queue g @ [run_of i g], g_tickers := (g_tickers g)[i := TLoop] \<rparr>)).
        run_ok g r"
      using runs i by (auto simp: runs_of_def)
  qed (use send(3) in \<open>simp_all add: same_jobs_heap\<close>)
next
  case (ticker_exit i g)
  then show ?case by (elim Inv_fewer_runs) (simp_all add: runs_of_def same_jobs_heap)
next
  case (take_run k g r q now w)
  let ?h = "g \<lparr> g_queue := q, g_world := w,
      g_workers := (g_workers g)[k := WBusy r now (j_last_run (g_heap g ! jr_job r))] \<rparr>"
  have "set (runs_of ?h) \<subseteq> set (runs_of g)"
    by (rule runs_update [of _ _ k "WBusy r now (j_last_run (g_heap g ! jr_job r))"])
      (auto simp: take_run(3) worker_run_def runs_of_def)
  then show ?case using take_run(3)
    by (intro Inv_fewer_runs [OF take_run(5)]) (simp_all add: same_jobs_heap)
next
  case (finish_run k g r now since done_run w)
  let ?g = "if done_run then set_last_run (jr_job r) now g else g"
  have i: "Inv ?g" using finish_run(4) by (simp add: Inv_set_last_run)
  have same: "g_workers ?g = g_workers g" by (simp add: set_last_run_def)
  have "set (runs_of (?g \<lparr> g_world := w, g_workers := (g_workers g)[k := WIdle] \<rparr>)) \<subseteq> set (runs_of ?g)"
    by (rule runs_update [of _ _ k WIdle]) (simp_all add: same worker_run_def, simp add: runs_of_def)
  then show ?case by (intro Inv_fewer_runs [OF i]) (simp_all add: same_jobs_heap)
next
  case (worker_exit k g)
  have "set (runs_of (g \<lparr> g_workers := (g_workers g)[k := WDone] \<rparr>)) \<subseteq> set (runs_of g)"
    by (rule runs_update [of _ _ k WDone]) (simp_all add: worker_run_def, simp add: runs_of_def)
  then show ?case by (intro Inv_fewer_runs [OF worker_exit(4)]) (simp_all add: same_jobs_heap)
next
  case (schedule spec i ad g g')
  then show ?case using registry.put_ret [of g spec i ad g'] by blast
next
  case (unschedule i g g')
  then show ?case using registry.remove_ret [of g i g'] by blast
next
  case (stop g g')
  then show ?case using Stop_Inv [of g] by auto
next
  case (world g w)
  then show ?case by (elim Inv_fewer_runs) (simp_all add: runs_of_def same_jobs_heap)
qed

lemma reachable_Inv: "reachable g \<Longrightarrow> Inv g"
  by (induction rule: reachable.induct) (auto intro: Inv_NewRegistry step_Inv)

end
