(* ===== verification/McpAdapter.thy ===== *)
theory McpAdapter
  imports Main SchedStore
begin

text \<open>
  The MCP adapters of the scheduler (\<open>internal/mcp\<close>): the two transports, the adapter that
  turns each operation into a JSON-RPC call, the configuration that builds adapters and the
  registry that finds one by database type. The peer behind a transport (an HTTP endpoint
  or a process) is a function from a request to a decoded JSON answer. \<open>json.Unmarshal\<close> of an
  object finds a field whatever the case of its key, keeps the zero value for a null and
  refuses a value of another type.
\<close>

subsection \<open>Decoding\<close>

definition json_field :: "string \<Rightarrow> (string \<times> goval) list \<Rightarrow> goval option" where
  "json_field name kvs = map_of (rev (map (\<lambda>(k, v). (to_lower k, v)) kvs)) (to_lower name)"

definition json_object :: "goval \<Rightarrow> (string \<times> goval) list res" where
  "json_object v = (case v of VMap kvs \<Rightarrow> Inr kvs | VNil \<Rightarrow> Inr []
     | _ \<Rightarrow> Inl ''json: cannot unmarshal value into Go struct'')"

definition json_string :: "goval \<Rightarrow> string res" where
  "json_string v = (case v of VStr s \<Rightarrow> Inr s | VNil \<Rightarrow> Inr []
     | _ \<Rightarrow> Inl ''json: cannot unmarshal value into Go value of type string'')"

definition json_list :: "(goval \<Rightarrow> 'a res) \<Rightarrow> goval \<Rightarrow> 'a list res" where
  "json_list f v = (case v of VNil \<Rightarrow> Inr []
     | VList vs \<Rightarrow> fold (\<lambda>x acc. case acc of Inl e \<Rightarrow> Inl e
         | Inr ys \<Rightarrow> (case f x of Inl e \<Rightarrow> Inl e | Inr y \<Rightarrow> Inr (ys @ [y]))) vs (Inr [])
     | _ \<Rightarrow> Inl ''json: cannot unmarshal value into Go value of type slice'')"

definition field_or :: "'a \<Rightarrow> (goval \<Rightarrow> 'a res) \<Rightarrow> string \<Rightarrow> (string \<times> goval) list \<Rightarrow> 'a res" where
  "field_or zero f name kvs = (case json_field name kvs of None \<Rightarrow> Inr zero | Some v \<Rightarrow> f v)"

definition decode_tables :: "goval \<Rightarrow> string list res" where
  "decode_tables v = (case json_object v of Inl e \<Rightarrow> Inl e
     | Inr kvs \<Rightarrow> field_or [] (json_list json_string) ''tables'' kvs)"

definition decode_column :: "goval \<Rightarrow> Column res" where
  "decode_column v = (case json_object v of Inl e \<Rightarrow> Inl e
     | Inr kvs \<Rightarrow> (case field_or [] json_string ''name'' kvs of Inl e \<Rightarrow> Inl e
        | Inr n \<Rightarrow> (case field_or [] json_string ''type'' kvs of Inl e \<Rightarrow> Inl e
            | Inr t \<Rightarrow> Inr \<lparr> col_name = n, col_type = t \<rparr>)))"

definition decode_columns :: "goval \<Rightarrow> Column list res" where
  "decode_columns v = (case json_object v of Inl e \<Rightarrow> Inl e
     | Inr kvs \<Rightarrow> field_or [] (json_list decode_column) ''columns'' kvs)"

definition decode_latest :: "goval \<Rightarrow> LatestValueResult res" where
  "decode_latest v = (case json_object v of Inl e \<Rightarrow> Inl e
     | Inr kvs \<Rightarrow> (case field_or [] json_string ''ts'' kvs of Inl e \<Rightarrow> Inl e
        | Inr ts \<Rightarrow> Inr \<lparr> lr_value = (case json_field ''value'' kvs of None \<Rightarrow> VNil | Some x \<Rightarrow> x), lr_ts = ts \<rparr>))"

definition decode_aggregate :: "goval \<Rightarrow> AggregateResult res" where
  "decode_aggregate v = (case json_object v of Inl e \<Rightarrow> Inl e
     | Inr kvs \<Rightarrow> (case field_or [] json_string ''ts_start'' kvs of Inl e \<Rightarrow> Inl e
        | Inr a \<Rightarrow> (case field_or [] json_string ''ts_end'' kvs of Inl e \<Rightarrow> Inl e
            | Inr b \<Rightarrow> Inr \<lparr> ar_value = (case json_field ''value'' kvs of None \<Rightarrow> VNil | Some x \<Rightarrow> x),
                ar_start = a, ar_end = b \<rparr>)))"

definition decode_rows :: "goval \<Rightarrow> row list res" where
  "decode_rows v = (case json_object v of Inl e \<Rightarrow> Inl e
     | Inr kvs \<Rightarrow> field_or [] (json_list json_object) ''rows'' kvs)"

subsection \<open>Encoding of the requests\<close>

definition clause_json :: "WhereClause \<Rightarrow> goval" where
  "clause_json c = VMap [(''column'', VStr (cl_column c)), (''op'', VStr (cl_op c)), (''value'', cl_value c)]"

definition where_json :: "WhereSpec option \<Rightarrow> goval" where
  "where_json w = (case w of None \<Rightarrow> VNil | Some x \<Rightarrow>
     VMap [(''type'', VStr (wh_type x)), (''clauses'', VList (map clause_json (wh_clauses x)))])"

definition latest_json :: "LatestValueRequest \<Rightarrow> goval" where
  "latest_json r = VMap [(''connectionRef'', VStr (lq_connection r)), (''table'', VStr (lq_table r)),
     (''valueColumn'', VStr (lq_value_column r)), (''timestampColumn'', VStr (lq_timestamp r)),
     (''where'', where_json (lq_where r))]"

definition aggregate_json :: "AggregateRequest \<Rightarrow> goval" where
  "aggregate_json r = VMap [(''connectionRef'', VStr (aq_connection r)), (''table'', VStr (aq_table r)),
     (''valueColumn'', VStr (aq_value_column r)), (''timestampColumn'', VStr (aq_timestamp r)),
     (''where'', where_json (aq_where r)), (''agg'', VStr (aq_agg r)), (''windowSeconds'', VInt (aq_window r))]"

definition fetch_json :: "FetchRecentRowsRequest \<Rightarrow> goval" where
  "fetch_json r = VMap [(''connectionRef'', VStr (fq_connection r)), (''table'', VStr (fq_table r)),
     (''columns'', VList (map VStr (fq_columns r))), (''timestampColumn'', VStr (fq_timestamp r)),
     (''where'', where_json (fq_where r)), (''since'', VStr (fq_since r)), (''limit'', VInt (fq_limit r))]"

subsection \<open>Transports and adapters\<close>

text \<open>The raw result of a call: \<open>None\<close> is an empty message, which \<open>json.Unmarshal\<close> refuses.\<close>

type_synonym transport = "string \<Rightarrow> goval \<Rightarrow> goval option res"

definition rpc_payload :: "string \<Rightarrow> goval \<Rightarrow> goval" where
  "rpc_payload meth params = VMap [(''jsonrpc'', VStr ''2.0''), (''id'', VInt 1),
     (''method'', VStr meth), (''params'', params)]"

definition http_transport :: "(goval \<Rightarrow> goval res) \<Rightarrow> transport" where
  "http_transport post meth params = (if \<not> json_ok (rpc_payload meth params) then Inl ''json: unsupported value''
     else case post (rpc_payload meth params) of Inl e \<Rightarrow> Inl e
     | Inr answer \<Rightarrow> (case json_object answer of Inl e \<Rightarrow> Inl e
         | Inr kvs \<Rightarrow> (case json_field ''error'' kvs of
             Some (VMap err) \<Rightarrow> (case field_or [] json_string ''message'' err of Inl e \<Rightarrow> Inl e | Inr m \<Rightarrow> Inl m)
           | Some VNil \<Rightarrow> Inr (json_field ''result'' kvs)
           | Some _ \<Rightarrow> Inl ''json: cannot unmarshal value into Go struct''
           | None \<Rightarrow> Inr (json_field ''result'' kvs))))"

definition stdio_transport :: "(goval \<Rightarrow> goval res) \<Rightarrow> transport" where
  "stdio_transport run meth params = (if \<not> json_ok (rpc_payload meth params) then Inl ''json: unsupported value''
     else case run (rpc_payload meth params) of Inl e \<Rightarrow> Inl e
     | Inr answer \<Rightarrow> (case json_object answer of Inl e \<Rightarrow> Inl e
         | Inr kvs \<Rightarrow> (case json_field ''error'' kvs of
             None \<Rightarrow> Inr (json_field ''result'' kvs) | Some VNil \<Rightarrow> Inr (json_field ''result'' kvs)
           | Some _ \<Rightarrow> Inl ''mcp error'')))"

definition call_decode :: "transport \<Rightarrow> (goval \<Rightarrow> 'a res) \<Rightarrow> string \<Rightarrow> goval \<Rightarrow> 'a res" where
  "call_decode tr dec meth params = (case tr meth params of Inl e \<Rightarrow> Inl e
     | Inr None \<Rightarrow> Inl ''unexpected end of JSON input'' | Inr (Some v) \<Rightarrow> dec v)"

definition all_capabilities :: Capabilities where
  "all_capabilities = \<lparr> cap_read_only = True, cap_aggregate = True, cap_introspection = True \<rparr>"

definition PostgresAdapter :: "transport \<Rightarrow> DbMcpAdapter" where
  "PostgresAdapter tr = \<lparr> ad_capabilities = all_capabilities,
     ad_list_tables = (\<lambda>conn. call_decode tr decode_tables ''db.list_tables'' (VMap [(''connectionRef'', VStr conn)])),
     ad_list_columns = (\<lambda>conn table. call_decode tr decode_columns ''db.list_columns''
       (VMap [(''connectionRef'', VStr conn), (''table'', VStr table)])),
     ad_latest = (\<lambda>r. call_decode tr decode_latest ''db.query_latest_value'' (latest_json r)),
     ad_aggregate = (\<lambda>r. call_decode tr decode_aggregate ''db.query_aggregate'' (aggregate_json r)),
     ad_fetch = (\<lambda>r. call_decode tr decode_rows ''db.fetch_recent_rows'' (fetch_json r)) \<rparr>"

definition MySQLAdapter :: "transport \<Rightarrow> DbMcpAdapter" where
  "MySQLAdapter tr = \<lparr> ad_capabilities = all_capabilities,
     ad_list_tables = (\<lambda>conn. call_decode tr decode_tables ''db.list_tables'' (VMap [(''connectionRef'', VStr conn)])),
     ad_list_columns = (\<lambda>conn table. call_decode tr decode_columns ''db.list_columns''
       (VMap [(''connectionRef'', VStr conn), (''table'', VStr table)])),
     ad_latest = (\<lambda>r. call_decode tr decode_latest ''db.query_latest_value'' (latest_json r)),
     ad_aggregate = (\<lambda>r. call_decode tr decode_aggregate ''db.query_aggregate'' (aggregate_json r)),
     ad_fetch = (\<lambda>r. call_decode tr decode_rows ''db.fetch_recent_rows'' (fetch_json r)) \<rparr>"

subsection \<open>Configuration and registry\<close>

type_synonym adapter_map = "(string \<times> (nat \<Rightarrow> DbMcpAdapter)) list"

record AdapterConfig =
  ac_type :: string
  ac_endpoint :: string
  ac_command :: string
  ac_args :: "string list"

text \<open>The peers: what an endpoint or a command answers at a given step.\<close>

record Peers =
  pe_http :: "string \<Rightarrow> nat \<Rightarrow> goval \<Rightarrow> goval res"
  pe_stdio :: "string \<Rightarrow> string list \<Rightarrow> nat \<Rightarrow> goval \<Rightarrow> goval res"

definition buildTransport :: "Peers \<Rightarrow> AdapterConfig \<Rightarrow> (nat \<Rightarrow> transport) res" where
  "buildTransport pe cfg = (let ty = to_lower (ac_type cfg) in
     if ty = ''http'' then
       (if ac_endpoint cfg = [] then Inl ''http endpoint required''
        else Inr (\<lambda>n. http_transport (pe_http pe (ac_endpoint cfg) n)))
     else if ty = ''stdio'' then
       (if ac_command cfg = [] then Inl ''stdio command required''
        else Inr (\<lambda>n. stdio_transport (pe_stdio pe (ac_command cfg) (ac_args cfg) n)))
     else Inl (''unsupported transport type '' @ ac_type cfg))"

definition buildAdapter :: "Peers \<Rightarrow> string \<Rightarrow> AdapterConfig \<Rightarrow> (nat \<Rightarrow> DbMcpAdapter) res" where
  "buildAdapter pe dbType cfg = (case buildTransport pe cfg of Inl e \<Rightarrow> Inl e
     | Inr tr \<Rightarrow> if dbType = ''mysql'' then Inr (\<lambda>n. MySQLAdapter (tr n))
         else if dbType = ''postgres'' \<or> dbType = ''postgresql'' then Inr (\<lambda>n. PostgresAdapter (tr n))
         else Inl (''unsupported adapter type '' @ dbType))"

definition NewAdapterRegistry :: "adapter_map \<Rightarrow> adapter_map" where
  "NewAdapterRegistry adapters = fold (\<lambda>(key, ad). mput (to_lower key) ad) adapters []"

definition AdapterFor :: "adapter_map option \<Rightarrow> string \<Rightarrow> (nat \<Rightarrow> DbMcpAdapter) res" where
  "AdapterFor reg dbType = (case reg of None \<Rightarrow> Inl ''adapter registry not configured''
     | Some m \<Rightarrow> (case mget m (to_lower dbType) of None \<Rightarrow> Inl (''no adapter configured for '' @ dbType)
         | Some ad \<Rightarrow> Inr ad))"

fun build_all :: "Peers \<Rightarrow> (string \<times> AdapterConfig) list \<Rightarrow> adapter_map \<Rightarrow> adapter_map res" where
  "build_all pe [] acc = Inr acc"
| "build_all pe ((dbType, cfg) # rest) acc = (case buildAdapter pe (to_lower dbType) cfg of Inl e \<Rightarrow> Inl e
     | Inr ad \<Rightarrow> build_all pe rest (mput (to_lower dbType) ad acc))"

definition BuildRegistry :: "Peers \<Rightarrow> (string \<times> AdapterConfig) list \<Rightarrow> adapter_map res" where
  "BuildRegistry pe cfgs = (case build_all pe cfgs [] of Inl e \<Rightarrow> Inl e | Inr m \<Rightarrow> Inr (NewAdapterRegistry m))"

text \<open>\<open>LoadConfig\<close> after the YAML was read: an empty adapter section is refused.\<close>

definition LoadConfig :: "(string \<times> AdapterConfig) list res \<Rightarrow> (string \<times> AdapterConfig) list res" where
  "LoadConfig parsed = (case parsed of Inl e \<Rightarrow> Inl e
     | Inr cfgs \<Rightarrow> if cfgs = [] then Inl ''no adapters configured'' else Inr cfgs)"

definition buildAdapterRegistry :: "Peers \<Rightarrow> string \<Rightarrow> (string \<Rightarrow> (string \<times> AdapterConfig) list res)
    \<Rightarrow> string \<Rightarrow> string \<Rightarrow> adapter_map res" where
  "buildAdapterRegistry pe configPath readYaml postgresEndpoint mysqlEndpoint =
     (if configPath \<noteq> [] then (case LoadConfig (readYaml configPath) of Inl e \<Rightarrow> Inl e
        | Inr cfgs \<Rightarrow> BuildRegistry pe cfgs)
      else let a1 = (if postgresEndpoint \<noteq> [] then
              mput ''postgres'' (\<lambda>n. PostgresAdapter (http_transport (pe_http pe postgresEndpoint n))) [] else []);
            a2 = (if mysqlEndpoint \<noteq> [] then
              mput ''mysql'' (\<lambda>n. MySQLAdapter (http_transport (pe_http pe mysqlEndpoint n))) a1 else a1)
        in if a2 = [] then Inl ''no MCP adapters configured'' else Inr (NewAdapterRegistry a2))"

subsection \<open>Facts\<close>

lemma NewAdapterRegistry_lookup_aux:
  "map_of (fold (\<lambda>(key, ad). mput (to_lower key) ad) xs acc) k
     = (case map_of (rev (map (\<lambda>(key, ad). (to_lower key, ad)) xs)) k of None \<Rightarrow> map_of acc k | Some v \<Rightarrow> Some v)"
  by (induction xs arbitrary: acc) (auto simp: map_add_def split: option.split)

lemma NewAdapterRegistry_lookup:
  "map_of (NewAdapterRegistry xs) k = map_of (rev (map (\<lambda>(key, ad). (to_lower key, ad)) xs)) k"
  by (simp add: NewAdapterRegistry_def NewAdapterRegistry_lookup_aux split: option.split)

lemma NewAdapterRegistry_distinct: "distinct (map fst (NewAdapterRegistry xs))"
proof -
  have "distinct (map fst acc) \<Longrightarrow> distinct (map fst (fold (\<lambda>(key, ad). mput (to_lower key) ad) xs acc))" for acc
    by (induction xs arbitrary: acc) auto
  then show ?thesis by (simp add: NewAdapterRegistry_def)
qed

lemma AdapterFor_cong: "to_lower a = to_lower b \<Longrightarrow>
    (case AdapterFor r a of Inl _ \<Rightarrow> None | Inr x \<Rightarrow> Some x) = (case AdapterFor r b of Inl _ \<Rightarrow> None | Inr x \<Rightarrow> Some x)"
  by (simp add: AdapterFor_def split: option.split)

subsection \<open>The test double\<close>

text \<open>An adapter that answers what it was given; an error hides the answer from every caller.\<close>

record MockAdapter =
  mk_tables :: "string list"
  mk_columns :: "(string \<times> Column list) list"
  mk_latest :: LatestValueResult
  mk_aggregate :: AggregateResult
  mk_rows :: "row list"
  mk_err :: "string option"

definition mock_answer :: "MockAdapter \<Rightarrow> 'a \<Rightarrow> 'a res" where
  "mock_answer m v = (case mk_err m of Some e \<Rightarrow> Inl e | None \<Rightarrow> Inr v)"

definition mock_adapter :: "MockAdapter \<Rightarrow> DbMcpAdapter" where
  "mock_adapter m = \<lparr> ad_capabilities = \<lparr> cap_read_only = True, cap_aggregate = True, cap_introspection = True \<rparr>,
     ad_list_tables = (\<lambda>_. mock_answer m (mk_tables m)),
     ad_list_columns = (\<lambda>_ table. mock_answer m (case mget (mk_columns m) table of None \<Rightarrow> [] | Some cs \<Rightarrow> cs)),
     ad_latest = (\<lambda>_. mock_answer m (mk_latest m)), ad_aggregate = (\<lambda>_. mock_answer m (mk_aggregate m)),
     ad_fetch = (\<lambda>_. mock_answer m (mk_rows m)) \<rparr>"

end
