(* ===== verification/SchedWorker.thy ===== *)
theory SchedWorker
  imports Main SchedMachine McpAdapter
begin

text \<open>
  The worker process (\<open>cmd/worker/main.go\<close>): the handling of one rule event, the
  reconciliation of all enabled rules, and the helpers that read the environment.
\<close>

definition set_world :: "World \<Rightarrow> Registry \<Rightarrow> Registry" where
  "set_world w g = g \<lparr> g_world := w \<rparr>"

definition mark_rule :: "string \<Rightarrow> string \<Rightarrow> string option \<Rightarrow> Registry \<Rightarrow> Registry" where
  "mark_rule i status err g = set_world (snd (UpdateRuleStatus i status err (g_world g))) g"

definition reject_rule :: "string \<Rightarrow> string \<Rightarrow> string \<Rightarrow> Registry \<Rightarrow> (unit res \<times> Registry) go" where
  "reject_rule i msg err g = go_bind (Unschedule i (mark_rule i ''INVALID'' (Some msg) g)) (\<lambda>g. Ret (Inl err, g))"

definition activate_rule :: "string \<Rightarrow> RuleSpec \<Rightarrow> (nat \<Rightarrow> DbMcpAdapter) \<Rightarrow> Registry \<Rightarrow> (unit res \<times> Registry) go" where
  "activate_rule i spec ad g = go_bind (Schedule i spec (Some ad) (mark_rule i ''ACTIVE'' None g)) (\<lambda>g. Ret (Inr (), g))"

definition processRule :: "adapter_map option \<Rightarrow> string list \<Rightarrow> string \<Rightarrow> Registry \<Rightarrow> (unit res \<times> Registry) go" where
  "processRule registry allowlist ruleID g = (let (rec, w1) = GetRule ruleID (g_world g); g1 = set_world w1 g in
     case rec of Inl e \<Rightarrow> Ret (Inl e, g1)
     | Inr r \<Rightarrow> if \<not> rr_enabled r then go_bind (Unschedule ruleID g1) (\<lambda>g. Ret (Inr (), g))
       else (case rr_spec r of
           None \<Rightarrow> Ret (Inl ''invalid rule json'', mark_rule ruleID ''INVALID'' (Some ''invalid rule json'') g1)
         | Some spec \<Rightarrow> (let (ct, w2) = GetConnectionType (r_connection spec) (g_world g1); g2 = set_world w2 g1 in
             case ct of Inl e \<Rightarrow> reject_rule ruleID ''connection not found'' e g2
             | Inr connType \<Rightarrow> (case AdapterFor registry connType of
                 Inl e \<Rightarrow> reject_rule ruleID e e g2
               | Inr ad \<Rightarrow> (let (now, w3) = read_clock (g_world g2); g3 = set_world w3 g2 in
                   go_bind (RuntimeValidateRule (ad (w_step (g_world g2))) spec allowlist (g_limits g) now)
                     (\<lambda>v. case v of Inl e \<Rightarrow> reject_rule ruleID e e g3
                        | Inr _ \<Rightarrow> activate_rule ruleID spec ad g3))))))"

fun process_all :: "adapter_map option \<Rightarrow> string list \<Rightarrow> string list \<Rightarrow> Registry \<Rightarrow> Registry go" where
  "process_all registry allowlist [] g = Ret g"
| "process_all registry allowlist (i # is) g =
     go_bind (processRule registry allowlist i g) (\<lambda>(_, g). process_all registry allowlist is g)"

definition reconcile :: "adapter_map option \<Rightarrow> string list \<Rightarrow> Registry \<Rightarrow> (unit res \<times> Registry) go" where
  "reconcile registry allowlist g = (let (rs, w) = ListEnabledRules (g_world g); g1 = set_world w g in
     case rs of Inl e \<Rightarrow> Ret (Inl e, g1)
     | Inr recs \<Rightarrow> go_bind (process_all registry allowlist (map rr_id recs) g1) (\<lambda>g. Ret (Inr (), g)))"

text \<open>The events of \<open>subscribeEvents\<close>: every subject runs the same handler.\<close>

datatype subject = RuleCreated | RuleUpdated | RuleEnabled | RuleDisabled | RuleDeleted

definition handle_event :: "subject \<Rightarrow> adapter_map option \<Rightarrow> string list \<Rightarrow> string \<Rightarrow> Registry \<Rightarrow> (unit res \<times> Registry) go" where
  "handle_event subj registry allowlist ruleID g = processRule registry allowlist ruleID g"

subsection \<open>Environment helpers\<close>

definition getenv :: "(string \<Rightarrow> string) \<Rightarrow> string \<Rightarrow> string \<Rightarrow> string" where
  "getenv env key fallback = (if env key = [] then fallback else env key)"

definition getenvInt :: "(string \<Rightarrow> string) \<Rightarrow> string \<Rightarrow> int \<Rightarrow> int" where
  "getenvInt env key fallback = (if env key = [] then fallback
     else case atoi (env key) of Some n \<Rightarrow> n | None \<Rightarrow> fallback)"

definition splitCSV :: "string \<Rightarrow> string list" where
  "splitCSV v = filter (\<lambda>p. p \<noteq> []) (map trim_space (split_on (CHR 0x2C) v))"

text \<open>\<open>adapterForConnection\<close> of the admin handlers.\<close>

definition adapterForConnection :: "adapter_map option \<Rightarrow> string \<Rightarrow> World \<Rightarrow> (nat \<Rightarrow> DbMcpAdapter) res \<times> World" where
  "adapterForConnection registry conn w = (if registry = None then (Inl ''adapter registry not configured'', w)
     else case GetConnectionType conn w of
       (Inl _, w') \<Rightarrow> (Inl ''connection not found'', w')
     | (Inr ct, w') \<Rightarrow> (case AdapterFor registry ct of Inl _ \<Rightarrow> (Inl ''adapter not configured'', w')
         | Inr ad \<Rightarrow> (Inr ad, w')))"

subsection \<open>What an event leaves behind\<close>

lemma Inv_set_world [simp]: "Inv (set_world w g) = Inv g"
proof -
  have "Inv (set_world w g)" if "Inv g" for g and w
    using that by (rule Inv_fewer_runs) (simp_all add: set_world_def same_jobs_heap runs_of_def)
  from this [of g w] this [of "set_world w g" "g_world g"] show ?thesis
    by (auto simp: set_world_def)
qed

lemma set_world_sel [simp]: "scheduled (set_world w g) = scheduled g" "g_world (set_world w g) = w"
  "g_limits (set_world w g) = g_limits g" "set_world w' (set_world w g) = set_world w' g"
  by (auto simp: set_world_def scheduled_def)

lemma mark_rule_sel [simp]: "Inv (mark_rule i st e g) = Inv g" "scheduled (mark_rule i st e g) = scheduled g"
  "g_limits (mark_rule i st e g) = g_limits g"
  by (simp_all add: mark_rule_def)

lemma reject_rule_ret: "Inv g \<Longrightarrow> \<exists>g'. reject_rule i m e g = Ret (Inl e, g') \<and> Inv g' \<and>
    scheduled g' = (scheduled g)(i := None)"
  using registry.remove_law [of "mark_rule i ''INVALID'' (Some m) g" i] by (auto simp: reject_rule_def)

lemma activate_rule_ret: "Inv g \<Longrightarrow> schedulable spec \<Longrightarrow> \<exists>g'. activate_rule i spec ad g = Ret (Inr (), g') \<and>
    Inv g' \<and> scheduled g' = (scheduled g)(i \<mapsto> spec)"
  using registry.put_law [of "mark_rule i ''ACTIVE'' None g" spec i "Some ad"] by (auto simp: activate_rule_def)

text \<open>Limits under which a validated poll interval makes a ticker.\<close>

definition sane_limits :: "Limits \<Rightarrow> bool" where
  "sane_limits lims = (1 \<le> li_min_poll lims \<and> li_max_poll lims \<le> 9223372036)"

lemma sane_DefaultLimits: "sane_limits DefaultLimits"
  by (simp add: sane_limits_def DefaultLimits_def)

lemma poll_schedulable: "sane_limits lims \<Longrightarrow> poll_in_limits lims spec \<Longrightarrow> schedulable spec"
  using seconds_eq [of "r_poll spec"] by (auto simp: schedulable_def sane_limits_def poll_in_limits_def)

lemma validated_schedulable:
  "RuntimeValidateRule ad spec allow lims now = Ret (Inr ()) \<Longrightarrow> sane_limits lims \<Longrightarrow> schedulable spec"
  using RuntimeValidateRule_ok(1) validate_shape_ok poll_schedulable by blast

text \<open>The table after an event, by what the database and the validation say.\<close>

definition table_after :: "RuleRecord res \<Rightarrow> string \<Rightarrow> (string \<Rightarrow> RuleSpec option) \<Rightarrow> unit res
    \<Rightarrow> (string \<Rightarrow> RuleSpec option) \<Rightarrow> bool" where
  "table_after rec i before result after = (case rec of
       Inl e \<Rightarrow> result = Inl e \<and> after = before
     | Inr r \<Rightarrow> if \<not> rr_enabled r then result = Inr () \<and> after = before(i := None)
       else (case rr_spec r of None \<Rightarrow> is_err result \<and> after = before
         | Some spec \<Rightarrow> (result = Inr () \<and> after = before(i \<mapsto> spec)) \<or> (is_err result \<and> after = before(i := None))))"

text \<open>The ways an event ends.\<close>

lemma ticks_sel [simp]: "w_db ((tick ^^ n) w) = w_db w" "w_up ((tick ^^ n) w) = w_up w"
  by (induction n) simp_all

lemma processRule_cases:
  assumes run: "processRule registry allow i g = Ret (result, g')"
  obtains (error) e where "fst (GetRule i (g_world g)) = Inl e" "result = Inl e" "g' = set_world (tick (g_world g)) g"
  | (disabled) r where "fst (GetRule i (g_world g)) = Inr r" "\<not> rr_enabled r" "result = Inr ()"
      "Unschedule i (set_world (tick (g_world g)) g) = Ret g'"
  | (bad_json) r where "fst (GetRule i (g_world g)) = Inr r" "rr_enabled r" "rr_spec r = None" "is_err result"
      "g' = mark_rule i ''INVALID'' (Some ''invalid rule json'') (set_world (tick (g_world g)) g)"
  | (rejected) r spec m e n where "fst (GetRule i (g_world g)) = Inr r" "rr_enabled r" "rr_spec r = Some spec"
      "reject_rule i m e (set_world ((tick ^^ n) (g_world g)) g) = Ret (result, g')"
  | (activated) r spec ad ad' now n where "fst (GetRule i (g_world g)) = Inr r" "rr_enabled r" "rr_spec r = Some spec"
      "RuntimeValidateRule ad' spec allow (g_limits g) now = Ret (Inr ())"
      "activate_rule i spec ad (set_world ((tick ^^ n) (g_world g)) g) = Ret (result, g')"
proof -
  have rec: "GetRule i (g_world g) = (fst (GetRule i (g_world g)), tick (g_world g))" by (simp add: prod_eq_iff)
  show ?thesis
  proof (cases "fst (GetRule i (g_world g))")
    case (Inl e)
    with run rec show ?thesis by (intro error) (auto simp: processRule_def)
  next
    case r: (Inr r)
    show ?thesis
    proof (cases "rr_enabled r")
      case False
      with run rec r have "result = Inr ()" "Unschedule i (set_world (tick (g_world g)) g) = Ret g'"
        by (cases "Unschedule i (set_world (tick (g_world g)) g)"; auto simp: processRule_def)+
      with r False show ?thesis by (intro disabled)
    next
      case en: True
      show ?thesis
      proof (cases "rr_spec r")
        case None
        with run rec r en show ?thesis by (intro bad_json) (auto simp: processRule_def)
      next
        case sp: (Some spec)
        have ct: "GetConnectionType (r_connection spec) (tick (g_world g))
            = (fst (GetConnectionType (r_connection spec) (tick (g_world g))), (tick ^^ 2) (g_world g))"
          by (simp add: prod_eq_iff numeral_2_eq_2)
        note d = rec r en sp ct
        show ?thesis
        proof (cases "fst (GetConnectionType (r_connection spec) (tick (g_world g)))")
          case (Inl e)
          with run d show ?thesis
            by (intro rejected [OF r en sp, of "''connection not found''" e 2]) (auto simp: processRule_def)
        next
          case c: (Inr connType)
          show ?thesis
          proof (cases "AdapterFor registry connType")
            case (Inl e)
            with run d c show ?thesis by (intro rejected [OF r en sp, of e e 2]) (auto simp: processRule_def)
          next
            case ad: (Inr ad)
            let ?w = "(tick ^^ 2) (g_world g)" and ?g3 = "set_world ((tick ^^ 3) (g_world g)) g"
            let ?v = "RuntimeValidateRule (ad (w_step ?w)) spec allow (g_limits g) (w_clock ?w (w_step ?w))"
            have w3: "read_clock ?w = (w_clock ?w (w_step ?w), (tick ^^ 3) (g_world g))"
              by (simp add: read_clock_def numeral_3_eq_3 numeral_2_eq_2)
            from run d c ad w3 obtain v where v: "?v = Ret v"
              and p: "(case v of Inl e \<Rightarrow> reject_rule i e e ?g3 | Inr _ \<Rightarrow> activate_rule i spec ad ?g3) = Ret (result, g')"
              by (cases ?v) (auto simp: processRule_def Let_def)
            show ?thesis
            proof (cases v)
              case (Inl e)
              with p show ?thesis by (intro rejected [OF r en sp, of e e 3]) simp
            next
              case (Inr u)
              with p v show ?thesis by (intro activated [OF r en sp, of "ad (w_step ?w)" "w_clock ?w (w_step ?w)" ad 3]) simp_all
            qed
          qed
        qed
      qed
    qed
  qed
qed

lemma processRule_table_aux:
  assumes inv: "Inv g" and lims: "sane_limits (g_limits g)"
    and run: "processRule registry allow i g = Ret (result, g')"
  shows "Inv g' \<and> table_after (fst (GetRule i (g_world g))) i (scheduled g) result (scheduled g')"
  using run
proof (cases rule: processRule_cases)
  case (disabled r)
  then show ?thesis using registry.remove_ret [OF _ disabled(4)] inv by (simp add: table_after_def)
next
  case (rejected r spec m e n)
  then show ?thesis using reject_rule_ret [of "set_world ((tick ^^ n) (g_world g)) g" i m e] inv
    by (auto simp: table_after_def)
next
  case (activated r spec ad ad' now n)
  then have "schedulable spec" using lims validated_schedulable by blast
  then show ?thesis using activated activate_rule_ret [of "set_world ((tick ^^ n) (g_world g)) g" spec i ad] inv
    by (auto simp: table_after_def)
qed (use inv in \<open>auto simp: table_after_def\<close>)

lemma processRule_panics:
  assumes inv: "Inv g" and lims: "sane_limits (g_limits g)"
    and p: "panics (processRule registry allow i g)"
  shows "\<exists>r spec. fst (GetRule i (g_world g)) = Inr r \<and> rr_spec r = Some spec \<and> robust_without_config spec"
proof -
  have rej: "\<not> panics (reject_rule i m e h)" if "Inv h" for m e h
    using reject_rule_ret [OF that, of i m e] by auto
  have act: "\<not> panics (activate_rule i spec ad h)" if "Inv h" "schedulable spec" for spec ad h
    using activate_rule_ret [OF that, of i ad] by auto
  have unsch: "\<not> panics (Unschedule i h)" if "Inv h" for h using that by (rule registry.remove_safe)
  obtain rec w1 where rec: "GetRule i (g_world g) = (rec, w1)" by force
  let ?g1 = "set_world w1 g"
  from p rec inv obtain r where r: "rec = Inr r" by (cases rec) (auto simp: processRule_def)
  from p rec r inv unsch [of ?g1] have en: "rr_enabled r"
    by (cases "rr_enabled r") (auto simp: processRule_def panics_bind)
  from p rec r en obtain spec where sp: "rr_spec r = Some spec"
    by (cases "rr_spec r") (auto simp: processRule_def)
  obtain ct w2 where ct: "GetConnectionType (r_connection spec) w1 = (ct, w2)" by force
  from p rec r en sp ct inv rej [of "set_world w2 g"] obtain connType where c: "ct = Inr connType"
    by (cases ct) (auto simp: processRule_def)
  from p rec r en sp ct c inv rej [of "set_world w2 g"] obtain ad where ad: "AdapterFor registry connType = Inr ad"
    by (cases "AdapterFor registry connType") (auto simp: processRule_def)
  obtain now w3 where w3: "read_clock w2 = (now, w3)" by force
  let ?v = "RuntimeValidateRule (ad (w_step w2)) spec allow (g_limits g) now"
  have "panics ?v"
  proof (rule ccontr)
    assume "\<not> panics ?v"
    then obtain v where v: "?v = Ret v" by (auto simp: not_panics_iff)
    have sched: "v = Inr () \<Longrightarrow> schedulable spec" using v lims by (intro validated_schedulable) auto
    from p rec r en sp ct c ad w3 v
    have "panics (case v of Inl e \<Rightarrow> reject_rule i e e (set_world w3 g)
        | Inr _ \<Rightarrow> activate_rule i spec ad (set_world w3 g))"
      by (simp add: processRule_def Let_def)
    then show False using rej act sched inv by (cases v) auto
  qed
  then show ?thesis using rec r sp RuntimeValidateRule_panics by auto
qed

text \<open>The status the event stores, when the database answers throughout.\<close>

lemma fst_GetRule: "w_up w (w_step w) \<Longrightarrow> fst (GetRule i w)
    = (case find_rule i (w_db w) of None \<Rightarrow> Inl ''not found'' | Some r \<Rightarrow> Inr r)"
  by (simp add: GetRule_def db_query_def split: option.split)

end
