(* ===== verification/DetectorProps.thy ===== *)
theory DetectorProps
  imports Main SchedSamples
begin

text \<open>
  The properties of the detectors and of the sample pipeline, over the definitions of
  SchedEval, SchedRules and SchedSamples, each with a witness where it has a hypothesis.
\<close>

text \<open>
  C16: \<open>EvaluateSpecLimit\<close> is its reference: an unconfigured mode is \<open>INVALID_CONFIG\<close> without
  a hit; otherwise the violations are the breached limits in order, and it is a hit with
  status \<open>VIOLATION\<close> exactly when there is one.
\<close>
theorem spec_limit_reference:
  "(dr_hit (EvaluateSpecLimit s spec), dr_status (EvaluateSpecLimit s spec), limits_of (EvaluateSpecLimit s spec))
    = (if limits_configured spec
       then (breached_limits s spec \<noteq> [], statusFromHit (breached_limits s spec \<noteq> []), breached_limits s spec)
       else (False, statusInvalidConfig, []))"
  using EvaluateSpecLimit_cases [of spec s]
  by (auto simp: extends_def limits_of_def statusFromHit_def split: if_splits)

text \<open>
  With a lower limit not above the upper one and a nonnegative tolerance, one sample never
  breaches both.
\<close>
theorem spec_limits_one_side:
  assumes "sl_spec spec = Some b" "sb_usl b = Some (Fin u)" "sb_lsl b = Some (Fin l)"
    and "is_f64 u" "is_f64 l" "l \<le> u" "limit_epsilon spec = Fin e" "0 \<le> e"
  shows "\<not> ((''USL'', Fin u) \<in> set (limits_of (EvaluateSpecLimit s spec))
      \<and> (''LSL'', Fin l) \<in> set (limits_of (EvaluateSpecLimit s spec)))"
proof
  assume b: "(''USL'', Fin u) \<in> set (limits_of (EvaluateSpecLimit s spec))
      \<and> (''LSL'', Fin l) \<in> set (limits_of (EvaluateSpecLimit s spec))"
  then have conf: "limits_configured spec"
    using EvaluateSpecLimit_cases [of spec s] by (auto simp: limits_of_def split: if_splits)
  then have "limits_of (EvaluateSpecLimit s spec) = breached_limits s spec"
    using EvaluateSpecLimit_cases [of spec s] by (auto simp: extends_def limits_of_def)
  with b have "fgt (s_value s) (fadd (Fin u) (Fin e))" "flt (s_value s) (fsub (Fin l) (Fin e))"
    using assms by (auto simp: breached_limits_def beyond_def spec_bounds_def control_bounds_def
        split: if_splits option.splits)
  moreover have "Fin l \<le> Fin u" using assms(6) by simp
  moreover have "Fin u \<le> fadd (Fin u) (Fin e)"
    using assms(4,8) by (intro limits_ordered(2)) simp_all
  moreover have "fsub (Fin l) (Fin e) \<le> Fin l"
    using assms(5,8) by (intro limits_ordered(1)) simp_all
  ultimately show False using limits_not_crossed by blast
qed

definition sample_at :: "int \<Rightarrow> rat \<Rightarrow> Sample" where
  "sample_at t x = \<lparr> s_ts = t, s_value = Fin x, s_subgroup = [] \<rparr>"

definition limits_example :: SpecLimitSpec where
  "limits_example = \<lparr> sl_spec = Some \<lparr> sb_usl = Some (Fin 5), sb_lsl = Some (Fin 2) \<rparr>,
     sl_control = None, sl_mode = ''spec'', sl_epsilon = None \<rparr>"

lemma spec_limits_one_side_witness:
  "\<not> ((''USL'', Fin 5) \<in> set (limits_of (EvaluateSpecLimit (sample_at 1 7) limits_example))
      \<and> (''LSL'', Fin 2) \<in> set (limits_of (EvaluateSpecLimit (sample_at 1 7) limits_example)))"
  by (rule spec_limits_one_side [where b = "\<lparr> sb_usl = Some (Fin 5), sb_lsl = Some (Fin 2) \<rparr>" and e = 0])
    (use is_f64_of_int [of 5] is_f64_of_int [of 2] in \<open>simp_all add: limits_example_def limit_epsilon_def\<close>)

text \<open>
  A baseline that is constant has median absolute deviation 0, and a robust z-score over
  it hits exactly when the latest value is farther than the tolerance, with severity
  \<open>high\<close> and an infinite score.
\<close>
theorem robust_z_constant_baseline:
  assumes "median_bound c" "samples \<noteq> []" "\<forall>v \<in> set samples. v = Fin c"
  shows "dr_mad (EvaluateRobustZ samples latest zw zc) = Some f0
    \<and> (dr_hit (EvaluateRobustZ samples latest zw zc)
        \<longleftrightarrow> \<not> fle (fabs (fsub latest (Fin c))) defaultEpsilon)
    \<and> (dr_hit (EvaluateRobustZ samples latest zw zc)
        \<longrightarrow> dr_severity (EvaluateRobustZ samples latest zw zc) = ''high''
          \<and> dr_score (EvaluateRobustZ samples latest zw zc) = Some PInf)"
  using Median_const [OF assms] MAD_const [OF assms(3)]
  by (simp add: EvaluateRobustZ_def Let_def feq_def)

lemma robust_z_constant_baseline_witness:
  "dr_mad (EvaluateRobustZ [Fin 3, Fin 3] (Fin 4) (Fin 3) (Fin 5)) = Some f0"
proof -
  have "(6::rat) < 2 ^ 53" by simp
  then have "6 < overflow_bound" using overflow_bound_gt by (rule less_le_trans)
  then have "median_bound 3" using is_f64_of_int [of 3] by (simp add: median_bound_def)
  from robust_z_constant_baseline [OF this, of "[Fin 3, Fin 3]" "Fin 4" "Fin 3" "Fin 5"]
  show ?thesis by simp
qed

text \<open>
  With warning at most critical, a robust z-score over a spread baseline hits exactly when
  the absolute score reaches the warning level, and is \<open>high\<close> exactly when it reaches the
  critical one.
\<close>
theorem robust_z_levels:
  assumes "\<not> feq (MAD samples (Median samples)) f0" "fle zw zc"
  shows "(dr_hit (EvaluateRobustZ samples latest zw zc) \<longleftrightarrow>
      (\<exists>z. dr_score (EvaluateRobustZ samples latest zw zc) = Some z \<and> fle zw (fabs z)))
    \<and> (dr_severity (EvaluateRobustZ samples latest zw zc) = ''high'' \<longleftrightarrow>
      (\<exists>z. dr_score (EvaluateRobustZ samples latest zw zc) = Some z \<and> fle zc (fabs z)))
    \<and> (dr_hit (EvaluateRobustZ samples latest zw zc) \<longleftrightarrow>
      dr_status (EvaluateRobustZ samples latest zw zc) = statusViolation)"
proof -
  have trans: "fle zc x \<Longrightarrow> fle zw x" for x
    using assms(2) by (auto simp: fle_def)
  show ?thesis using assms(1) trans by (auto simp: EvaluateRobustZ_def Let_def)
qed

lemma median_mad_example: "Median [Fin 1, Fin 3, Fin 5] = Fin 3" "MAD [Fin 1, Fin 3, Fin 5] (Fin 3) = Fin 2"
  by (simp_all add: Median_def MAD_def fsub_def float_simps sort_key_def)

lemma robust_z_levels_witness:
  "dr_hit (EvaluateRobustZ [Fin 1, Fin 3, Fin 5] (Fin 9) (Fin 1) (Fin 2)) \<longleftrightarrow>
    dr_status (EvaluateRobustZ [Fin 1, Fin 3, Fin 5] (Fin 9) (Fin 1) (Fin 2)) = statusViolation"
proof -
  have "\<not> feq (MAD [Fin 1, Fin 3, Fin 5] (Median [Fin 1, Fin 3, Fin 5])) f0" "fle (Fin 1) (Fin 2)"
    by (simp_all add: median_mad_example feq_def fle_def)
  from robust_z_levels [OF this, of "Fin 9"] show ?thesis by blast
qed

text \<open>
  The missing-data detector compares exactly: although the age of the latest row saturates
  and the limit wraps in Go, for every gap up to 9223372035 seconds it hits exactly when more
  nanoseconds than the gap have passed.
\<close>
theorem missing_data_exact:
  assumes "0 \<le> gap" "gap \<le> 9223372035"
  shows "dr_hit (EvaluateMissingData latest gap now) \<longleftrightarrow> gap * second_ns < now - latest"
proof -
  have "seconds gap = gap * second_ns" using assms by (intro seconds_eq) simp
  moreover have "int64 (gap * second_ns)" "gap * second_ns < 2 ^ 63 - 1" using assms by (auto simp: int64_def)
  ultimately show ?thesis by (simp add: EvaluateMissingData_def Let_def time_sub_gt_iff)
qed

lemma missing_data_exact_witness:
  "dr_hit (EvaluateMissingData 0 60 100000000000) \<longleftrightarrow> 60 * second_ns < 100000000000 - 0"
  by (rule missing_data_exact) simp_all

text \<open>
  A Shewhart chart over samples with a finite mean and a nonnegative multiplier reports at
  most one violation: no value is above the upper and below the lower limit at once.
\<close>
theorem shewhart_one_violation:
  assumes "EvaluateShewhart samples spec k = Ret r" "Mean (extractValues samples) = Fin m" "nonneg k"
    and "\<forall>s \<in> set samples. s_value s \<noteq> NaN" "int (length samples) < 2 ^ 53"
  shows "length (dr_violations r) \<le> 1"
proof -
  let ?v = "extractValues samples" and ?p = "sh_population spec"
  have m: "is_f64 m" using wf64_Mean [of ?v] assms(2) by (simp add: wf64_def)
  have "nonneg (StdDev ?v ?p)"
    using assms(2,4,5) by (intro StdDev_nonneg) (auto simp: extractValues_def)
  then have d: "nonneg (fmul k (StdDev ?v ?p)) \<or> fmul k (StdDev ?v ?p) = NaN"
    using assms(3) by (rule StdDev_rep_nonneg)
  have no: "\<not> (fgt x (fadd (Fin m) d) \<and> flt x (fsub (Fin m) d))" if "nonneg d \<or> d = NaN" for x d
  proof (cases "d = NaN")
    case False
    with that have "nonneg d" by simp
    from limits_not_crossed [OF limits_ordered(1) [OF m this] order_refl limits_ordered(2) [OF m this]]
    show ?thesis .
  qed (simp add: flt_def)
  show ?thesis
    using assms(1) no [OF d] unfolding EvaluateShewhart_def shewhart_limits_def
    by (auto simp: Let_def assms(2) shewhart_hit_def split: if_splits)
qed

definition shewhart_example :: ShewhartSpec where
  "shewhart_example = \<lparr> sh_baseline = \<lparr> bl_last_n = None, bl_time_range = None \<rparr>, sh_sigma = Fin 3,
     sh_min_n = 2, sh_population = True \<rparr>"

lemma shewhart_one_violation_witness:
  "\<exists>r. EvaluateShewhart [sample_at 1 4, sample_at 2 4] shewhart_example (Fin 3) = Ret r
    \<and> length (dr_violations r) \<le> 1"
proof -
  let ?e = "EvaluateShewhart [sample_at 1 4, sample_at 2 4] shewhart_example (Fin 3)"
  have m: "Mean (extractValues [sample_at 1 4, sample_at 2 4]) = Fin 4"
    by (simp add: extractValues_def sample_at_def Mean_def f_len_def f_of_int_def float_simps)
  obtain r where r: "?e = Ret r"
    by (cases ?e) (auto simp: EvaluateShewhart_def shewhart_example_def extractValues_def Let_def
        shewhart_limits_def split: if_splits)
  from shewhart_one_violation [OF r m] have "length (dr_violations r) \<le> 1"
    by (simp add: sample_at_def)
  with r show ?thesis by blast
qed

text \<open>
  C18: \<open>EvaluateTrend6\<close> over a positive window that the samples fill hits exactly when the last
  \<open>w\<close> values rise strictly, each by more than the tolerance, or fall so.
\<close>
theorem trend_window_reference:
  assumes "0 < w" "w \<le> length samples" "tn_window spec = int w"
  shows "\<exists>r. EvaluateTrend6 samples spec = Ret r \<and>
    (dr_hit r \<longleftrightarrow>
      (\<forall>i. length samples - w \<le> i \<and> i + 1 < length samples \<longrightarrow>
         fgt (s_value (samples ! (i + 1))) (fadd (s_value (samples ! i)) (tn_epsilon spec))) \<or>
      (\<forall>i. length samples - w \<le> i \<and> i + 1 < length samples \<longrightarrow>
         flt (s_value (samples ! (i + 1))) (fsub (s_value (samples ! i)) (tn_epsilon spec))))"
proof -
  define n where "n = length samples - w"
  let ?seg = "drop n samples"
  have seg: "all_steps P ?seg \<longleftrightarrow>
      (\<forall>i. n \<le> i \<and> i + 1 < length samples \<longrightarrow> P (s_value (samples ! i)) (s_value (samples ! (i + 1))))" for P
  proof
    assume a: "all_steps P ?seg"
    show "\<forall>i. n \<le> i \<and> i + 1 < length samples \<longrightarrow> P (s_value (samples ! i)) (s_value (samples ! (i + 1)))"
    proof (intro allI impI)
      fix i assume i: "n \<le> i \<and> i + 1 < length samples"
      then have "i - n + 1 < length ?seg" by auto
      then have "P (s_value (?seg ! (i - n))) (s_value (?seg ! (i - n + 1)))"
        using a by (simp add: all_steps_nth)
      then show "P (s_value (samples ! i)) (s_value (samples ! (i + 1)))" using i by simp
    qed
  next
    assume a: "\<forall>i. n \<le> i \<and> i + 1 < length samples \<longrightarrow> P (s_value (samples ! i)) (s_value (samples ! (i + 1)))"
    show "all_steps P ?seg" unfolding all_steps_nth
      using a by (auto simp: nth_drop algebra_simps dest: spec [of _ "n + i" for i])
  qed
  have "\<exists>r. EvaluateTrend6 samples spec = Ret r \<and>
      (dr_hit r \<longleftrightarrow> all_steps (\<lambda>x y. fgt y (fadd x (tn_epsilon spec))) ?seg
        \<or> all_steps (\<lambda>x y. flt y (fsub x (tn_epsilon spec))) ?seg)"
    using assms by (auto simp: EvaluateTrend6_def Let_def n_def)
  then show ?thesis unfolding seg by (simp add: n_def)
qed

definition trend_example :: TrendSpec where
  "trend_example = \<lparr> tn_window = 3, tn_epsilon = f0, tn_consecutive = False \<rparr>"

lemma trend_window_reference_witness:
  "\<exists>r. EvaluateTrend6 [sample_at 1 1, sample_at 2 2, sample_at 3 3] trend_example = Ret r"
  using trend_window_reference [of 3 "[sample_at 1 1, sample_at 2 2, sample_at 3 3]" trend_example]
  by (auto simp: trend_example_def)

text \<open>
  \<open>EvaluateTrend6\<close> panics exactly for a negative window; a window of one point is always a
  violation as soon as there is a sample.
\<close>
theorem trend_panics_iff:
  "(panics (EvaluateTrend6 samples spec) \<longleftrightarrow> tn_window spec < 0)
    \<and> (panics (EvaluateTrend6 [s] (spec \<lparr> tn_window := 1 \<rparr>)) \<longleftrightarrow> False)
    \<and> ret_all dr_hit (EvaluateTrend6 [s] (spec \<lparr> tn_window := 1 \<rparr>))"
  by (auto simp: EvaluateTrend6_def Let_def defaultTrendWindowSize_def)

text \<open>
  The results of the chart, trend, limit and projection detectors: hit, status \<open>VIOLATION\<close> and
  a nonempty list of violations go together.
\<close>
theorem detector_results_consistent:
  "consistent (EvaluateSpecLimit s sl) \<and> ret_all consistent (EvaluateShewhart samples sh k)
    \<and> ret_all consistent (EvaluateTrend6 samples tn) \<and> ret_all consistent (EvaluateRangeChart groups rc)
    \<and> consistent (EvaluateTPA samples tp)"
  by (simp add: EvaluateSpecLimit_consistent EvaluateShewhart_consistent EvaluateTrend6_consistent
      EvaluateRangeChart_consistent EvaluateTPA_consistent)

text \<open>
  \<open>groupConsecutive\<close> cuts the samples into blocks of exactly the size, in order, without
  overlap, leaving out only an incomplete tail.
\<close>
theorem group_consecutive_blocks:
  assumes "0 < n"
  shows "concat (groupConsecutive samples (int n)) = take (length samples div n * n) samples
    \<and> (\<forall>g \<in> set (groupConsecutive samples (int n)). length g = n)"
  using group_from_concat [of "int n" 0 samples] assms groupConsecutive_sizes [of _ samples "int n"]
  by (auto simp: groupConsecutive_def)

lemma group_consecutive_blocks_witness:
  "concat (groupConsecutive [sample_at 1 1, sample_at 2 2, sample_at 3 3] (int 2)) = [sample_at 1 1, sample_at 2 2]"
  using group_consecutive_blocks [of 2 "[sample_at 1 1, sample_at 2 2, sample_at 3 3]"] by simp

lemma group_by_subgroup_reference_aux:
  "groupBySubgroup samples (int n) = Ret (map (\<lambda>k. take n (filter (\<lambda>s. s_subgroup s = k) samples))
     (filter (\<lambda>k. n \<le> length (filter (\<lambda>s. s_subgroup s = k) samples))
       (sorted_list_of_set {k. k \<noteq> [] \<and> (\<exists>s \<in> set samples. s_subgroup s = k)})))"
proof -
  let ?K = "{k. k \<noteq> [] \<and> (\<exists>s \<in> set samples. s_subgroup s = k)}"
  let ?of = "\<lambda>k. filter (\<lambda>s. s_subgroup s = k) samples"
  note keys = group_samples_keys [of samples]
  have order: "sort (map fst (group_samples samples)) = sorted_list_of_set ?K"
    using keys sorted_list_of_set_sort_remdups [of "map fst (group_samples samples)"]
    by (simp add: distinct_remdups_id)
  have look: "the (map_of (group_samples samples) k) = ?of k" if "k \<in> ?K" for k
  proof -
    have "?of k \<noteq> []" using that by (auto simp: filter_empty_conv)
    then show ?thesis using that group_samples_lookup [of k samples] by (simp add: Let_def)
  qed
  have fin: "finite ?K" using keys by (metis finite_imageI finite_set)
  have vals: "map (\<lambda>k. the (map_of (group_samples samples) k)) (sorted_list_of_set ?K)
      = map ?of (sorted_list_of_set ?K)"
    using look fin by (intro map_cong) auto
  show ?thesis unfolding groupBySubgroup_def Let_def order vals
    by (simp add: filter_map o_def not_less)
qed

text \<open>
  \<open>groupBySubgroup\<close> with a nonnegative size keeps, for every subgroup name in increasing
  order that has enough samples, its first \<open>n\<close> samples in their order.
\<close>
theorem group_by_subgroup_reference:
  "groupBySubgroup samples (int n) = Ret (map (\<lambda>k. take n (filter (\<lambda>s. s_subgroup s = k) samples))
     (filter (\<lambda>k. n \<le> length (filter (\<lambda>s. s_subgroup s = k) samples))
       (sorted_list_of_set {k. k \<noteq> [] \<and> (\<exists>s \<in> set samples. s_subgroup s = k)})))"
  by (rule group_by_subgroup_reference_aux)

text \<open>
  The bound a fetch sends is the start of the window cut to its second: it reads back as an
  instant at most the start and less than a second before it, so no row of the window is
  lost, and rows of the second in which the last run began are fetched again.
\<close>
theorem fetch_since_window:
  assumes "0 \<le> since" "since < rfc3339_end"
  shows "\<exists>t. parse_rfc3339 (fq_since (fetch_request spec param cols since limit g)) = Some t
    \<and> t \<le> since \<and> since < t + second_ns"
  using parse_format [OF assms] by (simp add: fetch_request_def)

lemma rfc3339_end_large: "10 ^ 20 < rfc3339_end"
  by (simp add: rfc3339_end_def year_start_def)

lemma fetch_since_window_witness:
  "\<exists>t. parse_rfc3339 (fq_since (fetch_request empty_rule
      \<lparr> p_name = [], p_column = ''v'', p_detector = empty_detector \<rparr> [] 1500000000 10 [])) = Some t
    \<and> t \<le> 1500000000 \<and> 1500000000 < t + second_ns"
  by (rule fetch_since_window) (use rfc3339_end_large in simp_all)

text \<open>
  Rows that the database returns newest first become samples in time order, and every
  sample has a finite value.
\<close>
theorem fetch_samples_in_time_order:
  assumes "ad_fetch ad (fetch_request spec param cols since limit g) = Inr rows"
    and "sorted_wrt (\<lambda>a b. s_ts b \<le> s_ts a)
      (List.map_filter (sample_of_row (p_column param) (so_timestamp (r_source spec)) g) rows)"
  shows "\<exists>ss. fetchSamples (Some ad) spec param cols since limit g = Inr ss \<and> sorted (map s_ts ss)
    \<and> (\<forall>s \<in> set ss. \<exists>q. s_value s = Fin q)"
proof -
  let ?ss = "rev (List.map_filter (sample_of_row (p_column param) (so_timestamp (r_source spec)) g) rows)"
  have f: "fetchSamples (Some ad) spec param cols since limit g = Inr ?ss"
    using assms(1) by (simp add: fetchSamples_def)
  have "sorted (map s_ts ?ss)"
    using assms(2) by (simp add: sorted_map sorted_wrt_rev)
  with f fetchSamples_finite [OF f] show ?thesis by blast
qed

definition example_adapter :: "row list \<Rightarrow> DbMcpAdapter" where
  "example_adapter rows = \<lparr> ad_capabilities = \<lparr> cap_read_only = True, cap_aggregate = True, cap_introspection = True \<rparr>,
     ad_list_tables = (\<lambda>_. Inr [''t'']),
     ad_list_columns = (\<lambda>_ _. Inr [\<lparr> col_name = ''ts'', col_type = ''timestamp'' \<rparr>,
        \<lparr> col_name = ''v'', col_type = ''numeric'' \<rparr>]),
     ad_latest = (\<lambda>_. Inr \<lparr> lr_value = VInt 3, lr_ts = [] \<rparr>),
     ad_aggregate = (\<lambda>_. Inr \<lparr> ar_value = VInt 3, ar_start = [], ar_end = [] \<rparr>),
     ad_fetch = (\<lambda>_. Inr rows) \<rparr>"

definition example_rule :: "DetectorSpec \<Rightarrow> RuleSpec" where
  "example_rule d = empty_rule \<lparr> r_source := \<lparr> so_table = ''t'', so_timestamp = ''ts'', so_where = None,
     so_value_column = [] \<rparr>, r_poll := 10, r_enabled := True,
     r_parameters := [\<lparr> p_name = ''v'', p_column = ''v'', p_detector = d \<rparr>] \<rparr>"

lemma fetch_samples_in_time_order_witness:
  "\<exists>ss. fetchSamples (Some (example_adapter [[(''v'', VFloat (Fin 2)), (''ts'', VTime 8)],
       [(''v'', VFloat (Fin 1)), (''ts'', VTime 5)]])) (example_rule empty_detector)
       \<lparr> p_name = ''v'', p_column = ''v'', p_detector = empty_detector \<rparr> [] 0 10 [] = Inr ss
     \<and> sorted (map s_ts ss) \<and> (\<forall>s \<in> set ss. \<exists>q. s_value s = Fin q)"
proof (rule fetch_samples_in_time_order)
  let ?row = "\<lambda>x t. [(''v'', VFloat (Fin x)), (''ts'', VTime t)]"
  have row: "sample_of_row ''v'' ''ts'' [] (?row x t) = Some (sample_at t x)" for x t
    by (simp add: sample_of_row_def toFloat_def isNaN_def isInf0_def parseTimeValue_def sample_at_def)
  show "sorted_wrt (\<lambda>a b. s_ts b \<le> s_ts a) (List.map_filter (sample_of_row
      (p_column \<lparr> p_name = ''v'', p_column = ''v'', p_detector = empty_detector \<rparr>)
      (so_timestamp (r_source (example_rule empty_detector))) []) [?row 2 8, ?row 1 5])"
    by (simp add: List.map_filter_simps row example_rule_def) (simp add: sample_at_def)
qed (simp add: example_adapter_def)

end
