(* ===== verification/SchedRunFacts.thy ===== *)
theory SchedRunFacts
  imports Main SchedWorker DetectorProps
begin

text \<open>
  Lemmas on runs: what a run may change in the world (\<open>appends\<close>), the spacing that the
  cooldown keeps between alerts of one key (\<open>spaced\<close>), and which detector configurations can
  panic. The properties of the scheduler rest on them.
\<close>

subsection \<open>What a run changes\<close>

definition stamped :: "string \<Rightarrow> (nat \<Rightarrow> int) \<Rightarrow> nat \<Rightarrow> nat \<Rightarrow> AlertRecord \<Rightarrow> bool" where
  "stamped rule clock lo hi a = (al_rule a = rule \<and> al_hit a \<and> (\<exists>n \<ge> lo. n < hi \<and> al_ts a = clock n))"

definition appends :: "string \<Rightarrow> World \<Rightarrow> World \<Rightarrow> bool" where
  "appends rule w w' = (w_clock w' = w_clock w \<and> w_up w' = w_up w \<and> w_step w \<le> w_step w'
     \<and> db_rules (w_db w') = db_rules (w_db w) \<and> db_connections (w_db w') = db_connections (w_db w)
     \<and> (\<exists>new. db_alerts (w_db w') = db_alerts (w_db w) @ new
         \<and> list_all (stamped rule (w_clock w) (w_step w) (w_step w')) new))"

lemma stamped_mono: "stamped rule clock lo hi a \<Longrightarrow> lo' \<le> lo \<Longrightarrow> hi \<le> hi' \<Longrightarrow> stamped rule clock lo' hi' a"
  by (auto simp: stamped_def intro: order.trans less_le_trans)

lemma appends_refl [simp]: "appends rule w w"
  by (simp add: appends_def)

lemma appends_trans:
  assumes "appends rule u v" "appends rule v w" shows "appends rule u w"
proof -
  obtain new1 new2 where n: "db_alerts (w_db v) = db_alerts (w_db u) @ new1"
      "list_all (stamped rule (w_clock u) (w_step u) (w_step v)) new1"
      "db_alerts (w_db w) = db_alerts (w_db v) @ new2"
      "list_all (stamped rule (w_clock v) (w_step v) (w_step w)) new2"
    using assms by (auto simp: appends_def)
  have c: "w_clock v = w_clock u" "w_step u \<le> w_step v" "w_step v \<le> w_step w"
    using assms by (simp_all add: appends_def)
  have "list_all (stamped rule (w_clock u) (w_step u) (w_step w)) (new1 @ new2)"
    using n(2,4) c by (auto simp: list_all_iff elim!: stamped_mono)
  moreover have "db_alerts (w_db w) = db_alerts (w_db u) @ (new1 @ new2)" using n(1,3) by simp
  ultimately show ?thesis using assms unfolding appends_def by (metis order.trans)
qed

lemma appends_one: "appends rule w (tick w)"
  by (simp add: appends_def)

lemma appends_tick: "appends rule w w' \<Longrightarrow> appends rule w (tick w')"
  by (rule appends_trans [OF _ appends_one])

lemma read_clock_eq: "read_clock w = (w_clock w (w_step w), tick w)"
  by (simp add: read_clock_def)

lemma GetLastAlertForKey_eq: "GetLastAlertForKey r p d w = (fst (GetLastAlertForKey r p d w), tick w)"
  using lookup_world(3) [of r p d w] by (metis prod.collapse)

lemma in_cooldown_appends: "appends rule w (snd (in_cooldown spec i param w))"
  by (subst in_cooldown_def, subst GetLastAlertForKey_eq)
    (auto simp: Let_def read_clock_eq appends_tick split: sum.split option.split)

lemma CreateAlert_world:
  "snd (CreateAlert a w) = (if w_up w (w_step w) \<and> find_rule (al_rule a) (w_db w) \<noteq> None
     then tick (w \<lparr> w_db := (w_db w) \<lparr> db_alerts := db_alerts (w_db w) @ [a] \<rparr> \<rparr>) else tick w)"
  by (simp add: CreateAlert_def db_exec_def)

lemma make_alert_sel [simp]: "al_rule (make_alert r spec p res ex ts) = r"
  "al_hit (make_alert r spec p res ex ts)" "al_ts (make_alert r spec p res ex ts) = ts"
  "al_parameter (make_alert r spec p res ex ts) = p_name p"
  "al_detector (make_alert r spec p res ex ts) = d_type (p_detector p)"
  by (simp_all add: make_alert_def Let_def)

lemma CreateAlert_appends:
  assumes "stamped rule (w_clock u) (w_step u) (w_step w) a" "appends rule u w"
  shows "appends rule u (snd (CreateAlert a w))"
proof -
  obtain new where n: "db_alerts (w_db w) = db_alerts (w_db u) @ new"
      "list_all (stamped rule (w_clock u) (w_step u) (w_step w)) new"
    using assms(2) by (auto simp: appends_def)
  have l: "list_all (stamped rule (w_clock u) (w_step u) (Suc (w_step w))) (new @ [a])"
    using n(2) assms(1) by (auto simp: list_all_iff elim!: stamped_mono)
  show ?thesis
  proof (cases "w_up w (w_step w) \<and> find_rule (al_rule a) (w_db w) \<noteq> None")
    case True
    show ?thesis using assms(2) l n(1) unfolding CreateAlert_world if_P [OF True] appends_def
      by (intro conjI exI [of _ "new @ [a]"]) simp_all
  next
    case False
    show ?thesis unfolding CreateAlert_world if_not_P [OF False] by (rule appends_tick [OF assms(2)])
  qed
qed

text \<open>The two ways \<open>raise_alert\<close> ends: nothing stored, or one alert built and inserted.\<close>

lemma raise_alert_cases:
  assumes "raise_alert rule spec param res w = Ret w'"
  obtains "w' = w" | "fst (in_cooldown spec rule param w)" "w' = snd (in_cooldown spec rule param w)"
  | w1 ex where "dr_hit res" "in_cooldown spec rule param w = (False, w1)"
      "w' = snd (CreateAlert (make_alert rule spec param res ex (w_clock w1 (w_step w1))) (tick w1))"
proof (cases "dr_hit res")
  case False
  with assms that(1) show ?thesis by (simp add: raise_alert_def)
next
  case hit: True
  obtain cold w1 where c: "in_cooldown spec rule param w = (cold, w1)" by force
  show ?thesis
  proof (cases cold)
    case True
    then have "w' = w1" using assms hit c by (simp add: raise_alert_def)
    then show ?thesis using c True by (intro that(2)) simp_all
  next
    case False
    with assms hit c obtain ex where "buildExplain res param = Ret ex"
      by (cases "buildExplain res param") (auto simp: raise_alert_def)
    then have "w' = snd (CreateAlert (make_alert rule spec param res ex (w_clock w1 (w_step w1))) (tick w1))"
      using assms hit c False by (simp add: raise_alert_def read_clock_eq)
    then show ?thesis using c False by (intro that(3) [OF hit]) simp_all
  qed
qed

lemma raise_alert_appends: "raise_alert rule spec param res w = Ret w' \<Longrightarrow> appends rule w w'"
proof (erule raise_alert_cases)
  fix w1 ex
  assume c: "in_cooldown spec rule param w = (False, w1)"
    and w': "w' = snd (CreateAlert (make_alert rule spec param res ex (w_clock w1 (w_step w1))) (tick w1))"
  have a: "appends rule w w1" using in_cooldown_appends [of rule w spec rule param] c by simp
  then have "w_step w \<le> w_step w1" "w_clock w1 = w_clock w" by (simp_all add: appends_def)
  with a show "appends rule w w'" unfolding w'
    by (intro CreateAlert_appends) (auto simp: stamped_def intro: appends_tick)
qed (use in_cooldown_appends in auto)

lemma raise_alerts_appends: "raise_alerts rule spec param rs w = Ret w' \<Longrightarrow> appends rule w w'"
proof (induction rs arbitrary: w)
  case (Cons r rs)
  from Cons.prems obtain w1 where "raise_alert rule spec param r w = Ret w1" "raise_alerts rule spec param rs w1 = Ret w'"
    by (cases "raise_alert rule spec param r w") auto
  then show ?case using Cons.IH raise_alert_appends appends_trans by blast
qed simp

lemma run_params_cases:
  assumes "run_params lims rule spec ad lastRun (p # ps) w = Ret w'"
  obtains "run_params lims rule spec ad lastRun ps (tick w) = Ret w'"
  | results w1 where "raise_alerts rule spec p results (tick w) = Ret w1"
      "run_params lims rule spec ad lastRun ps w1 = Ret w'"
proof -
  let ?e = "evaluateParameterSince lims spec p (map_option (\<lambda>f. f (w_step w)) ad) lastRun (w_clock w (w_step w))"
  from assms obtain r where r: "?e = Ret r" by (cases ?e) (auto simp: read_clock_eq)
  show ?thesis
  proof (cases r)
    case (Inl e)
    with assms r that(1) show ?thesis by (simp add: read_clock_eq)
  next
    case (Inr results)
    with assms r obtain w1 where "raise_alerts rule spec p results (tick w) = Ret w1"
      by (cases "raise_alerts rule spec p results (tick w)") (auto simp: read_clock_eq)
    with Inr assms r that(2) show ?thesis by (simp add: read_clock_eq)
  qed
qed

lemma run_params_appends: "run_params lims rule spec ad lastRun ps w = Ret w' \<Longrightarrow> appends rule w w'"
proof (induction ps arbitrary: w)
  case (Cons p ps)
  from Cons.prems show ?case
  proof (cases rule: run_params_cases)
    case 1
    then show ?thesis by (rule appends_trans [OF appends_one Cons.IH])
  next
    case (2 results w1)
    show ?thesis by (rule appends_trans [OF appends_one appends_trans [OF raise_alerts_appends [OF 2(1)] Cons.IH [OF 2(2)]]])
  qed
qed simp

subsection \<open>The spacing of alerts\<close>

definition apart :: "int \<Rightarrow> AlertRecord \<Rightarrow> AlertRecord \<Rightarrow> bool" where
  "apart c a b = (alert_key a = alert_key b \<longrightarrow> al_ts a + c * second_ns \<le> al_ts b)"

definition spaced :: "int \<Rightarrow> string \<Rightarrow> World \<Rightarrow> bool" where
  "spaced c rule w = sorted_wrt (apart c) (filter (\<lambda>a. al_rule a = rule) (db_alerts (w_db w)))"

text \<open>A database that always answers, and a clock that never goes back.\<close>

definition steady :: "World \<Rightarrow> bool" where
  "steady w = ((\<forall>n. w_up w n) \<and> (\<forall>m n. m \<le> n \<longrightarrow> w_clock w m \<le> w_clock w n))"

lemma steady_appends: "appends rule w w' \<Longrightarrow> steady w \<Longrightarrow> steady w'"
  by (simp add: appends_def steady_def)

lemma spaced_tick [simp]: "spaced c rule (tick w) = spaced c rule w"
  by (simp add: spaced_def)

lemma in_cooldown_db: "w_db (snd (in_cooldown spec i param w)) = w_db w"
  by (subst in_cooldown_def, subst GetLastAlertForKey_eq)
    (auto simp: Let_def read_clock_eq split: sum.split option.split)

lemma not_cold_apart:
  assumes "steady w" "r_cooldown spec = Some c" "0 < c" "c \<le> 9223372035"
    and cold: "in_cooldown spec rule param w = (False, w1)"
    and b: "b \<in> set (db_alerts (w_db w))" "alert_key b = (rule, p_name param, d_type (p_detector param))"
  shows "al_ts b + c * second_ns \<le> w_clock w1 (w_step w1)"
proof -
  let ?ts = "map al_ts (filter (\<lambda>a. al_rule a = rule \<and> al_parameter a = p_name param
      \<and> al_detector a = d_type (p_detector param)) (db_alerts (w_db w)))"
  have mem: "al_ts b \<in> set ?ts" using b by (force simp: alert_key_def)
  then have "?ts \<noteq> []" by (metis empty_iff empty_set)
  then obtain t where t: "latest_of ?ts = Inr t" by (cases ?ts) (auto simp: latest_of_def)
  have ge: "al_ts b \<le> t" using latest_of_ge [OF t] mem by blast
  have up: "w_up w (w_step w)" using assms(1) by (simp add: steady_def)
  have "GetLastAlertForKey rule (p_name param) (d_type (p_detector param)) w = (Inr t, tick w)"
    using t up by (simp add: GetLastAlertForKey_def db_query_def)
  then have w: "\<not> WithinCooldown (w_clock w (Suc (w_step w))) t c" "w1 = tick (tick w)"
    using cold assms(2,3) by (auto simp: in_cooldown_def Let_def read_clock_eq)
  have s: "seconds c = c * second_ns" using assms(3,4) by (intro seconds_eq) simp
  have "c * second_ns \<le> time_sub (w_clock w (Suc (w_step w))) t"
    using w(1) s by (simp add: WithinCooldown_def)
  then have "t + c * second_ns \<le> w_clock w (Suc (w_step w))"
    using assms(3) unfolding time_sub_def by (auto simp: max_def min_def split: if_splits)
  moreover have "w_clock w (Suc (w_step w)) \<le> w_clock w (Suc (Suc (w_step w)))"
    using assms(1) by (simp add: steady_def)
  ultimately show ?thesis using ge w(2) by simp
qed

lemma raise_alert_spaced:
  assumes "steady w" "r_cooldown spec = Some c" "0 < c" "c \<le> 9223372035" "spaced c rule w"
    and "raise_alert rule spec param res w = Ret w'"
  shows "spaced c rule w'"
  using assms(6)
proof (rule raise_alert_cases)
  fix w1 ex
  assume c: "in_cooldown spec rule param w = (False, w1)"
    and w': "w' = snd (CreateAlert (make_alert rule spec param res ex (w_clock w1 (w_step w1))) (tick w1))"
  let ?a = "make_alert rule spec param res ex (w_clock w1 (w_step w1))"
  have db: "w_db w1 = w_db w" using in_cooldown_db [of spec rule param w] c by simp
  have "apart c b ?a" if "b \<in> set (db_alerts (w_db w))" for b
    using not_cold_apart [OF assms(1-4) c that] by (auto simp: apart_def alert_key_def)
  then show ?thesis using assms(5) unfolding w' CreateAlert_world
    by (auto simp: spaced_def db sorted_wrt_append)
qed (use assms(5) in_cooldown_db [of spec rule param w] in \<open>simp_all add: spaced_def\<close>)

lemma raise_alerts_spaced:
  "steady w \<Longrightarrow> r_cooldown spec = Some c \<Longrightarrow> 0 < c \<Longrightarrow> c \<le> 9223372035 \<Longrightarrow> spaced c rule w \<Longrightarrow>
   raise_alerts rule spec param rs w = Ret w' \<Longrightarrow> spaced c rule w'"
proof (induction rs arbitrary: w)
  case (Cons r rs)
  from Cons.prems(6) obtain w1 where w1: "raise_alert rule spec param r w = Ret w1"
      "raise_alerts rule spec param rs w1 = Ret w'"
    by (cases "raise_alert rule spec param r w") auto
  then have "steady w1" using Cons.prems(1) raise_alert_appends steady_appends by blast
  then show ?case using Cons.IH [of w1] Cons.prems w1 raise_alert_spaced by blast
qed simp

lemma steady_tick [simp]: "steady (tick w) = steady w"
  by (simp add: steady_def)

lemma run_params_spaced:
  "steady w \<Longrightarrow> r_cooldown spec = Some c \<Longrightarrow> 0 < c \<Longrightarrow> c \<le> 9223372035 \<Longrightarrow> spaced c rule w \<Longrightarrow>
   run_params lims rule spec ad lastRun ps w = Ret w' \<Longrightarrow> spaced c rule w'"
proof (induction ps arbitrary: w)
  case (Cons p ps)
  from Cons.prems(6) show ?case
  proof (rule run_params_cases)
    assume "run_params lims rule spec ad lastRun ps (tick w) = Ret w'"
    then show ?thesis using Cons.IH [of "tick w"] Cons.prems by simp
  next
    fix results w1
    assume a: "raise_alerts rule spec p results (tick w) = Ret w1" "run_params lims rule spec ad lastRun ps w1 = Ret w'"
    then have "steady w1" using Cons.prems(1) raise_alerts_appends [OF a(1)] steady_appends by auto
    moreover have "spaced c rule w1" using Cons.prems a(1) raise_alerts_spaced [of "tick w"] by simp
    ultimately show ?thesis using Cons.IH [of w1] Cons.prems a(2) by blast
  qed
qed simp

lemma UpdateLastRunAt_world: "snd (UpdateLastRunAt i ts w) = (if w_up w (w_step w)
    then tick (w \<lparr> w_db := update_rule i (\<lambda>r. r \<lparr> rr_last_run := Some ts \<rparr>) (w_db w) \<rparr>) else tick w)"
  by (simp add: UpdateLastRunAt_def db_exec_def)

subsection \<open>What can panic\<close>

lemma shewhart_panics: "panics (EvaluateShewhart samples spec k) \<Longrightarrow> sh_min_n spec < 0"
  by (auto simp: EvaluateShewhart_def Let_def extractValues_def defaultBaselineMinN_def
      split: if_splits prod.splits)

lemma range_chart_panics:
  "panics (EvaluateRangeChart groups spec) \<Longrightarrow> groups \<noteq> [] \<and> last groups = [] \<and> 2 \<le> rc_size spec"
  by (auto simp: EvaluateRangeChart_def Let_def rangeChartConstants_def rangeChartTable_def
      split: if_splits option.splits prod.splits)

lemma groups_nonempty:
  assumes "(if col then groupBySubgroup samples n else Ret (groupConsecutive samples n)) = Ret groups"
    and "2 \<le> n" "groups \<noteq> []"
  shows "last groups \<noteq> []"
proof (cases col)
  case True
  obtain m where m: "n = int m" "2 \<le> m" using assms(2) by (metis nat_0_le nat_le_iff numeral_le_iff
      of_nat_numeral order.trans zero_le_numeral nat_mono nat_numeral)
  have "\<forall>g \<in> set groups. length g = m"
    using assms(1) True unfolding m(1) group_by_subgroup_reference_aux by (auto simp: min_def)
  then have "length (last groups) = m" using assms(3) by simp
  then show ?thesis using m(2) by auto
next
  case False
  then have "int (length (last groups)) = n"
    using assms(1,3) groupConsecutive_sizes [of "last groups" samples n] by simp
  then show ?thesis using assms(2) by auto
qed

text \<open>The detector configurations whose evaluation can index or slice out of range.\<close>

definition risky_config :: "DetectorSpec \<Rightarrow> bool" where
  "risky_config d = ((d_type d = ''shewhart'' \<and> (\<exists>sh. d_shewhart d = Some sh \<and> sh_min_n sh < 0))
     \<or> (d_type d = ''trend'' \<and> (\<exists>tn. d_trend d = Some tn \<and> tn_window tn < 0))
     \<or> (d_type d = ''range_chart'' \<and> (\<exists>rc. d_range_chart d = Some rc \<and> rc_size rc < 0)))"

lemma trend_panics: "panics (EvaluateTrend6 samples spec) \<Longrightarrow> tn_window spec < 0"
  by (auto simp: EvaluateTrend6_def Let_def defaultTrendWindowSize_def split: if_splits)

lemma eval_shewhart_panics: "panics (eval_shewhart lims spec p sh ad lastRun now) \<Longrightarrow> sh_min_n sh < 0"
  by (auto simp: eval_shewhart_def Let_def panics_bind split: sum.splits prod.splits if_splits
      dest: shewhart_panics)

lemma eval_trend_panics: "panics (eval_trend lims spec p tn ad lastRun now) \<Longrightarrow> tn_window tn < 0"
  by (auto simp: eval_trend_def Let_def panics_bind split: sum.splits if_splits dest: trend_panics)

lemma groupBySubgroup_panics: "panics (groupBySubgroup samples n) \<Longrightarrow> n < 0"
  by (auto simp: groupBySubgroup_def Let_def split: if_splits)

lemma eval_range_chart_panics: "panics (eval_range_chart lims spec p rc ad lastRun now) \<Longrightarrow> rc_size rc < 0"
proof (rule ccontr)
  assume p: "panics (eval_range_chart lims spec p rc ad lastRun now)" and "\<not> rc_size rc < 0"
  then have n: "\<not> panics (groupBySubgroup samples (rc_size rc))" for samples
    using groupBySubgroup_panics by blast
  have "\<not> panics (EvaluateRangeChart groups rc)"
    if "(if col then groupBySubgroup samples (rc_size rc) else Ret (groupConsecutive samples (rc_size rc))) = Ret groups"
    for col samples groups
    using range_chart_panics groups_nonempty [OF that] by blast
  then have "\<not> panics (eval_range_chart lims spec p rc ad lastRun now)"
    unfolding eval_range_chart_def by (intro no_panic_intros n)
  with p show False by simp
qed

lemma evaluation_safe:
  assumes "\<not> risky_config (p_detector p)"
  shows "\<not> panics (evaluateParameterSince lims spec p adapter lastRun now)"
proof -
  let ?d = "p_detector p"
  have sh: "d_type ?d = ''shewhart'' \<Longrightarrow> d_shewhart ?d = Some sh \<Longrightarrow>
      \<not> panics (eval_shewhart lims spec p sh ad lastRun now)" for sh ad
    using assms eval_shewhart_panics [of lims spec p sh ad lastRun now] by (auto simp: risky_config_def)
  have tn: "d_type ?d = ''trend'' \<Longrightarrow> d_trend ?d = Some tn \<Longrightarrow>
      \<not> panics (eval_trend lims spec p tn ad lastRun now)" for tn ad
    using assms eval_trend_panics [of lims spec p tn ad lastRun now] by (auto simp: risky_config_def)
  have rc: "d_type ?d = ''range_chart'' \<Longrightarrow> d_range_chart ?d = Some rc \<Longrightarrow>
      \<not> panics (eval_range_chart lims spec p rc ad lastRun now)" for rc ad
    using assms eval_range_chart_panics [of lims spec p rc ad lastRun now] by (auto simp: risky_config_def)
  show ?thesis unfolding evaluateParameterSince_def missing_config_def Let_def
    by (intro no_panic_intros sh tn rc)
qed

definition safe_rule :: "RuleSpec \<Rightarrow> bool" where
  "safe_rule spec = list_all (\<lambda>p. \<not> risky_config (p_detector p)) (normalizeParameters spec)"

text \<open>Every detector that produced a result can be explained.\<close>

definition explainable :: "ParameterSpec \<Rightarrow> bool" where
  "explainable p = ((d_type (p_detector p) = ''robust_zscore'' \<longrightarrow> d_robust_z (p_detector p) \<noteq> None)
     \<and> (d_type (p_detector p) = ''missing_data'' \<longrightarrow> d_missing (p_detector p) \<noteq> None))"

lemma buildExplain_panics: "panics (buildExplain res p) \<Longrightarrow> \<not> explainable p"
  by (auto simp: buildExplain_def explainable_def Let_def split: if_splits option.splits)

lemma evaluated_explainable:
  "evaluateParameterSince lims spec p ad lastRun now = Ret (Inr results) \<Longrightarrow> explainable p"
proof (rule ccontr)
  assume e: "evaluateParameterSince lims spec p ad lastRun now = Ret (Inr results)" and "\<not> explainable p"
  then consider "d_type (p_detector p) = ''robust_zscore''" "d_robust_z (p_detector p) = None"
    | "d_type (p_detector p) = ''missing_data''" "d_missing (p_detector p) = None"
    by (auto simp: explainable_def)
  then show False
    by cases (use e in \<open>cases ad; simp add: evaluateParameterSince_def missing_config_def Let_def\<close>)+
qed

lemma raise_alert_safe: "explainable p \<Longrightarrow> \<not> panics (raise_alert rule spec p res w)"
  using buildExplain_panics [of res p]
  by (auto simp: raise_alert_def panics_bind Let_def split: prod.splits)

lemma raise_alerts_safe: "explainable p \<Longrightarrow> \<not> panics (raise_alerts rule spec p rs w)"
  by (induction rs arbitrary: w) (auto simp: panics_bind raise_alert_safe)

lemma run_params_safe:
  "list_all (\<lambda>p. \<not> risky_config (p_detector p)) ps \<Longrightarrow> \<not> panics (run_params lims rule spec ad lastRun ps w)"
proof (induction ps arbitrary: w)
  case (Cons p ps)
  let ?e = "evaluateParameterSince lims spec p (map_option (\<lambda>f. f (w_step w)) ad) lastRun (w_clock w (w_step w))"
  have "\<not> panics ?e" using Cons.prems by (intro evaluation_safe) simp
  then obtain r where r: "?e = Ret r" by (auto simp: not_panics_iff)
  show ?case
  proof (cases r)
    case (Inl e)
    with r Cons show ?thesis by (simp add: read_clock_eq)
  next
    case (Inr results)
    then have "explainable p" using r evaluated_explainable by blast
    with Inr r Cons show ?thesis by (simp add: read_clock_eq panics_bind raise_alerts_safe)
  qed
qed simp

lemma execute_run_safe: "safe_rule spec \<Longrightarrow> \<not> panics (execute_run lims rule spec ad lastRun runAt w)"
  by (auto simp: execute_run_def Let_def safe_rule_def panics_bind dest: run_params_safe)

end
