(* ===== verification/SchedProps.thy ===== *)
theory SchedProps
  imports Main SchedRunFacts
begin

text \<open>
  The properties of the evaluation of a parameter and of a run: what a run changes, which
  runs can panic, and how far apart the alerts of one key are.
\<close>

subsection \<open>Examples\<close>

definition threshold_detector :: DetectorSpec where
  "threshold_detector = empty_detector \<lparr> d_type := ''threshold'',
     d_threshold := Some \<lparr> th_op = ''>'', th_value = VInt 2, th_min = None, th_max = None \<rparr> \<rparr>"

text \<open>A rule in a world whose database always answers and whose clock advances by seconds.\<close>

definition example_record :: RuleRecord where
  "example_record = \<lparr> rr_id = ''r'', rr_connection = ''c'',
     rr_spec = Some ((example_rule threshold_detector) \<lparr> r_cooldown := Some 60 \<rparr>), rr_enabled = True,
     rr_status = [], rr_last_error = None, rr_last_validated = None, rr_last_run = None \<rparr>"

definition example_world :: World where
  "example_world = \<lparr> w_db = \<lparr> db_rules = [example_record], db_connections = [(''c'', ''postgres'')], db_alerts = [] \<rparr>,
     w_clock = (\<lambda>n. int n * second_ns), w_up = (\<lambda>_. True), w_step = 0 \<rparr>"

definition bad_trend :: DetectorSpec where
  "bad_trend = empty_detector \<lparr> d_type := ''trend'',
     d_trend := Some \<lparr> tn_window = -1, tn_epsilon = f0, tn_consecutive = False \<rparr> \<rparr>"

subsection \<open>Panics\<close>

text \<open>
  A run never panics, whatever the database and the adapter answer, unless one of the
  rule's detectors has a negative baseline size, trend window or subgroup size.
\<close>
theorem run_panics_only_if_risky:
  assumes "safe_rule spec"
  shows "\<not> panics (execute_run lims rule spec adapter lastRun runAt w)"
  using assms by (rule execute_run_safe)

lemma run_panics_only_if_risky_witness:
  "\<not> panics (execute_run DefaultLimits ''r'' (example_rule threshold_detector)
     (Some (\<lambda>_. example_adapter [])) None 0 example_world)"
  by (rule run_panics_only_if_risky)
    (simp add: safe_rule_def normalizeParameters_def risky_config_def threshold_detector_def empty_detector_def
      example_rule_def empty_rule_def)

lemma bad_trend_validates:
  "RuntimeValidateRule (example_adapter []) (example_rule bad_trend) [] DefaultLimits now = Ret (Inr ())"
proof -
  have ids: "IsSafeIdentifier ''t''" "IsSafeIdentifier ''ts''" "IsSafeIdentifier ''v''" by code_simp+
  have num: "isNumericType ''numeric''" by code_simp
  show ?thesis
    using ids num
    by (simp add: RuntimeValidateRule_def validate_shape_def example_rule_def empty_rule_def DefaultLimits_def
        validation_parameters_def AllowsTable_def example_adapter_def colTypes_def type_of_column_def
        validate_param_def bad_trend_def empty_detector_def Let_def)
qed

text \<open>
  The runtime validation does not look at the window of a trend detector: a rule with a
  negative window passes it, and evaluating the rule panics.
\<close>
theorem validated_rule_can_panic:
  "RuntimeValidateRule (example_adapter []) (example_rule bad_trend) [] DefaultLimits now = Ret (Inr ())
    \<and> panics (evaluateParameterSince DefaultLimits (example_rule bad_trend)
        \<lparr> p_name = ''v'', p_column = ''v'', p_detector = bad_trend \<rparr> (Some (example_adapter [])) None now)"
proof
  show "RuntimeValidateRule (example_adapter []) (example_rule bad_trend) [] DefaultLimits now = Ret (Inr ())"
    by (rule bad_trend_validates)
  show "panics (evaluateParameterSince DefaultLimits (example_rule bad_trend)
        \<lparr> p_name = ''v'', p_column = ''v'', p_detector = bad_trend \<rparr> (Some (example_adapter [])) None now)"
    by (simp add: evaluateParameterSince_def bad_trend_def empty_detector_def eval_trend_def Let_def
        fetchSamples_def example_adapter_def EvaluateTrend6_def)
qed

subsection \<open>What a run changes\<close>

lemma execute_run_cases:
  assumes "execute_run lims rule spec adapter lastRun runAt w = Ret (reached, w')"
  obtains "\<not> reached" "w' = w" "normalizeParameters spec = []"
  | w1 where "reached" "run_params lims rule spec adapter lastRun (normalizeParameters spec) w = Ret w1"
      "w' = snd (UpdateLastRunAt rule runAt w1)" "normalizeParameters spec \<noteq> []"
  using assms unfolding execute_run_def Let_def
  by (cases "run_params lims rule spec adapter lastRun (normalizeParameters spec) w") (auto split: if_splits)

text \<open>
  C7: The cooldown holds across a run: with a database that answers and a clock that never
  goes back, if the alerts a rule has stored so far are, per parameter and detector, at least
  the cooldown apart in the order of their rows, they still are after any run of the rule.
\<close>
theorem cooldown_spaces_alerts:
  assumes "steady w" and "r_cooldown spec = Some c" and "0 < c" and "c \<le> 9223372035"
    and "spaced c rule w"
    and run: "execute_run lims rule spec adapter lastRun runAt w = Ret (reached, w')"
  shows "spaced c rule w'"
  using run
proof (cases rule: execute_run_cases)
  case (2 w1)
  then have "spaced c rule w1" using assms(1-5) run_params_spaced by blast
  then show ?thesis by (simp add: 2(3) UpdateLastRunAt_world spaced_def update_rule_def)
qed (use assms(5) in simp)

lemma example_evaluation:
  "\<exists>r. evaluateParameterSince lims ((example_rule threshold_detector) \<lparr> r_cooldown := cd \<rparr>)
      \<lparr> p_name = ''v'', p_column = ''v'', p_detector = threshold_detector \<rparr> (Some (example_adapter [])) lastRun now
    = Ret (Inr [r]) \<and> dr_hit r"
proof -
  have num: "f_of_int 3 = Fin 3" "f_of_int 2 = Fin 2" by (simp_all add: f_of_int_def float_simps)
  show ?thesis
    by (simp add: evaluateParameterSince_def threshold_detector_def empty_detector_def eval_threshold_def
        uses_aggregate_def example_rule_def empty_rule_def example_adapter_def EvaluateThresholdDetector_def
        EvaluateCondition_def toFloat_def num Let_def flt_def)
qed

lemma example_alert:
  "dr_hit r \<Longrightarrow> \<exists>w' a. raise_alert ''r'' ((example_rule threshold_detector) \<lparr> r_cooldown := Some 60 \<rparr>)
      \<lparr> p_name = ''v'', p_column = ''v'', p_detector = threshold_detector \<rparr> r (tick example_world) = Ret w'
    \<and> db_alerts (w_db w') = [a]"
  by (simp add: raise_alert_def in_cooldown_def Let_def GetLastAlertForKey_def db_query_def example_world_def
      tick_def latest_of_def buildExplain_def threshold_detector_def empty_detector_def read_clock_eq
      CreateAlert_world find_rule_def example_record_def)

lemma example_run:
  "\<exists>w' a. execute_run DefaultLimits ''r'' ((example_rule threshold_detector) \<lparr> r_cooldown := Some 60 \<rparr>)
      (Some (\<lambda>_. example_adapter [])) None 0 example_world = Ret (True, w') \<and> db_alerts (w_db w') = [a]"
proof -
  let ?spec = "(example_rule threshold_detector) \<lparr> r_cooldown := Some 60 \<rparr>"
  have n: "normalizeParameters ?spec = [\<lparr> p_name = ''v'', p_column = ''v'', p_detector = threshold_detector \<rparr>]"
    by (simp add: normalizeParameters_def example_rule_def)
  obtain r where r: "evaluateParameterSince DefaultLimits ?spec
      \<lparr> p_name = ''v'', p_column = ''v'', p_detector = threshold_detector \<rparr> (Some (example_adapter [])) None
      (w_clock example_world (w_step example_world)) = Ret (Inr [r])" "dr_hit r"
    using example_evaluation by blast
  from example_alert [OF r(2)] obtain w' a where a: "raise_alert ''r'' ?spec
      \<lparr> p_name = ''v'', p_column = ''v'', p_detector = threshold_detector \<rparr> r (tick example_world) = Ret w'"
      "db_alerts (w_db w') = [a]" by blast
  show ?thesis unfolding execute_run_def n
    by (simp add: read_clock_eq r(1) a UpdateLastRunAt_world update_rule_def)
qed

lemma cooldown_spaces_alerts_witness:
  "\<exists>w' a. execute_run DefaultLimits ''r'' ((example_rule threshold_detector) \<lparr> r_cooldown := Some 60 \<rparr>)
      (Some (\<lambda>_. example_adapter [])) None 0 example_world = Ret (True, w')
    \<and> db_alerts (w_db w') = [a] \<and> spaced 60 ''r'' w'"
  using example_run cooldown_spaces_alerts [of example_world
    "(example_rule threshold_detector) \<lparr> r_cooldown := Some 60 \<rparr>" 60 "''r''" DefaultLimits
    "Some (\<lambda>_. example_adapter [])" None 0 True]
  by (fastforce simp: steady_def example_world_def spaced_def)

text \<open>
  C28: A run touches nothing but its own rule: the clock, the connections and the other rules
  are as before, the alerts only grow, every new one is a hit of this rule stamped with a
  clock reading taken during the run, and a run that reaches its end with the database
  available has stored its start time in the rule's row.
\<close>
theorem run_changes_own_rule_only:
  assumes "execute_run lims rule spec adapter lastRun runAt w = Ret (reached, w')"
  shows "w_clock w' = w_clock w \<and> db_connections (w_db w') = db_connections (w_db w)
    \<and> (\<exists>new. db_alerts (w_db w') = db_alerts (w_db w) @ new \<and>
         list_all (\<lambda>a. al_rule a = rule \<and> al_hit a \<and>
           (\<exists>n. w_step w \<le> n \<and> n < w_step w' \<and> al_ts a = w_clock w n)) new)
    \<and> (db_rules (w_db w') = db_rules (w_db w) \<or> reached \<and>
         db_rules (w_db w') = map (\<lambda>r. if rr_id r = rule then r \<lparr> rr_last_run := Some runAt \<rparr> else r) (db_rules (w_db w)))
    \<and> (reached = (normalizeParameters spec \<noteq> []))
    \<and> (reached \<longrightarrow> (\<forall>n. w_up w n) \<longrightarrow>
         db_rules (w_db w') = map (\<lambda>r. if rr_id r = rule then r \<lparr> rr_last_run := Some runAt \<rparr> else r) (db_rules (w_db w)))"
  using assms
proof (cases rule: execute_run_cases)
  case (2 w1)
  have a: "appends rule w w1" using 2(2) by (rule run_params_appends)
  then obtain new where n: "db_alerts (w_db w1) = db_alerts (w_db w) @ new"
      "list_all (stamped rule (w_clock w) (w_step w) (w_step w1)) new" by (auto simp: appends_def)
  have s: "w_step w' = Suc (w_step w1)" "db_alerts (w_db w') = db_alerts (w_db w) @ new"
    by (simp_all add: 2(3) UpdateLastRunAt_world update_rule_def n(1))
  have "list_all (\<lambda>a. al_rule a = rule \<and> al_hit a \<and>
      (\<exists>n. w_step w \<le> n \<and> n < w_step w' \<and> al_ts a = w_clock w n)) new"
    using n(2) unfolding s list_all_iff stamped_def by (blast intro: less_SucI)
  then show ?thesis using a s(2) 2(1,4)
    by (simp add: appends_def 2(3) UpdateLastRunAt_world update_rule_def)
qed auto

lemma run_changes_own_rule_only_witness:
  "\<exists>w'. execute_run DefaultLimits ''r'' ((example_rule threshold_detector) \<lparr> r_cooldown := Some 60 \<rparr>)
      (Some (\<lambda>_. example_adapter [])) None 0 example_world = Ret (True, w')
    \<and> map rr_last_run (db_rules (w_db w')) = [Some 0]"
  using example_run run_changes_own_rule_only [of DefaultLimits "''r''"
    "(example_rule threshold_detector) \<lparr> r_cooldown := Some 60 \<rparr>" "Some (\<lambda>_. example_adapter [])" None 0 example_world True]
  by (fastforce simp: example_world_def example_record_def)

end
