(* ===== verification/MachineProps.thy ===== *)
theory MachineProps
  imports Main SchedProps
begin

text \<open>
  The properties of the registry under every interleaving of tickers, workers and
  operations, and of the worker process that feeds it rule events.
\<close>

subsection \<open>A reachable example\<close>

definition example_spec :: RuleSpec where
  "example_spec = (example_rule threshold_detector) \<lparr> r_cooldown := Some 60 \<rparr>"

definition example_start :: Registry where
  "example_start = add_job (new_job ''r'' example_spec (Some (\<lambda>_. example_adapter [])) example_world)
     (tick example_world) (NewRegistry DefaultLimits 2 example_world)"

lemma example_schedulable: "schedulable example_spec"
  using seconds_eq [of 10] by (simp add: schedulable_def example_spec_def example_rule_def)

lemma NewRegistry_sel [simp]: "g_jobs (NewRegistry lims n w) = []" "g_heap (NewRegistry lims n w) = []"
  "g_queue (NewRegistry lims n w) = []" "g_tickers (NewRegistry lims n w) = []"
  "g_workers (NewRegistry lims n w) = replicate n WIdle" "g_world (NewRegistry lims n w) = w"
  "g_limits (NewRegistry lims n w) = lims" "\<not> g_cancelled (NewRegistry lims n w)"
  by (simp_all add: NewRegistry_def)

lemma example_reachable: "reachable example_start"
proof -
  let ?n = "NewRegistry DefaultLimits 2 example_world"
  have "Schedule ''r'' example_spec (Some (\<lambda>_. example_adapter [])) ?n = Ret example_start"
    using Schedule_eq [OF Inv_NewRegistry, of example_spec "''r''" "Some (\<lambda>_. example_adapter [])" DefaultLimits 2 example_world]
      example_schedulable
    by (simp add: example_start_def drop_current_def schedulable_def)
  then have "step ?n example_start" by (intro step.schedule [OF example_schedulable])
  then show ?thesis by (intro reachable.more [OF reachable.start])
qed

lemma example_start_sel [simp]: "g_tickers example_start = [TLoop]" "g_queue example_start = []"
  "g_workers example_start = [WIdle, WIdle]" "g_jobs example_start = [(''r'', 0)]"
  "length (g_heap example_start) = 1" "g_heap example_start ! 0 = new_job ''r'' example_spec (Some (\<lambda>_. example_adapter [])) example_world"
  by (simp_all add: example_start_def add_job_def numeral_2_eq_2 delete_key_def)

text \<open>A ticker that loops can put one more run of its job in a queue with room.\<close>

lemma tick_and_send:
  assumes "reachable g" "i < length (g_tickers g)" "g_tickers g ! i = TLoop" "length (g_queue g) < queue_capacity"
  shows "reachable (g \<lparr> g_queue := g_queue g @ [run_of i g] \<rparr>)"
proof -
  let ?h = "g \<lparr> g_tickers := (g_tickers g)[i := TSend] \<rparr>"
  have "reachable ?h" using assms(1-3) by (blast intro: reachable.more step.tick)
  moreover have "step ?h (?h \<lparr> g_queue := g_queue ?h @ [run_of i ?h], g_tickers := (g_tickers ?h)[i := TLoop] \<rparr>)"
    using assms by (intro step.send) simp_all
  moreover have "?h \<lparr> g_queue := g_queue ?h @ [run_of i ?h], g_tickers := (g_tickers ?h)[i := TLoop] \<rparr>
      = g \<lparr> g_queue := g_queue g @ [run_of i g] \<rparr>"
    using assms(2,3) by (simp add: run_of_def list_update_same_conv)
  ultimately show ?thesis by (metis reachable.more)
qed

definition example_queued :: Registry where
  "example_queued = example_start \<lparr> g_queue := [run_of 0 example_start, run_of 0 example_start] \<rparr>"

lemma example_queued_reachable: "reachable example_queued"
proof -
  let ?r = "run_of 0 example_start" and ?h = "example_start \<lparr> g_queue := [run_of 0 example_start] \<rparr>"
  have h: "reachable ?h"
    using tick_and_send [OF example_reachable, of 0] by (simp add: queue_capacity_def)
  have "run_of 0 ?h = ?r" by (simp add: run_of_def)
  then show ?thesis using tick_and_send [OF h, of 0]
    by (simp add: queue_capacity_def example_queued_def)
qed

text \<open>
  C5: The registry is a finite map: in every reachable state \<open>Schedule\<close> of a rule whose
  interval makes a ticker, \<open>Unschedule\<close> and \<open>Stop\<close> return without a panic and act on the table
  of scheduled specifications as an update, a removal and a clearing.
\<close>
theorem registry_refines_map:
  assumes "reachable g"
  shows "(schedulable spec \<longrightarrow> (\<exists>g'. Schedule i spec ad g = Ret g' \<and> scheduled g' = (scheduled g)(i \<mapsto> spec)))
    \<and> (\<exists>g'. Unschedule i g = Ret g' \<and> scheduled g' = (scheduled g)(i := None))
    \<and> (\<exists>g'. Stop g = Ret g' \<and> scheduled g' = Map.empty)"
  using registry.put_law [OF reachable_Inv [OF assms], of spec i ad]
    registry.remove_law [OF reachable_Inv [OF assms], of i] registry.halt_law [OF reachable_Inv [OF assms]]
  by blast

lemma registry_refines_map_witness:
  "\<exists>g'. Schedule ''r'' example_spec None example_queued = Ret g'
     \<and> scheduled g' = (scheduled example_queued)(''r'' \<mapsto> example_spec)"
  using registry_refines_map [OF example_queued_reachable] example_schedulable by blast

text \<open>
  C6: In every reachable state a rule has at most one job whose stop channel is open, the
  registry knows it, every listed job is such a job, the queue never exceeds its capacity and
  every queued or running run belongs to a job of its own rule and specification.
\<close>
theorem one_live_job_per_rule:
  assumes "reachable g"
  shows "(\<forall>i j k. live g i j \<and> live g i k \<longrightarrow> j = k)
    \<and> (\<forall>i k. live g i k \<longleftrightarrow> (i, k) \<in> set (g_jobs g))
    \<and> distinct (map fst (ListJobs g)) \<and> (\<forall>i. i \<in> fst ` set (ListJobs g) \<longleftrightarrow> (\<exists>k. live g i k))
    \<and> length (g_queue g) \<le> 128
    \<and> (\<forall>r \<in> set (runs_of g). jr_job r < length (g_heap g) \<and> jr_rule r = j_rule (g_heap g ! jr_job r)
         \<and> jr_spec r = j_spec (g_heap g ! jr_job r))"
proof -
  have inv: "Inv g" using assms by (rule reachable_Inv)
  have d: "distinct (map fst (g_jobs g))" using inv by (simp add: Inv_def)
  have l: "live g i k \<longleftrightarrow> (i, k) \<in> set (g_jobs g)" for i k
    using Inv_live_iff [OF inv, of i k] d by (simp add: map_of_eq_Some_iff)
  have keys: "map fst (ListJobs g) = map fst (g_jobs g)" by (simp add: ListJobs_def case_prod_unfold)
  have "fst ` set (ListJobs g) = fst ` set (g_jobs g)" using arg_cong [OF keys, of set] by simp
  then have "i \<in> fst ` set (ListJobs g) \<longleftrightarrow> (\<exists>k. live g i k)" for i by (force simp: l)
  moreover have "j = k" if "live g i j" "live g i k" for i j k
    using that d by (auto simp: l dest: eq_key_imp_eq_value)
  ultimately show ?thesis using inv d l keys
    by (auto simp: Inv_def list_all_iff run_ok_def queue_capacity_def)
qed

lemma one_live_job_per_rule_witness:
  "{j. live example_queued ''r'' j} = {0}"
proof -
  have "live example_queued ''r'' 0" by (simp add: live_def example_queued_def)
  with one_live_job_per_rule [OF example_queued_reachable] show ?thesis by blast
qed

subsection \<open>Runs in flight\<close>

lemma take_run_reachable:
  assumes "reachable g" "k < length (g_workers g)" "g_workers g ! k = WIdle" "g_queue g = r # q"
  shows "reachable (g \<lparr> g_queue := q, g_world := tick (g_world g), g_workers := (g_workers g)[k :=
    WBusy r (w_clock (g_world g) (w_step (g_world g))) (j_last_run (g_heap g ! jr_job r))] \<rparr>)"
  by (rule reachable.more [OF assms(1)]) (rule step.take_run [OF assms(2-4)], simp add: read_clock_eq)

text \<open>
  Two workers can execute the same rule at once from the same last run: a state is
  reachable in which both hold a run of one job with the same starting point, so both evaluate
  the same rows.
\<close>
theorem overlapping_runs_reachable:
  "\<exists>g r now now' since. reachable g \<and> g_workers g = [WBusy r now since, WBusy r now' since]"
proof -
  let ?r = "run_of 0 example_start"
  let ?since = "j_last_run (g_heap example_queued ! jr_job ?r)"
  define g1 where "g1 = example_queued \<lparr> g_queue := [?r], g_world := tick (g_world example_queued),
    g_workers := (g_workers example_queued)[0 := WBusy ?r (w_clock (g_world example_queued) (w_step (g_world example_queued))) ?since] \<rparr>"
  have 1: "reachable g1" unfolding g1_def
    by (rule take_run_reachable [OF example_queued_reachable]) (simp_all add: example_queued_def)
  have w: "g_workers g1 = [WBusy ?r (w_clock (g_world example_queued) (w_step (g_world example_queued))) ?since, WIdle]"
    by (simp add: g1_def example_queued_def)
  have h: "j_last_run (g_heap g1 ! jr_job ?r) = ?since" by (simp add: g1_def)
  have q: "g_queue g1 = [?r]" by (simp add: g1_def)
  have "reachable (g1 \<lparr> g_queue := [], g_world := tick (g_world g1), g_workers := (g_workers g1)[1 :=
      WBusy ?r (w_clock (g_world g1) (w_step (g_world g1))) (j_last_run (g_heap g1 ! jr_job ?r))] \<rparr>)"
    using 1 q w by (intro take_run_reachable) simp_all
  then show ?thesis using w h by (intro exI conjI) (assumption, simp)
qed

lemma Unschedule_frame:
  "Unschedule i g = Ret g' \<Longrightarrow> g_queue g' = g_queue g \<and> g_workers g' = g_workers g \<and> g_tickers g' = g_tickers g"
  by (auto simp: Unschedule_def close_stop_def split: option.splits if_splits)

text \<open>
  \<open>Unschedule\<close> does not recall what was started: the queue, the workers and the tickers
  are as before, so a run of the removed rule that is at the head of the queue can still be
  taken by an idle worker, while the rule has no live job any more.
\<close>
theorem unschedule_keeps_runs:
  assumes "reachable g" and "Unschedule i g = Ret g'"
    and "g_queue g = r # q" and "k < length (g_workers g)" and "g_workers g ! k = WIdle"
  shows "runs_of g' = runs_of g \<and> (\<forall>j. \<not> live g' i j)
    \<and> (\<exists>h now since. step g' h \<and> g_workers h ! k = WBusy r now since)"
proof -
  have f: "g_queue g' = g_queue g" "g_workers g' = g_workers g" using Unschedule_frame [OF assms(2)] by auto
  have "Inv g' \<and> scheduled g' = (scheduled g)(i := None)"
    using registry.remove_ret [OF reachable_Inv [OF assms(1)] assms(2)] .
  then have "Inv g'" "map_of (g_jobs g') i = None" by (auto simp: scheduled_def dest: fun_cong [of _ _ i])
  then have "\<not> live g' i j" for j by (simp add: Inv_live_iff)
  moreover have "\<exists>h now since. step g' h \<and> g_workers h ! k = WBusy r now since"
  proof (intro exI conjI)
    let ?b = "WBusy r (w_clock (g_world g') (w_step (g_world g'))) (j_last_run (g_heap g' ! jr_job r))"
    let ?h = "g' \<lparr> g_queue := q, g_world := tick (g_world g'), g_workers := (g_workers g')[k := ?b] \<rparr>"
    show "step g' ?h" by (rule step.take_run) (use assms(3-5) f in \<open>simp_all add: read_clock_eq\<close>)
    show "g_workers ?h ! k = ?b" using assms(4) f by simp
  qed
  moreover have "runs_of g' = runs_of g" using f by (simp add: runs_of_def)
  ultimately show ?thesis by blast
qed

lemma unschedule_keeps_runs_witness:
  "\<exists>g' h now since. Unschedule ''r'' example_queued = Ret g' \<and> step g' h
    \<and> g_workers h ! 0 = WBusy (run_of 0 example_start) now since"
proof -
  obtain g' where "Unschedule ''r'' example_queued = Ret g'"
    using registry.remove_law [OF reachable_Inv [OF example_queued_reachable], of "''r''"] by blast
  with unschedule_keeps_runs [OF example_queued_reachable this, of "run_of 0 example_start" "[run_of 0 example_start]" 0]
  show ?thesis by (auto simp: example_queued_def)
qed

subsection \<open>The queue drains\<close>

lemma finish_safe:
  assumes "k < length (g_workers g)" "g_workers g ! k = WBusy r now since" "safe_rule (jr_spec r)"
  obtains g' where "step g g'" "g_queue g' = g_queue g" "g_workers g' = (g_workers g)[k := WIdle]"
proof -
  obtain dn w where e: "execute_run (g_limits g) (jr_rule r) (jr_spec r) (jr_adapter r) since now (g_world g) = Ret (dn, w)"
    using execute_run_safe [OF assms(3), of "g_limits g" "jr_rule r" "jr_adapter r" since now "g_world g"]
    by (auto simp: not_panics_iff)
  show ?thesis using step.finish_run [OF assms(1,2) e] by (rule that) (simp_all add: set_last_run_def)
qed

lemma drain_idle:
  "k < length (g_workers g) \<Longrightarrow> g_workers g ! k = WIdle \<Longrightarrow> \<forall>r \<in> set (g_queue g). safe_rule (jr_spec r) \<Longrightarrow>
   \<exists>g'. step\<^sup>*\<^sup>* g g' \<and> g_queue g' = [] \<and> g_workers g' = g_workers g"
proof (induction "g_queue g" arbitrary: g)
  case Nil
  then show ?case by (intro exI [of _ g]) simp
next
  case (Cons r q)
  define h where "h = g \<lparr> g_queue := q, g_world := tick (g_world g), g_workers := (g_workers g)[k :=
      WBusy r (w_clock (g_world g) (w_step (g_world g))) (j_last_run (g_heap g ! jr_job r))] \<rparr>"
  have s: "step g h" unfolding h_def
    by (rule step.take_run) (use Cons.prems Cons.hyps(2) [symmetric] in \<open>simp_all add: read_clock_eq\<close>)
  obtain g1 where g1: "step h g1" "g_queue g1 = q" "g_workers g1 = (g_workers h)[k := WIdle]"
    by (rule finish_safe [of k h r]) (use Cons.prems Cons.hyps(2) [symmetric] in \<open>auto simp: h_def\<close>)
  have w: "g_workers g1 = g_workers g"
    using g1(3) Cons.prems(1,2) by (simp add: h_def list_update_same_conv)
  obtain g' where "step\<^sup>*\<^sup>* g1 g'" "g_queue g' = []" "g_workers g' = g_workers g1"
    using Cons.hyps(1) [of g1] g1(2) w Cons.prems Cons.hyps(2) [symmetric] by auto
  with s g1(1) w show ?case by (metis converse_rtranclp_into_rtranclp)
qed

text \<open>
  C29: Progress: from any state where a worker has not returned, if every queued or running run
  has safe detectors, the workers can empty the queue: a sequence of steps leads to an empty
  queue with that worker idle.
\<close>
theorem queue_drains:
  assumes "k < length (g_workers g)" and "g_workers g ! k \<noteq> WDone"
    and "\<forall>r \<in> set (runs_of g). safe_rule (jr_spec r)"
  shows "\<exists>g'. step\<^sup>*\<^sup>* g g' \<and> g_queue g' = [] \<and> g_workers g' ! k = WIdle"
proof (cases "g_workers g ! k")
  case WIdle
  then show ?thesis using drain_idle [OF assms(1)] assms(3) by (auto simp: runs_of_def)
next
  case (WBusy r now since)
  have "WBusy r now since \<in> set (g_workers g)" using WBusy assms(1) by (metis nth_mem)
  then have "r \<in> set (runs_of g)" by (force simp: runs_of_def worker_run_def)
  then obtain h where h: "step g h" "g_queue h = g_queue g" "g_workers h = (g_workers g)[k := WIdle]"
    using finish_safe [OF assms(1) WBusy] assms(3) by blast
  obtain g' where g': "step\<^sup>*\<^sup>* h g'" "g_queue g' = []" "g_workers g' = g_workers h"
    using drain_idle [of k h] h assms(1,3) by (auto simp: runs_of_def)
  from h(1) g'(1) have "step\<^sup>*\<^sup>* g g'" by (rule converse_rtranclp_into_rtranclp)
  with g' show ?thesis using h(3) assms(1) by (intro exI [of _ g']) simp
qed (use assms(2) in simp)

lemma example_safe: "safe_rule example_spec"
  by (simp add: safe_rule_def normalizeParameters_def risky_config_def threshold_detector_def empty_detector_def
      example_spec_def example_rule_def)

lemma queue_drains_witness: "\<exists>g'. step\<^sup>*\<^sup>* example_queued g' \<and> g_queue g' = [] \<and> g_workers g' ! 0 = WIdle"
  by (rule queue_drains) (use example_safe in \<open>auto simp: example_queued_def runs_of_def worker_run_def run_of_def\<close>)

end
