(* ===== verification/WorkerProps.thy ===== *)
theory WorkerProps
  imports Main MachineProps
begin

text \<open>
  The properties of the worker process: what a rule event leaves in the job table and in the
  rule's row, what a scheduled rule satisfies, and the helpers that read the configuration.
\<close>

text \<open>
  C9: What a rule event leaves behind, on every branch: a rule that cannot be read (a deleted
  one included) keeps its job and the error is returned; a disabled rule loses its job; a rule
  whose JSON is refused keeps its job; any other rule is either scheduled with its current
  specification or loses its job and an error is returned. No other rule is touched.
\<close>
theorem event_updates_job_table:
  assumes "reachable g" and "sane_limits (g_limits g)"
    and "processRule registry allow i g = Ret (result, g')"
  shows "(case fst (GetRule i (g_world g)) of
      Inl e \<Rightarrow> result = Inl e \<and> scheduled g' = scheduled g
    | Inr r \<Rightarrow> if \<not> rr_enabled r then result = Inr () \<and> scheduled g' = (scheduled g)(i := None)
        else (case rr_spec r of None \<Rightarrow> is_err result \<and> scheduled g' = scheduled g
          | Some spec \<Rightarrow> (result = Inr () \<and> scheduled g' = (scheduled g)(i \<mapsto> spec))
              \<or> (is_err result \<and> scheduled g' = (scheduled g)(i := None))))"
  using processRule_table_aux [OF reachable_Inv [OF assms(1)] assms(2,3)] by (simp add: table_after_def)

lemma set_world_reachable: "reachable g \<Longrightarrow> reachable (set_world w g)"
  unfolding set_world_def by (rule reachable.more [OF _ step.world])

text \<open>The rule of the example is gone from the table, its job is scheduled.\<close>

definition empty_world :: World where
  "empty_world = example_world \<lparr> w_db := \<lparr> db_rules = [], db_connections = [], db_alerts = [] \<rparr> \<rparr>"

lemma event_updates_job_table_witness:
  "\<exists>g'. processRule None [] ''r'' (set_world empty_world example_start) = Ret (Inl ''not found'', g')
    \<and> scheduled g' ''r'' = Some example_spec"
proof -
  let ?g = "set_world empty_world example_start"
  have "reachable ?g" by (rule set_world_reachable [OF example_reachable])
  moreover have r: "GetRule ''r'' empty_world = (Inl ''not found'', tick empty_world)"
    by (simp add: GetRule_def db_query_def empty_world_def example_world_def find_rule_def)
  then obtain g' where g': "processRule None [] ''r'' ?g = Ret (Inl ''not found'', g')"
    by (simp add: processRule_def)
  moreover have "sane_limits (g_limits ?g)"
    using sane_DefaultLimits by (simp add: example_start_def add_job_def)
  ultimately have "scheduled g' = scheduled ?g" using event_updates_job_table [of ?g None "[]" "''r''"] r by simp
  moreover have "scheduled ?g ''r'' = Some example_spec" by (simp add: scheduled_def)
  ultimately show ?thesis using g' by simp
qed

text \<open>
  An event never crashes the worker except through the one unchecked dereference of the
  validation: the rule's row holds a robust z-score parameter without its configuration.
\<close>
theorem event_panics_only_without_config:
  assumes "reachable g" and "sane_limits (g_limits g)"
    and "\<forall>r spec. fst (GetRule i (g_world g)) = Inr r \<longrightarrow> rr_spec r = Some spec \<longrightarrow>
      (\<forall>p \<in> set (validation_parameters spec).
         d_type (p_detector p) = ''robust_zscore'' \<longrightarrow> d_robust_z (p_detector p) \<noteq> None)"
  shows "\<not> panics (handle_event subj registry allow i g)"
  using processRule_panics [OF reachable_Inv [OF assms(1)] assms(2), of registry allow i] assms(3)
  by (fastforce simp: handle_event_def robust_without_config_def list_ex_iff)

lemma event_panics_only_without_config_witness:
  "\<not> panics (handle_event RuleDeleted None [] ''r'' (set_world empty_world example_start))"
  by (rule event_panics_only_without_config)
    (use set_world_reachable [OF example_reachable] sane_DefaultLimits in
      \<open>simp_all add: example_start_def add_job_def GetRule_def db_query_def empty_world_def example_world_def find_rule_def\<close>)

subsection \<open>The status a rule event stores\<close>

lemma close_stop_world: "close_stop k g = Ret g' \<Longrightarrow> g_world g' = g_world g"
  by (auto simp: close_stop_def split: if_splits)

lemma Unschedule_world: "Unschedule i g = Ret g' \<Longrightarrow> g_world g' = g_world g"
  by (cases "map_of (g_jobs g) i", simp add: Unschedule_def)
    (use close_stop_world in \<open>fastforce simp: Unschedule_def go_bind_def split: go.splits\<close>)

lemma Schedule_world: "Inv g \<Longrightarrow> schedulable spec \<Longrightarrow> Schedule i spec ad g = Ret g' \<Longrightarrow> g_world g' = tick (g_world g)"
  using Schedule_eq [of g spec i ad] by (auto simp: schedulable_def add_job_def)

lemma mark_rule_status:
  assumes "\<forall>n. w_up (g_world g) n" "find_rule i (w_db (g_world g)) = Some r"
  shows "\<exists>r'. find_rule i (w_db (g_world (mark_rule i st e g))) = Some r' \<and> rr_status r' = st \<and> rr_last_error r' = e"
  using assms find_rule_id [OF assms(2)]
  by (auto simp: mark_rule_def UpdateRuleStatus_def db_exec_def find_rule_update)

definition status_is :: "string \<Rightarrow> string \<Rightarrow> string option \<Rightarrow> Registry \<Rightarrow> bool" where
  "status_is i st e g = (case find_rule i (w_db (g_world g)) of None \<Rightarrow> False
     | Some r \<Rightarrow> rr_status r = st \<and> rr_last_error r = e)"

lemma mark_rule_status_is:
  "\<forall>n. w_up (g_world g) n \<Longrightarrow> find_rule i (w_db (g_world g)) \<noteq> None \<Longrightarrow> status_is i st e (mark_rule i st e g)"
  using mark_rule_status [of g i _ st e] by (auto simp: status_is_def)

lemma reject_rule_status:
  assumes "reject_rule i m e g = Ret (result, g')" "\<forall>n. w_up (g_world g) n" "find_rule i (w_db (g_world g)) \<noteq> None"
  shows "result = Inl e \<and> status_is i ''INVALID'' (Some m) g'"
proof -
  from assms(1) obtain h where "Unschedule i (mark_rule i ''INVALID'' (Some m) g) = Ret h" "result = Inl e" "g' = h"
    unfolding reject_rule_def by (cases "Unschedule i (mark_rule i ''INVALID'' (Some m) g)") auto
  with Unschedule_world mark_rule_status_is [OF assms(2,3)] show ?thesis by (fastforce simp: status_is_def)
qed

lemma activate_rule_status:
  assumes "activate_rule i spec ad g = Ret (result, g')" "\<forall>n. w_up (g_world g) n"
    "find_rule i (w_db (g_world g)) \<noteq> None" "Inv g" "schedulable spec"
  shows "result = Inr () \<and> status_is i ''ACTIVE'' None g'"
proof -
  let ?m = "mark_rule i ''ACTIVE'' None g"
  from assms(1) obtain h where h: "Schedule i spec (Some ad) ?m = Ret h" "result = Inr ()" "g' = h"
    unfolding activate_rule_def by (cases "Schedule i spec (Some ad) ?m") auto
  have "g_world h = tick (g_world ?m)" using assms(4,5) h(1) by (intro Schedule_world) simp_all
  with h mark_rule_status_is [OF assms(2,3)] show ?thesis by (auto simp: status_is_def)
qed

text \<open>
  The status column tells the outcome: when the database answers throughout, the event of
  an enabled rule that exists ends with the row marked \<open>ACTIVE\<close> and no error exactly when it
  succeeded, and with the row marked \<open>INVALID\<close> and an error text otherwise.
\<close>
theorem event_stores_status:
  assumes "reachable g" and "sane_limits (g_limits g)" and up: "\<forall>n. w_up (g_world g) n"
    and r: "find_rule i (w_db (g_world g)) = Some r" "rr_enabled r"
    and run: "processRule registry allow i g = Ret (result, g')"
  shows "if result = Inr () then status_is i ''ACTIVE'' None g' else \<exists>m. status_is i ''INVALID'' (Some m) g'"
proof -
  have g: "fst (GetRule i (g_world g)) = Inr r" using fst_GetRule [of "g_world g" i] up r(1) by simp
  have inv: "Inv g" using assms(1) by (rule reachable_Inv)
  have f: "\<forall>k. w_up (g_world (set_world ((tick ^^ n) (g_world g)) g)) k"
    "find_rule i (w_db (g_world (set_world ((tick ^^ n) (g_world g)) g))) \<noteq> None" for n
    using up r(1) by simp_all
  from run show ?thesis
  proof (cases rule: processRule_cases)
    case (bad_json r')
    then show ?thesis using mark_rule_status_is [OF f(1) [of 1] f(2) [of 1]] by auto
  next
    case (rejected r' spec m e n)
    then show ?thesis using reject_rule_status [OF rejected(4) f(1) f(2)] by auto
  next
    case (activated r' spec ad ad' now n)
    then have "schedulable spec" using assms(2) validated_schedulable by blast
    then show ?thesis using activate_rule_status [OF activated(5) f(1) f(2)] inv by simp
  qed (use g r in simp_all)
qed

definition unreadable_start :: Registry where
  "unreadable_start = NewRegistry DefaultLimits 2 (example_world \<lparr> w_db :=
     \<lparr> db_rules = [example_record \<lparr> rr_spec := None \<rparr>], db_connections = [], db_alerts = [] \<rparr> \<rparr>)"

lemma event_stores_status_witness:
  "\<exists>result g'. processRule None [] ''r'' unreadable_start = Ret (result, g') \<and> is_err result
    \<and> (\<exists>m. status_is ''r'' ''INVALID'' (Some m) g')"
proof -
  have r: "find_rule ''r'' (w_db (g_world unreadable_start)) = Some (example_record \<lparr> rr_spec := None \<rparr>)"
    by (simp add: unreadable_start_def find_rule_def example_record_def)
  have up: "\<forall>n. w_up (g_world unreadable_start) n" by (simp add: unreadable_start_def example_world_def)
  have g: "GetRule ''r'' (g_world unreadable_start) = (Inr (example_record \<lparr> rr_spec := None \<rparr>), tick (g_world unreadable_start))"
    using fst_GetRule [of "g_world unreadable_start" "''r''"] r up by (simp add: prod_eq_iff)
  then obtain g' where run: "processRule None [] ''r'' unreadable_start = Ret (Inl ''invalid rule json'', g')"
    by (simp add: processRule_def example_record_def)
  from event_stores_status [OF _ _ up r _ run] sane_DefaultLimits reachable.start show ?thesis
    using run by (auto simp: unreadable_start_def example_record_def)
qed

subsection \<open>What a scheduled rule satisfies\<close>

text \<open>
  A rule that passes the runtime validation polls within the limits, uses only safe
  identifiers, evaluates at least one parameter, reads an allowlisted table, has a numeric
  column under every detector that calculates and a supported subgroup size in every range
  chart.
\<close>
theorem validated_rule_is_safe:
  assumes "RuntimeValidateRule ad spec allowlist lims now = Ret (Inr ())"
  shows "li_min_poll lims \<le> r_poll spec \<and> r_poll spec \<le> li_max_poll lims
    \<and> identifiers_safe spec \<and> normalizeParameters spec \<noteq> [] \<and> AllowsTable allowlist (so_table (r_source spec))
    \<and> (\<exists>cols. \<forall>p \<in> set (validation_parameters spec). colTypes cols (p_column p) \<noteq> None
        \<and> (d_type (p_detector p) \<in> {''robust_zscore'', ''shewhart'', ''range_chart'', ''trend'', ''tpa'', ''spec_limit''} \<longrightarrow>
            isNumericType (type_of_column cols (p_column p)))
        \<and> (d_type (p_detector p) = ''range_chart'' \<longrightarrow>
            (\<exists>rc. d_range_chart (p_detector p) = Some rc \<and> 2 \<le> rc_size rc \<and> rc_size rc \<le> 10)))"
proof -
  have shape: "poll_in_limits lims spec \<and> identifiers_safe spec \<and> validation_parameters spec \<noteq> []
      \<and> AllowsTable allowlist (so_table (r_source spec))"
    using RuntimeValidateRule_ok(1) [OF assms] by (rule validate_shape_ok)
  obtain cols where "validate_params ad lims spec cols now (validation_parameters spec) = Ret (Inr ())"
    using RuntimeValidateRule_ok(2) [OF assms] by blast
  then have v: "validate_param ad lims spec cols now p = Ret (Inr ())" if "p \<in> set (validation_parameters spec)" for p
    using that validate_params_ok by blast
  have col: "colTypes cols (p_column p) \<noteq> None" if "p \<in> set (validation_parameters spec)" for p
    using v [OF that] by (auto simp: validate_param_def Let_def split: if_splits)
  have num: "isNumericType (type_of_column cols (p_column p))"
    if "p \<in> set (validation_parameters spec)"
      "d_type (p_detector p) \<in> {''robust_zscore'', ''shewhart'', ''range_chart'', ''trend'', ''tpa'', ''spec_limit''}" for p
    using v [OF that(1)] that(2)
    by (auto simp: validate_param_def check_range_chart_def Let_def split: if_splits option.splits)
  have rc: "\<exists>rc. d_range_chart (p_detector p) = Some rc \<and> 2 \<le> rc_size rc \<and> rc_size rc \<le> 10"
    if "p \<in> set (validation_parameters spec)" "d_type (p_detector p) = ''range_chart''" for p
    using v [OF that(1)] that(2)
    by (auto simp: validate_param_def check_range_chart_def isSupportedRangeChartSize_def Let_def
        split: if_splits option.splits)
  have "normalizeParameters spec \<noteq> []" using shape normalize_columns(1) [of spec] by auto
  with shape col num rc show ?thesis unfolding poll_in_limits_def by blast
qed

lemma validated_rule_is_safe_witness:
  "IsSafeIdentifier (so_table (r_source (example_rule bad_trend))) \<and> li_min_poll DefaultLimits \<le> r_poll (example_rule bad_trend)"
proof -
  have "RuntimeValidateRule (example_adapter []) (example_rule bad_trend) [] DefaultLimits 0 = Ret (Inr ())"
    by (rule bad_trend_validates)
  from validated_rule_is_safe [OF this] show ?thesis by (simp add: identifiers_safe_def)
qed

subsection \<open>Configuration\<close>

text \<open>
  Adapters are found by database type without regard to the case of ASCII letters: an
  adapter entered under a key is found under every spelling of the key, unless a later entry has
  the same key up to case, and a nil registry answers with an error.
\<close>
theorem adapter_lookup_ignores_case:
  "to_lower asked = to_lower key \<Longrightarrow> to_lower key \<notin> to_lower ` fst ` set later \<Longrightarrow>
   AdapterFor (Some (NewAdapterRegistry (earlier @ (key, ad) # later))) asked = Inr ad"
proof -
  assume a: "to_lower asked = to_lower key" and l: "to_lower key \<notin> to_lower ` fst ` set later"
  have "map_of (map (\<lambda>(key, ad). (to_lower key, ad)) (rev later)) (to_lower key) = None"
    using l by (force simp: map_of_eq_None_iff)
  then show ?thesis
    by (simp add: AdapterFor_def a NewAdapterRegistry_lookup rev_map map_add_def)
qed

lemma adapter_lookup_ignores_case_witness:
  "AdapterFor (Some (NewAdapterRegistry ([] @ (''MySQL'', \<lambda>_. example_adapter []) # []))) ''mysql'' = Inr (\<lambda>_. example_adapter [])"
  by (rule adapter_lookup_ignores_case) (code_simp, simp)

text \<open>
  \<open>splitCSV\<close> reads back a list of table names joined with commas: names that are neither
  empty, nor contain a comma, nor begin or end with white space come back unchanged and in
  order, so an allowlist entry is compared as it was written.
\<close>
theorem splitCSV_join:
  assumes "\<forall>t \<in> set tables. t \<noteq> [] \<and> CHR 0x2C \<notin> set t \<and> \<not> is_space (hd t) \<and> \<not> is_space (last t)"
  shows "splitCSV (join tables '','') = tables"
proof (cases "tables = []")
  case True
  then show ?thesis by (simp add: splitCSV_def)
next
  case False
  then have s: "split_on (CHR 0x2C) (join tables '','') = tables"
    using assms by (intro split_on_join) auto
  have t: "map trim_space tables = tables" using assms by (intro map_idI trim_space_id) auto
  show ?thesis unfolding splitCSV_def s t using assms by (simp add: filter_id_conv)
qed

lemma splitCSV_join_witness: "splitCSV (join [''lots'', ''wafers''] '','') = [''lots'', ''wafers'']"
  by (rule splitCSV_join) (simp, code_simp)

end
