(* ===== verification/Stepper.thy ===== *)
theory Stepper
  imports Main SchedValidation SchedWorker
begin

text \<open>
  The stepper endpoints of the scheduler (\<open>internal/scheduler/stepper.go\<close> and the handlers of
  \<open>cmd/worker/stepper_handlers.go\<close>): the baseline check and the preview of a rule that is
  being edited. The database can answer differently from call to call, so the adapter and the
  clock are functions of the number of the call. A rule's configuration is what
  \<open>json.Unmarshal\<close>, whose error the code ignores, leaves in a zero struct of each detector.
\<close>

record StepperConfig =
  sc_spec_limit :: SpecLimitSpec
  sc_shewhart :: ShewhartSpec
  sc_range_chart :: RangeChartSpec
  sc_trend :: TrendSpec
  sc_tpa :: TPASpec

definition zero_baseline :: BaselineSpec where
  "zero_baseline = \<lparr> bl_last_n = None, bl_time_range = None \<rparr>"

definition zero_config :: StepperConfig where
  "zero_config = \<lparr> sc_spec_limit = \<lparr> sl_spec = None, sl_control = None, sl_mode = [], sl_epsilon = None \<rparr>,
     sc_shewhart = \<lparr> sh_baseline = zero_baseline, sh_sigma = f0, sh_min_n = 0, sh_population = False \<rparr>,
     sc_range_chart = \<lparr> rc_size = 0, rc_subgrouping = \<lparr> sg_mode = [], sg_column = [] \<rparr>,
       rc_baseline = zero_baseline, rc_min_subgroups = 0 \<rparr>,
     sc_trend = \<lparr> tn_window = 0, tn_epsilon = f0, tn_consecutive = False \<rparr>,
     sc_tpa = \<lparr> tp_window = 0, tp_basis = [], tp_slope = None, tp_time_to_spec = None,
       tp_require_limits = False, tp_limits = None, tp_epsilon = f0 \<rparr> \<rparr>"

record selectorSpec =
  se_kind :: string
  se_value :: int
  se_start :: string
  se_end :: string

record subgroupSpec =
  su_kind :: string
  su_column :: string
  su_size :: int

record StepperBaselineRequest =
  bq_connection :: string
  bq_table :: string
  bq_timestamp :: string
  bq_value :: string
  bq_rule_type :: string
  bq_selector :: selectorSpec
  bq_subgrouping :: "subgroupSpec option"

record StepperPreviewRequest =
  pq_connection :: string
  pq_table :: string
  pq_timestamp :: string
  pq_value :: string
  pq_rule_type :: string
  pq_config :: StepperConfig
  pq_baseline :: "selectorSpec option"
  pq_eval :: "selectorSpec option"
  pq_subgrouping :: "subgroupSpec option"

record continuitySummary =
  cs_gaps :: bool
  cs_largest :: f64

record StepperBaselineResponse =
  br_status :: string
  br_available :: "(string \<times> int) list"
  br_required :: "(string \<times> int) list"
  br_continuity :: continuitySummary
  br_messages :: "string list"

record StepperPreviewResponse =
  pr_status :: string
  pr_window :: "(string \<times> string) list"
  pr_baseline :: "(string \<times> goval) list"
  pr_computed :: "(string \<times> goval) list"
  pr_violations :: "(string \<times> goval) list list"
  pr_explain :: gotext

subsection \<open>Building the rule\<close>

definition shewhart_sigma :: "string \<Rightarrow> f64" where
  "shewhart_sigma ruleType = (if ruleType = ''SHEWHART_2SIGMA'' then Fin 2 else Fin 3)"

definition stepper_buildDetector :: "string \<Rightarrow> StepperConfig \<Rightarrow> DetectorSpec res" where
  "stepper_buildDetector ruleType config =
     (if ruleType = ''SPEC_LIMIT_VIOLATION'' then
        Inr (empty_detector \<lparr> d_type := ''spec_limit'', d_spec_limit := Some (sc_spec_limit config) \<rparr>)
      else if ruleType = ''SHEWHART_3SIGMA'' \<or> ruleType = ''SHEWHART_2SIGMA'' then
        Inr (empty_detector \<lparr> d_type := ''shewhart'',
          d_shewhart := Some ((sc_shewhart config) \<lparr> sh_sigma := shewhart_sigma ruleType \<rparr>) \<rparr>)
      else if ruleType = ''RANGE_CHART_R'' then
        Inr (empty_detector \<lparr> d_type := ''range_chart'', d_range_chart := Some (sc_range_chart config) \<rparr>)
      else if ruleType = ''TREND_6_POINTS'' then
        Inr (empty_detector \<lparr> d_type := ''trend'', d_trend := Some ((sc_trend config)
          \<lparr> tn_window := (if tn_window (sc_trend config) = 0 then 6 else tn_window (sc_trend config)) \<rparr>) \<rparr>)
      else if ruleType = ''TPA'' then
        Inr (empty_detector \<lparr> d_type := ''tpa'', d_tpa := Some (sc_tpa config) \<rparr>)
      else Inl ''unsupported rule type'')"

definition buildRuleSpec :: "string \<Rightarrow> string \<Rightarrow> string \<Rightarrow> string \<Rightarrow> string \<Rightarrow> StepperConfig \<Rightarrow> RuleSpec res" where
  "buildRuleSpec connection table timestampColumn valueColumn ruleType config =
     (case stepper_buildDetector ruleType config of Inl e \<Rightarrow> Inl e
      | Inr detector \<Rightarrow> Inr (empty_rule \<lparr> r_connection := connection,
          r_source := \<lparr> so_table = table, so_timestamp = timestampColumn, so_where = None, so_value_column = [] \<rparr>,
          r_parameters := [\<lparr> p_name = valueColumn, p_column = valueColumn, p_detector = detector \<rparr>],
          r_poll := 10, r_enabled := True \<rparr>))"

subsection \<open>Checking the metadata\<close>

definition needsNumeric :: "string \<Rightarrow> bool" where
  "needsNumeric detectorType = (detectorType \<in> {''spec_limit'', ''shewhart'', ''range_chart'', ''trend'', ''tpa''})"

definition isTimeType :: "string \<Rightarrow> bool" where
  "isTimeType t = (let v = to_lower t in contains_sub v ''time'' \<or> contains_sub v ''date'')"

definition validateStepperMetadata :: "(nat \<Rightarrow> DbMcpAdapter) \<Rightarrow> string list \<Rightarrow> RuleSpec \<Rightarrow> subgroupSpec option \<Rightarrow> unit res" where
  "validateStepperMetadata ad allowlist spec subgroup =
     (let table = so_table (r_source spec); tsCol = so_timestamp (r_source spec); param = hd (r_parameters spec) in
      if \<not> AllowsTable allowlist table then Inl ''table not allowlisted''
      else case ad_list_tables (ad 0) (r_connection spec) of Inl e \<Rightarrow> Inl e
      | Inr tables \<Rightarrow> if table \<notin> set tables then Inl ''table not found''
        else case ad_list_columns (ad 1) (r_connection spec) table of Inl e \<Rightarrow> Inl e
        | Inr cols \<Rightarrow> let ty = d_type (p_detector param); valueType = type_of_column cols (p_column param) in
            if colTypes cols tsCol = None then Inl ''timestamp column not found''
            else if valueType = [] then Inl ''value column not found''
            else if needsNumeric ty \<and> \<not> isNumericType valueType then Inl ''value column must be numeric''
            else if (case subgroup of None \<Rightarrow> False
                | Some s \<Rightarrow> su_kind s = ''column'' \<and> colTypes cols (su_column s) = None) then
              Inl ''subgroup column not found''
            else if (ty = ''trend'' \<or> ty = ''tpa'') \<and> \<not> isTimeType (type_of_column cols tsCol) then
              Inl ''timestamp column must be time type''
            else Inr ())"

subsection \<open>Fetching\<close>

definition subgroup_column :: "subgroupSpec option \<Rightarrow> string" where
  "subgroup_column subgroup = (case subgroup of None \<Rightarrow> []
     | Some s \<Rightarrow> if su_kind s = ''column'' then su_column s else [])"

text \<open>The window a selector stands for: since, start, end and row limit.\<close>

definition selector_window :: "int \<Rightarrow> selectorSpec \<Rightarrow> int \<Rightarrow> (int \<times> int option \<times> int option \<times> int) res" where
  "selector_window now selector maxRows =
     (if se_kind selector = ''lastN'' then
        Inr (now - year_ns, None, None, if se_value selector > 0 then clampLimit (se_value selector) maxRows else maxRows)
      else if se_kind selector = ''timeRange'' then
        (case parseTimeRange \<lparr> tr_start = se_start selector, tr_end = se_end selector \<rparr> of Inl e \<Rightarrow> Inl e
         | Inr (a, b) \<Rightarrow> Inr (a, Some a, Some b, maxRows))
      else Inl ''invalid selector kind'')"

definition fetchForSelector :: "DbMcpAdapter \<Rightarrow> int \<Rightarrow> RuleSpec \<Rightarrow> selectorSpec \<Rightarrow> subgroupSpec option \<Rightarrow> Limits
    \<Rightarrow> Sample list res" where
  "fetchForSelector ad now spec selector subgroup lims =
     (case selector_window now selector (li_max_sample_rows lims) of Inl e \<Rightarrow> Inl e
      | Inr (since, start, end', limit) \<Rightarrow>
         (case fetchSamples (Some ad) spec (hd (r_parameters spec)) [] since limit (subgroup_column subgroup) of
            Inl e \<Rightarrow> Inl e
          | Inr samples \<Rightarrow> Inr (if start \<noteq> None \<or> end' \<noteq> None then filterSamplesByRange samples start end' else samples)))"

definition buildGroups :: "Sample list \<Rightarrow> subgroupSpec option \<Rightarrow> Sample list list go" where
  "buildGroups samples subgroup =
     (let given = (case subgroup of None \<Rightarrow> 0 | Some s \<Rightarrow> su_size s); sz = (if given \<le> 0 then 5 else given) in
      case subgroup of
        Some s \<Rightarrow> if su_kind s = ''column'' then groupBySubgroup samples sz else Ret (groupConsecutive samples sz)
      | None \<Rightarrow> Ret (groupConsecutive samples sz))"

definition computeTimestampContinuity :: "Sample list \<Rightarrow> bool \<times> f64" where
  "computeTimestampContinuity samples = (if length samples < 2 then (False, f0)
     else (\<not> hasConsecutiveTimestamps samples, fold (\<lambda>d m. if fgt d m then d else m) (ts_deltas samples) f0))"

definition formatTime :: "int option \<Rightarrow> string" where
  "formatTime ts = (case ts of None \<Rightarrow> [] | Some t \<Rightarrow> format_rfc3339 t)"

subsection \<open>The baseline check\<close>

definition is_shewhart :: "string \<Rightarrow> bool" where
  "is_shewhart ruleType = (ruleType = ''SHEWHART_2SIGMA'' \<or> ruleType = ''SHEWHART_3SIGMA'')"

definition required_samples :: "string \<Rightarrow> int" where
  "required_samples ruleType = (if is_shewhart ruleType then defaultBaselineMinN else 0)"

definition required_subgroups :: "string \<Rightarrow> int" where
  "required_subgroups ruleType = (if ruleType = ''RANGE_CHART_R'' then defaultBaselineSubgroups else 0)"

definition invalid_baseline :: "string \<Rightarrow> StepperBaselineResponse" where
  "invalid_baseline msg = \<lparr> br_status = statusInvalidConfig, br_available = [], br_required = [],
     br_continuity = \<lparr> cs_gaps = False, cs_largest = f0 \<rparr>, br_messages = [msg] \<rparr>"

definition baseline_response :: "string \<Rightarrow> Sample list \<Rightarrow> Sample list list option \<Rightarrow> StepperBaselineResponse" where
  "baseline_response ruleType samples groups =
     (let n = int (length samples); (gaps, largest) = computeTimestampContinuity samples;
          few = required_samples ruleType > 0 \<and> n < required_samples ruleType;
          fewGroups = (case groups of None \<Rightarrow> False | Some gs \<Rightarrow> int (length gs) < required_subgroups ruleType)
      in \<lparr> br_status = (if few \<or> fewGroups then statusInsufficient else statusOK),
           br_available = (''samples'', n) # (case groups of None \<Rightarrow> [] | Some gs \<Rightarrow> [(''subgroups'', int (length gs))]),
           br_required = [(''minBaselineSamples'', required_samples ruleType),
             (''minBaselineSubgroups'', required_subgroups ruleType)],
           br_continuity = \<lparr> cs_gaps = gaps, cs_largest = largest \<rparr>, br_messages = [] \<rparr>)"

definition StepperBaselineCheck :: "(nat \<Rightarrow> DbMcpAdapter) \<Rightarrow> (nat \<Rightarrow> int) \<Rightarrow> string list \<Rightarrow> Limits
    \<Rightarrow> StepperBaselineRequest \<Rightarrow> StepperBaselineResponse res go" where
  "StepperBaselineCheck ad clock allowlist lims req =
     (case buildRuleSpec (bq_connection req) (bq_table req) (bq_timestamp req) (bq_value req) (bq_rule_type req) zero_config of
        Inl e \<Rightarrow> Ret (Inl e)
      | Inr spec \<Rightarrow> (case validateStepperMetadata ad allowlist spec (bq_subgrouping req) of
          Inl e \<Rightarrow> Ret (Inr (invalid_baseline e))
        | Inr _ \<Rightarrow> (case fetchForSelector (ad 2) (clock 0) spec (bq_selector req) (bq_subgrouping req) lims of
            Inl e \<Rightarrow> Ret (Inl e)
          | Inr samples \<Rightarrow> if bq_rule_type req = ''RANGE_CHART_R'' then
                go_bind (buildGroups samples (bq_subgrouping req))
                  (\<lambda>groups. Ret (Inr (baseline_response (bq_rule_type req) samples (Some groups))))
              else Ret (Inr (baseline_response (bq_rule_type req) samples None)))))"

subsection \<open>The preview\<close>

definition last_n :: "int \<Rightarrow> selectorSpec" where
  "last_n n = \<lparr> se_kind = ''lastN'', se_value = n, se_start = [], se_end = [] \<rparr>"

definition uses_baseline :: "string \<Rightarrow> bool" where
  "uses_baseline ruleType = (ruleType = ''SHEWHART_3SIGMA'' \<or> ruleType = ''SHEWHART_2SIGMA'' \<or> ruleType = ''RANGE_CHART_R'')"

definition preview_result :: "string \<Rightarrow> DetectorSpec \<Rightarrow> Sample list \<Rightarrow> Sample list \<Rightarrow> subgroupSpec option
    \<Rightarrow> DetectorResult res go" where
  "preview_result ruleType d baseline evals subgroup =
     (if ruleType = ''SPEC_LIMIT_VIOLATION'' then
        Ret (Inr (if evals = [] then insufficientData ''not enough samples''
          else EvaluateSpecLimit (last evals) (the (d_spec_limit d))))
      else if ruleType = ''SHEWHART_3SIGMA'' \<or> ruleType = ''SHEWHART_2SIGMA'' then
        go_bind (EvaluateShewhart baseline (the (d_shewhart d)) (sh_sigma (the (d_shewhart d)))) (\<lambda>r. Ret (Inr r))
      else if ruleType = ''RANGE_CHART_R'' then
        go_bind (buildGroups baseline subgroup)
          (\<lambda>groups. go_bind (EvaluateRangeChart groups (the (d_range_chart d))) (\<lambda>r. Ret (Inr r)))
      else if ruleType = ''TREND_6_POINTS'' then
        go_bind (EvaluateTrend6 evals (the (d_trend d))) (\<lambda>r. Ret (Inr r))
      else if ruleType = ''TPA'' then Ret (Inr (EvaluateTPA evals (the (d_tpa d))))
      else Ret (Inl ''unsupported rule type''))"

definition violation_item :: "Violation \<Rightarrow> (string \<times> goval) list" where
  "violation_item v = [(''kind'', VStr ''point''), (''value'', VFloat (v_value v)), (''reason'', VStr (v_reason v)),
       (''limitName'', VStr (v_limit_name v)), (''limitValue'', VFloat (v_limit_value v)), (''delta'', VFloat (v_delta v))]
     @ (case v_timestamp v of None \<Rightarrow> [] | Some t \<Rightarrow> [(''timestamp'', VStr (format_rfc3339 t))])
     @ (case v_index v of None \<Rightarrow> [] | Some i \<Rightarrow> [(''index'', VInt i)])"

definition invalid_preview :: "string \<Rightarrow> StepperPreviewResponse" where
  "invalid_preview msg = \<lparr> pr_status = statusInvalidConfig, pr_window = [], pr_baseline = [], pr_computed = [],
     pr_violations = [], pr_explain = Txt msg \<rparr>"

definition preview_response :: "ParameterSpec \<Rightarrow> nat \<Rightarrow> DetectorResult \<Rightarrow> StepperPreviewResponse go" where
  "preview_response param n r = go_bind (buildExplain r param) (\<lambda>explain. Ret
     \<lparr> pr_status = dr_status r,
       pr_window = [(''start'', formatTime (dr_window_start r)), (''end'', formatTime (dr_window_end r))],
       pr_baseline = [(''start'', VStr (formatTime (dr_baseline_start r))), (''end'', VStr (formatTime (dr_baseline_end r))),
         (''count'', VInt (int n))],
       pr_computed = dr_metadata r, pr_violations = map violation_item (dr_violations r), pr_explain = explain \<rparr>)"

definition StepperPreview :: "(nat \<Rightarrow> DbMcpAdapter) \<Rightarrow> (nat \<Rightarrow> int) \<Rightarrow> string list \<Rightarrow> Limits
    \<Rightarrow> StepperPreviewRequest \<Rightarrow> StepperPreviewResponse res go" where
  "StepperPreview ad clock allowlist lims req =
     (case buildRuleSpec (pq_connection req) (pq_table req) (pq_timestamp req) (pq_value req) (pq_rule_type req) (pq_config req) of
        Inl e \<Rightarrow> Ret (Inl e)
      | Inr spec \<Rightarrow> (case validateStepperMetadata ad allowlist spec (pq_subgrouping req) of
          Inl e \<Rightarrow> Ret (Inr (invalid_preview e))
        | Inr _ \<Rightarrow> (case fetchForSelector (ad 2) (clock 0) spec
              (case pq_baseline req of None \<Rightarrow> last_n defaultBaselineLastN | Some s \<Rightarrow> s) (pq_subgrouping req) lims of
            Inl e \<Rightarrow> Ret (Inl e)
          | Inr baseline \<Rightarrow> (case fetchForSelector (ad 3) (clock 1) spec
                (case pq_eval req of None \<Rightarrow> last_n 50 | Some s \<Rightarrow> s) (pq_subgrouping req) lims of
              Inl e \<Rightarrow> Ret (Inl e)
            | Inr evals \<Rightarrow> let param = hd (r_parameters spec) in
                go_bind (preview_result (pq_rule_type req) (p_detector param) baseline evals (pq_subgrouping req))
                  (\<lambda>res. case res of Inl e \<Rightarrow> Ret (Inl e)
                    | Inr r \<Rightarrow> go_bind (preview_response param (length baseline)
                        (applyWindowAndBaseline evals None None (uses_baseline (pq_rule_type req)) r))
                        (\<lambda>resp. Ret (Inr resp)))))))"

subsection \<open>The handlers\<close>

text \<open>
  An answer is its status code and a payload: nothing, the admin error object or a response.
  The body decodes to a request, or not.
\<close>

datatype 'a admin_answer = NoBody int | AdminError int string | AdminOK 'a

definition admin_post :: "(string \<Rightarrow> World \<Rightarrow> (nat \<Rightarrow> DbMcpAdapter) res \<times> World) \<Rightarrow> ('r \<Rightarrow> string)
    \<Rightarrow> ((nat \<Rightarrow> DbMcpAdapter) \<Rightarrow> 'r \<Rightarrow> 'a res go) \<Rightarrow> string \<Rightarrow> 'r option \<Rightarrow> World \<Rightarrow> ('a admin_answer \<times> World) go" where
  "admin_post lookup conn handle method body w =
     (if method \<noteq> ''POST'' then Ret (NoBody 405, w)
      else case body of None \<Rightarrow> Ret (AdminError 400 ''invalid payload'', w)
      | Some req \<Rightarrow> (case lookup (conn req) w of
          (Inl e, w') \<Rightarrow> Ret (AdminError 400 e, w')
        | (Inr ad, w') \<Rightarrow> go_bind (handle ad req)
            (\<lambda>r. case r of Inl e \<Rightarrow> Ret (AdminError 400 e, w') | Inr resp \<Rightarrow> Ret (AdminOK resp, w'))))"

definition handle_baseline_check :: "adapter_map option \<Rightarrow> string list \<Rightarrow> Limits \<Rightarrow> (nat \<Rightarrow> int) \<Rightarrow> string
    \<Rightarrow> StepperBaselineRequest option \<Rightarrow> World \<Rightarrow> (StepperBaselineResponse admin_answer \<times> World) go" where
  "handle_baseline_check registry allowlist lims clock = admin_post (adapterForConnection registry) bq_connection
     (\<lambda>ad req. StepperBaselineCheck ad clock allowlist lims req)"

definition handle_preview :: "adapter_map option \<Rightarrow> string list \<Rightarrow> Limits \<Rightarrow> (nat \<Rightarrow> int) \<Rightarrow> string
    \<Rightarrow> StepperPreviewRequest option \<Rightarrow> World \<Rightarrow> (StepperPreviewResponse admin_answer \<times> World) go" where
  "handle_preview registry allowlist lims clock = admin_post (adapterForConnection registry) pq_connection
     (\<lambda>ad req. StepperPreview ad clock allowlist lims req)"

text \<open>The three endpoints of \<open>startAdminServer\<close> besides the stepper's.\<close>

definition handle_healthz :: "(string \<times> string) list admin_answer" where
  "handle_healthz = AdminOK [(''status'', ''ok'')]"

definition handle_jobs :: "string \<Rightarrow> Registry \<Rightarrow> (string \<times> int) list admin_answer" where
  "handle_jobs method g = (if method \<noteq> ''GET'' then NoBody 405 else AdminOK (ListJobs g))"

definition handle_reload :: "adapter_map option \<Rightarrow> string list \<Rightarrow> string \<Rightarrow> Registry \<Rightarrow> (unit admin_answer \<times> Registry) go" where
  "handle_reload registry allowlist method g = (if method \<noteq> ''POST'' then Ret (NoBody 405, g)
     else go_bind (reconcile registry allowlist g) (\<lambda>(r, g). case r of
       Inl e \<Rightarrow> Ret (AdminError 500 e, g) | Inr _ \<Rightarrow> Ret (AdminOK (), g)))"

subsection \<open>Facts\<close>

lemma buildRuleSpec_ok:
  assumes "buildRuleSpec c t ts v ty cfg = Inr spec"
  obtains d where "stepper_buildDetector ty cfg = Inr d"
    "r_parameters spec = [\<lparr> p_name = v, p_column = v, p_detector = d \<rparr>]"
    "so_table (r_source spec) = t" "so_timestamp (r_source spec) = ts" "r_connection spec = c"
  using assms by (auto simp: buildRuleSpec_def split: sum.splits)

lemma buildGroups_safe: "\<not> panics (buildGroups samples subgroup)"
proof -
  have "\<not> panics (groupBySubgroup samples n)" if "0 \<le> n" for n
    using that by (simp add: groupBySubgroup_def Let_def)
  then show ?thesis by (auto simp: buildGroups_def Let_def split: option.splits)
qed

lemma baseline_check_safe: "\<not> panics (StepperBaselineCheck ad clock allowlist lims req)"
  unfolding StepperBaselineCheck_def by (intro no_panic_intros buildGroups_safe)

lemma stepper_detector_cases:
  assumes "stepper_buildDetector ty cfg = Inr d"
  shows "d_type d \<noteq> ''robust_zscore'' \<and> d_type d \<noteq> ''missing_data''"
  using assms by (auto simp: stepper_buildDetector_def empty_detector_def split: if_splits)

lemma buildGroups_sizes:
  assumes "buildGroups samples subgroup = Ret groups" "g \<in> set groups"
  shows "g \<noteq> []"
proof -
  define n where "n = (let given = (case subgroup of None \<Rightarrow> 0 | Some s \<Rightarrow> su_size s) in if given \<le> 0 then 5 else given)"
  have n: "0 < n" by (simp add: n_def Let_def)
  have b: "buildGroups samples subgroup = (if (case subgroup of None \<Rightarrow> False | Some s \<Rightarrow> su_kind s = ''column'')
      then groupBySubgroup samples n else Ret (groupConsecutive samples n))"
    by (simp add: buildGroups_def n_def Let_def split: option.split)
  show ?thesis
  proof (cases "case subgroup of None \<Rightarrow> False | Some s \<Rightarrow> su_kind s = ''column''")
    case True
    then have "groupBySubgroup samples n = Ret groups" using assms(1) b by simp
    then obtain vs where "g = take (nat n) vs" "n \<le> int (length vs)"
      using assms(2) n by (auto simp: groupBySubgroup_def Let_def split: if_splits)
    then show ?thesis using n by auto
  next
    case False
    then have "int (length g) = n" using assms b groupConsecutive_sizes [of g samples n] by simp
    then show ?thesis using n by auto
  qed
qed

end
