(* ===== verification/StepperProps.thy ===== *)
theory StepperProps
  imports Main Stepper SchedRunFacts SchedProps
begin

text \<open>
  The properties of the stepper endpoints: the baseline check never panics and reports a
  shortage exactly when there is one, the preview panics only for negative sizes, and a preview
  of a Shewhart rule says what a run of the saved rule would find.
\<close>

definition shortage :: "StepperBaselineRequest \<Rightarrow> StepperBaselineResponse \<Rightarrow> bool" where
  "shortage req resp = ((is_shewhart (bq_rule_type req) \<and> the (mget (br_available resp) ''samples'') < 20)
     \<or> (bq_rule_type req = ''RANGE_CHART_R'' \<and> the (mget (br_available resp) ''subgroups'') < 10))"

text \<open>
  The baseline check never panics, and whenever it accepts the table and columns its status
  is \<open>INSUFFICIENT_DATA\<close> exactly when a Shewhart rule has fewer than 20 samples or a range chart
  fewer than 10 full subgroups, and \<open>OK\<close> otherwise.
\<close>
theorem baseline_check_status:
  "\<not> panics (StepperBaselineCheck ad clock allowlist lims req)
    \<and> ret_all (\<lambda>r. case r of Inl _ \<Rightarrow> True | Inr resp \<Rightarrow> br_status resp = statusInvalidConfig \<and> br_messages resp \<noteq> []
        \<or> br_status resp = (if shortage req resp then statusInsufficient else statusOK))
      (StepperBaselineCheck ad clock allowlist lims req)"
proof
  define P :: "StepperBaselineResponse res \<Rightarrow> bool" where "P = (\<lambda>r. case r of Inl _ \<Rightarrow> True
      | Inr resp \<Rightarrow> br_status resp = statusInvalidConfig \<and> br_messages resp \<noteq> []
        \<or> br_status resp = (if shortage req resp then statusInsufficient else statusOK))"
  have inv: "P (Inl e)" "P (Inr (invalid_baseline e))" for e by (simp_all add: P_def invalid_baseline_def)
  have none: "P (Inr (baseline_response (bq_rule_type req) samples None))"
    if "bq_rule_type req \<noteq> ''RANGE_CHART_R''" for samples
    using that
    by (simp add: P_def baseline_response_def shortage_def required_samples_def defaultBaselineMinN_def Let_def split: prod.split)
  have some: "P (Inr (baseline_response ''RANGE_CHART_R'' samples (Some groups)))"
    if "bq_rule_type req = ''RANGE_CHART_R''" for samples groups
    using that
    by (simp add: P_def baseline_response_def shortage_def required_samples_def required_subgroups_def is_shewhart_def
        defaultBaselineSubgroups_def Let_def split: prod.split)
  have "ret_all P (go_bind (buildGroups samples sg) (\<lambda>groups. Ret (Inr (baseline_response ''RANGE_CHART_R'' samples (Some groups)))))"
    if "bq_rule_type req = ''RANGE_CHART_R''" for samples sg
    using some [OF that] by (cases "buildGroups samples sg") auto
  then have "ret_all P (StepperBaselineCheck ad clock allowlist lims req)"
    unfolding StepperBaselineCheck_def using none by (simp add: inv split: sum.split)
  then show "ret_all (\<lambda>r. case r of Inl _ \<Rightarrow> True | Inr resp \<Rightarrow> br_status resp = statusInvalidConfig \<and> br_messages resp \<noteq> []
        \<or> br_status resp = (if shortage req resp then statusInsufficient else statusOK))
      (StepperBaselineCheck ad clock allowlist lims req)"
    by (simp add: P_def)
qed (rule baseline_check_safe)

subsection \<open>The preview\<close>

lemma explain_safe: "d_type (p_detector p) \<noteq> ''robust_zscore'' \<Longrightarrow> d_type (p_detector p) \<noteq> ''missing_data'' \<Longrightarrow>
    \<not> panics (buildExplain r p)"
  using buildExplain_panics [of r p] by (auto simp: explainable_def)

lemma preview_result_panics:
  assumes "panics (preview_result ty d baseline evals sg)" "stepper_buildDetector ty cfg = Inr d"
  shows "(ty = ''TREND_6_POINTS'' \<and> tn_window (sc_trend cfg) < 0) \<or> (is_shewhart ty \<and> sh_min_n (sc_shewhart cfg) < 0)"
proof -
  have rc: "\<not> panics (go_bind (buildGroups baseline sg) (\<lambda>groups. go_bind (EvaluateRangeChart groups c) (\<lambda>r. Ret (Inr r :: DetectorResult res))))" for c
  proof (intro no_panic_intros buildGroups_safe)
    fix groups assume "buildGroups baseline sg = Ret groups"
    then show "\<not> panics (EvaluateRangeChart groups c)"
      using buildGroups_sizes range_chart_panics [of groups c] last_in_set by blast
  qed
  consider "ty = ''SPEC_LIMIT_VIOLATION''" | "is_shewhart ty" | "ty = ''RANGE_CHART_R''" | "ty = ''TREND_6_POINTS''" | "ty = ''TPA''"
    using assms(2) by (auto simp: stepper_buildDetector_def is_shewhart_def split: if_splits)
  then show ?thesis
  proof cases
    case 2
    then have "panics (EvaluateShewhart baseline (the (d_shewhart d)) (sh_sigma (the (d_shewhart d))))"
      using assms(1) by (auto simp: preview_result_def is_shewhart_def panics_bind)
    then have "sh_min_n (the (d_shewhart d)) < 0" by (rule shewhart_panics)
    then show ?thesis using assms(2) 2 by (auto simp: stepper_buildDetector_def is_shewhart_def)
  next
    case 3
    then show ?thesis using assms(1) rc by (simp add: preview_result_def)
  next
    case 4
    then have "tn_window (the (d_trend d)) < 0"
      using assms(1) trend_panics by (auto simp: preview_result_def panics_bind)
    then show ?thesis using assms(2) 4 by (auto simp: stepper_buildDetector_def split: if_splits)
  qed (use assms(1) in \<open>simp_all add: preview_result_def\<close>)
qed

text \<open>
  A preview panics only for a trend rule with a negative window or a Shewhart rule with a
  negative minimal baseline: no other request, database content or error of the adapter makes
  it fail other than by an error answer.
\<close>
theorem preview_panics_only_if_negative:
  assumes "0 \<le> tn_window (sc_trend (pq_config req))" and "0 \<le> sh_min_n (sc_shewhart (pq_config req))"
  shows "\<not> panics (StepperPreview ad clock allowlist lims req)"
proof -
  let ?b = "buildRuleSpec (pq_connection req) (pq_table req) (pq_timestamp req) (pq_value req) (pq_rule_type req) (pq_config req)"
  have d: "stepper_buildDetector (pq_rule_type req) (pq_config req) = Inr (p_detector (hd (r_parameters spec)))"
    if "?b = Inr spec" for spec
    using that by (auto simp: buildRuleSpec_def split: sum.splits)
  have "\<not> panics (preview_result (pq_rule_type req) (p_detector (hd (r_parameters spec))) baseline evals sg)"
    if "?b = Inr spec" for spec baseline evals sg
    using preview_result_panics [OF _ d [OF that]] assms by fastforce
  moreover have "\<not> panics (preview_response (hd (r_parameters spec)) n r)" if "?b = Inr spec" for spec n r
    using stepper_detector_cases [OF d [OF that]] explain_safe by (simp add: preview_response_def panics_bind)
  ultimately show ?thesis unfolding StepperPreview_def Let_def by (intro no_panic_intros)
qed

definition preview_request :: "string \<Rightarrow> StepperPreviewRequest" where
  "preview_request ty = \<lparr> pq_connection = ''c'', pq_table = ''t'', pq_timestamp = ''ts'', pq_value = ''v'',
     pq_rule_type = ty, pq_config = zero_config, pq_baseline = None, pq_eval = None, pq_subgrouping = None \<rparr>"

lemma preview_panics_only_if_negative_witness:
  "\<not> panics (StepperPreview (\<lambda>_. example_adapter []) (\<lambda>_. 0) [] DefaultLimits (preview_request ''TPA''))"
  by (rule preview_panics_only_if_negative) (simp_all add: preview_request_def zero_config_def)

text \<open>
  A preview of a Shewhart rule over the last \<open>n\<close> rows evaluates what the scheduler would for the
  rule the preview builds itself. \<open>SavedPreviewProps\<close> carries this over to the rule that is saved.
\<close>
lemma preview_matches_evaluation:
  assumes ty: "is_shewhart (pq_rule_type req)"
    and spec: "buildRuleSpec (pq_connection req) (pq_table req) (pq_timestamp req) (pq_value req) (pq_rule_type req)
        (pq_config req) = Inr spec"
    and meta: "validateStepperMetadata (\<lambda>_. a) allowlist spec None = Inr ()"
    and base: "sh_baseline (sc_shewhart (pq_config req)) = \<lparr> bl_last_n = Some n, bl_time_range = None \<rparr>" "0 < n"
    and sel: "pq_baseline req = Some (last_n n)" "pq_eval req = Some (last_n n)" "pq_subgrouping req = None"
    and prev: "StepperPreview (\<lambda>_. a) (\<lambda>_. now) allowlist lims req = Ret (Inr resp)"
  shows "\<exists>r. evaluateParameterSince lims spec (hd (r_parameters spec)) (Some a) None now = Ret (Inr [r])
    \<and> pr_status resp = dr_status r \<and> pr_computed resp = dr_metadata r
    \<and> pr_violations resp = map violation_item (dr_violations r)
    \<and> pr_window resp = [(''start'', formatTime (dr_window_start r)), (''end'', formatTime (dr_window_end r))]"
proof -
  obtain d where d: "stepper_buildDetector (pq_rule_type req) (pq_config req) = Inr d"
      "r_parameters spec = [\<lparr> p_name = pq_value req, p_column = pq_value req, p_detector = d \<rparr>]"
    using buildRuleSpec_ok [OF spec] by metis
  define sh where "sh = (sc_shewhart (pq_config req)) \<lparr> sh_sigma := shewhart_sigma (pq_rule_type req) \<rparr>"
  have dd: "d_type d = ''shewhart''" "d_shewhart d = Some sh"
    using d(1) ty by (auto simp: stepper_buildDetector_def is_shewhart_def sh_def empty_detector_def)
  let ?p = "hd (r_parameters spec)" and ?lim = "clampLimit n (li_max_sample_rows lims)"
  have w: "fetchForSelector a now spec (last_n n) None lims = fetchSamples (Some a) spec ?p [] (now - year_ns) ?lim []"
    using base(2) by (simp add: fetchForSelector_def selector_window_def last_n_def subgroup_column_def split: sum.split)
  have bw: "buildBaselineWindow now (sh_baseline sh) (li_max_sample_rows lims) = Inr (now - year_ns, None, None, ?lim)"
    using base by (simp add: buildBaselineWindow_def sh_def)
  from prev spec meta sel w obtain ss where ss: "fetchSamples (Some a) spec ?p [] (now - year_ns) ?lim [] = Inr ss"
    by (cases "fetchSamples (Some a) spec ?p [] (now - year_ns) ?lim []") (auto simp: StepperPreview_def)
  let ?e = "EvaluateShewhart ss sh (sh_sigma sh)"
  have res: "preview_result (pq_rule_type req) (p_detector ?p) ss ss None = go_bind ?e (\<lambda>r. Ret (Inr r))"
    using ty d(2) dd by (auto simp: preview_result_def is_shewhart_def)
  from prev spec meta sel w ss res obtain e where e: "?e = Ret e"
    by (cases ?e) (auto simp: StepperPreview_def Let_def)
  let ?r = "applyWindowAndBaseline ss None None True e"
  have used: "uses_baseline (pq_rule_type req)" using ty by (auto simp: uses_baseline_def is_shewhart_def)
  from prev spec meta sel w ss res e used have pr: "go_bind (preview_response ?p (length ss) ?r) (\<lambda>resp. Ret (Inr resp :: StepperPreviewResponse res)) = Ret (Inr resp)"
    by (simp add: StepperPreview_def Let_def)
  have sig: "\<not> feq (sh_sigma sh) f0" by (simp add: sh_def shewhart_sigma_def feq_def)
  have run: "evaluateParameterSince lims spec ?p (Some a) None now = Ret (Inr [?r])"
    using d(2) dd bw ss e sig
    by (simp add: evaluateParameterSince_def eval_shewhart_def filterSamplesByRange_def stale_def Let_def)
  from pr have "pr_status resp = dr_status ?r \<and> pr_computed resp = dr_metadata ?r
      \<and> pr_violations resp = map violation_item (dr_violations ?r)
      \<and> pr_window resp = [(''start'', formatTime (dr_window_start ?r)), (''end'', formatTime (dr_window_end ?r))]"
    by (cases "buildExplain ?r ?p") (auto simp: preview_response_def)
  with run show ?thesis by blast
qed

definition shewhart_request :: StepperPreviewRequest where
  "shewhart_request = (preview_request ''SHEWHART_3SIGMA'')
     \<lparr> pq_config := zero_config \<lparr> sc_shewhart := \<lparr> sh_baseline = \<lparr> bl_last_n = Some 50, bl_time_range = None \<rparr>,
         sh_sigma = f0, sh_min_n = 2, sh_population = False \<rparr> \<rparr>,
       pq_baseline := Some (last_n 50), pq_eval := Some (last_n 50) \<rparr>"

definition two_rows :: DbMcpAdapter where
  "two_rows = example_adapter [[(''v'', VFloat (Fin 2)), (''ts'', VTime 8)], [(''v'', VFloat (Fin 1)), (''ts'', VTime 5)]]"

lemma two_rows_preview:
  obtains spec resp where "buildRuleSpec (pq_connection shewhart_request) (pq_table shewhart_request)
      (pq_timestamp shewhart_request) (pq_value shewhart_request) (pq_rule_type shewhart_request)
      (pq_config shewhart_request) = Inr spec"
    "validateStepperMetadata (\<lambda>_. two_rows) [] spec None = Inr ()"
    "StepperPreview (\<lambda>_. two_rows) (\<lambda>_. 0) [] DefaultLimits shewhart_request = Ret (Inr resp)"
proof -
  let ?q = shewhart_request
  obtain spec where spec: "buildRuleSpec (pq_connection ?q) (pq_table ?q) (pq_timestamp ?q) (pq_value ?q) (pq_rule_type ?q)
      (pq_config ?q) = Inr spec" by (simp add: shewhart_request_def preview_request_def buildRuleSpec_def stepper_buildDetector_def)
  obtain d where p: "r_parameters spec = [\<lparr> p_name = ''v'', p_column = ''v'', p_detector = d \<rparr>]" "d_type d = ''shewhart''"
      "d_shewhart d = Some \<lparr> sh_baseline = \<lparr> bl_last_n = Some 50, bl_time_range = None \<rparr>, sh_sigma = Fin 3, sh_min_n = 2, sh_population = False \<rparr>"
      "so_table (r_source spec) = ''t''" "so_timestamp (r_source spec) = ''ts''"
    using spec by (auto simp: shewhart_request_def preview_request_def buildRuleSpec_def stepper_buildDetector_def
        empty_detector_def zero_config_def shewhart_sigma_def)
  have num: "isNumericType ''numeric''" by code_simp
  have meta: "validateStepperMetadata (\<lambda>_. two_rows) [] spec None = Inr ()"
    using p num by (simp add: validateStepperMetadata_def AllowsTable_def two_rows_def example_adapter_def
        colTypes_def type_of_column_def Let_def)
  have row: "sample_of_row ''v'' ''ts'' [] [(''v'', VFloat (Fin x)), (''ts'', VTime t)] = Some (sample_at t x)" for x t
    by (simp add: sample_of_row_def toFloat_def isNaN_def isInf0_def parseTimeValue_def sample_at_def)
  have ss: "fetchForSelector two_rows 0 spec (last_n 50) None DefaultLimits = Inr [sample_at 5 1, sample_at 8 2]"
    using p by (simp add: fetchForSelector_def selector_window_def last_n_def subgroup_column_def fetchSamples_def
        two_rows_def example_adapter_def List.map_filter_simps row)
  let ?sh = "\<lparr> sh_baseline = \<lparr> bl_last_n = Some 50, bl_time_range = None \<rparr>, sh_sigma = Fin 3, sh_min_n = 2, sh_population = False \<rparr>"
  obtain e where e: "EvaluateShewhart [sample_at 5 1, sample_at 8 2] ?sh (Fin 3) = Ret e"
    using shewhart_panics [of "[sample_at 5 1, sample_at 8 2]" ?sh "Fin 3"]
    by (cases "EvaluateShewhart [sample_at 5 1, sample_at 8 2] ?sh (Fin 3)") auto
  have "\<exists>resp. StepperPreview (\<lambda>_. two_rows) (\<lambda>_. 0) [] DefaultLimits ?q = Ret (Inr resp)"
    using spec meta ss p e
    by (simp add: StepperPreview_def shewhart_request_def preview_request_def preview_result_def
        preview_response_def buildExplain_def Let_def)
  then obtain resp where resp: "StepperPreview (\<lambda>_. two_rows) (\<lambda>_. 0) [] DefaultLimits ?q = Ret (Inr resp)" by blast
  with spec meta show thesis using that by blast
qed

end
