(* ===== verification/Connector.thy ===== *)
theory Connector
  imports Main SchedEval SchedSamples
begin

text \<open>
  The shared part of the database connectors (\<open>connector.go\<close> at the root of the repository):
  identifiers and their quoting, the limits of a profile, and the profile of a sample. The
  driver below \<open>database/sql\<close> is a parameter; \<open>Connectors\<close> holds the three dialects.
\<close>

definition defaultMaxColumns :: int where "defaultMaxColumns = 25"
definition defaultSampleLimit :: int where "defaultSampleLimit = 50"
definition maxSamplePreview :: nat where "maxSamplePreview = 5"

record ConnectionConfig =
  cc_type :: string
  cc_host :: string
  cc_port :: int
  cc_user :: string
  cc_password :: string
  cc_database :: string
  cc_ssl_mode :: string

record ProfileOptions =
  po_max_columns :: int
  po_sample_limit :: int

record ColumnInfo =
  ci_name :: string
  ci_type :: string
  ci_nullable :: bool
  ci_pk :: bool

record IndexInfo =
  ix_name :: string
  ix_columns :: "string list"
  ix_unique :: bool

record TableSchema =
  ts_columns :: "ColumnInfo list"
  ts_indexes :: "IndexInfo list"

record ColumnProfile =
  cp_column :: string
  cp_type :: string
  cp_nullable :: bool
  cp_pk :: bool
  cp_sample_count :: int
  cp_nulls :: int
  cp_null_rate :: f64
  cp_distinct :: int
  cp_min :: goval
  cp_max :: goval
  cp_examples :: "string list"

record TableProfile =
  tb_table :: string
  tb_row_count :: int
  tb_schema :: TableSchema
  tb_profiling :: "ColumnProfile list"
  tb_preview :: "row list"

subsection \<open>Identifiers\<close>

text \<open>The pattern \<open>^[A-Za-z_][A-Za-z0-9_$]*$\<close>.\<close>

definition ident_char :: "char \<Rightarrow> bool" where
  "ident_char c = (is_alpha c \<or> is_digit c \<or> c = CHR 0x5F \<or> c = CHR 0x24)"

definition identPattern :: "string \<Rightarrow> bool" where
  "identPattern s = (case s of [] \<Rightarrow> False
     | c # cs \<Rightarrow> (is_alpha c \<or> c = CHR 0x5F) \<and> list_all ident_char cs)"

fun check_segments :: "string list \<Rightarrow> unit res" where
  "check_segments [] = Inr ()"
| "check_segments (p # ps) = (if p = [] then Inl ''identifier contains empty segment''
     else if \<not> identPattern p then Inl ''identifier segment is invalid'' else check_segments ps)"

definition splitIdentifier :: "string \<Rightarrow> string list res" where
  "splitIdentifier ident = (let trimmed = trim_space ident in
     if trimmed = [] then Inl ''identifier is empty''
     else let parts = split_on (CHR 0x2E) trimmed in
       case check_segments parts of Inl e \<Rightarrow> Inl e | Inr _ \<Rightarrow> Inr parts)"

definition quoteQualified :: "string \<Rightarrow> int \<Rightarrow> (string \<Rightarrow> string) \<Rightarrow> (string \<times> string list) res" where
  "quoteQualified ident maxSegments quote = (case splitIdentifier ident of Inl e \<Rightarrow> Inl e
     | Inr parts \<Rightarrow> if maxSegments > 0 \<and> int (length parts) > maxSegments then Inl ''identifier has too many segments''
         else Inr (join (map quote parts) ''.'', parts))"

text \<open>A column is checked trimmed and quoted as it was given.\<close>

fun quote_names :: "string list \<Rightarrow> (string \<Rightarrow> string) \<Rightarrow> string list res" where
  "quote_names [] quote = Inr []"
| "quote_names (name # names) quote = (if name = [] then Inl ''column name is empty''
     else case splitIdentifier name of Inl _ \<Rightarrow> Inl ''invalid column name''
     | Inr parts \<Rightarrow> if length parts \<noteq> 1 then Inl ''invalid column name''
         else case quote_names names quote of Inl e \<Rightarrow> Inl e | Inr qs \<Rightarrow> Inr (quote name # qs))"

definition quoteList :: "string list \<Rightarrow> (string \<Rightarrow> string) \<Rightarrow> string res" where
  "quoteList names quote = (if names = [] then Inl ''no columns provided''
     else case quote_names names quote of Inl e \<Rightarrow> Inl e | Inr qs \<Rightarrow> Inr (join qs '', ''))"

subsection \<open>Limits\<close>

definition normalizeProfileOptions :: "ProfileOptions \<Rightarrow> ProfileOptions" where
  "normalizeProfileOptions opts = \<lparr>
     po_max_columns = (if po_max_columns opts \<le> 0 then defaultMaxColumns else po_max_columns opts),
     po_sample_limit = (if po_sample_limit opts \<le> 0 then defaultSampleLimit else po_sample_limit opts) \<rparr>"

definition normalizeSampleLimit :: "int \<Rightarrow> int" where
  "normalizeSampleLimit limit = (if limit \<le> 0 then defaultSampleLimit else limit)"

subsection \<open>Scanning rows\<close>

definition normalizeValue :: "goval \<Rightarrow> goval" where
  "normalizeValue v = (case v of VBytes bs \<Rightarrow> VStr bs | _ \<Rightarrow> v)"

definition row_of :: "string list \<Rightarrow> goval list \<Rightarrow> row" where
  "row_of cols vals = fold (\<lambda>(c, v). mput c (normalizeValue v)) (zip cols vals) []"

text \<open>The result set is the column names and the value lists, or the error of the scan.\<close>

definition scanRowsToMaps :: "(string list \<times> goval list list) res \<Rightarrow> row list res" where
  "scanRowsToMaps rows = (case rows of Inl e \<Rightarrow> Inl e | Inr (cols, vals) \<Rightarrow> Inr (map (row_of cols) vals))"

subsection \<open>Profiles\<close>

text \<open>
  The layout \<open>2006-01-02 15:04:05\<close>: Go's \<open>Parse\<close> takes any number of spaces for the one of the
  layout, an hour of one or two digits, and a fraction the layout does not have.
\<close>

definition skip_spaces :: "string \<Rightarrow> string option" where
  "skip_spaces s = (case s of [] \<Rightarrow> Some [] | c # _ \<Rightarrow> if c = CHR 0x20 then Some (dropWhile (\<lambda>c. c = CHR 0x20) s) else None)"

definition parse_datetime :: "string \<Rightarrow> int option" where
  "parse_datetime s = Option.bind (get_year s) (\<lambda>(y, s).
     Option.bind (expect (CHR 0x2D) s) (\<lambda>s. Option.bind (getnum True s) (\<lambda>(m, s).
     Option.bind (expect (CHR 0x2D) s) (\<lambda>s. Option.bind (getnum True s) (\<lambda>(d, s).
     Option.bind (skip_spaces s) (\<lambda>s. Option.bind (getnum False s) (\<lambda>(hh, s).
     Option.bind (expect (CHR 0x3A) s) (\<lambda>s. Option.bind (getnum True s) (\<lambda>(mi, s).
     Option.bind (expect (CHR 0x3A) s) (\<lambda>s. Option.bind (getnum True s) (\<lambda>(ss, s).
     let (f, s) = get_fraction s in
       if s = [] \<and> 1 \<le> m \<and> m \<le> 12 \<and> 1 \<le> d \<and> int d \<le> days_in (int y) m \<and> hh < 24 \<and> mi < 60 \<and> ss < 60
       then Some ((days_of_civil (int y) m (int d) * 86400 + int (3600 * hh + 60 * mi + ss)) * second_ns + f)
       else None)))))))))))"

definition parseTime :: "string \<Rightarrow> int option" where
  "parseTime s = (case parse_rfc3339 s of Some t \<Rightarrow> Some t | None \<Rightarrow> parse_datetime s)"

definition toTime :: "goval \<Rightarrow> int option" where
  "toTime v = (case v of VTime t \<Rightarrow> Some t | VStr s \<Rightarrow> parseTime s | VBytes s \<Rightarrow> parseTime s | _ \<Rightarrow> None)"

definition connector_toFloat :: "goval \<Rightarrow> f64 option" where
  "connector_toFloat v = (let p = (\<lambda>s. let (x, ok) = parse_float s in if ok then Some x else None) in
     case v of VInt z \<Rightarrow> Some (f_of_int z) | VFloat x \<Rightarrow> Some x | VStr s \<Rightarrow> p s | VBytes s \<Rightarrow> p s | _ \<Rightarrow> None)"

text \<open>
  The type assertions \<open>currentMin.(time.Time)\<close> and \<open>currentMin.(float64)\<close> panic when the value
  kept so far is of the other type; \<open>VNil\<close> is the nil interface.
\<close>

definition better_time :: "(int \<Rightarrow> int \<Rightarrow> bool) \<Rightarrow> int \<Rightarrow> goval \<Rightarrow> goval go" where
  "better_time lt t cur = (case cur of VNil \<Rightarrow> Ret (VTime t)
     | VTime m \<Rightarrow> Ret (if lt t m then VTime t else cur) | _ \<Rightarrow> Panic ''interface conversion'')"

definition better_float :: "(f64 \<Rightarrow> f64 \<Rightarrow> bool) \<Rightarrow> f64 \<Rightarrow> goval \<Rightarrow> goval go" where
  "better_float lt x cur = (case cur of VNil \<Rightarrow> Ret (VFloat x)
     | VFloat m \<Rightarrow> Ret (if lt x m then VFloat x else cur) | _ \<Rightarrow> Panic ''interface conversion'')"

definition updateMinMax :: "goval \<Rightarrow> goval \<Rightarrow> goval \<Rightarrow> (goval \<times> goval) go" where
  "updateMinMax currentMin currentMax v = (if v = VNil then Ret (currentMin, currentMax)
     else case toTime v of
       Some t \<Rightarrow> go_bind (better_time (<) t currentMin) (\<lambda>mn. go_bind (better_time (>) t currentMax) (\<lambda>mx. Ret (mn, mx)))
     | None \<Rightarrow> (case connector_toFloat v of
         Some f \<Rightarrow> go_bind (better_float flt f currentMin) (\<lambda>mn. go_bind (better_float fgt f currentMax) (\<lambda>mx. Ret (mn, mx)))
       | None \<Rightarrow> Ret (currentMin, currentMax)))"

text \<open>What the loop over the sample keeps for one column.\<close>

record column_scan =
  cn_nulls :: int
  cn_distinct :: "string list"
  cn_examples :: "string list"
  cn_min :: goval
  cn_max :: goval

fun scan_column :: "string \<Rightarrow> row list \<Rightarrow> column_scan \<Rightarrow> column_scan go" where
  "scan_column name [] st = Ret st"
| "scan_column name (r # rs) st = (case mget r name of
      None \<Rightarrow> scan_column name rs (st \<lparr> cn_nulls := cn_nulls st + 1 \<rparr>)
    | Some v \<Rightarrow> if v = VNil then scan_column name rs (st \<lparr> cn_nulls := cn_nulls st + 1 \<rparr>)
        else let text = sprint_key v;
               distinct = List.insert text (cn_distinct st);
               examples = (if length (cn_examples st) < 3 \<and> text \<notin> set (cn_examples st)
                 then cn_examples st @ [text] else cn_examples st)
          in go_bind (updateMinMax (cn_min st) (cn_max st) v)
            (\<lambda>(mn, mx). scan_column name rs (st \<lparr> cn_distinct := distinct, cn_examples := examples,
               cn_min := mn, cn_max := mx \<rparr>)))"

definition empty_scan :: column_scan where
  "empty_scan = \<lparr> cn_nulls = 0, cn_distinct = [], cn_examples = [], cn_min = VNil, cn_max = VNil \<rparr>"

definition column_profile :: "row list \<Rightarrow> ColumnInfo \<Rightarrow> ColumnProfile go" where
  "column_profile sample col = go_bind (scan_column (ci_name col) sample empty_scan) (\<lambda>st. Ret
     \<lparr> cp_column = ci_name col, cp_type = ci_type col, cp_nullable = ci_nullable col, cp_pk = ci_pk col,
       cp_sample_count = int (length sample), cp_nulls = cn_nulls st,
       cp_null_rate = (if sample = [] then f0 else fdiv (f_of_int (cn_nulls st)) (f_of_int (int (length sample)))),
       cp_distinct = int (length (cn_distinct st)), cp_min = cn_min st, cp_max = cn_max st,
       cp_examples = cn_examples st \<rparr>)"

fun go_map :: "('a \<Rightarrow> 'b go) \<Rightarrow> 'a list \<Rightarrow> 'b list go" where
  "go_map f [] = Ret []"
| "go_map f (x # xs) = go_bind (f x) (\<lambda>y. go_bind (go_map f xs) (\<lambda>ys. Ret (y # ys)))"

definition profileFromSample :: "TableSchema \<Rightarrow> row list \<Rightarrow> int \<Rightarrow> ColumnProfile list go" where
  "profileFromSample schema sample maxColumns =
     go_map (column_profile sample) (if maxColumns > 0 then take (nat maxColumns) (ts_columns schema) else ts_columns schema)"

text \<open>The stable sort of the indexes by name.\<close>

definition sortIndexColumns :: "IndexInfo list \<Rightarrow> IndexInfo list" where
  "sortIndexColumns indexes = sort_key ix_name indexes"

end
