(* ===== verification/Connectors.thy ===== *)
theory Connectors
  imports Main Connector
begin

text \<open>
  The three connectors (\<open>mysql_connector.go\<close>, \<open>postgres_connector.go\<close>, \<open>mssql_connector.go\<close>)
  and the factory (\<open>factory.go\<close>). What \<open>database/sql\<close> and the driver answer to a text and its
  arguments is a parameter, a snapshot of one database: the rows scanned into the code's
  destinations, or the phase that failed and its error. The statements are the texts the code
  builds, character by character.
\<close>

datatype db_phase = DbPrepare | DbQuery | DbScan | DbIterate

type_synonym 'a answer = "(db_phase \<times> string) + 'a"

record Driver =
  dv_ping :: "unit res"
  dv_strings :: "string \<Rightarrow> goval list \<Rightarrow> string list list answer"
  dv_indexes :: "string \<Rightarrow> goval list \<Rightarrow> (string \<times> goval \<times> string) list answer"
  dv_index_arrays :: "string \<Rightarrow> goval list \<Rightarrow> goval list list answer"
  dv_rows :: "string \<Rightarrow> goval list \<Rightarrow> (string list \<times> goval list list) answer"
  dv_count :: "string \<Rightarrow> goval list \<Rightarrow> int option answer"
  dv_exec :: "string \<Rightarrow> goval list \<Rightarrow> int answer"

definition wrap_error :: "string \<Rightarrow> string \<Rightarrow> string" where
  "wrap_error what e = what @ '': '' @ e"

definition wrap :: "(db_phase \<Rightarrow> string) \<Rightarrow> 'a answer \<Rightarrow> 'a res" where
  "wrap names r = (case r of Inl (ph, e) \<Rightarrow> Inl (wrap_error (names ph) e) | Inr x \<Rightarrow> Inr x)"

definition phases :: "string \<Rightarrow> string \<Rightarrow> string \<Rightarrow> string \<Rightarrow> db_phase \<Rightarrow> string" where
  "phases p q s i ph = (case ph of DbPrepare \<Rightarrow> p | DbQuery \<Rightarrow> q | DbScan \<Rightarrow> s | DbIterate \<Rightarrow> i)"

definition with_context :: "string \<Rightarrow> 'a res \<Rightarrow> 'a res" where
  "with_context what r = (case r of Inl e \<Rightarrow> Inl (wrap_error what e) | Inr x \<Rightarrow> Inr x)"

record DbConnector =
  dc_test :: "unit res"
  dc_list_tables :: "string list res"
  dc_describe :: "string \<Rightarrow> TableSchema res"
  dc_sample :: "string \<Rightarrow> int \<Rightarrow> row list res"
  dc_profile :: "string \<Rightarrow> ProfileOptions \<Rightarrow> TableProfile res go"
  dc_write :: "string \<Rightarrow> string \<Rightarrow> string \<Rightarrow> goval \<Rightarrow> (string \<times> goval) list \<Rightarrow> int res"

subsection \<open>What the three share\<close>

fun scan_rows :: "('r \<Rightarrow> 'a res) \<Rightarrow> 'r list \<Rightarrow> 'a list res" where
  "scan_rows f [] = Inr []"
| "scan_rows f (r # rs) = (case f r of Inl e \<Rightarrow> Inl e
     | Inr x \<Rightarrow> (case scan_rows f rs of Inl e \<Rightarrow> Inl e | Inr xs \<Rightarrow> Inr (x # xs)))"

definition scan_width :: string where
  "scan_width = ''sql: wrong number of destination arguments in Scan''"

text \<open>
  How \<open>Scan\<close> assigns a value of the driver to a destination (\<open>convertAssign\<close> of \<open>database/sql\<close>), for the
  three types of destination that the index queries have.
\<close>

definition unsupported_scan :: "string \<Rightarrow> string" where
  "unsupported_scan ty = ''unsupported Scan, storing driver.Value type into type *'' @ ty"

definition scan_string :: "goval \<Rightarrow> string res" where
  "scan_string v = (case v of VStr s \<Rightarrow> Inr s | VBytes s \<Rightarrow> Inr s | VTime t \<Rightarrow> Inr (format_rfc3339_nano t)
     | VBool b \<Rightarrow> Inr (if b then ''true'' else ''false'') | VInt z \<Rightarrow> Inr (itoa z) | VFloat x \<Rightarrow> Inr (format_float x)
     | VNil \<Rightarrow> Inl ''converting NULL to string is unsupported'' | _ \<Rightarrow> Inl (unsupported_scan ''string''))"

definition parse_bool :: "string \<Rightarrow> bool option" where
  "parse_bool s = (if s \<in> {''1'', ''t'', ''T'', ''true'', ''TRUE'', ''True''} then Some True
     else if s \<in> {''0'', ''f'', ''F'', ''false'', ''FALSE'', ''False''} then Some False else None)"

definition scan_bool :: "goval \<Rightarrow> bool res" where
  "scan_bool v = (let invalid = Inl ''sql/driver: couldn't convert into type bool'';
       text = (\<lambda>s. case parse_bool s of Some b \<Rightarrow> Inr b | None \<Rightarrow> invalid)
     in case v of VBool b \<Rightarrow> Inr b | VStr s \<Rightarrow> text s | VBytes s \<Rightarrow> text s
     | VInt z \<Rightarrow> if z = 1 then Inr True else if z = 0 then Inr False else invalid | _ \<Rightarrow> invalid)"

text \<open>No conversion makes a \<open>[]string\<close>: the value must be one.\<close>

fun strings_of :: "goval list \<Rightarrow> string list option" where
  "strings_of [] = Some []"
| "strings_of (v # vs) = (case v of VStr s \<Rightarrow> map_option ((#) s) (strings_of vs) | _ \<Rightarrow> None)"

definition scan_strings :: "goval \<Rightarrow> string list res" where
  "scan_strings v = (case v of VList vs \<Rightarrow> (case strings_of vs of Some ss \<Rightarrow> Inr ss | None \<Rightarrow> Inl (unsupported_scan ''[]string''))
     | _ \<Rightarrow> Inl (unsupported_scan ''[]string''))"

definition mark_pk :: "string list \<Rightarrow> ColumnInfo list \<Rightarrow> ColumnInfo list" where
  "mark_pk pks cols = map (\<lambda>c. if ci_name c \<in> set pks then c \<lparr> ci_pk := True \<rparr> else c) cols"

text \<open>The map from index names to indexes; the rows come with one column each.\<close>

definition add_index_column :: "(goval \<Rightarrow> bool) \<Rightarrow> string \<times> goval \<times> string \<Rightarrow> (string \<times> IndexInfo) list \<Rightarrow> (string \<times> IndexInfo) list" where
  "add_index_column unique r m = (let (name, flag, col) = r;
       idx = (case mget m name of None \<Rightarrow> \<lparr> ix_name = name, ix_columns = [], ix_unique = unique flag \<rparr> | Some i \<Rightarrow> i)
     in mput name (idx \<lparr> ix_columns := ix_columns idx @ [col] \<rparr>) m)"

definition group_indexes :: "(goval \<Rightarrow> bool) \<Rightarrow> (string \<times> goval \<times> string) list \<Rightarrow> IndexInfo list" where
  "group_indexes unique rows = sortIndexColumns (map snd (fold (add_index_column unique) rows []))"

definition profile_table :: "(string \<Rightarrow> TableSchema res) \<Rightarrow> (string \<Rightarrow> int res) \<Rightarrow> (string \<Rightarrow> int \<Rightarrow> string list \<Rightarrow> row list res)
    \<Rightarrow> string \<Rightarrow> ProfileOptions \<Rightarrow> TableProfile res go" where
  "profile_table describe estimate sample table given = (let opts = normalizeProfileOptions given in
     case describe table of Inl e \<Rightarrow> Ret (Inl e)
     | Inr schema \<Rightarrow> (case estimate table of Inl e \<Rightarrow> Ret (Inl e)
       | Inr rowCount \<Rightarrow> (case sample table (po_sample_limit opts)
             (map ci_name (take (nat (po_max_columns opts)) (ts_columns schema))) of
           Inl e \<Rightarrow> Ret (Inl e)
         | Inr rows \<Rightarrow> go_bind (profileFromSample schema rows (po_max_columns opts)) (\<lambda>profiling. Ret (Inr
             \<lparr> tb_table = table, tb_row_count = rowCount, tb_schema = schema, tb_profiling = profiling,
               tb_preview = take maxSamplePreview rows \<rparr>)))))"

definition select_clause :: "string \<Rightarrow> (string \<Rightarrow> string) \<Rightarrow> string list \<Rightarrow> string res" where
  "select_clause what quote columns = (if columns = [] then Inr ''*'' else with_context what (quoteList columns quote))"

text \<open>The extra columns of an insert, in the order in which the map is walked.\<close>

fun extra_parts :: "(string \<Rightarrow> string) \<Rightarrow> (nat \<Rightarrow> string) \<Rightarrow> nat \<Rightarrow> (string \<times> goval) list
    \<Rightarrow> (string list \<times> string list \<times> goval list) res" where
  "extra_parts quote ph n [] = Inr ([], [], [])"
| "extra_parts quote ph n ((k, v) # rest) = (case quoteList [k] quote of
      Inl e \<Rightarrow> Inl (wrap_error ''invalid extra column'' e)
    | Inr qk \<Rightarrow> (case extra_parts quote ph (Suc n) rest of Inl e \<Rightarrow> Inl e
      | Inr (cs, ps, as) \<Rightarrow> Inr (qk # cs, ph n # ps, v # as)))"

definition insert_text :: "string \<Rightarrow> string list \<Rightarrow> string list \<Rightarrow> string" where
  "insert_text table cols phs = ''INSERT INTO '' @ table @ '' ('' @ join cols '', '' @ '') VALUES ('' @ join phs '', '' @ '')''"

text \<open>The statement of \<open>WriteRow\<close>: its text and its arguments.\<close>

definition write_statement :: "string \<Rightarrow> (string \<Rightarrow> string) \<Rightarrow> string res \<Rightarrow> (nat \<Rightarrow> string) \<Rightarrow> string
    \<Rightarrow> string \<Rightarrow> string \<Rightarrow> goval \<Rightarrow> (string \<times> goval) list \<Rightarrow> (string \<times> goval list) res" where
  "write_statement db quote quotedTable ph now valueColumn timestampColumn v extra = (case quotedTable of Inl e \<Rightarrow> Inl e
     | Inr t \<Rightarrow> (case with_context (''invalid '' @ db @ '' value column'') (quoteList [valueColumn] quote) of Inl e \<Rightarrow> Inl e
       | Inr qv \<Rightarrow> (case with_context (''invalid '' @ db @ '' timestamp column'') (quoteList [timestampColumn] quote) of Inl e \<Rightarrow> Inl e
         | Inr qt \<Rightarrow> (case extra_parts quote ph 2 extra of Inl e \<Rightarrow> Inl e
           | Inr (cs, ps, as) \<Rightarrow> Inr (insert_text t (qv # qt # cs) (ph 1 # now # ps), v # as)))))"

definition execute_write :: "string \<Rightarrow> Driver \<Rightarrow> (string \<times> goval list) res \<Rightarrow> int res" where
  "execute_write db dv stmt = (case stmt of Inl e \<Rightarrow> Inl e
     | Inr (text, args) \<Rightarrow> wrap (\<lambda>ph. if ph = DbScan then db @ '' rows affected'' else db @ '' write row'') (dv_exec dv text args))"

definition count_rows :: "string \<Rightarrow> int option answer \<Rightarrow> int res" where
  "count_rows db r = (case wrap (phases (''prepare '' @ db @ '' row count query'') (''query '' @ db @ '' row count'')
       (''query '' @ db @ '' row count'') (''query '' @ db @ '' row count'')) r of
     Inl e \<Rightarrow> Inl e | Inr None \<Rightarrow> Inr 0 | Inr (Some n) \<Rightarrow> Inr n)"

definition sample_result :: "string \<Rightarrow> (string list \<times> goval list list) answer \<Rightarrow> row list res" where
  "sample_result db r = scanRowsToMaps (wrap (phases (''prepare '' @ db @ '' sample query'') (''query '' @ db @ '' sample rows'')
       (''scan '' @ db @ '' sample rows'') (''scan '' @ db @ '' sample rows'')) r)"

definition list_names :: "string \<Rightarrow> string list list answer \<Rightarrow> (string list \<Rightarrow> string res) \<Rightarrow> string list res" where
  "list_names db r name = (case wrap (phases [] (''list '' @ db @ '' tables'') (''scan '' @ db @ '' table name'')
       (''iterate '' @ db @ '' tables'')) r of
     Inl e \<Rightarrow> Inl e | Inr rows \<Rightarrow> scan_rows (\<lambda>x. with_context (''scan '' @ db @ '' table name'') (name x)) rows)"

definition one_string :: "string list \<Rightarrow> string res" where
  "one_string r = (case r of [s] \<Rightarrow> Inr s | _ \<Rightarrow> Inl scan_width)"

subsection \<open>MySQL\<close>

definition backtick :: "string \<Rightarrow> string" where
  "backtick s = CHR 0x60 # s @ [CHR 0x60]"

definition mysql_dsn :: "ConnectionConfig \<Rightarrow> string" where
  "mysql_dsn cfg = (let port = (if cc_port cfg = 0 then 3306 else cc_port cfg); ssl = to_lower (trim_space (cc_ssl_mode cfg))
     in cc_user cfg @ '':'' @ cc_password cfg @ ''@tcp('' @ cc_host cfg @ '':'' @ itoa port @ '')/'' @ cc_database cfg
        @ ''?parseTime=true'' @ (if ssl = ''disable'' then ''&tls=false'' else if ssl \<noteq> [] then ''&tls=true'' else []))"

definition mysql_column :: "string list \<Rightarrow> ColumnInfo res" where
  "mysql_column r = (case r of [name, dataType, isNullable, key] \<Rightarrow>
       Inr \<lparr> ci_name = name, ci_type = dataType, ci_nullable = EqualFold isNullable ''YES'', ci_pk = EqualFold key ''PRI'' \<rparr>
     | _ \<Rightarrow> Inl scan_width)"

definition mysql_table :: "string \<Rightarrow> string res" where
  "mysql_table table = with_context ''invalid mysql table''
     (case quoteQualified table 1 backtick of Inl e \<Rightarrow> Inl e | Inr (quoted, _) \<Rightarrow> Inr quoted)"

definition mysql_columns_query :: string where
  "mysql_columns_query = ''SELECT column_name, data_type, is_nullable, column_key FROM information_schema.columns ''
     @ ''WHERE table_schema = DATABASE() AND table_name = ? ORDER BY ordinal_position''"

definition mysql_index_query :: string where
  "mysql_index_query = ''SELECT index_name, non_unique, column_name, seq_in_index FROM information_schema.statistics ''
     @ ''WHERE table_schema = DATABASE() AND table_name = ? ORDER BY index_name, seq_in_index''"

definition mysql_describe :: "Driver \<Rightarrow> string \<Rightarrow> TableSchema res" where
  "mysql_describe dv table = (case mysql_table table of Inl e \<Rightarrow> Inl e
     | Inr _ \<Rightarrow> (case wrap (phases ''prepare mysql columns query'' ''query mysql columns'' ''scan mysql column'' ''iterate mysql columns'')
           (dv_strings dv mysql_columns_query [VStr table]) of Inl e \<Rightarrow> Inl e
       | Inr rows \<Rightarrow> (case with_context ''scan mysql column'' (scan_rows mysql_column rows) of Inl e \<Rightarrow> Inl e
         | Inr columns \<Rightarrow> (case wrap (phases ''prepare mysql index query'' ''query mysql indexes'' ''scan mysql index'' ''iterate mysql indexes'')
               (dv_indexes dv mysql_index_query [VStr table]) of Inl e \<Rightarrow> Inl e
           | Inr idx \<Rightarrow> Inr \<lparr> ts_columns = columns, ts_indexes = group_indexes (\<lambda>nonUnique. nonUnique = VInt 0) idx \<rparr>))))"

definition mysql_sample :: "Driver \<Rightarrow> string \<Rightarrow> int \<Rightarrow> string list \<Rightarrow> row list res" where
  "mysql_sample dv table limit columns = (case mysql_table table of Inl e \<Rightarrow> Inl e
     | Inr quotedTable \<Rightarrow> (case select_clause ''invalid mysql column list'' backtick columns of Inl e \<Rightarrow> Inl e
       | Inr sel \<Rightarrow> sample_result ''mysql'' (dv_rows dv (''SELECT '' @ sel @ '' FROM '' @ quotedTable @ '' LIMIT ?'') [VInt limit])))"

definition mysql_estimate :: "Driver \<Rightarrow> string \<Rightarrow> int res" where
  "mysql_estimate dv table = count_rows ''mysql'' (dv_count dv
     ''SELECT table_rows FROM information_schema.tables WHERE table_schema = DATABASE() AND table_name = ?'' [VStr table])"

definition mysql_write :: "string \<Rightarrow> string \<Rightarrow> string \<Rightarrow> goval \<Rightarrow> (string \<times> goval) list \<Rightarrow> (string \<times> goval list) res" where
  "mysql_write table vc tc v extra = write_statement ''mysql'' backtick (mysql_table table) (\<lambda>_. ''?'') ''NOW()'' vc tc v extra"

definition MySQLConnector :: "Driver \<Rightarrow> DbConnector" where
  "MySQLConnector dv = \<lparr> dc_test = with_context ''ping mysql'' (dv_ping dv),
     dc_list_tables = list_names ''mysql'' (dv_strings dv (''SELECT table_name FROM information_schema.tables ''
       @ ''WHERE table_schema = DATABASE() AND table_type = 'BASE TABLE'' @ [CHR 0x27]) []) one_string,
     dc_describe = mysql_describe dv,
     dc_sample = (\<lambda>table limit. mysql_sample dv table (normalizeSampleLimit limit) []),
     dc_profile = profile_table (mysql_describe dv) (mysql_estimate dv) (mysql_sample dv),
     dc_write = (\<lambda>table vc tc v extra. execute_write ''mysql'' dv (mysql_write table vc tc v extra)) \<rparr>"

subsection \<open>Postgres\<close>

definition dquote :: "string \<Rightarrow> string" where
  "dquote s = CHR 0x22 # s @ [CHR 0x22]"

definition dollar :: "nat \<Rightarrow> string" where
  "dollar n = CHR 0x24 # nat_str n"

definition postgres_dsn :: "ConnectionConfig \<Rightarrow> string" where
  "postgres_dsn cfg = (let port = (if cc_port cfg = 0 then 5432 else cc_port cfg); given = to_lower (trim_space (cc_ssl_mode cfg));
       ssl = (if given = [] then ''disable'' else given)
     in ''host='' @ cc_host cfg @ '' port='' @ itoa port @ '' user='' @ cc_user cfg @ '' password='' @ cc_password cfg
        @ '' dbname='' @ cc_database cfg @ '' sslmode='' @ ssl)"

definition plain_column :: "string list \<Rightarrow> ColumnInfo res" where
  "plain_column r = (case r of [name, dataType, isNullable] \<Rightarrow>
       Inr \<lparr> ci_name = name, ci_type = dataType, ci_nullable = EqualFold isNullable ''YES'', ci_pk = False \<rparr>
     | _ \<Rightarrow> Inl scan_width)"

definition postgres_table :: "string \<Rightarrow> (string \<times> string list) res" where
  "postgres_table table = with_context ''invalid postgres table'' (quoteQualified table 2 dquote)"

definition postgres_columns_query :: string where
  "postgres_columns_query = ''SELECT column_name, data_type, is_nullable FROM information_schema.columns ''
     @ ''WHERE table_schema = current_schema() AND table_name = $1 ORDER BY ordinal_position''"

definition postgres_pk_query :: string where
  "postgres_pk_query = ''SELECT a.attname FROM pg_index i JOIN pg_attribute a ON a.attrelid = i.indrelid ''
     @ ''AND a.attnum = ANY(i.indkey) WHERE i.indrelid = $1::regclass AND i.indisprimary''"

definition postgres_index_query :: string where
  "postgres_index_query = ''SELECT i.relname, ix.indisunique, array_agg(a.attname ORDER BY x.n) FROM pg_class t ''
     @ ''JOIN pg_namespace n ON n.oid = t.relnamespace JOIN pg_index ix ON t.oid = ix.indrelid ''
     @ ''JOIN pg_class i ON i.oid = ix.indexrelid JOIN LATERAL unnest(ix.indkey) WITH ORDINALITY AS x(attnum, n) ON true ''
     @ ''JOIN pg_attribute a ON a.attrelid = t.oid AND a.attnum = x.attnum WHERE n.nspname = current_schema() ''
     @ ''AND t.relname = $1 GROUP BY i.relname, ix.indisunique ORDER BY i.relname''"

text \<open>
  The scan of an index row into a \<open>string\<close>, a \<open>bool\<close> and a \<open>[]string\<close>, as \<open>database/sql\<close> assigns a
  value of the driver to a destination: special cases for strings and booleans, then a value of
  the destination's own type, then an error. A \<open>VList\<close> of strings stands for a \<open>[]string\<close>.
\<close>

definition postgres_index :: "goval list \<Rightarrow> IndexInfo res" where
  "postgres_index r = (case r of [name, unique, cols] \<Rightarrow>
       (case with_context ''sql: Scan error on column index 0'' (scan_string name) of Inl e \<Rightarrow> Inl e
        | Inr idxName \<Rightarrow> (case with_context ''sql: Scan error on column index 1'' (scan_bool unique) of Inl e \<Rightarrow> Inl e
          | Inr flag \<Rightarrow> (case with_context ''sql: Scan error on column index 2'' (scan_strings cols) of Inl e \<Rightarrow> Inl e
            | Inr names \<Rightarrow> Inr \<lparr> ix_name = idxName, ix_columns = names, ix_unique = flag \<rparr>)))
     | _ \<Rightarrow> Inl scan_width)"

definition postgres_describe :: "Driver \<Rightarrow> string \<Rightarrow> TableSchema res" where
  "postgres_describe dv table = (case postgres_table table of Inl e \<Rightarrow> Inl e
     | Inr (_, parts) \<Rightarrow> let name = last parts in
       (case wrap (phases ''prepare postgres columns query'' ''query postgres columns'' ''scan postgres column'' ''iterate postgres columns'')
           (dv_strings dv postgres_columns_query [VStr name]) of Inl e \<Rightarrow> Inl e
       | Inr rows \<Rightarrow> (case with_context ''scan postgres column'' (scan_rows plain_column rows) of Inl e \<Rightarrow> Inl e
         | Inr columns \<Rightarrow> (case wrap (phases ''prepare postgres pk query'' ''query postgres pk columns'' ''scan postgres pk column'' ''iterate postgres pk columns'')
               (dv_strings dv postgres_pk_query [VStr (join parts ''.'')]) of Inl e \<Rightarrow> Inl e
           | Inr pks \<Rightarrow> (case with_context ''scan postgres pk column'' (scan_rows one_string pks) of Inl e \<Rightarrow> Inl e
             | Inr pkSet \<Rightarrow> (case wrap (phases ''prepare postgres index query'' ''query postgres indexes'' ''scan postgres index'' ''iterate postgres indexes'')
                   (dv_index_arrays dv postgres_index_query [VStr name]) of Inl e \<Rightarrow> Inl e
               | Inr idx \<Rightarrow> (case with_context ''scan postgres index'' (scan_rows postgres_index idx) of Inl e \<Rightarrow> Inl e
                 | Inr indexes \<Rightarrow> Inr \<lparr> ts_columns = mark_pk pkSet columns, ts_indexes = sortIndexColumns indexes \<rparr>)))))))"

definition postgres_sample :: "Driver \<Rightarrow> string \<Rightarrow> int \<Rightarrow> string list \<Rightarrow> row list res" where
  "postgres_sample dv table limit columns = (case postgres_table table of Inl e \<Rightarrow> Inl e
     | Inr (quotedTable, _) \<Rightarrow> (case select_clause ''invalid postgres column list'' dquote columns of Inl e \<Rightarrow> Inl e
       | Inr sel \<Rightarrow> sample_result ''postgres'' (dv_rows dv (''SELECT '' @ sel @ '' FROM '' @ quotedTable @ '' LIMIT $1'') [VInt limit])))"

definition postgres_estimate :: "Driver \<Rightarrow> string \<Rightarrow> int res" where
  "postgres_estimate dv table = (case postgres_table table of Inl e \<Rightarrow> Inl e
     | Inr (_, parts) \<Rightarrow> count_rows ''postgres'' (dv_count dv (''SELECT reltuples::bigint FROM pg_class WHERE relname = $1 ''
         @ ''AND relnamespace = (SELECT oid FROM pg_namespace WHERE nspname = current_schema())'') [VStr (last parts)]))"

definition postgres_write :: "string \<Rightarrow> string \<Rightarrow> string \<Rightarrow> goval \<Rightarrow> (string \<times> goval) list \<Rightarrow> (string \<times> goval list) res" where
  "postgres_write table vc tc v extra = write_statement ''postgres'' dquote
     (case postgres_table table of Inl e \<Rightarrow> Inl e | Inr (quoted, _) \<Rightarrow> Inr quoted) dollar ''NOW()'' vc tc v extra"

definition postgres_profile :: "Driver \<Rightarrow> string \<Rightarrow> ProfileOptions \<Rightarrow> TableProfile res go" where
  "postgres_profile dv = profile_table (postgres_describe dv) (postgres_estimate dv) (postgres_sample dv)"

definition PostgresConnector :: "Driver \<Rightarrow> DbConnector" where
  "PostgresConnector dv = \<lparr> dc_test = with_context ''ping postgres'' (dv_ping dv),
     dc_list_tables = list_names ''postgres'' (dv_strings dv (''SELECT table_name FROM information_schema.tables ''
       @ ''WHERE table_schema = current_schema() AND table_type = 'BASE TABLE'' @ [CHR 0x27]) []) one_string,
     dc_describe = postgres_describe dv,
     dc_sample = (\<lambda>table limit. postgres_sample dv table (normalizeSampleLimit limit) []),
     dc_profile = postgres_profile dv,
     dc_write = (\<lambda>table vc tc v extra. execute_write ''postgres'' dv (postgres_write table vc tc v extra)) \<rparr>"

subsection \<open>SQL Server\<close>

definition bracket :: "string \<Rightarrow> string" where
  "bracket s = ''['' @ s @ '']''"

definition at_p :: "nat \<Rightarrow> string" where
  "at_p n = ''@p'' @ nat_str n"

text \<open>\<open>url.QueryEscape\<close>: letters, digits and \<open>-_.~\<close> stay, a space becomes a plus sign.\<close>

definition hex_digit :: "nat \<Rightarrow> char" where
  "hex_digit n = ''0123456789ABCDEF'' ! n"

definition escape_char :: "char \<Rightarrow> string" where
  "escape_char c = (if is_alpha c \<or> is_digit c \<or> c \<in> set ''-_.~'' then [c] else if c = CHR 0x20 then ''+''
     else [CHR 0x25, hex_digit (of_char c div 16), hex_digit (of_char c mod 16)])"

definition QueryEscape :: "string \<Rightarrow> string" where
  "QueryEscape s = concat (map escape_char s)"

definition mssql_dsn :: "ConnectionConfig \<Rightarrow> string" where
  "mssql_dsn cfg = (let port = (if cc_port cfg = 0 then 1433 else cc_port cfg); ssl = to_lower (trim_space (cc_ssl_mode cfg));
       encrypt = (if ssl = ''disable'' then ''disable'' else ''true'')
     in ''sqlserver://'' @ QueryEscape (cc_user cfg) @ '':'' @ QueryEscape (cc_password cfg) @ ''@'' @ cc_host cfg @ '':''
        @ itoa port @ ''?database='' @ cc_database cfg @ ''&encrypt='' @ encrypt)"

definition parseMSSQLTable :: "string \<Rightarrow> (string \<times> string) res" where
  "parseMSSQLTable table = (case quoteQualified table 2 bracket of Inl e \<Rightarrow> Inl (wrap_error ''invalid mssql table'' e)
     | Inr (_, parts) \<Rightarrow> (case parts of [name] \<Rightarrow> Inr (''dbo'', name) | _ \<Rightarrow> Inr (parts ! 0, parts ! 1)))"

definition quoteMSSQLTable :: "string \<Rightarrow> string res" where
  "quoteMSSQLTable table = with_context ''invalid mssql table''
     (case quoteQualified table 2 bracket of Inl e \<Rightarrow> Inl e | Inr (quoted, _) \<Rightarrow> Inr quoted)"

definition two_strings :: "string list \<Rightarrow> string res" where
  "two_strings r = (case r of [schema, name] \<Rightarrow> Inr (schema @ ''.'' @ name) | _ \<Rightarrow> Inl scan_width)"

definition mssql_columns_query :: string where
  "mssql_columns_query = ''SELECT COLUMN_NAME, DATA_TYPE, IS_NULLABLE FROM INFORMATION_SCHEMA.COLUMNS ''
     @ ''WHERE TABLE_CATALOG = DB_NAME() AND TABLE_SCHEMA = @p1 AND TABLE_NAME = @p2 ORDER BY ORDINAL_POSITION''"

definition mssql_pk_query :: string where
  "mssql_pk_query = ''SELECT kcu.COLUMN_NAME FROM INFORMATION_SCHEMA.TABLE_CONSTRAINTS tc ''
     @ ''JOIN INFORMATION_SCHEMA.KEY_COLUMN_USAGE kcu ON tc.CONSTRAINT_NAME = kcu.CONSTRAINT_NAME ''
     @ ''AND tc.TABLE_SCHEMA = kcu.TABLE_SCHEMA WHERE tc.CONSTRAINT_TYPE = 'PRIMARY KEY'' @ [CHR 0x27]
     @ '' AND tc.TABLE_SCHEMA = @p1 AND tc.TABLE_NAME = @p2 ORDER BY kcu.ORDINAL_POSITION''"

definition mssql_index_query :: string where
  "mssql_index_query = ''SELECT i.name, i.is_unique, c.name, ic.key_ordinal FROM sys.indexes i ''
     @ ''JOIN sys.index_columns ic ON i.object_id = ic.object_id AND i.index_id = ic.index_id ''
     @ ''JOIN sys.columns c ON ic.object_id = c.object_id AND ic.column_id = c.column_id ''
     @ ''JOIN sys.tables t ON i.object_id = t.object_id JOIN sys.schemas s ON t.schema_id = s.schema_id ''
     @ ''WHERE t.name = @p1 AND s.name = @p2 AND i.is_hypothetical = 0 AND i.type_desc <> 'HEAP'' @ [CHR 0x27]
     @ '' ORDER BY i.name, ic.key_ordinal''"

definition mssql_describe :: "Driver \<Rightarrow> string \<Rightarrow> TableSchema res" where
  "mssql_describe dv table = (case parseMSSQLTable table of Inl e \<Rightarrow> Inl e
     | Inr (schema, name) \<Rightarrow>
       (case wrap (phases ''prepare mssql columns query'' ''query mssql columns'' ''scan mssql column'' ''iterate mssql columns'')
           (dv_strings dv mssql_columns_query [VStr schema, VStr name]) of Inl e \<Rightarrow> Inl e
       | Inr rows \<Rightarrow> (case with_context ''scan mssql column'' (scan_rows plain_column rows) of Inl e \<Rightarrow> Inl e
         | Inr columns \<Rightarrow> (case wrap (phases ''prepare mssql pk query'' ''query mssql pk columns'' ''scan mssql pk column'' ''iterate mssql pk columns'')
               (dv_strings dv mssql_pk_query [VStr schema, VStr name]) of Inl e \<Rightarrow> Inl e
           | Inr pks \<Rightarrow> (case with_context ''scan mssql pk column'' (scan_rows one_string pks) of Inl e \<Rightarrow> Inl e
             | Inr pkSet \<Rightarrow> (case wrap (phases ''prepare mssql index query'' ''query mssql indexes'' ''scan mssql index'' ''iterate mssql indexes'')
                   (dv_indexes dv mssql_index_query [VStr name, VStr schema]) of Inl e \<Rightarrow> Inl e
               | Inr idx \<Rightarrow> Inr \<lparr> ts_columns = mark_pk pkSet columns,
                     ts_indexes = group_indexes (\<lambda>unique. unique = VBool True) idx \<rparr>))))))"

definition mssql_sample :: "Driver \<Rightarrow> string \<Rightarrow> int \<Rightarrow> string list \<Rightarrow> row list res" where
  "mssql_sample dv table limit columns = (case quoteMSSQLTable table of Inl e \<Rightarrow> Inl e
     | Inr quotedTable \<Rightarrow> (case select_clause ''invalid mssql column list'' bracket columns of Inl e \<Rightarrow> Inl e
       | Inr sel \<Rightarrow> sample_result ''mssql'' (dv_rows dv (''SELECT TOP (@p1) '' @ sel @ '' FROM '' @ quotedTable) [VInt limit])))"

definition mssql_estimate :: "Driver \<Rightarrow> string \<Rightarrow> int res" where
  "mssql_estimate dv table = (case parseMSSQLTable table of Inl e \<Rightarrow> Inl e
     | Inr (schema, name) \<Rightarrow> count_rows ''mssql'' (dv_count dv (''SELECT SUM(ps.row_count) FROM sys.dm_db_partition_stats ps ''
         @ ''JOIN sys.tables t ON ps.object_id = t.object_id JOIN sys.schemas s ON t.schema_id = s.schema_id ''
         @ ''WHERE ps.index_id IN (0, 1) AND t.name = @p1 AND s.name = @p2'') [VStr name, VStr schema]))"

definition mssql_write :: "string \<Rightarrow> string \<Rightarrow> string \<Rightarrow> goval \<Rightarrow> (string \<times> goval) list \<Rightarrow> (string \<times> goval list) res" where
  "mssql_write table vc tc v extra = write_statement ''mssql'' bracket (quoteMSSQLTable table) at_p ''GETDATE()'' vc tc v extra"

definition mssql_profile :: "Driver \<Rightarrow> string \<Rightarrow> ProfileOptions \<Rightarrow> TableProfile res go" where
  "mssql_profile dv = profile_table (mssql_describe dv) (mssql_estimate dv) (mssql_sample dv)"

definition MSSQLConnector :: "Driver \<Rightarrow> DbConnector" where
  "MSSQLConnector dv = \<lparr> dc_test = with_context ''ping mssql'' (dv_ping dv),
     dc_list_tables = list_names ''mssql'' (dv_strings dv (''SELECT TABLE_SCHEMA, TABLE_NAME FROM INFORMATION_SCHEMA.TABLES ''
       @ ''WHERE TABLE_TYPE = 'BASE TABLE'' @ [CHR 0x27] @ '' AND TABLE_CATALOG = DB_NAME()'') []) two_strings,
     dc_describe = mssql_describe dv,
     dc_sample = (\<lambda>table limit. mssql_sample dv table (normalizeSampleLimit limit) []),
     dc_profile = mssql_profile dv,
     dc_write = (\<lambda>table vc tc v extra. execute_write ''mssql'' dv (mssql_write table vc tc v extra)) \<rparr>"

subsection \<open>The factory\<close>

text \<open>\<open>sql.Open\<close> is a parameter: from the driver's name and the data source name to a database.\<close>

type_synonym sql_open = "string \<Rightarrow> string \<Rightarrow> Driver res"

definition open_connector :: "sql_open \<Rightarrow> string \<Rightarrow> string \<Rightarrow> string \<Rightarrow> (Driver \<Rightarrow> DbConnector) \<Rightarrow> DbConnector res" where
  "open_connector sqlopen driver dsn what build = (case sqlopen driver dsn of Inl e \<Rightarrow> Inl (wrap_error what e)
     | Inr dv \<Rightarrow> Inr (build dv))"

definition newMySQLConnector :: "sql_open \<Rightarrow> ConnectionConfig \<Rightarrow> DbConnector res" where
  "newMySQLConnector sqlopen cfg = open_connector sqlopen ''mysql'' (mysql_dsn cfg) ''open mysql connection'' MySQLConnector"

definition newPostgresConnector :: "sql_open \<Rightarrow> ConnectionConfig \<Rightarrow> DbConnector res" where
  "newPostgresConnector sqlopen cfg =
     open_connector sqlopen ''postgres'' (postgres_dsn cfg) ''open postgres connection'' PostgresConnector"

definition newMSSQLConnector :: "sql_open \<Rightarrow> ConnectionConfig \<Rightarrow> DbConnector res" where
  "newMSSQLConnector sqlopen cfg =
     open_connector sqlopen ''sqlserver'' (mssql_dsn cfg) ''open mssql connection'' MSSQLConnector"

definition NewConnector :: "sql_open \<Rightarrow> ConnectionConfig \<Rightarrow> DbConnector res" where
  "NewConnector sqlopen cfg = (let ty = to_lower (cc_type cfg) in
     if trim_space (cc_type cfg) = [] then Inl ''connection type is required''
     else if ty = ''mysql'' then newMySQLConnector sqlopen cfg
     else if ty = ''postgres'' \<or> ty = ''postgresql'' then newPostgresConnector sqlopen cfg
     else if ty = ''mssql'' \<or> ty = ''sqlserver'' then newMSSQLConnector sqlopen cfg
     else Inl ''unsupported database type'')"

end
