(* ===== verification/ConnectorProps.thy ===== *)
theory ConnectorProps
  imports Main Connectors DetectorProps
begin

text \<open>
  The properties of the connectors: which identifiers pass and how they are quoted, that an
  insert carries its values as arguments only, and what the profile of a sample holds.
\<close>

subsection \<open>Identifiers\<close>

lemma identPattern_chars: "identPattern s \<Longrightarrow> s \<noteq> [] \<and> list_all ident_char s"
  by (cases s) (auto simp: identPattern_def ident_char_def)

lemma ident_char_not: "ident_char c \<Longrightarrow> c \<noteq> CHR 0x2E \<and> \<not> is_space c"
  by (auto simp: ident_char_def is_alpha_def is_digit_def is_space_def)

lemma check_segments_ok: "check_segments ps = Inr () \<longleftrightarrow> list_all identPattern ps"
  by (induction ps) (auto simp: identPattern_def split: list.splits)

lemma splitIdentifier_ok:
  "splitIdentifier s = Inr parts \<longleftrightarrow> parts \<noteq> [] \<and> list_all identPattern parts \<and> trim_space s = join parts ''.''"
proof
  assume "splitIdentifier s = Inr parts"
  then have "split_on (CHR 0x2E) (trim_space s) = parts" "check_segments parts = Inr ()"
    by (auto simp: splitIdentifier_def Let_def split: if_splits sum.splits)
  then show "parts \<noteq> [] \<and> list_all identPattern parts \<and> trim_space s = join parts ''.''"
    using join_split_on [of "CHR 0x2E" "trim_space s"] by (auto simp: check_segments_ok)
next
  assume a: "parts \<noteq> [] \<and> list_all identPattern parts \<and> trim_space s = join parts ''.''"
  have dot: "CHR 0x2E \<notin> set p" if "p \<in> set parts" for p
    using that a identPattern_chars [of p] ident_char_not by (auto simp: list_all_iff)
  have "split_on (CHR 0x2E) (trim_space s) = parts"
    using a dot split_on_join [of parts "CHR 0x2E"] by auto
  moreover have "trim_space s \<noteq> []"
  proof
    assume "trim_space s = []"
    then have "parts = [[]]" using calculation by simp
    then show False using a by (simp add: identPattern_def)
  qed
  moreover have "check_segments parts = Inr ()" using a by (simp add: check_segments_ok)
  ultimately show "splitIdentifier s = Inr parts" by (simp add: splitIdentifier_def)
qed

text \<open>
  C24: \<open>splitIdentifier\<close> accepts exactly the texts that, after trimming, are segments of the
  identifier pattern joined by points, and returns those segments: reading back a joined
  identifier gives its segments.
\<close>
theorem split_identifier_roundtrip:
  "(splitIdentifier s = Inr parts) = (parts \<noteq> [] \<and> list_all identPattern parts \<and> trim_space s = join parts ''.'')"
  by (rule splitIdentifier_ok)

text \<open>A name whose characters can stand between the quotes of any of the dialects.\<close>

definition quotable :: "string \<Rightarrow> bool" where
  "quotable s = list_all (\<lambda>c. ident_char c \<or> is_space c) s"

lemma trimmed_quotable: "list_all ident_char (trim_space s) \<Longrightarrow> quotable s"
proof -
  assume a: "list_all ident_char (trim_space s)"
  have "c \<in> set s \<Longrightarrow> c \<in> set (trim_space s) \<or> is_space c" for c
  proof -
    assume c: "c \<in> set s"
    have d: "x \<in> set xs \<Longrightarrow> x \<in> set (dropWhile is_space xs) \<or> is_space x" for x and xs :: string
      by (induction xs) auto
    from d [OF c] show ?thesis using d [of c "rev (dropWhile is_space s)"] by (auto simp: trim_space_def)
  qed
  then show ?thesis using a by (auto simp: quotable_def list_all_iff)
qed

lemma quote_one:
  assumes "quoteList [name] quote = Inr q"
  shows "q = quote name \<and> name \<noteq> [] \<and> quotable name"
proof -
  obtain parts where p: "splitIdentifier name = Inr parts" "length parts = 1" "q = quote name" "name \<noteq> []"
    using assms by (auto simp: quoteList_def split: if_splits sum.splits)
  obtain w where w: "parts = [w]" using p(2) by (cases parts) auto
  have "identPattern w" "trim_space name = w" using p(1) w by (auto simp: splitIdentifier_ok)
  then have "quotable name" using identPattern_chars trimmed_quotable by blast
  with p show ?thesis by blast
qed

lemma quoteQualified_safe:
  assumes "quoteQualified s n quote = Inr (q, parts)"
  shows "parts \<noteq> [] \<and> list_all identPattern parts \<and> q = join (map quote parts) ''.'' \<and> (0 < n \<longrightarrow> int (length parts) \<le> n)"
  using assms by (auto simp: quoteQualified_def splitIdentifier_ok split: sum.splits if_splits)

subsection \<open>Inserts\<close>

lemma extra_parts_ok:
  "extra_parts quote ph n extra = Inr (cs, ps, as) \<Longrightarrow> cs = map (\<lambda>e. quote (fst e)) extra \<and> as = map snd extra
     \<and> ps = map ph [n ..< n + length extra] \<and> list_all (\<lambda>e. quotable (fst e)) extra"
proof (induction extra arbitrary: n cs ps as)
  case (Cons e extra)
  obtain k v where e: "e = (k, v)" by force
  from Cons.prems obtain qk cs' ps' as' where q: "quoteList [k] quote = Inr qk"
      "extra_parts quote ph (Suc n) extra = Inr (cs', ps', as')" "cs = qk # cs'" "ps = ph n # ps'" "as = v # as'"
    unfolding e by (auto split: sum.splits)
  then show ?case using quote_one [OF q(1)] Cons.IH [OF q(2)] by (simp add: e upt_rec [of n] del: upt_Suc)
qed simp

lemma extra_parts_keys:
  "map fst extra' = map fst extra \<Longrightarrow> extra_parts quote ph n extra = Inr (cs, ps, as) \<Longrightarrow>
   extra_parts quote ph n extra' = Inr (cs, ps, map snd extra')"
proof (induction extra arbitrary: extra' n cs ps as)
  case (Cons e extra)
  from Cons.prems(1) obtain v' rest where x: "extra' = (fst e, v') # rest" "map fst rest = map fst extra"
    by (cases extra') auto
  obtain k v where e: "e = (k, v)" by force
  from Cons.prems(2) obtain qk cs' ps' as' where q: "quoteList [k] quote = Inr qk"
      "extra_parts quote ph (Suc n) extra = Inr (cs', ps', as')" "cs = qk # cs'" "ps = ph n # ps'"
    unfolding e by (auto split: sum.splits)
  show ?case using q Cons.IH [OF x(2) q(2)] by (simp add: x(1) e)
qed simp

text \<open>The shape of an insert in a dialect.\<close>

definition insert_of :: "(string \<Rightarrow> string) \<Rightarrow> (nat \<Rightarrow> string) \<Rightarrow> string \<Rightarrow> string list \<Rightarrow> string list \<Rightarrow> string" where
  "insert_of quote ph now parts cols = insert_text (join (map quote parts) ''.'') (map quote cols)
     (ph 1 # now # map ph [2 ..< length cols])"

lemma write_statement_ok:
  assumes w: "write_statement db quote qt ph now vc tc v extra = Inr (text, args)"
    and t: "\<And>q. qt = Inr q \<Longrightarrow> \<exists>parts. parts \<noteq> [] \<and> list_all identPattern parts \<and> q = join (map quote parts) ''.''"
  shows "args = v # map snd extra \<and> list_all quotable (vc # tc # map fst extra)
    \<and> (\<exists>parts. parts \<noteq> [] \<and> list_all identPattern parts \<and> text = insert_of quote ph now parts (vc # tc # map fst extra))
    \<and> (\<forall>v' extra'. map fst extra' = map fst extra \<longrightarrow>
         write_statement db quote qt ph now vc tc v' extra' = Inr (text, v' # map snd extra'))"
proof -
  from w obtain q qv qtc cs ps as where q: "qt = Inr q" "quoteList [vc] quote = Inr qv" "quoteList [tc] quote = Inr qtc"
      "extra_parts quote ph 2 extra = Inr (cs, ps, as)" "text = insert_text q (qv # qtc # cs) (ph 1 # now # ps)" "args = v # as"
    by (auto simp: write_statement_def with_context_def split: sum.splits)
  obtain parts where p: "parts \<noteq> []" "list_all identPattern parts" "q = join (map quote parts) ''.''"
    using t [OF q(1)] by blast
  note e = extra_parts_ok [OF q(4)]
  have len: "length (vc # tc # map fst extra) = 2 + length extra" by simp
  have "text = insert_of quote ph now parts (vc # tc # map fst extra)"
    using quote_one [OF q(2)] quote_one [OF q(3)] e p(3) q(5) unfolding insert_of_def len by (simp add: comp_def)
  moreover have "write_statement db quote qt ph now vc tc v' extra' = Inr (text, v' # map snd extra')"
    if "map fst extra' = map fst extra" for v' extra'
    using extra_parts_keys [OF that q(4)] q by (simp add: write_statement_def with_context_def)
  moreover have "list_all quotable (vc # tc # map fst extra)"
    using quote_one [OF q(2)] quote_one [OF q(3)] e by (simp add: list_all_iff)
  ultimately show ?thesis using e p q(6) by blast
qed

definition parameterised :: "(string \<Rightarrow> string \<Rightarrow> string \<Rightarrow> goval \<Rightarrow> (string \<times> goval) list \<Rightarrow> (string \<times> goval list) res)
    \<Rightarrow> (string \<Rightarrow> string) \<Rightarrow> (nat \<Rightarrow> string) \<Rightarrow> string \<Rightarrow> bool" where
  "parameterised write quote ph now = (\<forall>table vc tc v extra text args. write table vc tc v extra = Inr (text, args) \<longrightarrow>
     args = v # map snd extra \<and> list_all quotable (vc # tc # map fst extra)
     \<and> (\<exists>parts. parts \<noteq> [] \<and> list_all identPattern parts \<and> text = insert_of quote ph now parts (vc # tc # map fst extra))
     \<and> (\<forall>v' extra'. map fst extra' = map fst extra \<longrightarrow> write table vc tc v' extra' = Inr (text, v' # map snd extra')))"

lemma mysql_table_safe: "mysql_table t = Inr q \<Longrightarrow> \<exists>parts. parts \<noteq> [] \<and> list_all identPattern parts \<and> q = join (map backtick parts) ''.''"
  using quoteQualified_safe by (force simp: mysql_table_def with_context_def split: sum.splits prod.splits)

lemma postgres_table_safe: "postgres_table t = Inr (q, ps) \<Longrightarrow> \<exists>parts. parts \<noteq> [] \<and> list_all identPattern parts \<and> q = join (map dquote parts) ''.''"
  using quoteQualified_safe [of t 2 dquote q] by (auto simp: postgres_table_def with_context_def split: sum.splits)

lemma mssql_table_safe: "quoteMSSQLTable t = Inr q \<Longrightarrow> \<exists>parts. parts \<noteq> [] \<and> list_all identPattern parts \<and> q = join (map bracket parts) ''.''"
  using quoteQualified_safe by (force simp: quoteMSSQLTable_def with_context_def split: sum.splits prod.splits)

text \<open>
  C23: In all three dialects an insert is parameterised: its text is determined by the table
  and the column names, every segment of the table matches the identifier pattern and every
  column consists of identifier characters and surrounding white space, so none can close its
  quotes; the value and the extra values appear only as arguments, in the order of their
  placeholders.
\<close>
theorem write_row_is_parameterised:
  "parameterised mysql_write backtick (\<lambda>_. ''?'') ''NOW()'' \<and> parameterised postgres_write dquote dollar ''NOW()''
    \<and> parameterised mssql_write bracket at_p ''GETDATE()''"
proof -
  have "parameterised mysql_write backtick (\<lambda>_. ''?'') ''NOW()''"
    unfolding parameterised_def mysql_write_def
    by (intro allI impI, rule write_statement_ok, assumption, erule mysql_table_safe)
  moreover have "parameterised postgres_write dquote dollar ''NOW()''"
  proof -
    have "\<exists>parts. parts \<noteq> [] \<and> list_all identPattern parts \<and> q = join (map dquote parts) ''.''"
      if "(case postgres_table t of Inl e \<Rightarrow> Inl e | Inr (quoted, _) \<Rightarrow> Inr quoted) = (Inr q :: string res)" for t q
      using that postgres_table_safe by (auto split: sum.splits)
    then show ?thesis unfolding parameterised_def postgres_write_def
      by (intro allI impI, elim write_statement_ok) blast
  qed
  moreover have "parameterised mssql_write bracket at_p ''GETDATE()''"
    unfolding parameterised_def mssql_write_def
    by (intro allI impI, rule write_statement_ok, assumption, erule mssql_table_safe)
  ultimately show ?thesis by blast
qed

subsection \<open>Profiles\<close>

definition present :: "string \<Rightarrow> row list \<Rightarrow> goval list" where
  "present name sample = List.map_filter (\<lambda>r. case mget r name of None \<Rightarrow> None | Some v \<Rightarrow> if v = VNil then None else Some v) sample"

text \<open>The texts in the order of their first occurrence.\<close>

definition firsts :: "'a list \<Rightarrow> 'a list" where
  "firsts xs = rev (remdups (rev xs))"

lemma firsts_snoc: "firsts (xs @ [x]) = (if x \<in> set xs then firsts xs else firsts xs @ [x])"
  by (simp add: firsts_def)

lemma set_firsts [simp]: "set (firsts xs) = set xs"
  by (simp add: firsts_def)

lemma take_snoc_firsts:
  "take 3 (firsts (pre @ [t])) = (if length (take 3 (firsts pre)) < 3 \<and> t \<notin> set (take 3 (firsts pre))
     then take 3 (firsts pre) @ [t] else take 3 (firsts pre))"
  by (cases "length (firsts pre) < 3") (auto simp: firsts_snoc)

fun min_max :: "goval list \<Rightarrow> goval \<times> goval \<Rightarrow> (goval \<times> goval) go" where
  "min_max [] m = Ret m"
| "min_max (v # vs) m = go_bind (updateMinMax (fst m) (snd m) v) (min_max vs)"

lemma present_simps:
  "present name [] = []"
  "present name (r # rs) = (case mget r name of None \<Rightarrow> present name rs
     | Some v \<Rightarrow> if v = VNil then present name rs else v # present name rs)"
  by (simp_all add: present_def List.map_filter_simps split: option.split)

definition scan_of :: "string list \<Rightarrow> int \<Rightarrow> goval \<times> goval \<Rightarrow> string list \<Rightarrow> column_scan" where
  "scan_of texts nulls m d = \<lparr> cn_nulls = nulls, cn_distinct = d, cn_examples = take 3 (firsts texts),
     cn_min = fst m, cn_max = snd m \<rparr>"

lemma scan_of_sel [simp]: "cn_nulls (scan_of t n m d) = n" "cn_distinct (scan_of t n m d) = d"
  "cn_examples (scan_of t n m d) = take 3 (firsts t)" "cn_min (scan_of t n m d) = fst m" "cn_max (scan_of t n m d) = snd m"
  by (simp_all add: scan_of_def)

lemma scan_of_update:
  "(scan_of t n m d) \<lparr> cn_nulls := k \<rparr> = scan_of t k m d"
  "(scan_of t n m d) \<lparr> cn_distinct := e, cn_examples := take 3 (firsts u), cn_min := a, cn_max := b \<rparr> = scan_of u n (a, b) e"
  by (simp_all add: scan_of_def)

lemma scan_column_eq:
  "scan_column name rs (scan_of pre n m d) = go_bind (min_max (present name rs) m) (\<lambda>m'. Ret
     (scan_of (pre @ map sprint_key (present name rs)) (n + int (length rs) - int (length (present name rs))) m'
       (fold List.insert (map sprint_key (present name rs)) d)))"
proof (induction rs arbitrary: pre n m d)
  case (Cons r rs)
  show ?case
  proof (cases "mget r name")
    case None
    then show ?thesis using Cons.IH [of pre "n + 1" m d] by (simp add: present_simps scan_of_update algebra_simps)
  next
    case (Some v)
    show ?thesis
    proof (cases "v = VNil")
      case True
      then show ?thesis using Some Cons.IH [of pre "n + 1" m d] by (simp add: present_simps scan_of_update algebra_simps)
    next
      case False
      let ?t = "sprint_key v"
      have e: "(if length (take 3 (firsts pre)) < 3 \<and> ?t \<notin> set (take 3 (firsts pre))
          then take 3 (firsts pre) @ [?t] else take 3 (firsts pre)) = take 3 (firsts (pre @ [?t]))"
        by (rule take_snoc_firsts [symmetric])
      show ?thesis
      proof (cases "updateMinMax (fst m) (snd m) v")
        case (Ret p)
        have IH: "scan_column name rs (scan_of (pre @ [?t]) n p (List.insert ?t d)) = go_bind (min_max (present name rs) p) (\<lambda>m'. Ret
           (scan_of ((pre @ [?t]) @ map sprint_key (present name rs)) (n + int (length rs) - int (length (present name rs))) m'
             (fold List.insert (map sprint_key (present name rs)) (List.insert ?t d))))"
          by (rule Cons.IH)
        have s: "scan_column name (r # rs) (scan_of pre n m d) = scan_column name rs (scan_of (pre @ [?t]) n p (List.insert ?t d))"
          using Some False Ret by (simp only: scan_column.simps option.case Let_def scan_of_sel e if_False go_bind_simps
              case_prod_unfold scan_of_update prod.collapse)
        show ?thesis unfolding s IH using Some False Ret by (simp add: present_simps algebra_simps)
      next
        case (Panic e')
        then show ?thesis using Some False by (simp add: present_simps)
      qed
    qed
  qed
qed (simp add: present_simps)

lemma length_fold_insert: "distinct d \<Longrightarrow> distinct (fold List.insert xs d) \<and> set (fold List.insert xs d) = set xs \<union> set d"
  by (induction xs arbitrary: d) auto

lemma empty_scan_eq: "empty_scan = scan_of [] 0 (VNil, VNil) []"
  by (simp add: empty_scan_def scan_of_def firsts_def)

lemma column_profile_eq:
  "column_profile sample col = go_bind (min_max (present (ci_name col) sample) (VNil, VNil)) (\<lambda>m. Ret
     \<lparr> cp_column = ci_name col, cp_type = ci_type col, cp_nullable = ci_nullable col, cp_pk = ci_pk col,
       cp_sample_count = int (length sample),
       cp_nulls = int (length sample) - int (length (present (ci_name col) sample)),
       cp_null_rate = (if sample = [] then f0 else fdiv (f_of_int (int (length sample) - int (length (present (ci_name col) sample))))
          (f_of_int (int (length sample)))),
       cp_distinct = int (card (sprint_key ` set (present (ci_name col) sample))), cp_min = fst m, cp_max = snd m,
       cp_examples = take 3 (firsts (map sprint_key (present (ci_name col) sample))) \<rparr>)"
proof -
  let ?t = "map sprint_key (present (ci_name col) sample)"
  have "length (fold List.insert ?t []) = card (set ?t)"
    using length_fold_insert [of "[]" ?t] by (metis distinct_card distinct.simps(1) set_empty2 sup_bot.right_neutral)
  then show ?thesis
    unfolding column_profile_def empty_scan_eq scan_column_eq
    by (cases "min_max (present (ci_name col) sample) (VNil, VNil)") simp_all
qed

text \<open>The kinds of value that \<open>updateMinMax\<close> compares: times, and numbers that are not times.\<close>

definition is_time :: "goval \<Rightarrow> bool" where "is_time v = (toTime v \<noteq> None)"
definition is_number :: "goval \<Rightarrow> bool" where "is_number v = (toTime v = None \<and> connector_toFloat v \<noteq> None)"

definition timev :: "goval \<Rightarrow> bool" where "timev v = (case v of VTime _ \<Rightarrow> True | _ \<Rightarrow> False)"
definition floatv :: "goval \<Rightarrow> bool" where "floatv v = (case v of VFloat _ \<Rightarrow> True | _ \<Rightarrow> False)"

lemma update_skip: "\<not> is_time v \<Longrightarrow> \<not> is_number v \<Longrightarrow> updateMinMax a b v = Ret (a, b)"
  by (auto simp: updateMinMax_def is_time_def is_number_def)

lemma time_or_number_not_nil: "is_time v \<or> is_number v \<Longrightarrow> v \<noteq> VNil"
  by (auto simp: is_time_def is_number_def toTime_def connector_toFloat_def Let_def)

lemma better_cases:
  "timev c \<Longrightarrow> \<exists>c'. better_time lt t c = Ret c' \<and> timev c'" "better_time lt t VNil = Ret (VTime t)"
  "floatv c \<Longrightarrow> panics (better_time lt t c)"
  "floatv c \<Longrightarrow> \<exists>c'. better_float fl x c = Ret c' \<and> floatv c'" "better_float fl x VNil = Ret (VFloat x)"
  "timev c \<Longrightarrow> panics (better_float fl x c)"
  by (cases c; auto simp: better_time_def better_float_def timev_def floatv_def)+

lemma update_time:
  assumes "is_time v"
  shows "timev a \<Longrightarrow> timev b \<Longrightarrow> \<exists>a' b'. updateMinMax a b v = Ret (a', b') \<and> timev a' \<and> timev b'"
    "\<exists>t. updateMinMax VNil VNil v = Ret (VTime t, VTime t)" "floatv a \<Longrightarrow> panics (updateMinMax a b v)"
proof -
  obtain t where t: "toTime v = Some t" "v \<noteq> VNil" using assms time_or_number_not_nil by (auto simp: is_time_def)
  then have u: "updateMinMax x y v = go_bind (better_time (<) t x) (\<lambda>mn. go_bind (better_time (>) t y) (\<lambda>mx. Ret (mn, mx)))" for x y
    by (simp add: updateMinMax_def)
  show "timev a \<Longrightarrow> timev b \<Longrightarrow> \<exists>a' b'. updateMinMax a b v = Ret (a', b') \<and> timev a' \<and> timev b'"
    unfolding u using better_cases(1) [of a "(<)" t] better_cases(1) [of b "(>)" t] by auto
  show "\<exists>t. updateMinMax VNil VNil v = Ret (VTime t, VTime t)" unfolding u by (simp add: better_cases)
  show "floatv a \<Longrightarrow> panics (updateMinMax a b v)" unfolding u by (simp add: panics_bind better_cases)
qed

lemma update_number:
  assumes "is_number v"
  shows "floatv a \<Longrightarrow> floatv b \<Longrightarrow> \<exists>a' b'. updateMinMax a b v = Ret (a', b') \<and> floatv a' \<and> floatv b'"
    "\<exists>t. updateMinMax VNil VNil v = Ret (VFloat t, VFloat t)" "timev a \<Longrightarrow> panics (updateMinMax a b v)"
proof -
  obtain x where x: "toTime v = None" "connector_toFloat v = Some x" "v \<noteq> VNil"
    using assms time_or_number_not_nil by (auto simp: is_number_def)
  then have u: "updateMinMax a b v = go_bind (better_float flt x a) (\<lambda>mn. go_bind (better_float fgt x b) (\<lambda>mx. Ret (mn, mx)))" for a b
    by (simp add: updateMinMax_def)
  show "floatv a \<Longrightarrow> floatv b \<Longrightarrow> \<exists>a' b'. updateMinMax a b v = Ret (a', b') \<and> floatv a' \<and> floatv b'"
    unfolding u using better_cases(4) [of a flt x] better_cases(4) [of b fgt x] by auto
  show "\<exists>t. updateMinMax VNil VNil v = Ret (VFloat t, VFloat t)" unfolding u by (simp add: better_cases)
  show "timev a \<Longrightarrow> panics (updateMinMax a b v)" unfolding u by (simp add: panics_bind better_cases)
qed

lemma min_max_time: "timev a \<Longrightarrow> timev b \<Longrightarrow> panics (min_max vs (a, b)) \<longleftrightarrow> list_ex is_number vs"
proof (induction vs arbitrary: a b)
  case (Cons v vs)
  consider "is_time v" | "is_number v" | "\<not> is_time v" "\<not> is_number v" by blast
  then show ?case
  proof cases
    case 1
    then obtain a' b' where "updateMinMax a b v = Ret (a', b')" "timev a'" "timev b'" using update_time(1) Cons.prems by blast
    moreover have "\<not> is_number v" using 1 by (auto simp: is_time_def is_number_def)
    ultimately show ?thesis using Cons.IH [of a' b'] by simp
  next
    case 2
    then show ?thesis using update_number(3) [OF 2 Cons.prems(1)] by (simp add: panics_bind)
  qed (use Cons update_skip in simp)
qed simp

lemma min_max_float: "floatv a \<Longrightarrow> floatv b \<Longrightarrow> panics (min_max vs (a, b)) \<longleftrightarrow> list_ex is_time vs"
proof (induction vs arbitrary: a b)
  case (Cons v vs)
  consider "is_time v" | "is_number v" | "\<not> is_time v" "\<not> is_number v" by blast
  then show ?case
  proof cases
    case 1
    then show ?thesis using update_time(3) [OF 1 Cons.prems(1)] by (simp add: panics_bind)
  next
    case 2
    then obtain a' b' where "updateMinMax a b v = Ret (a', b')" "floatv a'" "floatv b'" using update_number(1) Cons.prems by blast
    moreover have "\<not> is_time v" using 2 by (auto simp: is_time_def is_number_def)
    ultimately show ?thesis using Cons.IH [of a' b'] by simp
  qed (use Cons update_skip in simp)
qed simp

lemma min_max_panics: "panics (min_max vs (VNil, VNil)) \<longleftrightarrow> list_ex is_time vs \<and> list_ex is_number vs"
proof (induction vs)
  case (Cons v vs)
  consider "is_time v" | "is_number v" | "\<not> is_time v" "\<not> is_number v" by blast
  then show ?case
  proof cases
    case 1
    then obtain t where t: "updateMinMax VNil VNil v = Ret (VTime t, VTime t)" using update_time(2) by blast
    have "\<not> is_number v" using 1 by (auto simp: is_time_def is_number_def)
    then show ?thesis using t 1 min_max_time [of "VTime t" "VTime t" vs] by (simp add: timev_def)
  next
    case 2
    then obtain t where t: "updateMinMax VNil VNil v = Ret (VFloat t, VFloat t)" using update_number(2) by blast
    have "\<not> is_time v" using 2 by (auto simp: is_time_def is_number_def)
    then show ?thesis using t 2 min_max_float [of "VFloat t" "VFloat t" vs] by (simp add: floatv_def)
  qed (use Cons update_skip in simp)
qed simp

lemma go_map_panics: "panics (go_map f xs) \<longleftrightarrow> (\<exists>x \<in> set xs. panics (f x))"
proof (induction xs)
  case (Cons x xs)
  then show ?case by (cases "f x") (auto simp: panics_bind)
qed simp

definition profiled :: "int \<Rightarrow> TableSchema \<Rightarrow> ColumnInfo list" where
  "profiled n schema = (if n > 0 then take (nat n) (ts_columns schema) else ts_columns schema)"

text \<open>
  Profiling a sample panics exactly when one of the profiled columns holds both a value
  that reads as a time and a value that reads as a number (a text column with \<open>5\<close> and
  \<open>2024-01-02 03:04:05\<close> does): the type assertion on the minimum kept so far fails.
\<close>
theorem profile_panics_iff_mixed:
  "panics (profileFromSample schema sample n) = (\<exists>c \<in> set (profiled n schema).
     list_ex is_time (present (ci_name c) sample) \<and> list_ex is_number (present (ci_name c) sample))"
  unfolding profileFromSample_def profiled_def [symmetric] go_map_panics
  by (auto simp: column_profile_eq panics_bind min_max_panics)

lemma go_map_ret: "go_map f xs = Ret ys \<Longrightarrow> length ys = length xs \<and> (\<forall>i < length xs. f (xs ! i) = Ret (ys ! i))"
proof (induction xs arbitrary: ys)
  case (Cons x xs)
  obtain y where y: "f x = Ret y" using Cons.prems by (cases "f x") auto
  obtain zs where z: "go_map f xs = Ret zs" "ys = y # zs" using Cons.prems y by (cases "go_map f xs") auto
  show ?case using Cons.IH [OF z(1)] y z(2) by (auto simp: nth_Cons split: nat.split)
qed simp

lemma column_profile_ret:
  assumes "column_profile sample c = Ret p"
  shows "cp_column p = ci_name c \<and> cp_sample_count p = int (length sample)
    \<and> cp_nulls p = int (length sample) - int (length (present (ci_name c) sample))
    \<and> cp_distinct p = int (card (sprint_key ` set (present (ci_name c) sample)))
    \<and> cp_examples p = take 3 (firsts (map sprint_key (present (ci_name c) sample)))"
  using assms unfolding column_profile_eq
  by (cases "min_max (present (ci_name c) sample) (VNil, VNil)") auto

text \<open>
  C32: A profile that is returned is exact for its sample: one entry per column up to the
  limit, in order; nulls are the rows without a value, the distinct count is the number of
  different texts, the examples are the first three different texts in row order, and the
  counts are bounded by the sample.
\<close>
theorem profile_reference:
  assumes "profileFromSample schema sample n = Ret ps" and "i < length (profiled n schema)"
  shows "length ps = length (profiled n schema) \<and> cp_column (ps ! i) = ci_name (profiled n schema ! i)
    \<and> cp_sample_count (ps ! i) = int (length sample)
    \<and> cp_nulls (ps ! i) + int (length (present (cp_column (ps ! i)) sample)) = int (length sample)
    \<and> cp_distinct (ps ! i) = int (card (sprint_key ` set (present (cp_column (ps ! i)) sample)))
    \<and> cp_examples (ps ! i) = take 3 (firsts (map sprint_key (present (cp_column (ps ! i)) sample)))
    \<and> 0 \<le> cp_nulls (ps ! i) \<and> cp_distinct (ps ! i) \<le> cp_sample_count (ps ! i) \<and> distinct (cp_examples (ps ! i))"
proof -
  let ?c = "profiled n schema ! i"
  have "go_map (column_profile sample) (profiled n schema) = Ret ps"
    using assms(1) by (simp add: profileFromSample_def profiled_def)
  from go_map_ret [OF this] assms(2) have p: "length ps = length (profiled n schema)" "column_profile sample ?c = Ret (ps ! i)" by auto
  have len: "length (present nm sample) \<le> length sample" for nm
    by (induction sample) (auto simp: present_simps split: option.split)
  have card: "int (card (sprint_key ` set (present nm sample))) \<le> int (length sample)" for nm
    using card_length [of "map sprint_key (present nm sample)"] len [of nm] by simp
  have dist: "distinct (firsts xs)" for xs :: "string list" by (simp add: firsts_def)
  show ?thesis using p(1) column_profile_ret [OF p(2)] len card dist by (simp add: distinct_take)
qed

definition one_column :: TableSchema where
  "one_column = \<lparr> ts_columns = [\<lparr> ci_name = ''a'', ci_type = ''text'', ci_nullable = True, ci_pk = False \<rparr>], ts_indexes = [] \<rparr>"

lemma profile_reference_witness:
  "\<exists>ps. profileFromSample one_column [[(''a'', VBool True)], [(''a'', VNil)], [(''a'', VBool True)]] 25 = Ret ps
    \<and> cp_nulls (ps ! 0) = 1 \<and> cp_distinct (ps ! 0) = 1"
proof -
  let ?s = "[[(''a'', VBool True)], [(''a'', VNil)], [(''a'', VBool True)]]"
  have p: "present ''a'' ?s = [VBool True, VBool True]" by (simp add: present_simps)
  have c: "profiled 25 one_column = [\<lparr> ci_name = ''a'', ci_type = ''text'', ci_nullable = True, ci_pk = False \<rparr>]"
    by (simp add: profiled_def one_column_def)
  have "\<exists>ps. profileFromSample one_column ?s 25 = Ret ps"
    using p by (simp add: profileFromSample_def one_column_def column_profile_eq updateMinMax_def toTime_def connector_toFloat_def)
  then obtain ps where ps: "profileFromSample one_column ?s 25 = Ret ps" by blast
  from profile_reference [OF ps, of 0] ps p show ?thesis unfolding c by auto
qed

subsection \<open>Postgres and indexes\<close>

text \<open>What a driver may give (\<open>driver.Value\<close> of the standard library).\<close>

definition driver_value :: "goval \<Rightarrow> bool" where
  "driver_value v = (case v of VNil \<Rightarrow> True | VBool _ \<Rightarrow> True | VInt _ \<Rightarrow> True | VFloat _ \<Rightarrow> True | VStr _ \<Rightarrow> True
     | VTime _ \<Rightarrow> True | VBytes _ \<Rightarrow> True | _ \<Rightarrow> False)"

lemma driver_value_no_strings: "driver_value v \<Longrightarrow> is_err (scan_strings v)"
  by (cases v) (simp_all add: driver_value_def scan_strings_def)

lemma postgres_index_scan: "list_all driver_value r \<Longrightarrow> is_err (postgres_index r)"
  using driver_value_no_strings
  by (fastforce simp: postgres_index_def with_context_def is_err_def split: list.splits sum.splits)

text \<open>
  C37: The Postgres connector cannot describe, and so cannot profile, a table that has an index:
  whatever values of a driver the rows of the index query hold, the scan into a slice of strings
  refuses the first, both answer an error, and it is this scan that fails whenever the same
  database without those rows would be described.
\<close>
theorem postgres_describe_fails_with_index:
  assumes "postgres_table table = Inr (q, parts)"
    and "dv_index_arrays dv postgres_index_query [VStr (last parts)] = Inr (r # rs)" "list_all driver_value r"
  shows "\<exists>e. dc_describe (PostgresConnector dv) table = Inl e \<and> dc_profile (PostgresConnector dv) table opts = Ret (Inl e)
    \<and> (\<not> is_err (dc_describe (PostgresConnector (dv \<lparr> dv_index_arrays := (\<lambda>_ _. Inr []) \<rparr>)) table)
        \<longrightarrow> (\<exists>e'. e = wrap_error ''scan postgres index'' e'))"
proof -
  obtain e' where "postgres_index r = Inl e'" using postgres_index_scan [OF assms(3)] by (auto simp: is_err_def split: sum.splits)
  then have s: "scan_rows postgres_index (r # rs) = Inl e'" by simp
  have "\<exists>e. postgres_describe dv table = Inl e
      \<and> (\<not> is_err (postgres_describe (dv \<lparr> dv_index_arrays := (\<lambda>_ _. Inr []) \<rparr>) table) \<longrightarrow> (\<exists>e'. e = wrap_error ''scan postgres index'' e'))"
    using assms(1,2) s
    by (auto simp: postgres_describe_def Let_def with_context_def wrap_def simp del: scan_rows.simps split: sum.splits)
  then obtain e where "postgres_describe dv table = Inl e"
    "\<not> is_err (postgres_describe (dv \<lparr> dv_index_arrays := (\<lambda>_ _. Inr []) \<rparr>) table) \<longrightarrow> (\<exists>e'. e = wrap_error ''scan postgres index'' e')"
    by blast
  then show ?thesis by (simp add: PostgresConnector_def postgres_profile_def profile_table_def Let_def)
qed

text \<open>A primary key, its columns as the bytes \<open>lib/pq\<close> gives.\<close>

definition indexed_db :: Driver where
  "indexed_db = \<lparr> dv_ping = Inr (), dv_strings = (\<lambda>_ _. Inr []), dv_indexes = (\<lambda>_ _. Inr []),
     dv_index_arrays = (\<lambda>_ _. Inr [[VBytes ''t_pkey'', VBool True, VBytes ''{id}'']]), dv_rows = (\<lambda>_ _. Inr ([], [])),
     dv_count = (\<lambda>_ _. Inr None), dv_exec = (\<lambda>_ _. Inr 1) \<rparr>"

lemma postgres_describe_fails_with_index_witness:
  "\<exists>e. dc_describe (PostgresConnector indexed_db) ''t'' = Inl (wrap_error ''scan postgres index'' e)"
proof -
  have t: "postgres_table ''t'' = Inr (CHR 0x22 # ''t'' @ [CHR 0x22], [''t''])" by code_simp
  have "dc_describe (PostgresConnector (indexed_db \<lparr> dv_index_arrays := (\<lambda>_ _. Inr []) \<rparr>)) ''t'' = Inr \<lparr> ts_columns = [], ts_indexes = [] \<rparr>"
    by (simp add: PostgresConnector_def postgres_describe_def t indexed_db_def wrap_def with_context_def mark_pk_def sortIndexColumns_def)
  then show ?thesis
    using postgres_describe_fails_with_index [OF t, of indexed_db "[VBytes ''t_pkey'', VBool True, VBytes ''{id}'']" "[]"]
    by (simp add: indexed_db_def driver_value_def) blast
qed

end
