(* ===== verification/Crypto.thy ===== *)
theory Crypto
  imports Main GoText
begin

text \<open>
  The encryption of stored passwords. The rule service encrypts
  (\<open>rule-service/internal/crypto/encryptor.go\<close>); the connector service
  (\<open>cmd/service/internal/connections/crypto.go\<close>) and the MCP server
  (\<open>cmd/mcp-server/main.go\<close>) read what it wrote with decryptors of their own. Base64 is
  written out; AES-GCM is a parameter: \<open>seal key nonce plain\<close> is the ciphertext with its tag,
  \<open>unseal key nonce sealed\<close> the plain text or \<open>None\<close> when the tag does not fit.
\<close>

subsection \<open>Base64 with padding (\<open>base64.StdEncoding\<close>)\<close>

definition b64_alphabet :: string where
  "b64_alphabet = ''ABCDEFGHIJKLMNOPQRSTUVWXYZabcdefghijklmnopqrstuvwxyz0123456789+/''"

definition b64_char :: "nat \<Rightarrow> char" where
  "b64_char n = b64_alphabet ! n"

definition b64_val :: "char \<Rightarrow> nat option" where
  "b64_val c = (if 65 \<le> ord c \<and> ord c \<le> 90 then Some (ord c - 65)
     else if 97 \<le> ord c \<and> ord c \<le> 122 then Some (ord c - 71)
     else if is_digit c then Some (ord c + 4)
     else if c = CHR 0x2B then Some 62 else if c = CHR 0x2F then Some 63 else None)"

fun EncodeToString :: "string \<Rightarrow> string" where
  "EncodeToString (a # b # c # rest) = b64_char (ord a div 4) # b64_char (ord a mod 4 * 16 + ord b div 16)
     # b64_char (ord b mod 16 * 4 + ord c div 64) # b64_char (ord c mod 64) # EncodeToString rest"
| "EncodeToString [a, b] = [b64_char (ord a div 4), b64_char (ord a mod 4 * 16 + ord b div 16),
     b64_char (ord b mod 16 * 4), CHR 0x3D]"
| "EncodeToString [a] = [b64_char (ord a div 4), b64_char (ord a mod 4 * 16), CHR 0x3D, CHR 0x3D]"
| "EncodeToString [] = []"

definition three_bytes :: "nat \<Rightarrow> nat \<Rightarrow> nat \<Rightarrow> nat \<Rightarrow> string" where
  "three_bytes w x y z = [char_of (w * 4 + x div 16), char_of (x mod 16 * 16 + y div 4), char_of (y mod 4 * 64 + z)]"

definition b64_quantum :: "char \<Rightarrow> char \<Rightarrow> char \<Rightarrow> char \<Rightarrow> bool \<Rightarrow> string option" where
  "b64_quantum a b c d final = (case (b64_val a, b64_val b) of
       (Some w, Some x) \<Rightarrow> if final \<and> c = CHR 0x3D \<and> d = CHR 0x3D then Some (take 1 (three_bytes w x 0 0))
         else (case b64_val c of None \<Rightarrow> None
           | Some y \<Rightarrow> if final \<and> d = CHR 0x3D then Some (take 2 (three_bytes w x y 0))
               else (case b64_val d of None \<Rightarrow> None | Some z \<Rightarrow> Some (three_bytes w x y z)))
     | _ \<Rightarrow> None)"

fun b64_decode :: "string \<Rightarrow> string option" where
  "b64_decode [] = Some []"
| "b64_decode (a # b # c # d # rest) = (case b64_quantum a b c d (rest = []) of None \<Rightarrow> None
     | Some s \<Rightarrow> (case b64_decode rest of None \<Rightarrow> None | Some t \<Rightarrow> Some (s @ t)))"
| "b64_decode _ = None"

text \<open>Line ends in the text are skipped.\<close>

definition DecodeString :: "string \<Rightarrow> string res" where
  "DecodeString s = (case b64_decode (filter (\<lambda>c. c \<noteq> CHR 0x0A \<and> c \<noteq> CHR 0x0D) s) of
     None \<Rightarrow> Inl ''illegal base64 data'' | Some t \<Rightarrow> Inr t)"

subsection \<open>The encryptors\<close>

type_synonym sealing = "string \<Rightarrow> string \<Rightarrow> string \<Rightarrow> string"
type_synonym unsealing = "string \<Rightarrow> string \<Rightarrow> string \<Rightarrow> string option"

definition NewAesGcmEncryptor :: "string \<Rightarrow> string res" where
  "NewAesGcmEncryptor key = (if length key \<noteq> 32 then Inl ''encryption key must be 32 bytes'' else Inr key)"

definition nonce_size :: nat where "nonce_size = 12"

definition NewCipher :: "string \<Rightarrow> unit res" where
  "NewCipher key = (if length key \<in> {16, 24, 32} then Inr () else Inl ''crypto/aes: invalid key size'')"

text \<open>\<open>random n\<close> is what \<open>io.ReadFull(rand.Reader, \<dots>)\<close> puts into a buffer of \<open>n\<close> bytes, or its error.\<close>

definition Encrypt :: "sealing \<Rightarrow> (nat \<Rightarrow> string res) \<Rightarrow> string \<Rightarrow> string \<Rightarrow> string res" where
  "Encrypt seal random key plain = (case NewCipher key of Inl e \<Rightarrow> Inl e
     | Inr _ \<Rightarrow> (case random nonce_size of Inl e \<Rightarrow> Inl e
       | Inr nonce \<Rightarrow> Inr (EncodeToString (nonce @ seal key nonce plain))))"

definition open_sealed :: "unsealing \<Rightarrow> string \<Rightarrow> string \<Rightarrow> string res" where
  "open_sealed unseal key data = (if length data < nonce_size then Inl ''ciphertext too short''
     else case unseal key (take nonce_size data) (drop nonce_size data) of
       None \<Rightarrow> Inl ''cipher: message authentication failed'' | Some plain \<Rightarrow> Inr plain)"

definition Decrypt :: "unsealing \<Rightarrow> string \<Rightarrow> string \<Rightarrow> string res" where
  "Decrypt unseal key cipherText = (case DecodeString cipherText of Inl e \<Rightarrow> Inl e
     | Inr data \<Rightarrow> (case NewCipher key of Inl e \<Rightarrow> Inl e | Inr _ \<Rightarrow> open_sealed unseal key data))"

text \<open>The decryptors of the connector service and of the MCP server.\<close>

definition connections_newAesGcmEncryptor :: "string \<Rightarrow> string res" where
  "connections_newAesGcmEncryptor key = (if length key \<noteq> 32 then Inl ''encryption key must be 32 bytes'' else Inr key)"

definition connections_Decrypt :: "unsealing \<Rightarrow> string \<Rightarrow> string \<Rightarrow> string res" where
  "connections_Decrypt unseal key cipherText = (case DecodeString cipherText of Inl e \<Rightarrow> Inl e
     | Inr data \<Rightarrow> (case NewCipher key of Inl e \<Rightarrow> Inl e | Inr _ \<Rightarrow> open_sealed unseal key data))"

definition mcp_newAesGcmEncryptor :: "string \<Rightarrow> string res" where
  "mcp_newAesGcmEncryptor key = (if length key \<noteq> 32 then Inl ''encryption key must be 32 bytes'' else Inr key)"

definition mcp_Decrypt :: "unsealing \<Rightarrow> string \<Rightarrow> string \<Rightarrow> string res" where
  "mcp_Decrypt unseal key cipherText = (case DecodeString cipherText of Inl e \<Rightarrow> Inl e
     | Inr data \<Rightarrow> (case NewCipher key of Inl e \<Rightarrow> Inl e | Inr _ \<Rightarrow> open_sealed unseal key data))"

subsection \<open>Facts\<close>

lemma b64_table: "\<forall>n \<in> set [0..<64]. b64_val (b64_char n) = Some n \<and> b64_char n \<notin> {CHR 0x3D, CHR 0x0A, CHR 0x0D}"
  by code_simp

lemma b64_val_char [simp]: "n < 64 \<Longrightarrow> b64_val (b64_char n) = Some n"
  and b64_char_plain: "n < 64 \<Longrightarrow> b64_char n \<noteq> CHR 0x3D \<and> b64_char n \<noteq> CHR 0x0A \<and> b64_char n \<noteq> CHR 0x0D"
  using b64_table by (auto simp: Ball_def)

lemma byte_bounds: "ord (c :: char) < (256 :: nat)"
proof -
  have "(of_char c :: nat) mod 256 = of_char c" by simp
  then show ?thesis by (metis mod_less_divisor zero_less_numeral)
qed

lemma parts16: "b < 16 \<Longrightarrow> (a * 16 + b) div 16 = a" "b < 16 \<Longrightarrow> (a * 16 + b) mod 16 = b"
  and parts4: "b < 4 \<Longrightarrow> (a * 4 + b) div 4 = a" "b < 4 \<Longrightarrow> (a * 4 + b) mod 4 = b" for a b :: nat
  by simp_all

lemma six_bits:
  fixes x y z :: nat
  assumes "x < 256" "y < 256" "z < 256"
  shows "x div 4 < 64" "x mod 4 * 16 + y div 16 < 64" "y mod 16 * 4 + z div 64 < 64" "z mod 64 < 64"
    "x mod 4 * 16 < 64" "y mod 16 * 4 < 64" "y div 16 < 16" "z div 64 < 4"
proof -
  have m: "x mod 4 < 4" "y mod 16 < 16" by simp_all
  show d: "x div 4 < 64" "y div 16 < 16" "z div 64 < 4" "z mod 64 < 64"
    using assms by (simp_all add: less_mult_imp_div_less)
  show "x mod 4 * 16 + y div 16 < 64" "y mod 16 * 4 + z div 64 < 64" "x mod 4 * 16 < 64" "y mod 16 * 4 < 64"
    using m d by linarith+
qed

lemma bytes_back:
  fixes x y z :: nat
  assumes "x < 256" "y < 256" "z < 256"
  shows "x div 4 * 4 + (x mod 4 * 16 + y div 16) div 16 = x"
    "(x mod 4 * 16 + y div 16) mod 16 * 16 + (y mod 16 * 4 + z div 64) div 4 = y"
    "(y mod 16 * 4 + z div 64) mod 4 * 64 + z mod 64 = z"
    "(x mod 4 * 16 + y div 16) mod 16 * 16 + y mod 16 * 4 div 4 = y" "x div 4 * 4 + x mod 4 * 16 div 16 = x"
  using six_bits(7,8) [OF assms] by (simp_all add: parts16 parts4 del: div_mult_self1 div_mult_self3)

lemma three_bytes_back:
  "three_bytes (ord a div 4) (ord a mod 4 * 16 + ord b div 16) (ord b mod 16 * 4 + ord c div 64) (ord c mod 64) = [a, b, c]"
  using bytes_back [of "ord a" "ord b" "ord c"] byte_bounds by (simp add: three_bytes_def)

lemma quantum_three:
  "b64_quantum (b64_char (ord a div 4)) (b64_char (ord a mod 4 * 16 + ord b div 16))
     (b64_char (ord b mod 16 * 4 + ord c div 64)) (b64_char (ord c mod 64)) f = Some [a, b, c]"
  using six_bits [of "ord a" "ord b" "ord c"] byte_bounds [of a] byte_bounds [of b] byte_bounds [of c]
  by (simp add: b64_quantum_def three_bytes_back b64_char_plain)

lemma quantum_two:
  "b64_quantum (b64_char (ord a div 4)) (b64_char (ord a mod 4 * 16 + ord b div 16)) (b64_char (ord b mod 16 * 4))
     (CHR 0x3D) True = Some [a, b]"
  using six_bits [of "ord a" "ord b" 0] bytes_back [of "ord a" "ord b" 0] byte_bounds [of a] byte_bounds [of b]
  by (simp add: b64_quantum_def three_bytes_def b64_char_plain numeral_2_eq_2 del: div_mult_self1 div_mult_self2 div_mult_self3 div_mult_self4)

lemma quantum_one:
  "b64_quantum (b64_char (ord a div 4)) (b64_char (ord a mod 4 * 16)) (CHR 0x3D) (CHR 0x3D) True = Some [a]"
  using six_bits [of "ord a" 0 0] bytes_back [of "ord a" 0 0] byte_bounds [of a]
  by (simp add: b64_quantum_def three_bytes_def)

lemma b64_decode_encode: "b64_decode (EncodeToString s) = Some s"
  by (induction s rule: EncodeToString.induct) (simp_all add: quantum_three quantum_two quantum_one)

lemma encode_no_line_ends: "list_all (\<lambda>c. c \<noteq> CHR 0x0A \<and> c \<noteq> CHR 0x0D) (EncodeToString s)"
proof (induction s rule: EncodeToString.induct)
  case (1 a b c rest)
  then show ?case using six_bits [of "ord a" "ord b" "ord c"] byte_bounds [of a] byte_bounds [of b] byte_bounds [of c]
    by (simp add: b64_char_plain)
next
  case (2 a b)
  then show ?case using six_bits [of "ord a" "ord b" 0] byte_bounds [of a] byte_bounds [of b]
    by (simp add: b64_char_plain)
next
  case (3 a)
  then show ?case using six_bits [of "ord a" 0 0] byte_bounds [of a] by (simp add: b64_char_plain)
qed simp

lemma DecodeString_EncodeToString: "DecodeString (EncodeToString s) = Inr s"
proof -
  have "filter (\<lambda>c. c \<noteq> CHR 0x0A \<and> c \<noteq> CHR 0x0D) (EncodeToString s) = EncodeToString s"
    using encode_no_line_ends [of s] by (simp add: list_all_iff)
  then show ?thesis by (simp add: DecodeString_def b64_decode_encode)
qed

text \<open>
  C14: A password that the rule service encrypted is read back by every service that shares
  its key: whenever \<open>Encrypt\<close> returns a text, each of the three decryptors returns the plain
  password for it. (The cipher opens what it sealed, and the random source fills the buffer.)
\<close>
theorem encrypted_password_opens:
  assumes "\<And>key nonce plain. unseal key nonce (seal key nonce plain) = Some plain"
    and "\<And>n bytes. random n = Inr bytes \<Longrightarrow> length bytes = n"
    and "Encrypt seal random key plain = Inr text"
  shows "Decrypt unseal key text = Inr plain \<and> connections_Decrypt unseal key text = Inr plain
    \<and> mcp_Decrypt unseal key text = Inr plain"
proof -
  obtain nonce where n: "NewCipher key = Inr ()" "random nonce_size = Inr nonce"
      "text = EncodeToString (nonce @ seal key nonce plain)"
    using assms(3) by (auto simp: Encrypt_def split: sum.splits)
  have "length nonce = nonce_size" by (rule assms(2) [OF n(2)])
  then have "open_sealed unseal key (nonce @ seal key nonce plain) = Inr plain"
    by (simp add: open_sealed_def assms(1))
  then show ?thesis
    using n(1) by (simp add: Decrypt_def connections_Decrypt_def mcp_Decrypt_def n(3) DecodeString_EncodeToString)
qed

lemma encrypted_password_opens_witness:
  "mcp_Decrypt (\<lambda>key nonce c. if has_prefix c (key @ nonce) then Some (drop (length key + length nonce) c) else None)
     (replicate 32 CHR 0x61) (EncodeToString (replicate 12 CHR 0x62 @ (replicate 32 CHR 0x61 @ replicate 12 CHR 0x62) @ ''pw''))
   = Inr ''pw''"
proof -
  let ?u = "\<lambda>key nonce c. if has_prefix c (key @ nonce) then Some (drop (length key + length nonce) c) else None"
  let ?s = "\<lambda>key nonce plain. (key @ nonce) @ plain :: string"
  have "?u k n (?s k n p) = Some p" for k n p by (simp only: has_prefix_append) simp
  moreover have "Encrypt ?s (\<lambda>n. Inr (replicate n CHR 0x62)) (replicate 32 CHR 0x61) ''pw''
      = Inr (EncodeToString (replicate 12 CHR 0x62 @ (replicate 32 CHR 0x61 @ replicate 12 CHR 0x62) @ ''pw''))"
    by (simp add: Encrypt_def NewCipher_def nonce_size_def del: EncodeToString.simps)
  ultimately show ?thesis
    using encrypted_password_opens [of ?u ?s "\<lambda>n. Inr (replicate n CHR 0x62)" "replicate 32 CHR 0x61" "''pw''"] by force
qed

end
