(* ===== verification/McpServer.thy ===== *)
theory McpServer
  imports Main McpAdapter Connectors Crypto
begin

text \<open>
  The MCP server (\<open>cmd/mcp-server/main.go\<close>): the peer of the scheduler's adapters. It answers
  JSON-RPC calls by looking up a connection, decrypting its password and querying the target
  database. The databases behind \<open>database/sql\<close> are parameters: \<open>target_open\<close> opens one by
  driver name and data source name, and its \<open>td_query\<close> gives the rows a query yields and the
  error its iteration ends with, if any. Requests and answers are JSON trees: \<open>VInt\<close> is a number
  literal without fraction or exponent; \<open>json_any\<close> is what decoding into an \<open>any\<close> makes of a
  tree, and \<open>json_wire\<close> the tree that encoding a Go value gives. Where an object repeats a key,
  the last one counts.
\<close>

subsection \<open>JSON\<close>

fun json_any :: "goval \<Rightarrow> goval" where
  "json_any (VInt z) = VFloat (f_of_int z)"
| "json_any (VList vs) = VList (map json_any vs)"
| "json_any (VMap kvs) = VMap (map (\<lambda>kv. (fst kv, json_any (snd kv))) kvs)"
| "json_any v = v"

fun json_wire :: "goval \<Rightarrow> goval" where
  "json_wire (VTime t) = VStr (format_rfc3339_nano t)"
| "json_wire (VBytes bs) = VStr (EncodeToString bs)"
| "json_wire (VList vs) = VList (map json_wire vs)"
| "json_wire (VMap kvs) = VMap (map (\<lambda>kv. (fst kv, json_wire (snd kv))) kvs)"
| "json_wire v = v"

text \<open>Encoding fails for an infinity, a NaN and an instant outside the years 0 to 9999.\<close>

fun json_times :: "goval \<Rightarrow> bool" where
  "json_times (VTime t) = (year_start 0 * 86400 * second_ns \<le> t \<and> t < rfc3339_end)"
| "json_times (VList vs) = list_all json_times vs"
| "json_times (VMap kvs) = list_all (\<lambda>kv. json_times (snd kv)) kvs"
| "json_times _ = True"

definition json_encodes :: "goval \<Rightarrow> bool" where
  "json_encodes v = (json_ok v \<and> json_times v)"

definition json_int :: "goval \<Rightarrow> int res" where
  "json_int v = (case v of VNil \<Rightarrow> Inr 0 | VInt z \<Rightarrow> if int64 z then Inr z
       else Inl ''json: cannot unmarshal number into Go value of type int''
     | _ \<Rightarrow> Inl ''json: cannot unmarshal value into Go value of type int'')"

definition decode_clause :: "goval \<Rightarrow> WhereClause res" where
  "decode_clause v = (case json_object v of Inl e \<Rightarrow> Inl e
     | Inr kvs \<Rightarrow> (case field_or [] json_string ''column'' kvs of Inl e \<Rightarrow> Inl e
       | Inr column \<Rightarrow> (case field_or [] json_string ''op'' kvs of Inl e \<Rightarrow> Inl e
         | Inr op \<Rightarrow> Inr \<lparr> cl_column = column, cl_op = op,
             cl_value = (case json_field ''value'' kvs of None \<Rightarrow> VNil | Some x \<Rightarrow> json_any x) \<rparr>)))"

definition decode_where :: "goval \<Rightarrow> WhereSpec option res" where
  "decode_where v = (if v = VNil then Inr None else case json_object v of Inl e \<Rightarrow> Inl e
     | Inr kvs \<Rightarrow> (case field_or [] json_string ''type'' kvs of Inl e \<Rightarrow> Inl e
       | Inr ty \<Rightarrow> (case field_or [] (json_list decode_clause) ''clauses'' kvs of Inl e \<Rightarrow> Inl e
         | Inr cs \<Rightarrow> Inr (Some \<lparr> wh_type = ty, wh_clauses = cs \<rparr>))))"

definition decode_list_tables :: "goval \<Rightarrow> string res" where
  "decode_list_tables v = (case json_object v of Inl e \<Rightarrow> Inl e | Inr kvs \<Rightarrow> field_or [] json_string ''connectionRef'' kvs)"

definition decode_list_columns :: "goval \<Rightarrow> (string \<times> string) res" where
  "decode_list_columns v = (case json_object v of Inl e \<Rightarrow> Inl e
     | Inr kvs \<Rightarrow> (case field_or [] json_string ''connectionRef'' kvs of Inl e \<Rightarrow> Inl e
       | Inr conn \<Rightarrow> (case field_or [] json_string ''table'' kvs of Inl e \<Rightarrow> Inl e | Inr table \<Rightarrow> Inr (conn, table))))"

text \<open>The fields the three queries share: connection, table, timestamp column and filter.\<close>

definition decode_common :: "goval \<Rightarrow> ((string \<times> goval) list \<times> string \<times> string \<times> string \<times> WhereSpec option) res" where
  "decode_common v = (case json_object v of Inl e \<Rightarrow> Inl e
     | Inr kvs \<Rightarrow> (case field_or [] json_string ''connectionRef'' kvs of Inl e \<Rightarrow> Inl e
       | Inr conn \<Rightarrow> (case field_or [] json_string ''table'' kvs of Inl e \<Rightarrow> Inl e
         | Inr table \<Rightarrow> (case field_or [] json_string ''timestampColumn'' kvs of Inl e \<Rightarrow> Inl e
           | Inr ts \<Rightarrow> (case field_or None decode_where ''where'' kvs of Inl e \<Rightarrow> Inl e
             | Inr w \<Rightarrow> Inr (kvs, conn, table, ts, w))))))"

definition decode_latest_request :: "goval \<Rightarrow> LatestValueRequest res" where
  "decode_latest_request v = (case decode_common v of Inl e \<Rightarrow> Inl e
     | Inr (kvs, conn, table, ts, w) \<Rightarrow> (case field_or [] json_string ''valueColumn'' kvs of Inl e \<Rightarrow> Inl e
       | Inr col \<Rightarrow> Inr \<lparr> lq_connection = conn, lq_table = table, lq_value_column = col, lq_timestamp = ts, lq_where = w \<rparr>))"

definition decode_aggregate_request :: "goval \<Rightarrow> AggregateRequest res" where
  "decode_aggregate_request v = (case decode_common v of Inl e \<Rightarrow> Inl e
     | Inr (kvs, conn, table, ts, w) \<Rightarrow> (case field_or [] json_string ''valueColumn'' kvs of Inl e \<Rightarrow> Inl e
       | Inr col \<Rightarrow> (case field_or [] json_string ''agg'' kvs of Inl e \<Rightarrow> Inl e
         | Inr agg \<Rightarrow> (case field_or 0 json_int ''windowSeconds'' kvs of Inl e \<Rightarrow> Inl e
           | Inr n \<Rightarrow> Inr \<lparr> aq_connection = conn, aq_table = table, aq_value_column = col, aq_timestamp = ts,
               aq_where = w, aq_agg = agg, aq_window = n \<rparr>))))"

definition decode_fetch_request :: "goval \<Rightarrow> FetchRecentRowsRequest res" where
  "decode_fetch_request v = (case decode_common v of Inl e \<Rightarrow> Inl e
     | Inr (kvs, conn, table, ts, w) \<Rightarrow> (case field_or [] (json_list json_string) ''columns'' kvs of Inl e \<Rightarrow> Inl e
       | Inr cols \<Rightarrow> (case field_or [] json_string ''since'' kvs of Inl e \<Rightarrow> Inl e
         | Inr since \<Rightarrow> (case field_or 0 json_int ''limit'' kvs of Inl e \<Rightarrow> Inl e
           | Inr n \<Rightarrow> Inr \<lparr> fq_connection = conn, fq_table = table, fq_columns = cols, fq_timestamp = ts,
               fq_where = w, fq_since = since, fq_limit = n \<rparr>))))"

subsection \<open>Query texts\<close>

definition is_postgres :: "string \<Rightarrow> bool" where
  "is_postgres dbType = has_prefix (to_lower dbType) ''post''"

definition placeholder :: "string \<Rightarrow> nat \<Rightarrow> string" where
  "placeholder dbType idx = (if is_postgres dbType then CHR 0x24 # nat_str idx else ''?'')"

definition isSafeIdentifier :: "string \<Rightarrow> bool" where
  "isSafeIdentifier s = (case s of [] \<Rightarrow> False | c # cs \<Rightarrow>
     (is_alpha c \<or> c = CHR 0x5F) \<and> list_all (\<lambda>c. is_alpha c \<or> is_digit c \<or> c = CHR 0x5F) cs)"

definition quoteIdent :: "string \<Rightarrow> string \<Rightarrow> string res" where
  "quoteIdent dbType name = (if \<not> isSafeIdentifier name then Inl ''unsafe identifier''
     else if is_postgres dbType then Inr (CHR 0x22 # name @ [CHR 0x22]) else Inr (CHR 0x60 # name @ [CHR 0x60]))"

definition normalizeOp :: "string \<Rightarrow> string res" where
  "normalizeOp op = (let o' = to_lower (trim_space op) in
     if o' = ''='' \<or> o' = ''=='' then Inr ''='' else if o' = ''!='' \<or> o' = ''<>'' then Inr ''!=''
     else if o' = ''>'' \<or> o' = ''>='' \<or> o' = ''<'' \<or> o' = ''<='' then Inr op
     else if o' = ''like'' then Inr ''LIKE'' else if o' = ''in'' then Inr ''IN''
     else Inl ''unsupported operator'')"

definition normalizeAgg :: "string \<Rightarrow> string" where
  "normalizeAgg agg = (if to_lower (trim_space agg) \<in> {''avg'', ''min'', ''max'', ''sum'', ''count''}
     then to_lower agg else [])"

text \<open>The decoder only makes \<open>[]any\<close>, so a list is a \<open>VList\<close>.\<close>

definition sliceValues :: "goval \<Rightarrow> goval list option" where
  "sliceValues v = (case v of VList vs \<Rightarrow> Some vs | _ \<Rightarrow> None)"

fun where_clauses :: "string \<Rightarrow> WhereClause list \<Rightarrow> nat \<Rightarrow> (string list \<times> goval list \<times> nat) res" where
  "where_clauses dbType [] idx = Inr ([], [], idx)"
| "where_clauses dbType (c # cs) idx = (if \<not> isSafeIdentifier (cl_column c) then Inl ''unsafe where identifier''
     else case normalizeOp (cl_op c) of Inl e \<Rightarrow> Inl e
     | Inr op \<Rightarrow> (case quoteIdent dbType (cl_column c) of Inl e \<Rightarrow> Inl e
       | Inr col \<Rightarrow> (if op = ''IN'' then (case sliceValues (cl_value c) of
             None \<Rightarrow> Inl ''invalid IN values''
           | Some vs \<Rightarrow> if vs = [] then Inl ''invalid IN values''
               else (case where_clauses dbType cs (idx + length vs) of Inl e \<Rightarrow> Inl e
                 | Inr (ts, as, n) \<Rightarrow> Inr ((col @ '' IN ('' @ join (map (placeholder dbType) [idx ..< idx + length vs]) '', '' @ '')'') # ts,
                     vs @ as, n)))
         else (case where_clauses dbType cs (Suc idx) of Inl e \<Rightarrow> Inl e
           | Inr (ts, as, n) \<Rightarrow> Inr ((col @ '' '' @ op @ '' '' @ placeholder dbType idx) # ts, cl_value c # as, n)))))"

definition buildWhereClause :: "string \<Rightarrow> WhereSpec option \<Rightarrow> nat \<Rightarrow> (string \<times> goval list \<times> nat) res" where
  "buildWhereClause dbType whr start = (case whr of None \<Rightarrow> Inr ([], [], start)
     | Some w \<Rightarrow> if wh_clauses w = [] then Inr ([], [], start)
         else (case where_clauses dbType (wh_clauses w) start of Inl e \<Rightarrow> Inl e
           | Inr (ts, as, n) \<Rightarrow>
               Inr (join ts ('' '' @ (if EqualFold (wh_type w) ''or'' then ''OR'' else ''AND'') @ '' ''), as, n)))"

definition latest_query :: "string \<Rightarrow> LatestValueRequest \<Rightarrow> (string \<times> goval list) res" where
  "latest_query dbType r = (if \<not> isSafeIdentifier (lq_table r) \<or> \<not> isSafeIdentifier (lq_value_column r) \<or> \<not> isSafeIdentifier (lq_timestamp r)
     then Inl ''unsafe identifier''
     else if lq_table r = [] \<or> lq_value_column r = [] \<or> lq_timestamp r = [] then Inl ''missing fields''
     else case quoteIdent dbType (lq_table r) of Inl e \<Rightarrow> Inl e
     | Inr table \<Rightarrow> (case quoteIdent dbType (lq_value_column r) of Inl e \<Rightarrow> Inl e
       | Inr valueCol \<Rightarrow> (case quoteIdent dbType (lq_timestamp r) of Inl e \<Rightarrow> Inl e
         | Inr tsCol \<Rightarrow> (case buildWhereClause dbType (lq_where r) 1 of Inl e \<Rightarrow> Inl e
           | Inr (whereSQL, args, _) \<Rightarrow> Inr (''SELECT '' @ valueCol @ '', '' @ tsCol @ '' FROM '' @ table
               @ (if whereSQL \<noteq> [] then '' WHERE '' @ whereSQL else []) @ '' ORDER BY '' @ tsCol @ '' DESC LIMIT 1'', args)))))"

text \<open>The \<open>WHERE\<close> part of the two windowed queries: the first placeholder is the start of the window.\<close>

definition window_where :: "string \<Rightarrow> string \<Rightarrow> string \<Rightarrow> string" where
  "window_where dbType tsCol whereSQL = ''WHERE '' @ join ((tsCol @ '' >= '' @ placeholder dbType 1)
     # (if whereSQL \<noteq> [] then [''('' @ whereSQL @ '')''] else [])) '' AND ''"

definition aggregate_query :: "string \<Rightarrow> int \<Rightarrow> AggregateRequest \<Rightarrow> (string \<times> goval list) res" where
  "aggregate_query dbType now r = (if \<not> isSafeIdentifier (aq_table r) \<or> \<not> isSafeIdentifier (aq_value_column r) \<or> \<not> isSafeIdentifier (aq_timestamp r)
     then Inl ''unsafe identifier''
     else if aq_window r \<le> 0 then Inl ''windowSeconds required''
     else let agg = normalizeAgg (aq_agg r) in if agg = [] then Inl ''unsupported aggregation''
     else case quoteIdent dbType (aq_table r) of Inl e \<Rightarrow> Inl e
     | Inr table \<Rightarrow> (case quoteIdent dbType (aq_value_column r) of Inl e \<Rightarrow> Inl e
       | Inr valueCol \<Rightarrow> (case quoteIdent dbType (aq_timestamp r) of Inl e \<Rightarrow> Inl e
         | Inr tsCol \<Rightarrow> (case buildWhereClause dbType (aq_where r) 2 of Inl e \<Rightarrow> Inl e
           | Inr (whereSQL, args, _) \<Rightarrow>
               let aggExpr = (if agg \<noteq> ''count'' then agg @ ''('' @ valueCol @ '')'' else ''COUNT(*)'')
               in Inr (''SELECT '' @ aggExpr @ '', MIN('' @ tsCol @ ''), MAX('' @ tsCol @ '') FROM '' @ table @ '' ''
                    @ window_where dbType tsCol whereSQL, VTime (now + seconds (wrap64 (- aq_window r))) # args)))))"

text \<open>The selected columns: each once, quoted, with its name.\<close>

fun select_columns :: "string \<Rightarrow> string list \<Rightarrow> string list \<Rightarrow> (string \<times> string) list res" where
  "select_columns dbType [] seen = Inr []"
| "select_columns dbType (c # cs) seen = (if \<not> isSafeIdentifier c then Inl ''unsafe identifier''
     else if c \<in> set seen then select_columns dbType cs seen
     else case quoteIdent dbType c of Inl e \<Rightarrow> Inl e
     | Inr q \<Rightarrow> (case select_columns dbType cs (c # seen) of Inl e \<Rightarrow> Inl e | Inr rest \<Rightarrow> Inr ((q, c) # rest)))"

definition fetch_limit :: "int \<Rightarrow> int" where
  "fetch_limit n = (if n \<le> 0 \<or> n > 2000 then 2000 else n)"

definition fetch_query :: "string \<Rightarrow> FetchRecentRowsRequest \<Rightarrow> (string \<times> goval list \<times> string list) res" where
  "fetch_query dbType r = (if fq_since r = [] then Inl ''since required''
     else if \<not> isSafeIdentifier (fq_table r) \<or> \<not> isSafeIdentifier (fq_timestamp r) then Inl ''unsafe identifier''
     else if fq_columns r = [] then Inl ''columns required''
     else case parse_rfc3339 (fq_since r) of None \<Rightarrow> Inl ''invalid since timestamp''
     | Some since \<Rightarrow> (case quoteIdent dbType (fq_table r) of Inl e \<Rightarrow> Inl e
       | Inr table \<Rightarrow> (case quoteIdent dbType (fq_timestamp r) of Inl e \<Rightarrow> Inl e
         | Inr tsCol \<Rightarrow> (case select_columns dbType (fq_columns r) [] of Inl e \<Rightarrow> Inl e
           | Inr sel \<Rightarrow> let sel' = (if fq_timestamp r \<in> set (fq_columns r) then sel else sel @ [(tsCol, fq_timestamp r)])
             in (case buildWhereClause dbType (fq_where r) 2 of Inl e \<Rightarrow> Inl e
               | Inr (whereSQL, args, _) \<Rightarrow> Inr (''SELECT '' @ join (map fst sel') '', '' @ '' FROM '' @ table @ '' ''
                   @ window_where dbType tsCol whereSQL @ '' ORDER BY '' @ tsCol @ '' DESC LIMIT '' @ itoa (fetch_limit (fq_limit r)),
                   VTime since # args, map snd sel'))))))"

subsection \<open>Databases and connections\<close>

record TargetDB =
  td_ping :: "unit res"
  td_query :: "string \<Rightarrow> goval list \<Rightarrow> (goval list list \<times> string option) res"

type_synonym target_open = "string \<Rightarrow> string \<Rightarrow> TargetDB res"

record McpEnv =
  me_type :: string
  me_dsn :: string
  me_key :: string
  me_unseal :: unsealing
  me_open :: target_open
  me_connect :: sql_open
  me_now :: int

text \<open>\<open>QueryRowContext\<close> followed by \<open>Scan\<close> into \<open>n\<close> destinations.\<close>

definition query_row :: "nat \<Rightarrow> (goval list list \<times> string option) res \<Rightarrow> goval list res" where
  "query_row n r = (case r of Inl e \<Rightarrow> Inl e
     | Inr (v # _, _) \<Rightarrow> if length v = n then Inr v else Inl ''sql: wrong number of destination arguments in Scan''
     | Inr ([], Some e) \<Rightarrow> Inl e | Inr ([], None) \<Rightarrow> Inl ''sql: no rows in result set'')"

definition openPostgres :: "target_open \<Rightarrow> string \<Rightarrow> TargetDB res" where
  "openPostgres opn dsn = (case opn ''postgres'' dsn of Inl e \<Rightarrow> Inl e
     | Inr db \<Rightarrow> (case td_ping db of Inl e \<Rightarrow> Inl e | Inr _ \<Rightarrow> Inr db))"

text \<open>Scanning a text column of \<open>db_connections\<close>; any failure gives the same answer.\<close>

definition scan_text :: "goval \<Rightarrow> string option" where
  "scan_text v = (case v of VStr s \<Rightarrow> Some s | VBytes s \<Rightarrow> Some s | _ \<Rightarrow> None)"

definition scan_connection :: "goval list \<Rightarrow> (string \<times> string \<times> int \<times> string \<times> string \<times> string) option" where
  "scan_connection v = (case v of [ty, host, VInt port, user, enc, db] \<Rightarrow>
       (case (scan_text ty, scan_text host, scan_text user, scan_text enc, scan_text db) of
          (Some ty', Some host', Some user', Some enc', Some db') \<Rightarrow> Some (ty', host', port, user', enc', db')
        | _ \<Rightarrow> None)
     | _ \<Rightarrow> None)"

definition getConnection :: "McpEnv \<Rightarrow> string \<Rightarrow> ConnectionConfig res" where
  "getConnection env ident = (case openPostgres (me_open env) (me_dsn env) of Inl e \<Rightarrow> Inl e
     | Inr db \<Rightarrow> (case query_row 6 (td_query db
           ''SELECT type, host, port, user_name, password_enc, database FROM db_connections WHERE id=$1'' [VStr ident]) of
         Inl _ \<Rightarrow> Inl ''connection not found''
       | Inr v \<Rightarrow> (case scan_connection v of None \<Rightarrow> Inl ''connection not found''
         | Some (ty, host, port, user, enc, database) \<Rightarrow>
             if to_lower ty \<noteq> me_type env
             then Inl (''connection type '' @ ty @ '' not supported by '' @ me_type env @ '' server'')
             else (case mcp_Decrypt (me_unseal env) (me_key env) enc of Inl _ \<Rightarrow> Inl ''failed to decrypt password''
               | Inr password \<Rightarrow> Inr \<lparr> cc_type = ty, cc_host = host, cc_port = port, cc_user = user,
                   cc_password = password, cc_database = database, cc_ssl_mode = ''disable'' \<rparr>))))"

definition openTargetDB :: "target_open \<Rightarrow> ConnectionConfig \<Rightarrow> TargetDB res" where
  "openTargetDB opn cfg = (let ty = to_lower (cc_type cfg) in
     if ty = ''mysql'' then (let port = (if cc_port cfg = 0 then 3306 else cc_port cfg) in
       opn ''mysql'' (cc_user cfg @ '':'' @ cc_password cfg @ ''@tcp('' @ cc_host cfg @ '':'' @ itoa port @ '')/'' @ cc_database cfg
         @ ''?parseTime=true'' @ (if EqualFold (cc_ssl_mode cfg) ''disable'' then ''&tls=false'' else [])))
     else if ty = ''postgres'' \<or> ty = ''postgresql'' then (let port = (if cc_port cfg = 0 then 5432 else cc_port cfg) in
       opn ''postgres'' (''postgres://'' @ cc_user cfg @ '':'' @ cc_password cfg @ ''@'' @ cc_host cfg @ '':'' @ itoa port @ ''/''
         @ cc_database cfg @ ''?sslmode=disable''))
     else Inl (''unsupported db type '' @ cc_type cfg))"

definition mcp_normalizeValue :: "goval \<Rightarrow> goval" where
  "mcp_normalizeValue v = (case v of VBytes bs \<Rightarrow> VStr bs | _ \<Rightarrow> v)"

definition queryLatestValue :: "McpEnv \<Rightarrow> ConnectionConfig \<Rightarrow> LatestValueRequest \<Rightarrow> LatestValueResult res" where
  "queryLatestValue env cfg r = (case latest_query (me_type env) r of Inl e \<Rightarrow> Inl e
     | Inr (query, args) \<Rightarrow> (case openTargetDB (me_open env) cfg of Inl e \<Rightarrow> Inl e
       | Inr db \<Rightarrow> (case query_row 2 (td_query db query args) of Inl e \<Rightarrow> Inl e
         | Inr v \<Rightarrow> Inr \<lparr> lr_value = mcp_normalizeValue (v ! 0), lr_ts = sprint_key (v ! 1) \<rparr>)))"

definition queryAggregate :: "McpEnv \<Rightarrow> ConnectionConfig \<Rightarrow> AggregateRequest \<Rightarrow> AggregateResult res" where
  "queryAggregate env cfg r = (case aggregate_query (me_type env) (me_now env) r of Inl e \<Rightarrow> Inl e
     | Inr (query, args) \<Rightarrow> (case openTargetDB (me_open env) cfg of Inl e \<Rightarrow> Inl e
       | Inr db \<Rightarrow> (case query_row 3 (td_query db query args) of Inl e \<Rightarrow> Inl e
         | Inr v \<Rightarrow> Inr \<lparr> ar_value = mcp_normalizeValue (v ! 0), ar_start = sprint_key (v ! 1), ar_end = sprint_key (v ! 2) \<rparr>)))"

definition fetched_row :: "string list \<Rightarrow> goval list \<Rightarrow> row res" where
  "fetched_row cols v = (if length v \<noteq> length cols then Inl ''sql: wrong number of destination arguments in Scan''
     else Inr (fold (\<lambda>(c, x). mput c (mcp_normalizeValue x)) (zip cols v) []))"

text \<open>The loop does not look at the error the iteration ended with: the rows read so far are the answer.\<close>

definition fetchRecentRows :: "McpEnv \<Rightarrow> ConnectionConfig \<Rightarrow> FetchRecentRowsRequest \<Rightarrow> row list res" where
  "fetchRecentRows env cfg r = (case fetch_query (me_type env) r of Inl e \<Rightarrow> Inl e
     | Inr (query, args, cols) \<Rightarrow> (case openTargetDB (me_open env) cfg of Inl e \<Rightarrow> Inl e
       | Inr db \<Rightarrow> (case td_query db query args of Inl e \<Rightarrow> Inl e
         | Inr (rows, _) \<Rightarrow> scan_rows (fetched_row cols) rows)))"

subsection \<open>The JSON-RPC endpoint\<close>

record rpcRequest =
  rq_jsonrpc :: string
  rq_id :: goval
  rq_method :: string
  rq_params :: "goval option"

definition decode_rpc :: "goval \<Rightarrow> rpcRequest res" where
  "decode_rpc v = (case json_object v of Inl e \<Rightarrow> Inl e
     | Inr kvs \<Rightarrow> (case field_or [] json_string ''jsonrpc'' kvs of Inl e \<Rightarrow> Inl e
       | Inr ver \<Rightarrow> (case field_or [] json_string ''method'' kvs of Inl e \<Rightarrow> Inl e
         | Inr meth \<Rightarrow> Inr \<lparr> rq_jsonrpc = ver, rq_id = (case json_field ''id'' kvs of None \<Rightarrow> VNil | Some x \<Rightarrow> json_any x),
             rq_method = meth, rq_params = json_field ''params'' kvs \<rparr>)))"

text \<open>An answer: the HTTP status, the request's id, and an error code with its message or a result.\<close>

type_synonym rpc_answer = "int \<times> goval \<times> (int \<times> string) + int \<times> goval \<times> goval"

definition writeRPCError :: "goval \<Rightarrow> int \<Rightarrow> int \<Rightarrow> string \<Rightarrow> rpc_answer" where
  "writeRPCError ident status code message = Inl (status, ident, code, message)"

definition writeRPCResult :: "goval \<Rightarrow> goval \<Rightarrow> rpc_answer" where
  "writeRPCResult ident result = Inr (200, ident, result)"

text \<open>
  The shape of the five cases: decode the parameters, refuse missing ones, look the connection
  up, run the call.
\<close>

definition rpc_case :: "McpEnv \<Rightarrow> rpcRequest \<Rightarrow> (goval \<Rightarrow> 'p res) \<Rightarrow> ('p \<Rightarrow> bool) \<Rightarrow> ('p \<Rightarrow> string)
    \<Rightarrow> (ConnectionConfig \<Rightarrow> 'p \<Rightarrow> goval res) \<Rightarrow> rpc_answer" where
  "rpc_case env rq dec ok conn run = (let params = (case rq_params rq of
         None \<Rightarrow> Inl ''unexpected end of JSON input'' | Some v \<Rightarrow> dec v) in
     case params of Inl _ \<Rightarrow> writeRPCError (rq_id rq) 400 (- 32602) ''invalid params''
     | Inr p \<Rightarrow> if \<not> ok p then writeRPCError (rq_id rq) 400 (- 32602) ''invalid params''
         else (case getConnection env (conn p) of Inl e \<Rightarrow> writeRPCError (rq_id rq) 400 (- 32602) e
           | Inr cfg \<Rightarrow> (case run cfg p of Inl e \<Rightarrow> writeRPCError (rq_id rq) 500 (- 32603) e
             | Inr v \<Rightarrow> writeRPCResult (rq_id rq) v)))"

definition list_tables_result :: "McpEnv \<Rightarrow> ConnectionConfig \<Rightarrow> string \<Rightarrow> goval res" where
  "list_tables_result env cfg p = (case NewConnector (me_connect env) cfg of Inl e \<Rightarrow> Inl e
     | Inr c \<Rightarrow> (case dc_list_tables c of Inl e \<Rightarrow> Inl e
       | Inr tables \<Rightarrow> Inr (VMap [(''tables'', VList (map VStr tables))])))"

definition list_columns_result :: "McpEnv \<Rightarrow> ConnectionConfig \<Rightarrow> string \<times> string \<Rightarrow> goval res" where
  "list_columns_result env cfg p = (case NewConnector (me_connect env) cfg of Inl e \<Rightarrow> Inl e
     | Inr c \<Rightarrow> (case dc_describe c (snd p) of Inl e \<Rightarrow> Inl e
       | Inr schema \<Rightarrow> Inr (VMap [(''columns'', VList (map (\<lambda>ci. VMap [(''name'', VStr (ci_name ci)), (''type'', VStr (ci_type ci))])
           (ts_columns schema)))])))"

definition latest_result :: "LatestValueResult res \<Rightarrow> goval res" where
  "latest_result r = (case r of Inl e \<Rightarrow> Inl e | Inr x \<Rightarrow> Inr (VMap [(''value'', lr_value x), (''ts'', VStr (lr_ts x))]))"

definition aggregate_result :: "AggregateResult res \<Rightarrow> goval res" where
  "aggregate_result r = (case r of Inl e \<Rightarrow> Inl e | Inr x \<Rightarrow>
     Inr (VMap [(''value'', ar_value x), (''ts_start'', VStr (ar_start x)), (''ts_end'', VStr (ar_end x))]))"

definition rows_result :: "row list res \<Rightarrow> goval res" where
  "rows_result r = (case r of Inl e \<Rightarrow> Inl e | Inr rows \<Rightarrow> Inr (VMap [(''rows'', VList (map VMap rows))]))"

definition rpc_dispatch :: "McpEnv \<Rightarrow> rpcRequest \<Rightarrow> rpc_answer" where
  "rpc_dispatch env rq = (let m = rq_method rq in
     if m = ''db.list_tables'' then rpc_case env rq decode_list_tables (\<lambda>p. p \<noteq> []) (\<lambda>p. p) (list_tables_result env)
     else if m = ''db.list_columns'' then
       rpc_case env rq decode_list_columns (\<lambda>p. fst p \<noteq> [] \<and> snd p \<noteq> []) fst (list_columns_result env)
     else if m = ''db.query_latest_value'' then rpc_case env rq decode_latest_request (\<lambda>p. lq_connection p \<noteq> []) lq_connection
       (\<lambda>cfg p. latest_result (queryLatestValue env cfg p))
     else if m = ''db.query_aggregate'' then rpc_case env rq decode_aggregate_request (\<lambda>p. aq_connection p \<noteq> []) aq_connection
       (\<lambda>cfg p. aggregate_result (queryAggregate env cfg p))
     else if m = ''db.fetch_recent_rows'' then rpc_case env rq decode_fetch_request (\<lambda>p. fq_connection p \<noteq> []) fq_connection
       (\<lambda>cfg p. rows_result (fetchRecentRows env cfg p))
     else writeRPCError (rq_id rq) 404 (- 32601) ''method not found'')"

definition handle_rpc :: "McpEnv \<Rightarrow> string \<Rightarrow> rpcRequest res \<Rightarrow> rpc_answer" where
  "handle_rpc env httpMethod body = (if httpMethod \<noteq> ''POST'' then writeRPCError VNil 405 (- 32600) ''method not allowed''
     else case body of Inl _ \<Rightarrow> writeRPCError VNil 400 (- 32700) ''invalid json''
     | Inr rq \<Rightarrow> if rq_jsonrpc rq \<noteq> ''2.0'' \<or> rq_method rq = [] then writeRPCError (rq_id rq) 400 (- 32600) ''invalid request''
         else rpc_dispatch env rq)"

text \<open>The body that is written; when encoding fails only the status goes out, and the client reads an empty body.\<close>

definition writeRPC :: "rpc_answer \<Rightarrow> goval res" where
  "writeRPC a = (let body = (case a of
       Inl (_, ident, code, msg) \<Rightarrow> VMap [(''jsonrpc'', VStr ''2.0''), (''id'', ident),
         (''error'', VMap [(''code'', VInt code), (''message'', VStr msg)])]
     | Inr (_, ident, result) \<Rightarrow> VMap [(''jsonrpc'', VStr ''2.0''), (''id'', ident), (''result'', result)])
     in if json_encodes body then Inr (json_wire body) else Inl ''EOF'')"

text \<open>The server as the peer of a transport: from the value the client encodes to the tree it decodes.\<close>

definition serve :: "McpEnv \<Rightarrow> goval \<Rightarrow> goval res" where
  "serve env payload = (case writeRPC (handle_rpc env ''POST'' (decode_rpc (json_wire payload))) of Inl e \<Rightarrow> Inl e
     | Inr body \<Rightarrow> Inr (json_any body))"

end
