(* ===== verification/McpServerProps.thy ===== *)
theory McpServerProps
  imports Main McpServer
begin

text \<open>
  The properties of the MCP server: what its query texts are made of, which answers it gives,
  and that a call of the scheduler's adapter through it is the query itself.
\<close>

subsection \<open>Query texts\<close>

text \<open>
  The shape of a clause: its column, the operator that is written, and the length of the list
  after \<open>IN\<close>. The text of a filter is rendered from shapes alone, its placeholders numbered on.
\<close>

definition quote_for :: "string \<Rightarrow> string \<Rightarrow> string" where
  "quote_for dbType s = (if is_postgres dbType then CHR 0x22 # s @ [CHR 0x22] else CHR 0x60 # s @ [CHR 0x60])"

definition clause_shape :: "WhereClause \<Rightarrow> string \<times> string \<times> nat option" where
  "clause_shape c = (let op = (case normalizeOp (cl_op c) of Inl _ \<Rightarrow> [] | Inr op \<Rightarrow> op)
     in (cl_column c, op, if op = ''IN'' then Some (case sliceValues (cl_value c) of None \<Rightarrow> 0 | Some vs \<Rightarrow> length vs) else None))"

definition clause_args :: "WhereClause \<Rightarrow> goval list" where
  "clause_args c = (case snd (snd (clause_shape c)) of None \<Rightarrow> [cl_value c]
     | Some _ \<Rightarrow> (case sliceValues (cl_value c) of None \<Rightarrow> [] | Some vs \<Rightarrow> vs))"

fun render :: "string \<Rightarrow> nat \<Rightarrow> (string \<times> string \<times> nat option) list \<Rightarrow> string list" where
  "render db n [] = []"
| "render db n ((col, op, None) # cs) = (quote_for db col @ '' '' @ op @ '' '' @ placeholder db n) # render db (Suc n) cs"
| "render db n ((col, op, Some k) # cs) =
     (quote_for db col @ '' IN ('' @ join (map (placeholder db) [n ..< n + k]) '', '' @ '')'') # render db (n + k) cs"

definition clause_accepted :: "WhereClause \<Rightarrow> bool" where
  "clause_accepted c = (isSafeIdentifier (cl_column c)
     \<and> trim_space (fst (snd (clause_shape c))) \<in> {''='', ''!='', ''>'', ''>='', ''<'', ''<='', ''LIKE'', ''IN''}
     \<and> snd (snd (clause_shape c)) \<noteq> Some 0)"

lemma quoteIdent_ok: "quoteIdent db s = Inr q \<longleftrightarrow> isSafeIdentifier s \<and> q = quote_for db s"
  by (auto simp: quoteIdent_def quote_for_def)

lemma trim_fixed: "trim_space ''='' = ''=''" "trim_space ''!='' = ''!=''" "trim_space ''LIKE'' = ''LIKE''" "trim_space ''IN'' = ''IN''"
  by (simp_all add: trim_space_def is_space_def)

lemma lower_symbols: "to_lower s \<in> {''>'', ''>='', ''<'', ''<=''} \<Longrightarrow> to_lower s = s"
proof -
  assume s: "to_lower s \<in> {''>'', ''>='', ''<'', ''<=''}"
  have "lower_char c = c" if "lower_char c \<in> {CHR 0x3E, CHR 0x3D, CHR 0x3C}" for c
  proof (rule ccontr)
    assume "lower_char c \<noteq> c"
    then have u: "65 \<le> (ord c :: nat)" "(ord c :: nat) \<le> 90" "lower_char c = char_of ((ord c :: nat) + 32)"
      by (auto simp: lower_char_def split: if_splits)
    then have "97 \<le> (ord (lower_char c) :: nat)" by simp
    moreover have "(ord (lower_char c) :: nat) \<in> {62, 61, 60}" using that by auto
    ultimately show False by auto
  qed
  moreover have "\<forall>c \<in> set s. lower_char c \<in> {CHR 0x3E, CHR 0x3D, CHR 0x3C}"
  proof
    fix c assume "c \<in> set s"
    then have "lower_char c \<in> set (to_lower s)" by (simp add: to_lower_def)
    then show "lower_char c \<in> {CHR 0x3E, CHR 0x3D, CHR 0x3C}" using s by auto
  qed
  ultimately show ?thesis unfolding to_lower_def by (intro map_idI) blast
qed

lemma normalizeOp_ok:
  "normalizeOp op = Inr o' \<Longrightarrow> trim_space o' \<in> {''='', ''!='', ''>'', ''>='', ''<'', ''<='', ''LIKE'', ''IN''}"
  using lower_symbols [of "trim_space op"]
  by (auto simp: normalizeOp_def Let_def trim_fixed split: if_splits)

lemma where_clauses_ok:
  "where_clauses db cs n = Inr (ts, as, m) \<Longrightarrow> list_all clause_accepted cs \<and> ts = render db n (map clause_shape cs)
     \<and> as = concat (map clause_args cs) \<and> m = n + length as"
proof (induction cs arbitrary: n ts as m)
  case (Cons c cs)
  from Cons.prems obtain op where op: "normalizeOp (cl_op c) = Inr op" and safe: "isSafeIdentifier (cl_column c)"
    by (auto split: if_splits sum.splits)
  have q: "quoteIdent db (cl_column c) = Inr (quote_for db (cl_column c))" using safe by (simp add: quoteIdent_ok)
  show ?case
  proof (cases "op = ''IN''")
    case True
    from Cons.prems obtain vs ts' as' where v: "sliceValues (cl_value c) = Some vs" "vs \<noteq> []"
        "where_clauses db cs (n + length vs) = Inr (ts', as', m)" "as = vs @ as'"
        "ts = (quote_for db (cl_column c) @ '' IN ('' @ join (map (placeholder db) [n ..< n + length vs]) '', '' @ '')'') # ts'"
      using op safe q True by (auto split: if_splits sum.splits option.splits)
    have sh: "clause_shape c = (cl_column c, ''IN'', Some (length vs))" using op True v(1) by (simp add: clause_shape_def)
    then have "clause_args c = vs" "clause_accepted c"
      using v safe by (simp_all add: clause_args_def clause_accepted_def trim_fixed)
    then show ?thesis using Cons.IH [OF v(3)] v sh by simp
  next
    case False
    from Cons.prems obtain ts' as' where v: "where_clauses db cs (Suc n) = Inr (ts', as', m)" "as = cl_value c # as'"
        "ts = (quote_for db (cl_column c) @ '' '' @ op @ '' '' @ placeholder db n) # ts'"
      using op safe q False by (auto split: if_splits sum.splits)
    have sh: "clause_shape c = (cl_column c, op, None)" using op False by (simp add: clause_shape_def)
    then have "clause_args c = [cl_value c]" "clause_accepted c"
      using safe normalizeOp_ok [OF op] by (simp_all add: clause_args_def clause_accepted_def)
    then show ?thesis using Cons.IH [OF v(1)] v sh by simp
  qed
qed simp

definition clauses_of :: "WhereSpec option \<Rightarrow> WhereClause list" where
  "clauses_of w = (case w of None \<Rightarrow> [] | Some x \<Rightarrow> wh_clauses x)"

definition filter_args :: "WhereSpec option \<Rightarrow> goval list" where
  "filter_args w = concat (map clause_args (clauses_of w))"

definition filter_text :: "string \<Rightarrow> nat \<Rightarrow> WhereSpec option \<Rightarrow> string" where
  "filter_text db n w = (case w of None \<Rightarrow> [] | Some x \<Rightarrow> join (render db n (map clause_shape (wh_clauses x)))
     (if EqualFold (wh_type x) ''or'' then '' OR '' else '' AND ''))"

lemma buildWhereClause_ok:
  "buildWhereClause db w n = Inr (sql, as, m) \<Longrightarrow> list_all clause_accepted (clauses_of w) \<and> sql = filter_text db n w
     \<and> as = filter_args w \<and> m = n + length as"
  by (cases w) (auto simp: buildWhereClause_def clauses_of_def filter_args_def filter_text_def
      split: if_splits sum.splits dest: where_clauses_ok)

lemma select_columns_ok:
  "select_columns db cs seen = Inr sel \<Longrightarrow> list_all isSafeIdentifier cs \<and> map fst sel = map (quote_for db) (map snd sel)
     \<and> distinct (map snd sel) \<and> set (map snd sel) = set cs - set seen"
proof (induction cs arbitrary: seen sel)
  case (Cons c cs)
  show ?case
  proof (cases "c \<in> set seen")
    case True
    then show ?thesis using Cons.prems Cons.IH [of seen sel] by (auto split: if_splits)
  next
    case False
    with Cons.prems obtain rest where r: "isSafeIdentifier c" "select_columns db cs (c # seen) = Inr rest"
        "sel = (quote_for db c, c) # rest"
      by (auto simp: quoteIdent_ok split: if_splits sum.splits)
    then show ?thesis using Cons.IH [OF r(2)] False by auto
  qed
qed simp

definition fetch_text :: "string \<Rightarrow> FetchRecentRowsRequest \<Rightarrow> string list \<Rightarrow> int \<Rightarrow> string" where
  "fetch_text db r cols n = ''SELECT '' @ join (map (quote_for db) cols) '', '' @ '' FROM '' @ quote_for db (fq_table r) @ '' ''
     @ window_where db (quote_for db (fq_timestamp r)) (filter_text db 2 (fq_where r))
     @ '' ORDER BY '' @ quote_for db (fq_timestamp r) @ '' DESC LIMIT '' @ itoa n"

lemma fetch_query_ok:
  assumes "fetch_query db r = Inr (text, args, cols)"
  shows "\<exists>since n. parse_rfc3339 (fq_since r) = Some since \<and> 1 \<le> n \<and> n \<le> 2000 \<and> text = fetch_text db r cols n
    \<and> args = VTime since # filter_args (fq_where r) \<and> list_all isSafeIdentifier (fq_table r # cols)
    \<and> distinct cols \<and> set cols = insert (fq_timestamp r) (set (fq_columns r)) \<and> list_all clause_accepted (clauses_of (fq_where r))"
proof -
  from assms obtain since sel whereSQL as m where a: "parse_rfc3339 (fq_since r) = Some since"
      "isSafeIdentifier (fq_table r)" "isSafeIdentifier (fq_timestamp r)"
      "select_columns db (fq_columns r) [] = Inr sel" "buildWhereClause db (fq_where r) 2 = Inr (whereSQL, as, m)"
      "args = VTime since # as"
      "cols = map snd (if fq_timestamp r \<in> set (fq_columns r) then sel else sel @ [(quote_for db (fq_timestamp r), fq_timestamp r)])"
      "text = ''SELECT '' @ join (map fst (if fq_timestamp r \<in> set (fq_columns r) then sel else sel @ [(quote_for db (fq_timestamp r), fq_timestamp r)])) '', ''
         @ '' FROM '' @ quote_for db (fq_table r) @ '' '' @ window_where db (quote_for db (fq_timestamp r)) whereSQL
         @ '' ORDER BY '' @ quote_for db (fq_timestamp r) @ '' DESC LIMIT '' @ itoa (fetch_limit (fq_limit r))"
    unfolding fetch_query_def Let_def
    by (auto simp: quoteIdent_ok split: if_splits sum.splits option.splits)
  note s = select_columns_ok [OF a(4)] and w = buildWhereClause_ok [OF a(5)]
  let ?sel = "if fq_timestamp r \<in> set (fq_columns r) then sel else sel @ [(quote_for db (fq_timestamp r), fq_timestamp r)]"
  have f: "map fst ?sel = map (quote_for db) cols" using s a(7) by auto
  have c: "distinct cols" "set cols = insert (fq_timestamp r) (set (fq_columns r))" using s a(7) by auto
  then have safe: "list_all isSafeIdentifier (fq_table r # cols)" using s a(2,3) by (auto simp: list_all_iff)
  have t: "text = fetch_text db r cols (fetch_limit (fq_limit r))"
    using a(8) w unfolding fetch_text_def f by simp
  have "1 \<le> fetch_limit (fq_limit r)" "fetch_limit (fq_limit r) \<le> 2000" by (auto simp: fetch_limit_def)
  with t c safe a(1,6) w show ?thesis by blast
qed

text \<open>
  C15: A fetch the server accepts is a parameterised query over safe names: its text is
  determined by the names and the shapes of the filter's clauses (never by a value), every
  name in it is a safe identifier between the dialect's quotes, each requested column and
  the timestamp is selected once, between 1 and 2000 rows are asked for, and the values are
  the arguments, the start of the window first, in the order of their placeholders.
\<close>
theorem fetch_query_is_parameterised:
  assumes "fetch_query db r = Inr (text, args, cols)"
  shows "\<exists>since n. parse_rfc3339 (fq_since r) = Some since \<and> 1 \<le> n \<and> n \<le> 2000 \<and> text = fetch_text db r cols n
    \<and> args = VTime since # filter_args (fq_where r) \<and> list_all isSafeIdentifier (fq_table r # cols)
    \<and> distinct cols \<and> set cols = insert (fq_timestamp r) (set (fq_columns r)) \<and> list_all clause_accepted (clauses_of (fq_where r))"
  by (rule fetch_query_ok [OF assms])

definition example_fetch :: FetchRecentRowsRequest where
  "example_fetch = \<lparr> fq_connection = ''c'', fq_table = ''t'', fq_columns = [''v'', ''v''], fq_timestamp = ''ts'',
     fq_where = Some \<lparr> wh_type = ''OR'', wh_clauses = [\<lparr> cl_column = ''k'', cl_op = ''in'', cl_value = VList [VInt 1, VStr ''x''] \<rparr>,
       \<lparr> cl_column = ''m'', cl_op = ''=='', cl_value = VBool True \<rparr>] \<rparr>, fq_since = ''2024-01-02T03:04:05Z'', fq_limit = 5 \<rparr>"

lemma example_fetch_text: "fst (case fetch_query ''postgres'' example_fetch of Inr x \<Rightarrow> x) = ''SELECT '' @ dquote ''v'' @ '', ''
    @ dquote ''ts'' @ '' FROM '' @ dquote ''t'' @ '' WHERE '' @ dquote ''ts'' @ '' >= $1 AND ('' @ dquote ''k'' @ '' IN ($2, $3) OR ''
    @ dquote ''m'' @ '' = $4) ORDER BY '' @ dquote ''ts'' @ '' DESC LIMIT 5''"
  by code_simp

lemma fetch_query_is_parameterised_witness:
  "snd (snd (case fetch_query ''postgres'' example_fetch of Inr x \<Rightarrow> x)) = [''v'', ''ts'']
    \<and> distinct (snd (snd (case fetch_query ''postgres'' example_fetch of Inr x \<Rightarrow> x)))"
proof -
  have "\<not> is_err (fetch_query ''postgres'' example_fetch)" by code_simp
  then obtain t as cs where q: "fetch_query ''postgres'' example_fetch = Inr (t, as, cs)"
    by (cases "fetch_query ''postgres'' example_fetch") auto
  have "snd (snd (case fetch_query ''postgres'' example_fetch of Inr x \<Rightarrow> x)) = [''v'', ''ts'']" by code_simp
  then show ?thesis using fetch_query_is_parameterised [OF q] q by auto
qed

subsection \<open>Answers\<close>

lemma rpc_case_cases:
  "(\<exists>status code msg. rpc_case env rq dec ok conn run = Inl (status, rq_id rq, code, msg)
      \<and> (status, code) \<in> {(400, - 32602), (500, - 32603)})
   \<or> (\<exists>p cfg v. rq_params rq \<noteq> None \<and> dec (the (rq_params rq)) = Inr p \<and> ok p \<and> getConnection env (conn p) = Inr cfg
      \<and> run cfg p = Inr v \<and> rpc_case env rq dec ok conn run = Inr (200, rq_id rq, v))"
  by (auto simp: rpc_case_def writeRPCError_def writeRPCResult_def Let_def split: sum.split option.splits)

lemma getConnection_type: "getConnection env c = Inr cfg \<Longrightarrow> to_lower (cc_type cfg) = me_type env"
  by (auto simp: getConnection_def split: sum.splits option.splits if_splits)

definition rpc_methods :: "string set" where
  "rpc_methods = {''db.list_tables'', ''db.list_columns'', ''db.query_latest_value'', ''db.query_aggregate'', ''db.fetch_recent_rows''}"

definition served :: "McpEnv \<Rightarrow> rpcRequest \<Rightarrow> rpc_answer \<Rightarrow> bool" where
  "served env rq a = (case a of
      Inl (status, ident, code, msg) \<Rightarrow> ident = rq_id rq \<and> (status, code) \<in> {(400, - 32602), (500, - 32603), (404, - 32601)}
        \<and> (code = - 32601) = (rq_method rq \<notin> rpc_methods)
    | Inr (status, ident, v) \<Rightarrow> status = 200 \<and> ident = rq_id rq \<and> rq_method rq \<in> rpc_methods \<and> rq_params rq \<noteq> None
        \<and> (\<exists>conn cfg. conn \<noteq> [] \<and> getConnection env conn = Inr cfg \<and> to_lower (cc_type cfg) = me_type env))"

lemma rpc_case_served:
  assumes "rq_method rq \<in> rpc_methods" "\<And>p. ok p \<Longrightarrow> conn p \<noteq> []"
  shows "served env rq (rpc_case env rq dec ok conn run)"
  using rpc_case_cases [of env rq dec ok conn run] assms getConnection_type by (fastforce simp: served_def)

lemma rpc_dispatch_served: "served env rq (rpc_dispatch env rq)"
proof (cases "rq_method rq \<in> rpc_methods")
  case True
  note case_ok = rpc_case_served [OF True]
  have "rq_method rq = ''db.list_tables'' \<or> rq_method rq = ''db.list_columns'' \<or> rq_method rq = ''db.query_latest_value''
      \<or> rq_method rq = ''db.query_aggregate'' \<or> rq_method rq = ''db.fetch_recent_rows''"
    using True by (simp add: rpc_methods_def)
  moreover have "served env rq (rpc_case env rq decode_list_columns (\<lambda>p. fst p \<noteq> [] \<and> snd p \<noteq> []) fst run)" for run
    by (rule case_ok) simp
  ultimately show ?thesis
    by (elim disjE; simp add: rpc_dispatch_def Let_def case_ok)
next
  case False
  then show ?thesis by (simp add: rpc_dispatch_def Let_def rpc_methods_def served_def writeRPCError_def)
qed

text \<open>
  Every request is answered by one JSON-RPC answer with its own id: a result only for a
  \<open>POST\<close> of version 2.0 that names one of the five methods, has parameters, and whose
  connection exists, decrypts and is of the server's database type; otherwise an error whose
  HTTP status and code are one of the six pairs the protocol layer uses, \<open>-32601\<close> exactly for
  an unknown method.
\<close>
theorem rpc_answers:
  "case handle_rpc env httpMethod body of
      Inl (status, ident, code, msg) \<Rightarrow>
        (httpMethod \<noteq> ''POST'' \<and> (status, ident, code) = (405, VNil, - 32600))
        \<or> (httpMethod = ''POST'' \<and> is_err body \<and> (status, ident, code) = (400, VNil, - 32700))
        \<or> (\<exists>rq. httpMethod = ''POST'' \<and> body = Inr rq \<and> ident = rq_id rq
             \<and> (if rq_jsonrpc rq = ''2.0'' \<and> rq_method rq \<noteq> [] then served env rq (Inl (status, ident, code, msg))
                else (status, code) = (400, - 32600)))
    | Inr (status, ident, v) \<Rightarrow> httpMethod = ''POST'' \<and> (\<exists>rq. body = Inr rq \<and> rq_jsonrpc rq = ''2.0''
        \<and> served env rq (Inr (status, ident, v)))"
proof -
  have d: "served env rq (rpc_dispatch env rq)" for rq by (rule rpc_dispatch_served)
  show ?thesis
  proof (cases "httpMethod = ''POST''")
    case False
    then show ?thesis by (simp add: handle_rpc_def writeRPCError_def)
  next
    case True
    show ?thesis
    proof (cases body)
      case (Inl e)
      then show ?thesis using True by (simp add: handle_rpc_def writeRPCError_def)
    next
      case (Inr rq)
      show ?thesis
      proof (cases "rq_jsonrpc rq = ''2.0'' \<and> rq_method rq \<noteq> []")
        case False
        then show ?thesis using True Inr by (auto simp: handle_rpc_def writeRPCError_def)
      next
        case ok: True
        then have "handle_rpc env httpMethod body = rpc_dispatch env rq" using True Inr by (simp add: handle_rpc_def)
        then show ?thesis using d [of rq] ok True Inr by (cases "rpc_dispatch env rq") (auto simp: served_def)
      qed
    qed
  qed
qed

subsection \<open>A call of the adapter is the query\<close>

lemma json_field_simps:
  "json_field name [] = None"
  "json_field name ((k, v) # kvs) = (case json_field name kvs of Some x \<Rightarrow> Some x
     | None \<Rightarrow> if to_lower k = to_lower name then Some v else None)"
  by (auto simp: json_field_def map_add_def split: option.split)

lemma json_object_VMap [simp]: "json_object (VMap kvs) = Inr kvs"
  by (simp add: json_object_def)

lemma json_string_VStr [simp]: "json_string (VStr s) = Inr s"
  by (simp add: json_string_def)

lemma json_list_map:
  assumes "\<And>x. x \<in> set xs \<Longrightarrow> f (g x) = Inr (h x)"
  shows "json_list f (VList (map g xs)) = Inr (map h xs)"
proof -
  have "fold (\<lambda>x acc. case acc of Inl e \<Rightarrow> Inl e | Inr ys \<Rightarrow> (case f x of Inl e \<Rightarrow> Inl e | Inr y \<Rightarrow> Inr (ys @ [y])))
      (map g xs) (Inr acc) = Inr (acc @ map h xs)" for acc
    using assms by (induction xs arbitrary: acc) auto
  from this [of "[]"] show ?thesis by (simp add: json_list_def)
qed

definition wire :: "goval \<Rightarrow> goval" where
  "wire v = json_any (json_wire v)"

definition wire_where :: "WhereSpec \<Rightarrow> WhereSpec" where
  "wire_where w = w \<lparr> wh_clauses := map (\<lambda>c. c \<lparr> cl_value := wire (cl_value c) \<rparr>) (wh_clauses w) \<rparr>"

definition wire_fetch :: "FetchRecentRowsRequest \<Rightarrow> FetchRecentRowsRequest" where
  "wire_fetch r = r \<lparr> fq_where := map_option wire_where (fq_where r) \<rparr>"

definition wire_row :: "row \<Rightarrow> row" where
  "wire_row r = map (\<lambda>kv. (fst kv, wire (snd kv))) r"

lemmas keys = json_field_simps to_lower_def lower_char_def

lemma decode_clause_json: "decode_clause (json_wire (clause_json c)) = Inr (c \<lparr> cl_value := wire (cl_value c) \<rparr>)"
  by (simp add: decode_clause_def clause_json_def field_or_def wire_def keys)

lemma decode_where_json: "decode_where (json_wire (where_json w)) = Inr (map_option wire_where w)"
proof (cases w)
  case (Some x)
  have l: "json_list decode_clause (VList (map (json_wire \<circ> clause_json) cs)) = Inr (map (\<lambda>c. c \<lparr> cl_value := wire (cl_value c) \<rparr>) cs)" for cs
    by (rule json_list_map) (simp add: decode_clause_json)
  show ?thesis using Some l
    by (simp add: decode_where_def where_json_def field_or_def wire_where_def keys)
qed (simp add: decode_where_def where_json_def)

text \<open>With distinct keys, a field is the pair that is listed.\<close>

lemma json_field_exact:
  "distinct (map to_lower (map fst kvs)) \<Longrightarrow> (name, v) \<in> set kvs \<Longrightarrow> json_field name kvs = Some v"
proof (induction kvs)
  case (Cons kv kvs)
  obtain k w where kv: "kv = (k, w)" by force
  show ?case
  proof (cases "(name, v) \<in> set kvs")
    case True
    then show ?thesis using Cons by (simp add: kv json_field_simps)
  next
    case False
    then have e: "k = name" "w = v" using Cons.prems(2) kv by auto
    have "json_field name kvs = None"
    proof (rule ccontr)
      assume "json_field name kvs \<noteq> None"
      then have "to_lower name \<in> fst ` set (rev (map (\<lambda>(k, v). (to_lower k, v)) kvs))"
        unfolding json_field_def map_of_eq_None_iff by simp
      then have "to_lower name \<in> set (map to_lower (map fst kvs))" by force
      then show False using Cons.prems(1) e kv by simp
    qed
    then show ?thesis using e by (simp add: kv json_field_simps)
  qed
qed simp

lemma fetch_keys: "distinct (map to_lower [''connectionRef'', ''table'', ''columns'', ''timestampColumn'', ''where'', ''since'', ''limit''])"
  by code_simp

lemma decode_fetch_json:
  "int64 (fq_limit r) \<Longrightarrow> decode_fetch_request (json_wire (fetch_json r)) = Inr (wire_fetch r)"
proof -
  assume n: "int64 (fq_limit r)"
  define kvs where "kvs = [(''connectionRef'', VStr (fq_connection r)), (''table'', VStr (fq_table r)),
      (''columns'', VList (map VStr (fq_columns r))), (''timestampColumn'', VStr (fq_timestamp r)),
      (''where'', json_wire (where_json (fq_where r))), (''since'', VStr (fq_since r)), (''limit'', VInt (fq_limit r))]"
  have w: "json_wire (fetch_json r) = VMap kvs" by (simp add: fetch_json_def comp_def kvs_def)
  have dist: "distinct (map to_lower (map fst kvs))" using fetch_keys by (simp add: kvs_def)
  have mem: "(''connectionRef'', VStr (fq_connection r)) \<in> set kvs" "(''table'', VStr (fq_table r)) \<in> set kvs"
    "(''columns'', VList (map VStr (fq_columns r))) \<in> set kvs" "(''timestampColumn'', VStr (fq_timestamp r)) \<in> set kvs"
    "(''where'', json_wire (where_json (fq_where r))) \<in> set kvs" "(''since'', VStr (fq_since r)) \<in> set kvs"
    "(''limit'', VInt (fq_limit r)) \<in> set kvs"
    unfolding kvs_def by simp_all
  have cols: "json_list json_string (VList (map VStr xs)) = Inr xs" for xs
    using json_list_map [of xs json_string VStr "\<lambda>x. x"] by simp
  have lim: "json_int (VInt (fq_limit r)) = Inr (fq_limit r)" using n by (simp add: json_int_def)
  note fields = json_field_exact [OF dist mem(1)] json_field_exact [OF dist mem(2)] json_field_exact [OF dist mem(3)]
    json_field_exact [OF dist mem(4)] json_field_exact [OF dist mem(5)] json_field_exact [OF dist mem(6)]
    json_field_exact [OF dist mem(7)]
  have "decode_common (VMap kvs) = Inr (kvs, fq_connection r, fq_table r, fq_timestamp r, map_option wire_where (fq_where r))"
    unfolding decode_common_def json_object_VMap field_or_def
    by (simp only: fields sum.case option.case json_string_VStr decode_where_json)
  then have "decode_fetch_request (VMap kvs) = Inr \<lparr> fq_connection = fq_connection r, fq_table = fq_table r,
      fq_columns = fq_columns r, fq_timestamp = fq_timestamp r, fq_where = map_option wire_where (fq_where r),
      fq_since = fq_since r, fq_limit = fq_limit r \<rparr>"
    unfolding decode_fetch_request_def field_or_def
    by (simp only: fields sum.case prod.case option.case json_string_VStr cols lim)
  moreover have "wire_fetch r = \<lparr> fq_connection = fq_connection r, fq_table = fq_table r,
      fq_columns = fq_columns r, fq_timestamp = fq_timestamp r, fq_where = map_option wire_where (fq_where r),
      fq_since = fq_since r, fq_limit = fq_limit r \<rparr>"
    by (rule FetchRecentRowsRequest.equality) (simp_all add: wire_fetch_def)
  ultimately show ?thesis by (simp only: w)
qed

text \<open>What a call over the HTTP transport gives when the server is the peer.\<close>

definition call_id :: goval where
  "call_id = VFloat (f_of_int 1)"

lemma call_id_ok: "json_encodes call_id"
proof -
  have "f_of_int 1 = Fin 1" using rnd_of_int [of 1] by (simp add: f_of_int_def)
  then show ?thesis by (simp add: call_id_def json_encodes_def isNaN_def isInf0_def)
qed

definition call_of :: "string \<Rightarrow> goval \<Rightarrow> rpcRequest" where
  "call_of meth params = \<lparr> rq_jsonrpc = ''2.0'', rq_id = call_id, rq_method = meth, rq_params = Some (json_wire params) \<rparr>"

lemma call_of_sel: "rq_id (call_of meth params) = call_id" "rq_params (call_of meth params) = Some (json_wire params)"
    "rq_method (call_of meth params) = meth"
  by (simp_all add: call_of_def)

lemma decode_payload: "decode_rpc (json_wire (rpc_payload meth params)) = Inr (call_of meth params)"
  by (simp add: decode_rpc_def rpc_payload_def field_or_def call_of_def call_id_def keys)

definition answer_of :: "rpc_answer \<Rightarrow> goval option res" where
  "answer_of a = (case a of Inl (_, _, _, msg) \<Rightarrow> Inl msg
     | Inr (_, _, v) \<Rightarrow> if json_encodes v then Inr (Some (wire v)) else Inl ''EOF'')"

lemma transport_serve:
  assumes "json_ok params" "meth \<noteq> []"
  shows "http_transport (serve env) meth params = answer_of (rpc_dispatch env (call_of meth params))"
proof -
  let ?a = "rpc_dispatch env (call_of meth params)"
  have ok: "json_ok (rpc_payload meth params)" using assms(1) by (simp add: rpc_payload_def)
  have h: "handle_rpc env ''POST'' (decode_rpc (json_wire (rpc_payload meth params))) = ?a"
    using assms(2) by (simp add: decode_payload handle_rpc_def call_of_def)
  have s: "served env (call_of meth params) ?a" by (rule rpc_dispatch_served)
  note ident = call_id_ok [unfolded json_encodes_def]
  show ?thesis
  proof (cases ?a)
    case (Inl x)
    then obtain st code msg where x: "?a = Inl (st, call_id, code, msg)"
      using s by (cases x) (auto simp: served_def call_of_def)
    then have "serve env (rpc_payload meth params) = Inr (VMap [(''jsonrpc'', VStr ''2.0''), (''id'', wire call_id),
        (''error'', VMap [(''code'', VFloat (f_of_int code)), (''message'', VStr msg)])])"
      using ident by (simp add: serve_def h writeRPC_def json_encodes_def wire_def)
    then show ?thesis using ok x by (simp add: http_transport_def answer_of_def field_or_def keys)
  next
    case (Inr x)
    then obtain v where x: "?a = Inr (200, call_id, v)"
      using s by (cases x) (auto simp: served_def call_of_def)
    show ?thesis
    proof (cases "json_encodes v")
      case True
      then have "serve env (rpc_payload meth params) = Inr (VMap [(''jsonrpc'', VStr ''2.0''), (''id'', wire call_id),
          (''result'', wire v)])"
        using ident by (simp add: serve_def h x writeRPC_def json_encodes_def wire_def)
      then show ?thesis using ok x True by (simp add: http_transport_def answer_of_def keys)
    next
      case False
      then have "serve env (rpc_payload meth params) = Inl ''EOF''"
        using ident by (auto simp: serve_def h x writeRPC_def json_encodes_def)
      then show ?thesis using ok x False by (simp add: http_transport_def answer_of_def)
    qed
  qed
qed

lemma decode_rows_wire: "decode_rows (wire (VMap [(''rows'', VList (map VMap rows))])) = Inr (map wire_row rows)"
proof -
  have "json_list json_object (VList (map (\<lambda>r. VMap (wire_row r)) rs)) = Inr (map wire_row rs)" for rs
    by (rule json_list_map) simp
  moreover have "wire (VMap [(''rows'', VList (map VMap rows))]) = VMap [(''rows'', VList (map (\<lambda>r. VMap (wire_row r)) rows))]"
    by (simp add: wire_def wire_row_def comp_def)
  ultimately show ?thesis by (simp add: decode_rows_def field_or_def keys)
qed

text \<open>
  C12: The scheduler's fetch over RPC is the fetch itself: through the HTTP transport and this
  server, the adapter's \<open>FetchRecentRows\<close> gives exactly what \<open>getConnection\<close> and
  \<open>fetchRecentRows\<close> give for the same request (the filter's values as JSON decodes them), the
  rows as JSON carries them, or the message of the first error; rows that JSON cannot carry
  come back as an empty body.
\<close>
theorem adapter_fetch_through_server:
  assumes "json_ok (fetch_json r)" and "int64 (fq_limit r)" and "fq_connection r \<noteq> []"
  shows "ad_fetch (PostgresAdapter (http_transport (serve env))) r = (case getConnection env (fq_connection r) of
      Inl e \<Rightarrow> Inl e
    | Inr cfg \<Rightarrow> (case fetchRecentRows env cfg (wire_fetch r) of Inl e \<Rightarrow> Inl e
        | Inr rows \<Rightarrow> if list_all (list_all (\<lambda>kv. json_encodes (snd kv))) rows then Inr (map wire_row rows) else Inl ''EOF''))"
proof -
  let ?m = "''db.fetch_recent_rows''" and ?rq = "call_of ''db.fetch_recent_rows'' (fetch_json r)"
  have dec: "decode_fetch_request (json_wire (fetch_json r)) = Inr (wire_fetch r)" by (rule decode_fetch_json [OF assms(2)])
  have conn: "fq_connection (wire_fetch r) = fq_connection r" by (simp add: wire_fetch_def)
  have d: "rpc_dispatch env ?rq = rpc_case env ?rq decode_fetch_request (\<lambda>p. fq_connection p \<noteq> []) fq_connection
      (\<lambda>cfg p. rows_result (fetchRecentRows env cfg p))"
    by (simp add: rpc_dispatch_def call_of_sel)
  have enc: "json_encodes (VMap [(''rows'', VList (map VMap rows))]) = list_all (list_all (\<lambda>kv. json_encodes (snd kv))) rows" for rows
    by (auto simp: json_encodes_def list_all_iff)
  show ?thesis
    unfolding PostgresAdapter_def
    using assms(1,3) dec conn
    by (simp add: call_decode_def transport_serve d rpc_case_def call_of_sel answer_of_def writeRPCError_def writeRPCResult_def
        rows_result_def enc decode_rows_wire split: sum.split)
qed

definition example_env :: McpEnv where
  "example_env = \<lparr> me_type = ''postgres'', me_dsn = [], me_key = replicate 32 CHR 0x61, me_unseal = (\<lambda>_ _ _. Some ''pw''),
     me_open = (\<lambda>_ _. Inr \<lparr> td_ping = Inr (), td_query = (\<lambda>_ args. if args = [VStr ''c'']
       then Inr ([[VStr ''Postgres'', VStr ''h'', VInt 5432, VStr ''u'', VBytes (EncodeToString (replicate 12 CHR 0x62)), VStr ''d'']], None)
       else Inr ([[VInt 7, VTime 0]], None)) \<rparr>),
     me_connect = (\<lambda>_ _. Inl ''closed''), me_now = 0 \<rparr>"

definition example_plain :: FetchRecentRowsRequest where
  "example_plain = example_fetch \<lparr> fq_where := None \<rparr>"

lemma example_connection: "getConnection example_env (fq_connection example_plain) = Inr \<lparr> cc_type = ''Postgres'', cc_host = ''h'',
    cc_port = 5432, cc_user = ''u'', cc_password = ''pw'', cc_database = ''d'', cc_ssl_mode = ''disable'' \<rparr>"
  by code_simp

lemma example_rows: "fetchRecentRows example_env \<lparr> cc_type = ''Postgres'', cc_host = ''h'',
    cc_port = 5432, cc_user = ''u'', cc_password = ''pw'', cc_database = ''d'', cc_ssl_mode = ''disable'' \<rparr> example_plain
    = Inr [[(''v'', VInt 7), (''ts'', VTime 0)]]"
  by code_simp

lemma adapter_fetch_through_server_witness:
  "ad_fetch (PostgresAdapter (http_transport (serve example_env))) example_plain
     = Inr [wire_row [(''v'', VInt 7), (''ts'', VTime 0)]]"
proof -
  have "wire_fetch example_plain = example_plain"
    by (rule FetchRecentRowsRequest.equality) (simp_all add: wire_fetch_def example_plain_def)
  moreover have "json_encodes (VTime 0)" "json_encodes (VInt 7)"
    by (simp_all add: json_encodes_def rfc3339_end_def year_start_def)
  moreover have "json_ok (fetch_json example_plain)" "int64 (fq_limit example_plain)" "fq_connection example_plain \<noteq> []"
    by (simp_all add: fetch_json_def where_json_def example_plain_def example_fetch_def int64_def)
  ultimately show ?thesis
    using adapter_fetch_through_server [of example_plain example_env] example_connection example_rows by simp
qed

end
