(* ===== verification/Service.thy ===== *)
theory Service
  imports Main Connectors Crypto
begin

text \<open>
  The connector service (\<open>cmd/service\<close>): HTTP handlers over the database connectors, and the
  lookup of stored connections (\<open>internal/connections\<close>). A handler is a function from the HTTP
  method and the decoded body to a status with a body. The pool behind the store, the
  connector factory and the decoding of a body are parameters. A panic of a handler is the
  value \<open>Panic\<close>; \<open>net/http\<close> then drops the connection without an answer.
\<close>

subsection \<open>Stored connections\<close>

datatype conn_error = ErrInvalidInput | ErrNotFound | ErrNotConfigured | OtherError string

type_synonym Resolver = "string \<Rightarrow> conn_error + ConnectionConfig"

definition conn_error_text :: "conn_error \<Rightarrow> string" where
  "conn_error_text e = (case e of ErrInvalidInput \<Rightarrow> ''invalid input'' | ErrNotFound \<Rightarrow> ''connection not found''
     | ErrNotConfigured \<Rightarrow> ''connectionRef lookup not configured'' | OtherError s \<Rightarrow> s)"

definition ResolveByRef :: "Resolver option \<Rightarrow> Resolver" where
  "ResolveByRef store connectionRef = (if trim_space connectionRef = [] then Inl ErrInvalidInput
     else case store of None \<Rightarrow> Inl ErrNotConfigured | Some get \<Rightarrow> get connectionRef)"

text \<open>The row of \<open>db_connections\<close>: type, host, port, user, encrypted password, database.\<close>

type_synonym conn_row = "string \<times> string \<times> int \<times> string \<times> string \<times> string"

text \<open>\<open>query ident\<close> is the scanned row of that id, \<open>None\<close> for \<open>pgx.ErrNoRows\<close>, or another error.\<close>

definition store_GetConnection :: "(string \<Rightarrow> conn_row option res) \<Rightarrow> unsealing \<Rightarrow> string \<Rightarrow> Resolver" where
  "store_GetConnection query unseal key ident = (case query ident of Inl e \<Rightarrow> Inl (OtherError e)
     | Inr None \<Rightarrow> Inl ErrNotFound
     | Inr (Some (connType, host, port, user, passwordEnc, database)) \<Rightarrow>
         (case connections_Decrypt unseal key passwordEnc of Inl _ \<Rightarrow> Inl (OtherError ''failed to decrypt password'')
          | Inr password \<Rightarrow> Inr \<lparr> cc_type = connType, cc_host = host, cc_port = port, cc_user = user,
              cc_password = password, cc_database = database, cc_ssl_mode = [] \<rparr>))"

definition NewResolverFromEnv :: "(string \<Rightarrow> string) \<Rightarrow> (string \<Rightarrow> (string \<Rightarrow> conn_row option res) res) \<Rightarrow> unsealing
    \<Rightarrow> Resolver \<times> conn_error option" where
  "NewResolverFromEnv env newPool unseal = (let dsn = env ''DATABASE_URL''; key = env ''ENCRYPTION_KEY'' in
     if dsn = [] \<or> key = [] then (ResolveByRef None, Some ErrNotConfigured)
     else case connections_newAesGcmEncryptor key of Inl _ \<Rightarrow> (ResolveByRef None, Some ErrNotConfigured)
     | Inr k \<Rightarrow> (case newPool dsn of Inl _ \<Rightarrow> (ResolveByRef None, Some ErrNotConfigured)
       | Inr query \<Rightarrow> (ResolveByRef (Some (store_GetConnection query unseal k)), None)))"

subsection \<open>Bodies and answers\<close>

text \<open>What follows the first JSON value of a body: nothing, another object, or something that fails.\<close>

datatype json_end = EndOfInput | SecondValue | SecondError string

definition decodeJSON :: "'r res \<times> json_end \<Rightarrow> 'r res" where
  "decodeJSON body = (case body of (Inl e, _) \<Rightarrow> Inl e
     | (Inr v, EndOfInput) \<Rightarrow> Inr v | (Inr v, SecondValue) \<Rightarrow> Inl ''invalid json payload'' | (Inr v, SecondError e) \<Rightarrow> Inl e)"

definition decodeJSONLenient :: "'r res \<times> json_end \<Rightarrow> 'r res" where
  "decodeJSONLenient body = fst body"

datatype 'a reply = ErrorReply int string | Reply 'a

record baseRequest =
  ba_ref :: string
  ba_connection :: ConnectionConfig

record tableRequest = baseRequest +
  ba_table :: string
  ba_schema :: string

record sampleRequest = baseRequest +
  sa_table :: string
  sa_limit :: int

record profileRequest = baseRequest +
  pf_table :: string
  pf_options :: ProfileOptions

record Handler =
  hd_resolver :: "Resolver option"
  hd_factory :: "ConnectionConfig \<Rightarrow> DbConnector res"

subsection \<open>Choosing the connection\<close>

definition resolveByRef :: "Handler \<Rightarrow> Resolver" where
  "resolveByRef h ref = (case hd_resolver h of None \<Rightarrow> Inl ErrNotConfigured | Some r \<Rightarrow> r ref)"

definition resolveOptionalConnection :: "Handler \<Rightarrow> string \<Rightarrow> ConnectionConfig \<Rightarrow> conn_error + ConnectionConfig" where
  "resolveOptionalConnection h ref fallback = (if trim_space ref = [] then Inr fallback else resolveByRef h ref)"

definition writeConnectionError :: "conn_error \<Rightarrow> 'a reply" where
  "writeConnectionError e = (case e of ErrInvalidInput \<Rightarrow> ErrorReply 400 (conn_error_text e)
     | ErrNotFound \<Rightarrow> ErrorReply 404 (conn_error_text e) | ErrNotConfigured \<Rightarrow> ErrorReply 400 (conn_error_text e)
     | OtherError _ \<Rightarrow> ErrorReply 500 ''internal error'')"

definition hasInlineConnection :: "ConnectionConfig \<Rightarrow> bool" where
  "hasInlineConnection cfg = (trim_space (cc_type cfg) \<noteq> [] \<or> trim_space (cc_host cfg) \<noteq> [] \<or> cc_port cfg \<noteq> 0
     \<or> trim_space (cc_user cfg) \<noteq> [] \<or> trim_space (cc_password cfg) \<noteq> [] \<or> trim_space (cc_database cfg) \<noteq> []
     \<or> trim_space (cc_ssl_mode cfg) \<noteq> [])"

definition validateStrictConnectionRef :: "string \<Rightarrow> ConnectionConfig \<Rightarrow> unit res" where
  "validateStrictConnectionRef ref inline = (if trim_space ref = [] then Inl ''connectionRef is required: invalid input''
     else if hasInlineConnection inline then Inl ''inline connection not supported; use connectionRef: invalid input''
     else Inr ())"

subsection \<open>The handlers\<close>

text \<open>The connector of a configuration, once it was made and answered a ping.\<close>

definition with_connector :: "Handler \<Rightarrow> conn_error + ConnectionConfig \<Rightarrow> (DbConnector \<Rightarrow> 'a res go) \<Rightarrow> 'a reply go" where
  "with_connector h cfg run = (case cfg of Inl e \<Rightarrow> Ret (writeConnectionError e)
     | Inr c \<Rightarrow> (case hd_factory h c of Inl e \<Rightarrow> Ret (ErrorReply 400 e)
       | Inr conn \<Rightarrow> (case dc_test conn of Inl e \<Rightarrow> Ret (ErrorReply 502 e)
         | Inr _ \<Rightarrow> go_bind (run conn) (\<lambda>r. Ret (case r of Inl e \<Rightarrow> ErrorReply 502 e | Inr x \<Rightarrow> Reply x)))))"

definition HandleTestConnection :: "Handler \<Rightarrow> string \<Rightarrow> baseRequest res \<times> json_end \<Rightarrow> (bool \<times> string) reply" where
  "HandleTestConnection h meth body = (if meth \<noteq> ''POST'' then ErrorReply 405 ''method not allowed''
     else case decodeJSON body of Inl e \<Rightarrow> ErrorReply 400 e
     | Inr req \<Rightarrow> (case resolveOptionalConnection h (ba_ref req) (ba_connection req) of Inl e \<Rightarrow> writeConnectionError e
       | Inr cfg \<Rightarrow> (case hd_factory h cfg of Inl e \<Rightarrow> Reply (False, e)
         | Inr conn \<Rightarrow> (case dc_test conn of Inl e \<Rightarrow> Reply (False, e) | Inr _ \<Rightarrow> Reply (True, [])))))"

definition HandleListTables :: "Handler \<Rightarrow> string \<Rightarrow> baseRequest res \<times> json_end \<Rightarrow> string list reply go" where
  "HandleListTables h meth body = (if meth \<noteq> ''POST'' then Ret (ErrorReply 405 ''method not allowed'')
     else case decodeJSON body of Inl e \<Rightarrow> Ret (ErrorReply 400 e)
     | Inr req \<Rightarrow> (case validateStrictConnectionRef (ba_ref req) (ba_connection req) of Inl e \<Rightarrow> Ret (ErrorReply 400 e)
       | Inr _ \<Rightarrow> with_connector h (resolveByRef h (ba_ref req)) (\<lambda>conn. Ret (dc_list_tables conn))))"

definition HandleDescribeTable :: "Handler \<Rightarrow> string \<Rightarrow> tableRequest res \<times> json_end \<Rightarrow> TableSchema reply go" where
  "HandleDescribeTable h meth body = (if meth \<noteq> ''POST'' then Ret (ErrorReply 405 ''method not allowed'')
     else case decodeJSON body of Inl e \<Rightarrow> Ret (ErrorReply 400 e)
     | Inr req \<Rightarrow> (case validateStrictConnectionRef (ba_ref req) (ba_connection req) of Inl e \<Rightarrow> Ret (ErrorReply 400 e)
       | Inr _ \<Rightarrow> if trim_space (ba_table req) = [] then Ret (ErrorReply 400 ''table is required'')
           else with_connector h (resolveByRef h (ba_ref req)) (\<lambda>conn. Ret (dc_describe conn (ba_table req)))))"

definition HandleSampleRows :: "Handler \<Rightarrow> string \<Rightarrow> sampleRequest res \<times> json_end \<Rightarrow> row list reply go" where
  "HandleSampleRows h meth body = (if meth \<noteq> ''POST'' then Ret (ErrorReply 405 ''method not allowed'')
     else case decodeJSON body of Inl e \<Rightarrow> Ret (ErrorReply 400 e)
     | Inr req \<Rightarrow> if trim_space (sa_table req) = [] then Ret (ErrorReply 400 ''table is required'')
         else with_connector h (resolveOptionalConnection h (ba_ref req) (ba_connection req))
           (\<lambda>conn. Ret (dc_sample conn (sa_table req) (sa_limit req))))"

definition HandleProfileTable :: "Handler \<Rightarrow> string \<Rightarrow> profileRequest res \<times> json_end \<Rightarrow> TableProfile reply go" where
  "HandleProfileTable h meth body = (if meth \<noteq> ''POST'' then Ret (ErrorReply 405 ''method not allowed'')
     else case decodeJSON body of Inl e \<Rightarrow> Ret (ErrorReply 400 e)
     | Inr req \<Rightarrow> if trim_space (pf_table req) = [] then Ret (ErrorReply 400 ''table is required'')
         else with_connector h (resolveOptionalConnection h (ba_ref req) (ba_connection req))
           (\<lambda>conn. dc_profile conn (pf_table req) (pf_options req)))"

definition handleHealth :: "string \<Rightarrow> (string \<times> string) list reply" where
  "handleHealth meth = (if meth \<noteq> ''GET'' then ErrorReply 405 ''method not allowed'' else Reply [(''status'', ''ok'')])"

subsection \<open>Simulated writes (\<open>simulate_write.go\<close>)\<close>

text \<open>The pattern \<open>^[a-zA-Z_][a-zA-Z0-9_]{0,127}$\<close>.\<close>

definition identRe :: "string \<Rightarrow> bool" where
  "identRe s = (case s of [] \<Rightarrow> False | c # cs \<Rightarrow> (is_alpha c \<or> c = CHR 0x5F)
     \<and> list_all (\<lambda>c. is_alpha c \<or> is_digit c \<or> c = CHR 0x5F) cs \<and> length cs \<le> 127)"

record simulateWriteRequest =
  sw_ref :: string
  sw_table :: string
  sw_column :: string
  sw_timestamp :: string
  sw_value :: f64
  sw_extra :: "(string \<times> goval) list"

text \<open>An error code with its message and details, or the number of rows written.\<close>

type_synonym sim_reply = "(int \<times> string \<times> string \<times> string list) + int"

definition writeSimError :: "int \<Rightarrow> string \<Rightarrow> string list \<Rightarrow> sim_reply" where
  "writeSimError status code details = Inl (status, code, [], details)"

definition writeSimErrorMsg :: "int \<Rightarrow> string \<Rightarrow> string \<Rightarrow> sim_reply" where
  "writeSimErrorMsg status code message = Inl (status, code, message, [])"

definition sim_hint :: string where
  "sim_hint = '': must be a valid SQL identifier (letters, digits, underscore; max 128 chars)''"

definition validateSimulateWriteRequest :: "simulateWriteRequest \<Rightarrow> string list" where
  "validateSimulateWriteRequest req =
     (if trim_space (sw_ref req) = [] then [''connectionRef: required''] else [])
     @ (if \<not> identRe (trim_space (sw_table req)) then [''tableName'' @ sim_hint] else [])
     @ (if \<not> identRe (trim_space (sw_column req)) then [''columnName'' @ sim_hint] else [])
     @ (if \<not> identRe (trim_space (sw_timestamp req)) then [''timestampColumn'' @ sim_hint] else [])
     @ map (\<lambda>_. ''extraColumns key: must be a valid SQL identifier'') (filter (\<lambda>k. \<not> identRe (trim_space k)) (map fst (sw_extra req)))"

definition sanitizeDBError :: "string \<Rightarrow> string" where
  "sanitizeDBError e = (let msg = takeWhile (\<lambda>c. c \<noteq> CHR 0x0A) e in
     if length msg > 200 then take 200 msg @ ''...'' else msg)"

definition HandleSimulateWrite :: "Handler \<Rightarrow> string \<Rightarrow> simulateWriteRequest res \<times> json_end \<Rightarrow> sim_reply" where
  "HandleSimulateWrite h meth body = (if meth \<noteq> ''POST'' then writeSimError 405 ''method_not_allowed'' []
     else case decodeJSONLenient body of Inl e \<Rightarrow> writeSimError 400 ''validation_error'' [e]
     | Inr req \<Rightarrow> let details = validateSimulateWriteRequest req in
         if details \<noteq> [] then writeSimError 400 ''validation_error'' details
         else case resolveByRef h (sw_ref req) of
           Inl e \<Rightarrow> (case e of ErrNotConfigured \<Rightarrow> writeSimError 400 ''connection_not_configured'' []
             | _ \<Rightarrow> writeSimError 404 ''connection_not_found'' [])
         | Inr cfg \<Rightarrow> (case hd_factory h cfg of Inl e \<Rightarrow> writeSimErrorMsg 400 ''connection_failed'' e
           | Inr conn \<Rightarrow> (case dc_test conn of Inl _ \<Rightarrow> writeSimError 502 ''db_unreachable'' []
             | Inr _ \<Rightarrow> (case dc_write conn (sw_table req) (sw_column req) (sw_timestamp req) (VFloat (sw_value req)) (sw_extra req) of
                 Inl e \<Rightarrow> writeSimErrorMsg 502 ''db_write_failed'' (sanitizeDBError e)
               | Inr n \<Rightarrow> Inr n))))"

end
