(* ===== verification/ServiceProps.thy ===== *)
theory ServiceProps
  imports Main Service ConnectorProps
begin

text \<open>
  The properties of the connector service: a simulated write that passes the validation is a
  statement in every dialect, the answers of a simulated write, and that the text of a store
  error never reaches a client.
\<close>

subsection \<open>Validated writes\<close>

lemma identRe_pattern: "identRe s \<Longrightarrow> identPattern s"
  by (cases s) (auto simp: identRe_def identPattern_def ident_char_def list_all_iff)

lemma valid_name_split: "identRe (trim_space s) \<Longrightarrow> splitIdentifier s = Inr [trim_space s]"
  by (simp add: splitIdentifier_ok identRe_pattern)

lemma valid_name_quoted: "identRe (trim_space s) \<Longrightarrow> quoteList [s] quote = Inr (quote s)"
  using identRe_pattern [of "trim_space s"]
  by (auto simp: quoteList_def valid_name_split identPattern_def)

lemma valid_extra_parts:
  "(\<And>k. k \<in> fst ` set extra \<Longrightarrow> identRe (trim_space k)) \<Longrightarrow>
   \<exists>cs ps. extra_parts quote ph n extra = Inr (cs, ps, map snd extra)"
proof (induction extra arbitrary: n)
  case (Cons e extra)
  obtain k v where e: "e = (k, v)" by force
  obtain cs ps where "extra_parts quote ph (Suc n) extra = Inr (cs, ps, map snd extra)"
    using Cons.IH [of "Suc n"] Cons.prems by auto
  moreover have "quoteList [k] quote = Inr (quote k)" using Cons.prems e by (simp add: valid_name_quoted)
  ultimately show ?case by (simp add: e)
qed simp

lemma valid_write_statement:
  assumes "identRe (trim_space vc)" "identRe (trim_space tc)" "\<And>k. k \<in> fst ` set extra \<Longrightarrow> identRe (trim_space k)"
  shows "\<exists>text. write_statement db quote (Inr t) ph now vc tc v extra = Inr (text, v # map snd extra)"
proof -
  obtain cs ps where "extra_parts quote ph 2 extra = Inr (cs, ps, map snd extra)"
    using valid_extra_parts [OF assms(3)] by blast
  then show ?thesis using assms(1,2) by (simp add: write_statement_def with_context_def valid_name_quoted)
qed

lemma valid_tables:
  assumes "identRe (trim_space t)"
  shows "mysql_table t = Inr (backtick (trim_space t))" "postgres_table t = Inr (dquote (trim_space t), [trim_space t])"
    "quoteMSSQLTable t = Inr (bracket (trim_space t))"
  using valid_name_split [OF assms]
  by (simp_all add: mysql_table_def postgres_table_def quoteMSSQLTable_def quoteQualified_def with_context_def)

lemma validated_request:
  assumes "validateSimulateWriteRequest req = []"
  shows "identRe (trim_space (sw_table req))" "identRe (trim_space (sw_column req))" "identRe (trim_space (sw_timestamp req))"
    "\<And>k. k \<in> fst ` set (sw_extra req) \<Longrightarrow> identRe (trim_space k)"
  using assms by (auto simp: validateSimulateWriteRequest_def filter_empty_conv split: if_splits)

text \<open>
  The validation of a simulated write suffices for every database: for a request without
  complaints each of the three connectors builds its insert, whose arguments are the value
  and the extra values, so no identifier is refused after the connection was opened.
\<close>
theorem simulate_validation_suffices:
  assumes "validateSimulateWriteRequest req = []"
    and "write \<in> {mysql_write, postgres_write, mssql_write}"
  shows "\<exists>text. write (sw_table req) (sw_column req) (sw_timestamp req) (VFloat (sw_value req)) (sw_extra req)
    = Inr (text, VFloat (sw_value req) # map snd (sw_extra req))"
proof -
  note v = validated_request [OF assms(1)]
  note t = valid_tables [OF v(1)]
  from assms(2) show ?thesis
    by (elim insertE emptyE)
      (simp_all add: mysql_write_def postgres_write_def mssql_write_def t valid_write_statement [OF v(2) v(3) v(4)])
qed

definition example_write :: simulateWriteRequest where
  "example_write = \<lparr> sw_ref = ''c'', sw_table = '' readings'', sw_column = ''temp'', sw_timestamp = ''ts'',
     sw_value = Fin 21, sw_extra = [(''line'', VStr ''a'')] \<rparr>"

lemma example_write_valid: "validateSimulateWriteRequest example_write = []"
  by code_simp

lemma simulate_validation_suffices_witness:
  "\<exists>text. postgres_write '' readings'' ''temp'' ''ts'' (VFloat (Fin 21)) [(''line'', VStr ''a'')] = Inr (text, [VFloat (Fin 21), VStr ''a''])"
  using simulate_validation_suffices [of example_write postgres_write] example_write_valid by (simp add: example_write_def)

subsection \<open>Answers\<close>

lemma sanitize_bound: "length (sanitizeDBError e) \<le> 203 \<and> CHR 0x0A \<notin> set (sanitizeDBError e)"
proof -
  have "CHR 0x0A \<notin> set (takeWhile (\<lambda>c. c \<noteq> CHR 0x0A) e)" by (metis set_takeWhileD)
  then show ?thesis by (auto simp: sanitizeDBError_def Let_def dest: in_set_takeD)
qed

text \<open>
  A simulated write answers with the number of rows its connector reports, or with one of
  seven pairs of status and code; the message of a failed write is at most 203 bytes on one
  line, and a request with a complaint is refused with all of its complaints, whatever the
  connection.
\<close>
theorem simulate_write_answers:
  "case HandleSimulateWrite h meth body of
      Inr n \<Rightarrow> meth = ''POST'' \<and> (\<exists>req cfg conn. fst body = Inr req \<and> validateSimulateWriteRequest req = []
        \<and> resolveByRef h (sw_ref req) = Inr cfg \<and> hd_factory h cfg = Inr conn
        \<and> dc_write conn (sw_table req) (sw_column req) (sw_timestamp req) (VFloat (sw_value req)) (sw_extra req) = Inr n)
    | Inl (status, code, message, details) \<Rightarrow>
        (status, code) \<in> {(405, ''method_not_allowed''), (400, ''validation_error''), (400, ''connection_not_configured''),
          (404, ''connection_not_found''), (400, ''connection_failed''), (502, ''db_unreachable''), (502, ''db_write_failed'')}
        \<and> (code = ''db_write_failed'' \<longrightarrow> length message \<le> 203 \<and> CHR 0x0A \<notin> set message)
        \<and> (\<forall>req. meth = ''POST'' \<longrightarrow> fst body = Inr req \<longrightarrow> validateSimulateWriteRequest req \<noteq> [] \<longrightarrow>
             (status, code, details) = (400, ''validation_error'', validateSimulateWriteRequest req))"
proof (cases "meth = ''POST'' \<and> (\<exists>req. fst body = Inr req \<and> validateSimulateWriteRequest req = [])")
  case False
  then show ?thesis
    by (cases "fst body") (auto simp: HandleSimulateWrite_def decodeJSONLenient_def writeSimError_def Let_def)
next
  case True
  then obtain req where r: "meth = ''POST''" "fst body = Inr req" "validateSimulateWriteRequest req = []" by blast
  then show ?thesis
    using sanitize_bound
    by (simp add: HandleSimulateWrite_def decodeJSONLenient_def writeSimError_def writeSimErrorMsg_def Let_def
        split: sum.split conn_error.split)
qed

definition refusing_connector :: DbConnector where
  "refusing_connector = \<lparr> dc_test = Inr (), dc_list_tables = Inr [], dc_describe = (\<lambda>_. Inl []), dc_sample = (\<lambda>_ _. Inr []),
     dc_profile = (\<lambda>_ _. Ret (Inl [])), dc_write = (\<lambda>_ _ _ _ _. Inl ''denied\<newline>at row 1'') \<rparr>"

definition refusing_handler :: Handler where
  "refusing_handler = \<lparr> hd_resolver = Some (\<lambda>_. Inr \<lparr> cc_type = ''mysql'', cc_host = [], cc_port = 0, cc_user = [],
     cc_password = [], cc_database = [], cc_ssl_mode = [] \<rparr>), hd_factory = (\<lambda>_. Inr refusing_connector) \<rparr>"

lemma refused_write:
  "HandleSimulateWrite refusing_handler ''POST'' (Inr example_write, EndOfInput)
   = Inl (502, ''db_write_failed'', sanitizeDBError ''denied\<newline>at row 1'', [])"
  by (simp add: HandleSimulateWrite_def decodeJSONLenient_def example_write_valid refusing_handler_def resolveByRef_def
      refusing_connector_def writeSimErrorMsg_def)

lemma simulate_write_answers_witness:
  "\<exists>message. HandleSimulateWrite refusing_handler ''POST'' (Inr example_write, EndOfInput)
     = Inl (502, ''db_write_failed'', message, []) \<and> length message \<le> 203 \<and> CHR 0x0A \<notin> set message"
  using simulate_write_answers [where h = refusing_handler and meth = "''POST''" and body = "(Inr example_write, EndOfInput)"] by (simp add: refused_write)

subsection \<open>Store errors stay inside\<close>

definition same_but_text :: "Resolver \<Rightarrow> Resolver \<Rightarrow> bool" where
  "same_but_text r1 r2 = (\<forall>ref. r1 ref = r2 ref \<or> (\<exists>e1 e2. r1 ref = Inl (OtherError e1) \<and> r2 ref = Inl (OtherError e2)))"

lemma same_resolution:
  assumes "same_but_text r1 r2"
  shows "resolveByRef (h \<lparr> hd_resolver := Some r1 \<rparr>) ref = resolveByRef (h \<lparr> hd_resolver := Some r2 \<rparr>) ref
    \<or> (\<exists>e1 e2. resolveByRef (h \<lparr> hd_resolver := Some r1 \<rparr>) ref = Inl (OtherError e1)
         \<and> resolveByRef (h \<lparr> hd_resolver := Some r2 \<rparr>) ref = Inl (OtherError e2))"
  using assms by (auto simp: resolveByRef_def same_but_text_def)

lemma same_with_connector:
  assumes "c1 = c2 \<or> (\<exists>e1 e2. c1 = Inl (OtherError e1) \<and> c2 = Inl (OtherError e2))"
  shows "with_connector (h \<lparr> hd_resolver := r1 \<rparr>) c1 run = with_connector (h \<lparr> hd_resolver := r2 \<rparr>) c2 run"
  using assms by (auto simp: with_connector_def writeConnectionError_def split: sum.split)

text \<open>
  C25: The text of a store error (a driver message can hold hosts and credentials) never reaches
  a client: two services whose stores differ only in such texts give the same answer to every
  request on every endpoint.
\<close>
theorem store_errors_do_not_leak:
  assumes "same_but_text r1 r2"
  shows "HandleTestConnection (h \<lparr> hd_resolver := Some r1 \<rparr>) m b = HandleTestConnection (h \<lparr> hd_resolver := Some r2 \<rparr>) m b
    \<and> HandleListTables (h \<lparr> hd_resolver := Some r1 \<rparr>) m b = HandleListTables (h \<lparr> hd_resolver := Some r2 \<rparr>) m b
    \<and> HandleDescribeTable (h \<lparr> hd_resolver := Some r1 \<rparr>) m bt = HandleDescribeTable (h \<lparr> hd_resolver := Some r2 \<rparr>) m bt
    \<and> HandleSampleRows (h \<lparr> hd_resolver := Some r1 \<rparr>) m bs = HandleSampleRows (h \<lparr> hd_resolver := Some r2 \<rparr>) m bs
    \<and> HandleProfileTable (h \<lparr> hd_resolver := Some r1 \<rparr>) m bp = HandleProfileTable (h \<lparr> hd_resolver := Some r2 \<rparr>) m bp
    \<and> HandleSimulateWrite (h \<lparr> hd_resolver := Some r1 \<rparr>) m bw = HandleSimulateWrite (h \<lparr> hd_resolver := Some r2 \<rparr>) m bw"
proof -
  let ?h1 = "h \<lparr> hd_resolver := Some r1 \<rparr>" and ?h2 = "h \<lparr> hd_resolver := Some r2 \<rparr>"
  note res = same_resolution [OF assms, of h]
  have opt: "resolveOptionalConnection ?h1 ref c = resolveOptionalConnection ?h2 ref c
    \<or> (\<exists>e1 e2. resolveOptionalConnection ?h1 ref c = Inl (OtherError e1) \<and> resolveOptionalConnection ?h2 ref c = Inl (OtherError e2))" for ref c
    using res by (simp add: resolveOptionalConnection_def)
  have by_ref: "with_connector ?h1 (resolveByRef ?h1 ref) run = with_connector ?h2 (resolveByRef ?h2 ref) run" for ref run
    by (rule same_with_connector [OF res])
  have by_opt: "with_connector ?h1 (resolveOptionalConnection ?h1 ref c) run
      = with_connector ?h2 (resolveOptionalConnection ?h2 ref c) run" for ref c run
    by (rule same_with_connector [OF opt])
  have "HandleTestConnection ?h1 m b = HandleTestConnection ?h2 m b"
  proof (cases "decodeJSON b")
    case (Inr req)
    then show ?thesis using opt [of "ba_ref req" "ba_connection req"]
      by (auto simp: HandleTestConnection_def writeConnectionError_def split: sum.split)
  qed (simp add: HandleTestConnection_def)
  moreover have "HandleSimulateWrite ?h1 m bw = HandleSimulateWrite ?h2 m bw"
  proof (cases "fst bw")
    case (Inr req)
    then show ?thesis using res [of "sw_ref req"]
      by (auto simp: HandleSimulateWrite_def decodeJSONLenient_def Let_def split: sum.split)
  qed (simp add: HandleSimulateWrite_def decodeJSONLenient_def)
  moreover have "HandleListTables ?h1 m b = HandleListTables ?h2 m b" "HandleDescribeTable ?h1 m bt = HandleDescribeTable ?h2 m bt"
    "HandleSampleRows ?h1 m bs = HandleSampleRows ?h2 m bs" "HandleProfileTable ?h1 m bp = HandleProfileTable ?h2 m bp"
    unfolding HandleListTables_def HandleDescribeTable_def HandleSampleRows_def HandleProfileTable_def by_ref by_opt
    by (rule refl)+
  ultimately show ?thesis by blast
qed

lemma store_errors_do_not_leak_witness:
  "HandleListTables \<lparr> hd_resolver = Some (\<lambda>_. Inl (OtherError ''dial tcp db:5432'')), hd_factory = (\<lambda>_. Inl ''x'') \<rparr> ''POST''
      (Inl ''bad'', EndOfInput)
   = HandleListTables \<lparr> hd_resolver = Some (\<lambda>_. Inl (OtherError ''timeout'')), hd_factory = (\<lambda>_. Inl ''x'') \<rparr> ''POST''
      (Inl ''bad'', EndOfInput)"
  using store_errors_do_not_leak [of "\<lambda>_. Inl (OtherError ''dial tcp db:5432'')" "\<lambda>_. Inl (OtherError ''timeout'')"
      "\<lparr> hd_resolver = None, hd_factory = (\<lambda>_. Inl ''x'') \<rparr>" "''POST''" "(Inl ''bad'', EndOfInput)"]
  by (simp add: same_but_text_def)

end
