(* ===== verification/RuleValidator.thy ===== *)
theory RuleValidator
  imports Main SchedTypes SchedStore
begin

text \<open>
  The schema validation of the rule service (\<open>internal/rules/validator.go\<close>): every complaint
  about a rule specification, in order, as field, problem and hint. The specification has
  the structs of \<open>SchedTypes\<close>.
\<close>

record ErrorDetail =
  ed_field :: string
  ed_problem :: string
  ed_hint :: string

record ParseError =
  pe_code :: string
  pe_message :: string
  pe_details :: "ErrorDetail list"

record RuleDraft =
  rd_table :: string
  rd_timestamp :: string
  rd_where :: "WhereSpec option"
  rd_parameters :: "ParameterSpec list"

definition detail :: "string \<Rightarrow> string \<Rightarrow> string \<Rightarrow> ErrorDetail" where
  "detail field problem hint = \<lparr> ed_field = field, ed_problem = problem, ed_hint = hint \<rparr>"

text \<open>The pattern \<open>^[a-zA-Z_][a-zA-Z0-9_]*$\<close>.\<close>

definition identRegex :: "string \<Rightarrow> bool" where
  "identRegex s = (case s of [] \<Rightarrow> False | c # cs \<Rightarrow> ident_start c \<and> list_all ident_rest cs)"

definition rules_normalizeParameters :: "RuleSpec \<Rightarrow> ParameterSpec list" where
  "rules_normalizeParameters spec = (if r_parameters spec \<noteq> [] then r_parameters spec
     else if so_value_column (r_source spec) = [] then []
     else let c = r_condition spec in [\<lparr> p_name = r_parameter_name spec, p_column = so_value_column (r_source spec),
       p_detector = empty_detector \<lparr> d_type := ''threshold'', d_threshold := Some \<lparr> th_op = co_op c,
         th_value = co_value c, th_min = co_min c, th_max = co_max c \<rparr> \<rparr> \<rparr>])"

definition rules_rangeChartSize :: "int \<Rightarrow> bool" where
  "rules_rangeChartSize n = (n \<in> {2, 3, 4, 5, 6, 7, 8, 9, 10})"

definition validateBaseline :: "BaselineSpec \<Rightarrow> string \<Rightarrow> ErrorDetail option" where
  "validateBaseline b field =
     (if bl_last_n b \<noteq> None \<and> bl_time_range b \<noteq> None then Some (detail field ''invalid'' ''Use lastN or timeRange'')
      else if bl_last_n b = None \<and> bl_time_range b = None then Some (detail field ''missing'' ''Provide lastN or timeRange'')
      else case bl_last_n b of
        Some n \<Rightarrow> if n \<le> 0 then Some (detail (field @ ''.lastN'') ''invalid'' ''lastN must be > 0'') else None
      | None \<Rightarrow> (case bl_time_range b of None \<Rightarrow> None
          | Some tr \<Rightarrow> if tr_start tr = [] \<or> tr_end tr = []
              then Some (detail (field @ ''.timeRange'') ''invalid'' ''Provide start and end'') else None))"

text \<open>The field texts start with \<open>parameters[i].detector\<close>.\<close>

definition detector_field :: "nat \<Rightarrow> string \<Rightarrow> string" where
  "detector_field i rest = ''parameters['' @ nat_str i @ ''].detector'' @ rest"

definition validate_threshold :: "DetectorSpec \<Rightarrow> nat \<Rightarrow> ErrorDetail option" where
  "validate_threshold d i = (let f = detector_field i ''.threshold'' in case d_threshold d of
       None \<Rightarrow> Some (detail f ''missing'' ''Provide threshold'')
     | Some th \<Rightarrow> if th_op th = ''between'' then
           (case (th_min th, th_max th) of
              (Some lo, Some hi) \<Rightarrow> if fle hi lo then Some (detail f ''invalid between range'' ''min < max'') else None
            | _ \<Rightarrow> Some (detail f ''invalid between range'' ''min < max''))
         else if th_op th = [] then Some (detail f ''missing'' ''Example: above 80'') else None)"

definition validate_robust :: "DetectorSpec \<Rightarrow> nat \<Rightarrow> ErrorDetail option" where
  "validate_robust d i = (case d_robust_z d of
       None \<Rightarrow> Some (detail (detector_field i ''.robustZ'') ''missing'' ''Provide robustZ settings'')
     | Some rz \<Rightarrow> if rz_baseline_window rz < rz_eval_window rz
         then Some (detail (detector_field i ''.robustZ.baselineWindowSeconds'') ''invalid'' ''baselineWindowSeconds >= evalWindowSeconds'')
         else if rz_min_samples rz < 20
         then Some (detail (detector_field i ''.robustZ.minSamples'') ''too small'' ''minSamples >= 20'') else None)"

definition validate_missing :: "DetectorSpec \<Rightarrow> int \<Rightarrow> nat \<Rightarrow> ErrorDetail option" where
  "validate_missing d pollInterval i = (case d_missing d of
       None \<Rightarrow> Some (detail (detector_field i ''.missingData'') ''missing'' ''Provide missingData settings'')
     | Some md \<Rightarrow> if md_max_gap md < pollInterval
         then Some (detail (detector_field i ''.missingData.maxGapSeconds'') ''too small'' ''maxGapSeconds >= pollIntervalSeconds'') else None)"

definition validate_spec_limit :: "DetectorSpec \<Rightarrow> nat \<Rightarrow> ErrorDetail option" where
  "validate_spec_limit d i = (case d_spec_limit d of
       None \<Rightarrow> Some (detail (detector_field i ''.specLimit'') ''missing'' ''Provide specLimit settings'')
     | Some sl \<Rightarrow> let mode = (if sl_mode sl = [] then ''spec'' else sl_mode sl) in
         if mode \<noteq> ''spec'' \<and> mode \<noteq> ''control'' \<and> mode \<noteq> ''both''
         then Some (detail (detector_field i ''.specLimit.mode'') ''invalid'' ''Use spec, control, or both'')
         else if (mode = ''spec'' \<or> mode = ''both'') \<and> (case sl_spec sl of None \<Rightarrow> True | Some b \<Rightarrow> sb_usl b = None \<and> sb_lsl b = None)
         then Some (detail (detector_field i ''.specLimit.specLimits'') ''missing'' ''Provide USL/LSL'')
         else if (mode = ''control'' \<or> mode = ''both'') \<and> (case sl_control sl of None \<Rightarrow> True | Some b \<Rightarrow> cb_ucl b = None \<and> cb_lcl b = None)
         then Some (detail (detector_field i ''.specLimit.controlLimits'') ''missing'' ''Provide UCL/LCL'') else None)"

definition validate_shewhart :: "DetectorSpec \<Rightarrow> nat \<Rightarrow> ErrorDetail option" where
  "validate_shewhart d i = (case d_shewhart d of
       None \<Rightarrow> Some (detail (detector_field i ''.shewhart'') ''missing'' ''Provide shewhart settings'')
     | Some sh \<Rightarrow> (case validateBaseline (sh_baseline sh) (detector_field i ''.shewhart.baseline'') of Some e \<Rightarrow> Some e
         | None \<Rightarrow> if \<not> feq (sh_sigma sh) f0 \<and> (flt (sh_sigma sh) (Fin 2) \<or> flt (Fin 3) (sh_sigma sh))
             then Some (detail (detector_field i ''.shewhart.sigmaMultiplier'') ''invalid'' ''Use 2 or 3'')
             else if sh_min_n sh < 0
             then Some (detail (detector_field i ''.shewhart.minBaselineN'') ''invalid'' ''minBaselineN must be >= 0'') else None))"

definition validate_range_chart :: "DetectorSpec \<Rightarrow> nat \<Rightarrow> ErrorDetail option" where
  "validate_range_chart d i = (case d_range_chart d of
       None \<Rightarrow> Some (detail (detector_field i ''.rangeChart'') ''missing'' ''Provide rangeChart settings'')
     | Some rc \<Rightarrow> if \<not> rules_rangeChartSize (rc_size rc)
         then Some (detail (detector_field i ''.rangeChart.subgroupSize'') ''invalid'' ''Supported subgroupSize: 2-10'')
         else (case validateBaseline (rc_baseline rc) (detector_field i ''.rangeChart.baseline'') of Some e \<Rightarrow> Some e
         | None \<Rightarrow> let mode = (if sg_mode (rc_subgrouping rc) = [] then ''consecutive'' else sg_mode (rc_subgrouping rc)) in
             if mode \<noteq> ''consecutive'' \<and> mode \<noteq> ''column''
             then Some (detail (detector_field i ''.rangeChart.subgrouping.mode'') ''invalid'' ''Use consecutive or column'')
             else if mode = ''column'' \<and> sg_column (rc_subgrouping rc) = []
             then Some (detail (detector_field i ''.rangeChart.subgrouping.column'') ''missing'' ''Provide column name'') else None))"

definition validate_trend :: "DetectorSpec \<Rightarrow> nat \<Rightarrow> ErrorDetail option" where
  "validate_trend d i = (case d_trend d of
       None \<Rightarrow> Some (detail (detector_field i ''.trend'') ''missing'' ''Provide trend settings'')
     | Some tn \<Rightarrow> if tn_window tn < 2
         then Some (detail (detector_field i ''.trend.windowSize'') ''invalid'' ''windowSize must be >= 2'')
         else if flt (tn_epsilon tn) f0
         then Some (detail (detector_field i ''.trend.epsilon'') ''invalid'' ''epsilon must be >= 0'') else None)"

definition validate_tpa :: "DetectorSpec \<Rightarrow> nat \<Rightarrow> ErrorDetail option" where
  "validate_tpa d i = (case d_tpa d of
       None \<Rightarrow> Some (detail (detector_field i ''.tpa'') ''missing'' ''Provide tpa settings'')
     | Some tp \<Rightarrow> if tp_window tp < 3
         then Some (detail (detector_field i ''.tpa.windowN'') ''invalid'' ''windowN must be >= 3'')
         else if tp_basis tp \<noteq> [] \<and> tp_basis tp \<noteq> ''index'' \<and> tp_basis tp \<noteq> ''timestamp''
         then Some (detail (detector_field i ''.tpa.regressionTimeBasis'') ''invalid'' ''Use index or timestamp'')
         else if tp_require_limits tp \<and> tp_limits tp = None
         then Some (detail (detector_field i ''.tpa.specLimits'') ''missing'' ''Provide spec limits'')
         else if tp_slope tp = None \<and> tp_time_to_spec tp = None
         then Some (detail (detector_field i ''.tpa'') ''invalid'' ''Provide slopeThreshold or timeToSpecThreshold'') else None)"

definition validateDetector :: "DetectorSpec \<Rightarrow> int \<Rightarrow> nat \<Rightarrow> ErrorDetail option" where
  "validateDetector d pollInterval i = (let ty = d_type d in
     if ty = ''threshold'' then validate_threshold d i else if ty = ''robust_zscore'' then validate_robust d i
     else if ty = ''missing_data'' then validate_missing d pollInterval i else if ty = ''spec_limit'' then validate_spec_limit d i
     else if ty = ''shewhart'' then validate_shewhart d i else if ty = ''range_chart'' then validate_range_chart d i
     else if ty = ''trend'' then validate_trend d i else if ty = ''tpa'' then validate_tpa d i
     else Some (detail (detector_field i ''.type'') ''unsupported''
       ''Use threshold, robust_zscore, missing_data, spec_limit, shewhart, range_chart, trend, or tpa''))"

definition alphanumeric :: string where "alphanumeric = ''Use alphanumeric identifiers''"

definition parameter_details :: "int \<Rightarrow> nat \<times> ParameterSpec \<Rightarrow> ErrorDetail list" where
  "parameter_details pollInterval ip = (case ip of (i, p) \<Rightarrow>
     (if p_column p = [] \<or> \<not> identRegex (p_column p)
      then [detail (''parameters['' @ nat_str i @ ''].valueColumn'') ''invalid'' alphanumeric] else [])
     @ (if p_name p \<noteq> [] \<and> \<not> identRegex (p_name p)
        then [detail (''parameters['' @ nat_str i @ ''].parameterName'') ''invalid'' alphanumeric] else [])
     @ (case validateDetector (p_detector p) pollInterval i of None \<Rightarrow> [] | Some e \<Rightarrow> [e]))"

definition clause_details :: "WhereSpec option \<Rightarrow> ErrorDetail list" where
  "clause_details w = (case w of None \<Rightarrow> [] | Some x \<Rightarrow> concat (map (\<lambda>(i, c). if \<not> identRegex (cl_column c)
     then [detail (''source.where.clauses['' @ nat_str i @ ''].column'') ''invalid'' alphanumeric] else []) (enumerate 0 (wh_clauses x))))"

definition window_details :: "RuleSpec \<Rightarrow> ErrorDetail list" where
  "window_details spec = (if r_aggregation spec \<noteq> [] \<and> r_aggregation spec \<noteq> ''latest'' then
     (case r_window spec of None \<Rightarrow> [detail ''windowSeconds'' ''required'' ''Provide a window for aggregate rules'']
      | Some n \<Rightarrow> if n \<le> 0 then [detail ''windowSeconds'' ''required'' ''Provide a window for aggregate rules'']
          else if n < r_poll spec then [detail ''windowSeconds'' ''too small'' ''Must be >= pollIntervalSeconds''] else [])
     else [])"

definition spec_details :: "RuleSpec \<Rightarrow> int \<Rightarrow> int \<Rightarrow> ErrorDetail list" where
  "spec_details spec minPoll maxPoll =
     (if so_table (r_source spec) = [] \<or> \<not> identRegex (so_table (r_source spec)) then [detail ''source.table'' ''invalid'' alphanumeric] else [])
     @ (if so_timestamp (r_source spec) = [] \<or> \<not> identRegex (so_timestamp (r_source spec))
        then [detail ''source.timestampColumn'' ''invalid'' alphanumeric] else [])
     @ (if r_poll spec < minPoll \<or> r_poll spec > maxPoll
        then [detail ''pollIntervalSeconds'' ''out of range'' (''min '' @ itoa minPoll @ '', max '' @ itoa maxPoll)] else [])
     @ window_details spec
     @ (if rules_normalizeParameters spec = [] then [detail ''parameters'' ''missing'' ''Provide at least one parameter''] else [])
     @ concat (map (parameter_details (r_poll spec)) (enumerate 0 (rules_normalizeParameters spec)))
     @ clause_details (so_where (r_source spec))"

definition ValidateRuleSpec :: "RuleSpec \<Rightarrow> int \<Rightarrow> int \<Rightarrow> ParseError option" where
  "ValidateRuleSpec spec minPoll maxPoll = (let details = spec_details spec minPoll maxPoll in
     if details \<noteq> [] then Some \<lparr> pe_code = ''RULE_SCHEMA_INVALID'', pe_message = ''rule spec failed validation'', pe_details = details \<rparr>
     else None)"

end
