(* ===== verification/GoRegexp.thy ===== *)
theory GoRegexp
  imports Main GoText
begin

text \<open>
  Regular expressions as \<open>regexp\<close> matches them: the leftmost match, and among those the one a
  backtracking search finds first (alternatives in order, repetitions greedy). The patterns
  of the rule parser only repeat single character classes, so \<open>RMany\<close> repeats a predicate.
  Groups are numbered; a match maps the groups it went through to spans of positions.
\<close>

datatype re = REps | RSet "char \<Rightarrow> bool" | RMany "char \<Rightarrow> bool" | RSeq re re | RAlt re re | RGroup nat re | RBound

type_synonym caps = "(nat \<times> nat \<times> nat) list"

definition word_char :: "char \<Rightarrow> bool" where
  "word_char c = (is_alpha c \<or> is_digit c \<or> c = CHR 0x5F)"

definition word_at :: "string \<Rightarrow> nat \<Rightarrow> bool" where
  "word_at s i = (i < length s \<and> word_char (s ! i))"

definition at_boundary :: "string \<Rightarrow> nat \<Rightarrow> bool" where
  "at_boundary s i = ((0 < i \<and> word_at s (i - 1)) \<noteq> word_at s i)"

fun try_down :: "(nat \<Rightarrow> 'r option) \<Rightarrow> nat \<Rightarrow> nat \<Rightarrow> 'r option" where
  "try_down k i 0 = k i"
| "try_down k i (Suc n) = (case k (i + Suc n) of None \<Rightarrow> try_down k i n | Some r \<Rightarrow> Some r)"

fun run_re :: "string \<Rightarrow> re \<Rightarrow> caps \<Rightarrow> nat \<Rightarrow> (caps \<Rightarrow> nat \<Rightarrow> 'r option) \<Rightarrow> 'r option" where
  "run_re s REps c i k = k c i"
| "run_re s (RSet P) c i k = (if i < length s \<and> P (s ! i) then k c (Suc i) else None)"
| "run_re s (RMany P) c i k = try_down (k c) i (length (takeWhile P (drop i s)))"
| "run_re s (RSeq a b) c i k = run_re s a c i (\<lambda>c' j. run_re s b c' j k)"
| "run_re s (RAlt a b) c i k = (case run_re s a c i k of None \<Rightarrow> run_re s b c i k | Some r \<Rightarrow> Some r)"
| "run_re s (RGroup n a) c i k = run_re s a c i (\<lambda>c' j. k (mput n (i, j) c') j)"
| "run_re s RBound c i k = (if at_boundary s i then k c i else None)"

definition match_at :: "string \<Rightarrow> re \<Rightarrow> nat \<Rightarrow> (nat \<times> caps) option" where
  "match_at s r i = run_re s r [] i (\<lambda>c j. Some (j, c))"

fun find_from :: "string \<Rightarrow> re \<Rightarrow> nat \<Rightarrow> nat \<Rightarrow> (nat \<times> caps) option" where
  "find_from s r i 0 = match_at s r i"
| "find_from s r i (Suc n) = (case match_at s r i of None \<Rightarrow> find_from s r (Suc i) n | Some m \<Rightarrow> Some m)"

definition span :: "string \<Rightarrow> nat \<times> nat \<Rightarrow> string" where
  "span s ij = take (snd ij - fst ij) (drop (fst ij) s)"

text \<open>The text of a group; a group the match did not go through is empty.\<close>

definition group_text :: "string \<Rightarrow> caps \<Rightarrow> nat \<Rightarrow> string" where
  "group_text s c n = (case mget c n of None \<Rightarrow> [] | Some ij \<Rightarrow> span s ij)"

definition FindStringSubmatch :: "re \<Rightarrow> string \<Rightarrow> caps option" where
  "FindStringSubmatch r s = map_option snd (find_from s r 0 (length s))"

definition MatchString :: "re \<Rightarrow> string \<Rightarrow> bool" where
  "MatchString r s = (FindStringSubmatch r s \<noteq> None)"

text \<open>All matches from left to right without overlap, for a pattern that matches no empty text.\<close>

fun find_all :: "string \<Rightarrow> re \<Rightarrow> nat \<Rightarrow> nat \<Rightarrow> caps list" where
  "find_all s r i 0 = []"
| "find_all s r i (Suc n) = (if i > length s then [] else
     case find_from s r i (length s - i) of None \<Rightarrow> [] | Some (j, c) \<Rightarrow> c # find_all s r (max (Suc i) j) n)"

definition FindAllStringSubmatch :: "re \<Rightarrow> string \<Rightarrow> caps list" where
  "FindAllStringSubmatch r s = find_all s r 0 (Suc (length s))"

subsection \<open>Building patterns\<close>

text \<open>The letters of a pattern with the flag \<open>i\<close>, in lower case here.\<close>

definition lit :: "string \<Rightarrow> re" where
  "lit w = foldr (\<lambda>c r. RSeq (RSet (\<lambda>x. lower_char x = c)) r) w REps"

fun alts :: "re list \<Rightarrow> re" where
  "alts [] = RSet (\<lambda>_. False)"
| "alts [r] = r"
| "alts (r # rs) = RAlt r (alts rs)"

definition some_of :: "(char \<Rightarrow> bool) \<Rightarrow> re" where
  "some_of P = RSeq (RSet P) (RMany P)"

definition optional :: "re \<Rightarrow> re" where
  "optional r = RAlt r REps"

fun seqs :: "re list \<Rightarrow> re" where
  "seqs [] = REps"
| "seqs [r] = r"
| "seqs (r # rs) = RSeq r (seqs rs)"

definition re_space :: "char \<Rightarrow> bool" where
  "re_space c = (c = CHR 0x20 \<or> c = CHR 0x09 \<or> c = CHR 0x0A \<or> c = CHR 0x0C \<or> c = CHR 0x0D)"

subsection \<open>What a match is\<close>

text \<open>A pattern spans two positions; the reference that the search is sound for.\<close>

fun spans :: "string \<Rightarrow> re \<Rightarrow> nat \<Rightarrow> nat \<Rightarrow> bool" where
  "spans s REps i j = (j = i)"
| "spans s (RSet P) i j = (i < length s \<and> P (s ! i) \<and> j = Suc i)"
| "spans s (RMany P) i j = (i \<le> j \<and> (j \<le> length s \<or> j = i) \<and> list_all P (span s (i, j)))"
| "spans s (RSeq a b) i j = (\<exists>m. spans s a i m \<and> spans s b m j)"
| "spans s (RAlt a b) i j = (spans s a i j \<or> spans s b i j)"
| "spans s (RGroup n a) i j = spans s a i j"
| "spans s RBound i j = (j = i \<and> at_boundary s i)"

fun groups_of :: "re \<Rightarrow> (nat \<times> re) list" where
  "groups_of (RSeq a b) = groups_of a @ groups_of b"
| "groups_of (RAlt a b) = groups_of a @ groups_of b"
| "groups_of (RGroup n a) = (n, a) # groups_of a"
| "groups_of _ = []"

text \<open>The groups every match goes through.\<close>

fun must :: "re \<Rightarrow> nat set" where
  "must (RSeq a b) = must a \<union> must b"
| "must (RAlt a b) = must a \<inter> must b"
| "must (RGroup n a) = insert n (must a)"
| "must _ = {}"

definition caps_ok :: "string \<Rightarrow> re \<Rightarrow> caps \<Rightarrow> bool" where
  "caps_ok s r c = (\<forall>n i j. mget c n = Some (i, j) \<longrightarrow> (\<exists>a. (n, a) \<in> set (groups_of r) \<and> spans s a i j))"

lemma try_down_Some: "try_down k i n = Some x \<Longrightarrow> \<exists>m \<le> n. k (i + m) = Some x"
proof (induction n)
  case (Suc n)
  then show ?case by (cases "k (i + Suc n)") (auto intro: le_SucI)
qed auto

lemma takeWhile_span: "m \<le> length (takeWhile P (drop i s)) \<Longrightarrow> spans s (RMany P) i (i + m)"
proof -
  assume m: "m \<le> length (takeWhile P (drop i s))"
  then have t: "take m (drop i s) = take m (takeWhile P (drop i s))"
    by (metis takeWhile_eq_take take_take min.absorb1)
  have "m \<le> length (drop i s)" using m length_takeWhile_le le_trans by blast
  then have "i + m \<le> length s \<or> i + m = i" by auto
  moreover have "list_all P (take m (drop i s))"
    unfolding t by (auto simp: list_all_iff dest: in_set_takeD set_takeWhileD)
  ultimately show ?thesis by (simp add: span_def)
qed

lemma run_re_sound:
  "run_re s a c i k = Some x \<Longrightarrow> caps_ok s r c \<Longrightarrow> set (groups_of a) \<subseteq> set (groups_of r) \<Longrightarrow>
   \<exists>c' j. caps_ok s r c' \<and> spans s a i j \<and> must a \<union> fst ` set c \<subseteq> fst ` set c' \<and> k c' j = Some x"
proof (induction a arbitrary: c i k)
  case (RMany P)
  then obtain m where "m \<le> length (takeWhile P (drop i s))" "k c (i + m) = Some x"
    using try_down_Some by fastforce
  then have "spans s (RMany P) i (i + m)" "k c (i + m) = Some x" using takeWhile_span by blast+
  then show ?case using RMany.prems(2) by (intro exI [of _ c] exI [of _ "i + m"]) (simp del: spans.simps)
next
  case (RSeq a b)
  have g: "set (groups_of a) \<subseteq> set (groups_of r)" "set (groups_of b) \<subseteq> set (groups_of r)" using RSeq.prems(3) by simp_all
  have "run_re s a c i (\<lambda>c' j. run_re s b c' j k) = Some x" using RSeq.prems(1) by simp
  from RSeq.IH(1) [OF this RSeq.prems(2) g(1)] obtain c1 m
    where m: "caps_ok s r c1" "spans s a i m" "must a \<union> fst ` set c \<subseteq> fst ` set c1" "run_re s b c1 m k = Some x" by blast
  from RSeq.IH(2) [OF m(4) m(1) g(2)] obtain c2 j
    where "caps_ok s r c2" "spans s b m j" "must b \<union> fst ` set c1 \<subseteq> fst ` set c2" "k c2 j = Some x" by blast
  moreover have "spans s (RSeq a b) i j" using m(2) calculation(2) by auto
  moreover have "must (RSeq a b) \<union> fst ` set c \<subseteq> fst ` set c2" using m(3) calculation(3) unfolding must.simps by blast
  ultimately show ?case by blast
next
  case (RAlt a b)
  have g: "set (groups_of a) \<subseteq> set (groups_of r)" "set (groups_of b) \<subseteq> set (groups_of r)" using RAlt.prems(3) by simp_all
  show ?case
  proof (cases "run_re s a c i k")
    case None
    then have "run_re s b c i k = Some x" using RAlt.prems(1) by simp
    from RAlt.IH(2) [OF this RAlt.prems(2) g(2)] show ?thesis by auto
  next
    case (Some y)
    then have "run_re s a c i k = Some x" using RAlt.prems(1) by simp
    from RAlt.IH(1) [OF this RAlt.prems(2) g(1)] show ?thesis by auto
  qed
next
  case (RGroup n a)
  have g: "set (groups_of a) \<subseteq> set (groups_of r)" using RGroup.prems(3) by simp
  have "run_re s a c i (\<lambda>c' j. k (mput n (i, j) c') j) = Some x" using RGroup.prems(1) by simp
  from RGroup.IH [OF this RGroup.prems(2) g] obtain c1 j
    where j: "caps_ok s r c1" "spans s a i j" "must a \<union> fst ` set c \<subseteq> fst ` set c1" "k (mput n (i, j) c1) j = Some x" by blast
  have "(n, a) \<in> set (groups_of r)" using RGroup.prems(3) by simp
  then have "caps_ok s r (mput n (i, j) c1)" using j(1,2) by (auto simp: caps_ok_def)
  moreover have "must (RGroup n a) \<union> fst ` set c \<subseteq> fst ` set (mput n (i, j) c1)" using j(3) by auto
  moreover have "spans s (RGroup n a) i j" using j(2) by simp
  ultimately show ?case using j(4) by blast
qed (auto split: if_splits)

definition match_ok :: "string \<Rightarrow> re \<Rightarrow> caps \<Rightarrow> bool" where
  "match_ok s r c = (caps_ok s r c \<and> must r \<subseteq> fst ` set c)"

lemma match_at_sound: "match_at s r i = Some (j, c) \<Longrightarrow> match_ok s r c"
  using run_re_sound [of s r "[]" i "\<lambda>c j. Some (j, c)" "(j, c)" r] by (auto simp: match_at_def match_ok_def caps_ok_def)

lemma find_from_sound: "find_from s r i n = Some (j, c) \<Longrightarrow> match_ok s r c"
  by (induction n arbitrary: i) (auto split: option.splits dest: match_at_sound)

lemma FindStringSubmatch_sound: "FindStringSubmatch r s = Some c \<Longrightarrow> match_ok s r c"
  using find_from_sound by (auto simp: FindStringSubmatch_def)

lemma find_all_sound: "c \<in> set (find_all s r i n) \<Longrightarrow> match_ok s r c"
proof (induction n arbitrary: i)
  case (Suc n)
  then show ?case
    by (cases "find_from s r i (length s - i)") (auto split: if_splits dest: find_from_sound)
qed simp

lemma FindAll_sound: "c \<in> set (FindAllStringSubmatch r s) \<Longrightarrow> match_ok s r c"
  unfolding FindAllStringSubmatch_def by (rule find_all_sound)

text \<open>A group that every match goes through holds a text its pattern spans.\<close>

lemma match_group:
  assumes "match_ok s r c" "n \<in> must r"
  shows "\<exists>a i j. (n, a) \<in> set (groups_of r) \<and> spans s a i j \<and> group_text s c n = span s (i, j)"
proof -
  have "n \<in> fst ` set c" using assms by (auto simp: match_ok_def)
  then obtain i j where g: "mget c n = Some (i, j)" by (metis map_of_eq_None_iff option.exhaust surj_pair)
  then show ?thesis using assms(1) by (fastforce simp: match_ok_def caps_ok_def group_text_def)
qed

lemma span_Cons: "i < length s \<Longrightarrow> i < j \<Longrightarrow> span s (i, j) = s ! i # span s (Suc i, j)"
proof -
  assume i: "i < length s" "i < j"
  then have "j - i = Suc (j - Suc i)" by simp
  then show ?thesis using i(1) by (simp add: span_def Cons_nth_drop_Suc [symmetric])
qed

text \<open>A group whose pattern is a class followed by repetitions of another: what its text looks like.\<close>

lemma spans_ident:
  "spans s (RSeq (RSet P) (RMany Q)) i j \<Longrightarrow> \<exists>c cs. span s (i, j) = c # cs \<and> P c \<and> list_all Q cs"
  by (auto simp: span_Cons)

end
