(* ===== verification/RuleParser.thy ===== *)
theory RuleParser
  imports Main RuleValidator GoRegexp
begin

text \<open>
  The parser of rule prompts (\<open>internal/rules/parser.go\<close>): which table, columns, detector,
  filter and intervals a sentence names. The patterns are those of the file, over the matcher
  of \<open>GoRegexp\<close>.
\<close>

subsection \<open>The patterns\<close>

definition spaces1 :: re where "spaces1 = some_of re_space"
definition spaces0 :: re where "spaces0 = RMany re_space"

definition ident_re :: re where
  "ident_re = RSeq (RSet ident_start) (RMany ident_rest)"

definition digits1 :: re where "digits1 = some_of is_digit"

definition number_re :: re where
  "number_re = RSeq digits1 (optional (RSeq (RSet (\<lambda>c. c = CHR 0x2E)) digits1))"

definition tableRe :: re where
  "tableRe = seqs [lit ''table'', spaces1, RGroup 1 ident_re]"

definition valueColRe :: re where
  "valueColRe = seqs [RGroup 1 (alts [lit ''value'', lit ''column'']), spaces1, RGroup 2 ident_re]"

definition timestampRe :: re where
  "timestampRe = seqs [RGroup 1 (alts [lit ''timestamp'', lit ''time'']), spaces1, RGroup 2 ident_re]"

definition betweenRe :: re where
  "betweenRe = seqs [lit ''between'', spaces1, RGroup 1 number_re, spaces1, alts [lit ''and'', lit ''to''], spaces1, RGroup 2 number_re]"

definition rangeRe :: re where
  "rangeRe = seqs [optional (RSeq (lit ''in'') spaces1), lit ''range'', spaces1, lit ''from'', spaces1, RGroup 1 number_re, spaces1,
     alts [lit ''to'', seqs [lit ''up'', spaces1, lit ''to''], lit ''through''], spaces1, RGroup 2 number_re]"

definition compareRe :: re where
  "compareRe = seqs [RGroup 1 (alts [lit ''above'', lit ''greater than'', lit ''>='', lit ''>'', lit ''below'', lit ''less than'',
     lit ''<='', lit ''<'', lit ''=='', lit ''!='']), spaces0, RGroup 2 number_re]"

definition abnormalRe :: re where
  "abnormalRe = seqs [RBound, RGroup 1 (alts [lit ''abnormal'', lit ''anomaly'', lit ''outlier'', lit ''spike'']), RBound]"

definition missingRe :: re where
  "missingRe = RGroup 1 (alts [seqs [lit ''no'', spaces1, lit ''data''], lit ''missing'', seqs [lit ''stopped'', spaces1, lit ''reporting'']])"

definition units_re :: re where
  "units_re = alts [lit ''s'', lit ''sec'', lit ''secs'', lit ''seconds'', lit ''m'', lit ''min'', lit ''mins'', lit ''minutes'',
     lit ''h'', lit ''hr'', lit ''hrs'', lit ''hours'']"

definition windowRe :: re where
  "windowRe = seqs [RGroup 1 (alts [lit ''last'', lit ''over'']), spaces1, RGroup 2 digits1, spaces0, RGroup 3 units_re]"

definition intervalRe :: re where
  "intervalRe = seqs [RGroup 1 (alts [lit ''every'', lit ''each'']), spaces1, optional (RGroup 2 digits1), spaces0, RGroup 3 units_re]"

definition clause_tail :: re where
  "clause_tail = seqs [spaces1, RGroup 1 ident_re, spaces0, RGroup 2 (alts [lit ''=='', lit ''='', lit ''!='', lit ''>='', lit ''<='',
     lit ''>'', lit ''<'', lit ''in'']), spaces0, RGroup 3 (some_of (\<lambda>c. c \<noteq> CHR 0x2C))]"

definition whereClause :: re where "whereClause = RSeq (lit ''where'') clause_tail"
definition andClause :: re where "andClause = RSeq (lit ''and'') clause_tail"

subsection \<open>Helpers\<close>

definition trim_set :: "string \<Rightarrow> string \<Rightarrow> string" where
  "trim_set chars s = rev (dropWhile (\<lambda>c. c \<in> set chars) (rev (dropWhile (\<lambda>c. c \<in> set chars) s)))"

definition quotes :: string where "quotes = [CHR 0x27, CHR 0x22]"

definition parseDurationSeconds :: "string \<Rightarrow> string \<Rightarrow> int" where
  "parseDurationSeconds value given = (case atoi value of None \<Rightarrow> 0
     | Some amount \<Rightarrow> if amount \<le> 0 then 0 else let unit = to_lower given in
         if has_prefix unit ''s'' then amount else if has_prefix unit ''m'' then wrap64 (amount * 60)
         else if has_prefix unit ''h'' then wrap64 (amount * 3600) else 0)"

definition rules_normalizeOp :: "string \<Rightarrow> string" where
  "rules_normalizeOp op = (let o' = trim_space (to_lower op) in
     if o' \<in> {''above'', ''>'', ''>='', ''greater than''} then (if contains_sub op ''='' then ''>='' else ''>'')
     else if o' \<in> {''below'', ''<'', ''<='', ''less than''} then (if contains_sub op ''='' then ''<='' else ''<'')
     else if o' = ''='' \<or> o' = ''=='' then ''=='' else if o' = ''!='' then ''!='' else if o' = ''in'' then ''in'' else op)"

definition parseValue :: "string \<Rightarrow> goval" where
  "parseValue raw = (let trimmed = trim_set quotes (trim_space raw) in
     if has_prefix trimmed ''['' \<and> has_suffix trimmed '']'' then
       VList (map VStr (filter (\<lambda>v. v \<noteq> []) (map (\<lambda>item. trim_set quotes (trim_space item))
         (split_on (CHR 0x2C) (trim_set ''[]'' trimmed)))))
     else let (x, ok) = parse_float trimmed in if ok then VFloat x
     else if EqualFold trimmed ''true'' then VBool True else if EqualFold trimmed ''false'' then VBool False
     else VStr trimmed)"

definition rules_buildDetector :: "string \<Rightarrow> ThresholdSpec option \<Rightarrow> int \<Rightarrow> int \<Rightarrow> DetectorSpec" where
  "rules_buildDetector detectorType threshold pollInterval windowSeconds =
     (if detectorType = ''robust_zscore'' then empty_detector \<lparr> d_type := ''robust_zscore'',
        d_robust_z := Some \<lparr> rz_baseline_window = 3600, rz_eval_window = (if windowSeconds > 0 then windowSeconds else 300),
          rz_warn = Fin 3, rz_crit = Fin 5, rz_min_samples = 20 \<rparr> \<rparr>
      else if detectorType = ''missing_data'' then (let gap = wrap64 (pollInterval * 2) in
        empty_detector \<lparr> d_type := ''missing_data'',
          d_missing := Some \<lparr> md_max_gap = (if gap < pollInterval then pollInterval else gap) \<rparr> \<rparr>)
      else empty_detector \<lparr> d_type := ''threshold'', d_threshold := threshold \<rparr>)"

definition ConditionSpecFromThreshold :: "ThresholdSpec option \<Rightarrow> ConditionSpec" where
  "ConditionSpecFromThreshold threshold = (case threshold of None \<Rightarrow> empty_condition
     | Some th \<Rightarrow> \<lparr> co_op = th_op th, co_value = th_value th, co_min = th_min th, co_max = th_max th \<rparr>)"

subsection \<open>Reading a prompt\<close>

definition prompt_table :: "string \<Rightarrow> RuleDraft option \<Rightarrow> string option" where
  "prompt_table clean draft = (case FindStringSubmatch tableRe clean of Some c \<Rightarrow> Some (group_text clean c 1)
     | None \<Rightarrow> (case draft of Some d \<Rightarrow> if rd_table d \<noteq> [] then Some (rd_table d) else None | None \<Rightarrow> None))"

definition prompt_timestamp :: "string \<Rightarrow> RuleDraft option \<Rightarrow> string option" where
  "prompt_timestamp clean draft = (case FindStringSubmatch timestampRe clean of Some c \<Rightarrow> Some (group_text clean c 2)
     | None \<Rightarrow> (case draft of Some d \<Rightarrow> if rd_timestamp d \<noteq> [] then Some (rd_timestamp d) else None | None \<Rightarrow> None))"

definition prompt_window :: "string \<Rightarrow> int" where
  "prompt_window clean = (case FindStringSubmatch windowRe clean of None \<Rightarrow> 0
     | Some c \<Rightarrow> max 0 (parseDurationSeconds (group_text clean c 2) (group_text clean c 3)))"

definition prompt_interval :: "string \<Rightarrow> int" where
  "prompt_interval clean = (case FindStringSubmatch intervalRe clean of None \<Rightarrow> 60
     | Some c \<Rightarrow> let v = group_text clean c 2;
           n = parseDurationSeconds (if v = [] then ''1'' else v) (group_text clean c 3)
         in if n > 0 then n else 60)"

definition between_threshold :: "string \<Rightarrow> caps \<Rightarrow> ThresholdSpec" where
  "between_threshold clean c = \<lparr> th_op = ''between'', th_value = VNil,
     th_min = Some (fst (parse_float (group_text clean c 1))), th_max = Some (fst (parse_float (group_text clean c 2))) \<rparr>"

definition prompt_threshold :: "string \<Rightarrow> ThresholdSpec option" where
  "prompt_threshold clean = (case FindStringSubmatch betweenRe clean of Some c \<Rightarrow> Some (between_threshold clean c)
     | None \<Rightarrow> (case FindStringSubmatch rangeRe clean of Some c \<Rightarrow> Some (between_threshold clean c)
       | None \<Rightarrow> (case FindStringSubmatch compareRe clean of None \<Rightarrow> None
         | Some c \<Rightarrow> Some \<lparr> th_op = rules_normalizeOp (group_text clean c 1),
             th_value = VFloat (fst (parse_float (group_text clean c 2))), th_min = None, th_max = None \<rparr>)))"

definition prompt_detector_type :: "string \<Rightarrow> ThresholdSpec option \<Rightarrow> string" where
  "prompt_detector_type clean threshold = (if MatchString missingRe clean then ''missing_data''
     else if MatchString abnormalRe clean then ''robust_zscore'' else if threshold \<noteq> None then ''threshold'' else [])"

definition clause_of :: "string \<Rightarrow> caps \<Rightarrow> WhereClause" where
  "clause_of clean c = \<lparr> cl_column = group_text clean c 1, cl_op = rules_normalizeOp (group_text clean c 2),
     cl_value = parseValue (group_text clean c 3) \<rparr>"

definition prompt_clauses :: "string \<Rightarrow> WhereClause list" where
  "prompt_clauses clean = (case FindStringSubmatch whereClause clean of None \<Rightarrow> [] | Some c \<Rightarrow> [clause_of clean c])
     @ map (clause_of clean) (FindAllStringSubmatch andClause clean)"

definition prompt_where :: "string \<Rightarrow> RuleDraft option \<Rightarrow> WhereSpec option" where
  "prompt_where clean draft = (if prompt_clauses clean \<noteq> [] then Some \<lparr> wh_type = ''and'', wh_clauses = prompt_clauses clean \<rparr>
     else case draft of None \<Rightarrow> None | Some d \<Rightarrow> rd_where d)"

text \<open>The parameters of a draft, with names and detectors filled in.\<close>

definition fill_parameter :: "DetectorSpec \<Rightarrow> ParameterSpec \<Rightarrow> ParameterSpec" where
  "fill_parameter det p = (let p1 = (if trim_space (p_name p) = [] then p \<lparr> p_name := p_column p \<rparr> else p)
     in if trim_space (d_type (p_detector p1)) = [] then p1 \<lparr> p_detector := det \<rparr> else p1)"

definition draft_parameters :: "RuleDraft option \<Rightarrow> ParameterSpec list" where
  "draft_parameters draft = (case draft of None \<Rightarrow> [] | Some d \<Rightarrow> rd_parameters d)"

definition missing_detail :: "string \<Rightarrow> string \<Rightarrow> ErrorDetail" where
  "missing_detail field hint = detail field ''missing'' hint"

definition ParsePromptWithDraft :: "string \<Rightarrow> string \<Rightarrow> RuleDraft option \<Rightarrow> ParseError + RuleSpec" where
  "ParsePromptWithDraft prompt connectionRef draft = (let clean = trim_space prompt in
     if clean = [] then Inl \<lparr> pe_code = ''RULE_AMBIGUOUS'', pe_message = ''empty rule prompt'',
       pe_details = [detail ''rulePrompt'' ''empty'' ''Provide a rule prompt''] \<rparr>
     else let table = prompt_table clean draft; ts = prompt_timestamp clean draft;
       poll = prompt_interval clean; window = prompt_window clean;
       threshold = prompt_threshold clean; detectorType = prompt_detector_type clean threshold;
       det = rules_buildDetector detectorType threshold poll window;
       given = map (fill_parameter det) (draft_parameters draft);
       column = (case FindStringSubmatch valueColRe clean of None \<Rightarrow> None | Some c \<Rightarrow> Some (group_text clean c 2));
       use_column = (draft_parameters draft = [] \<and> column \<noteq> None);
       params = (if draft_parameters draft \<noteq> [] then given else case column of None \<Rightarrow> []
         | Some col \<Rightarrow> [\<lparr> p_name = col, p_column = col, p_detector = det \<rparr>]);
       details = (if table = None then [missing_detail ''source.table'' ''Example: table telemetry''] else [])
         @ (if ts = None then [missing_detail ''source.timestampColumn'' ''Example: timestamp ts''] else [])
         @ (if params = [] then [missing_detail ''parameters'' ''Provide column names or draft.parameters''] else [])
         @ (if detectorType = [] \<or> detectorType = ''threshold'' \<and> threshold = None
            then [missing_detail ''condition'' ''Example: above 80''] else [])
     in if details \<noteq> [] then Inl \<lparr> pe_code = ''RULE_AMBIGUOUS'', pe_message = ''rule prompt is missing required fields'',
          pe_details = details \<rparr>
     else Inr \<lparr> r_name = [], r_description = [], r_connection = connectionRef,
       r_source = \<lparr> so_table = the table, so_timestamp = the ts, so_where = prompt_where clean draft,
         so_value_column = (if use_column then the column else []) \<rparr>,
       r_parameters = params, r_poll = poll, r_cooldown = None, r_enabled = True,
       r_parameter_name = p_name (hd params), r_aggregation = [], r_window = None,
       r_condition = (if use_column then ConditionSpecFromThreshold threshold else empty_condition) \<rparr>)"

definition ParsePrompt :: "string \<Rightarrow> string \<Rightarrow> ParseError + RuleSpec" where
  "ParsePrompt prompt connectionRef = ParsePromptWithDraft prompt connectionRef None"

end
