(* ===== verification/RuleProps.thy ===== *)
theory RuleProps
  imports Main RuleParser SchedValidation SchedProps
begin

text \<open>
  The properties of the rule service's parser and validator: what a parsed prompt still has
  to satisfy to be valid, that the worker never panics on a validated rule, and what becomes
  of lists in a prompt.
\<close>

subsection \<open>What a match holds\<close>

fun consumes :: "re \<Rightarrow> bool" where
  "consumes (RSet P) = True"
| "consumes (RSeq a b) = (consumes a \<or> consumes b)"
| "consumes (RAlt a b) = (consumes a \<and> consumes b)"
| "consumes (RGroup n a) = consumes a"
| "consumes _ = False"

lemma spans_bounds: "spans s r i j \<Longrightarrow> i \<le> j \<and> (j \<le> length s \<or> j = i) \<and> (consumes r \<longrightarrow> i < j)"
proof (induction r arbitrary: i j)
  case (RSeq a b)
  then obtain m where "spans s a i m" "spans s b m j" by auto
  then show ?case using RSeq.IH(1) [of i m] RSeq.IH(2) [of m j] by auto
qed auto

lemma spans_nonempty: "spans s r i j \<Longrightarrow> consumes r \<Longrightarrow> span s (i, j) \<noteq> []"
  using spans_bounds [of s r i j] by (auto simp: span_def)

lemma ident_group:
  assumes "match_ok s r c" "n \<in> must r" "\<And>a. (n, a) \<in> set (groups_of r) \<Longrightarrow> a = ident_re"
  shows "identRegex (group_text s c n)"
proof -
  obtain a i j where g: "(n, a) \<in> set (groups_of r)" "spans s a i j" "group_text s c n = span s (i, j)"
    using match_group [OF assms(1,2)] by blast
  then have "spans s (RSeq (RSet ident_start) (RMany ident_rest)) i j" using assms(3) by (simp add: ident_re_def)
  then obtain x xs where "span s (i, j) = x # xs" "ident_start x" "list_all ident_rest xs" using spans_ident by blast
  then show ?thesis using g(3) by (simp add: identRegex_def)
qed

lemma lit_groups [simp]: "groups_of (lit w) = []" "must (lit w) = {}"
  by (induction w) (simp_all add: lit_def)

lemma class_groups [simp]: "groups_of spaces1 = []" "must spaces1 = {}" "groups_of spaces0 = []" "must spaces0 = {}"
  "groups_of digits1 = []" "must digits1 = {}" "groups_of number_re = []" "must number_re = {}"
  "groups_of ident_re = []" "must ident_re = {}" "groups_of units_re = []"
  by (simp_all add: spaces1_def spaces0_def digits1_def number_re_def ident_re_def units_re_def some_of_def optional_def)

lemma table_ident: "FindStringSubmatch tableRe s = Some c \<Longrightarrow> identRegex (group_text s c 1)"
  by (rule ident_group [OF FindStringSubmatch_sound]) (auto simp: tableRe_def)

lemma timestamp_ident: "FindStringSubmatch timestampRe s = Some c \<Longrightarrow> identRegex (group_text s c 2)"
  by (rule ident_group [OF FindStringSubmatch_sound]) (auto simp: timestampRe_def)

lemma column_ident: "FindStringSubmatch valueColRe s = Some c \<Longrightarrow> identRegex (group_text s c 2)"
  by (rule ident_group [OF FindStringSubmatch_sound]) (auto simp: valueColRe_def)

lemma tail_ident: "match_ok s (RSeq (lit w) clause_tail) c \<Longrightarrow> identRegex (group_text s c 1)"
  by (erule ident_group) (auto simp: clause_tail_def some_of_def)

lemma consumes_lit: "w \<noteq> [] \<Longrightarrow> consumes (lit w)"
  by (cases w) (simp_all add: lit_def)

lemma spans_lit: "spans s (lit w) i j \<Longrightarrow> to_lower (span s (i, j)) = w"
proof (induction w arbitrary: i)
  case Nil
  then show ?case by (simp add: lit_def span_def)
next
  case (Cons c w)
  then have c: "i < length s" "lower_char (s ! i) = c" "spans s (lit w) (Suc i) j" by (auto simp: lit_def)
  have "Suc i \<le> j" using spans_bounds [OF c(3)] by simp
  then show ?case using Cons.IH [OF c(3)] c(1,2) by (simp add: span_Cons to_lower_def)
qed

lemma spans_lits: "ws \<noteq> [] \<Longrightarrow> spans s (alts (map lit ws)) i j \<Longrightarrow> to_lower (span s (i, j)) \<in> set ws"
proof (induction ws)
  case (Cons w ws)
  then show ?case by (cases ws) (auto dest: spans_lit)
qed simp

definition compare_words :: "string list" where
  "compare_words = [''above'', ''greater than'', ''>='', ''>'', ''below'', ''less than'', ''<='', ''<'', ''=='', ''!='']"

definition operators :: "string set" where
  "operators = {''>='', ''>'', ''<='', ''<'', ''=='', ''!=''}"

lemma trim_words: "\<forall>w \<in> set compare_words. trim_space w = w"
  by code_simp

lemma compare_op:
  assumes "FindStringSubmatch compareRe s = Some c"
  shows "rules_normalizeOp (group_text s c 1) \<in> operators"
proof -
  note m = FindStringSubmatch_sound [OF assms]
  have r: "compareRe = RSeq (RGroup 1 (alts (map lit compare_words))) (RSeq spaces0 (RGroup 2 number_re))"
    by (simp add: compareRe_def compare_words_def)
  have g: "groups_of (alts (map lit ws)) = []" for ws
    by (induction ws rule: list.induct) (simp, metis (no_types, lifting) alts.simps append_Nil groups_of.simps(2) list.exhaust list.simps(8,9) lit_groups(1))
  have "1 \<in> must compareRe" by (simp add: r)
  from match_group [OF m this] obtain a i j where g1: "(1, a) \<in> set (groups_of compareRe)" "spans s a i j"
      "group_text s c 1 = span s (i, j)" by blast
  have "a = alts (map lit compare_words)" using g1(1) by (auto simp: r g)
  then have w: "to_lower (group_text s c 1) \<in> set compare_words"
    using spans_lits [of compare_words s i j] g1(2,3) by (simp add: compare_words_def)
  then have "trim_space (to_lower (group_text s c 1)) = to_lower (group_text s c 1)" using trim_words by blast
  then show ?thesis using w by (auto simp: rules_normalizeOp_def Let_def compare_words_def operators_def)
qed

lemma prompt_clause_cases:
  assumes "cl \<in> set (prompt_clauses s)"
  obtains c where "cl = clause_of s c"
    "FindStringSubmatch whereClause s = Some c \<or> c \<in> set (FindAllStringSubmatch andClause s)"
  using assms unfolding prompt_clauses_def by (cases "FindStringSubmatch whereClause s") auto

lemma prompt_clauses_ident: "cl \<in> set (prompt_clauses s) \<Longrightarrow> identRegex (cl_column cl)"
proof -
  assume cl: "cl \<in> set (prompt_clauses s)"
  have w: "identRegex (group_text s c 1)" if "FindStringSubmatch whereClause s = Some c" for c
    using FindStringSubmatch_sound [OF that] unfolding whereClause_def by (rule tail_ident)
  have a: "identRegex (group_text s c 1)" if "c \<in> set (FindAllStringSubmatch andClause s)" for c
    using FindAll_sound [OF that] unfolding andClause_def by (rule tail_ident)
  from prompt_clause_cases [OF cl] obtain c where c: "cl = clause_of s c"
      "FindStringSubmatch whereClause s = Some c \<or> c \<in> set (FindAllStringSubmatch andClause s)" .
  then have "identRegex (group_text s c 1)" using w a by blast
  then show ?thesis by (simp add: c(1) clause_of_def)
qed

subsection \<open>Parsing, then validating\<close>

lemma prompt_interval_pos: "0 < prompt_interval s"
  by (simp add: prompt_interval_def Let_def split: option.split)

lemma identRegex_nonempty: "identRegex w \<Longrightarrow> w \<noteq> []"
  by (auto simp: identRegex_def)

definition still_needed :: "DetectorSpec \<Rightarrow> bool" where
  "still_needed d = ((d_type d = ''threshold'' \<longrightarrow> (\<forall>th lo hi. d_threshold d = Some th \<longrightarrow> th_op th = ''between'' \<longrightarrow>
       th_min th = Some lo \<longrightarrow> th_max th = Some hi \<longrightarrow> \<not> fle hi lo))
     \<and> (d_type d = ''robust_zscore'' \<longrightarrow> (\<forall>rz. d_robust_z d = Some rz \<longrightarrow> rz_eval_window rz \<le> 3600)))"

lemma prompt_threshold_ok:
  assumes "prompt_threshold s = Some th"
  shows "th_op th = ''between'' \<and> th_min th \<noteq> None \<and> th_max th \<noteq> None \<or> th_op th \<in> operators"
  using assms compare_op by (auto simp: prompt_threshold_def between_threshold_def split: option.splits)

lemma prompt_detector_ok:
  assumes "prompt_detector_type s th \<noteq> []" "prompt_threshold s = th"
  shows "validateDetector (rules_buildDetector (prompt_detector_type s th) th poll window) poll i = None
    \<longleftrightarrow> still_needed (rules_buildDetector (prompt_detector_type s th) th poll window)"
proof -
  consider "prompt_detector_type s th = ''missing_data''" | "prompt_detector_type s th = ''robust_zscore''"
    | t where "prompt_detector_type s th = ''threshold''" "th = Some t"
    using assms(1) by (auto simp: prompt_detector_type_def split: if_splits)
  then show ?thesis
  proof cases
    case 1
    then show ?thesis by (simp add: rules_buildDetector_def Let_def validateDetector_def validate_missing_def still_needed_def)
  next
    case 2
    then show ?thesis by (simp add: rules_buildDetector_def Let_def validateDetector_def validate_robust_def still_needed_def)
  next
    case 3
    then have "th_op t = ''between'' \<and> th_min t \<noteq> None \<and> th_max t \<noteq> None \<or> th_op t \<in> operators"
      using prompt_threshold_ok assms(2) by simp
    then show ?thesis using 3
      by (auto simp: rules_buildDetector_def Let_def validateDetector_def validate_threshold_def still_needed_def operators_def)
  qed
qed

text \<open>What a parsed prompt looks like.\<close>

lemma parsed_prompt:
  assumes "ParsePrompt prompt conn = Inr spec"
  obtains col th where "identRegex (so_table (r_source spec))" "identRegex (so_timestamp (r_source spec))" "identRegex col"
    "prompt_threshold (trim_space prompt) = th" "prompt_detector_type (trim_space prompt) th \<noteq> []"
    "r_parameters spec = [\<lparr> p_name = col, p_column = col, p_detector = rules_buildDetector (prompt_detector_type (trim_space prompt) th) th
        (r_poll spec) (prompt_window (trim_space prompt)) \<rparr>]"
    "so_where (r_source spec) = prompt_where (trim_space prompt) None" "0 < r_poll spec" "r_aggregation spec = []"
proof -
  let ?s = "trim_space prompt"
  from assms obtain t u c where p: "prompt_table ?s None = Some t" "prompt_timestamp ?s None = Some u"
      "FindStringSubmatch valueColRe ?s = Some c" "prompt_detector_type ?s (prompt_threshold ?s) \<noteq> []"
    and spec: "so_table (r_source spec) = t" "so_timestamp (r_source spec) = u" "r_poll spec = prompt_interval ?s"
      "so_where (r_source spec) = prompt_where ?s None" "r_aggregation spec = []"
      "r_parameters spec = [\<lparr> p_name = group_text ?s c 2, p_column = group_text ?s c 2,
         p_detector = rules_buildDetector (prompt_detector_type ?s (prompt_threshold ?s)) (prompt_threshold ?s)
           (prompt_interval ?s) (prompt_window ?s) \<rparr>]"
    by (auto simp: ParsePrompt_def ParsePromptWithDraft_def Let_def draft_parameters_def split: if_splits option.splits)
  have "identRegex t" using p(1) table_ident by (auto simp: prompt_table_def split: option.splits)
  moreover have "identRegex u" using p(2) timestamp_ident by (auto simp: prompt_timestamp_def split: option.splits)
  ultimately show ?thesis
    using that [of "group_text ?s c 2" "prompt_threshold ?s"] p spec column_ident [OF p(3)] prompt_interval_pos [of ?s] by simp
qed

text \<open>
  C22: A parsed prompt is valid but for numbers: the specification that the parser makes of any
  prompt passes the schema validation exactly when its polling interval is in the given
  range, the bounds of a \<open>between\<close> are in order, and the window of an anomaly rule is at most
  an hour. Nothing else the validation looks at (names, columns, filter, detector settings) can
  be wrong in it.
\<close>
theorem parsed_prompt_validates_iff:
  assumes "ParsePrompt prompt conn = Inr spec"
  shows "(ValidateRuleSpec spec minPoll maxPoll = None)
    = (minPoll \<le> r_poll spec \<and> r_poll spec \<le> maxPoll \<and> still_needed (p_detector (hd (r_parameters spec))))"
proof -
  obtain col th where p: "identRegex (so_table (r_source spec))" "identRegex (so_timestamp (r_source spec))" "identRegex col"
    "prompt_threshold (trim_space prompt) = th" "prompt_detector_type (trim_space prompt) th \<noteq> []"
    "r_parameters spec = [\<lparr> p_name = col, p_column = col, p_detector = rules_buildDetector (prompt_detector_type (trim_space prompt) th) th
        (r_poll spec) (prompt_window (trim_space prompt)) \<rparr>]"
    "so_where (r_source spec) = prompt_where (trim_space prompt) None" "0 < r_poll spec" "r_aggregation spec = []"
    using parsed_prompt [OF assms] by blast
  let ?d = "rules_buildDetector (prompt_detector_type (trim_space prompt) th) th (r_poll spec) (prompt_window (trim_space prompt))"
  note d = prompt_detector_ok [OF p(5,4)]
  have "clause_details (so_where (r_source spec)) = []"
    unfolding p(7) using prompt_clauses_ident [OF nth_mem]
    by (auto simp: clause_details_def prompt_where_def in_set_enumerate_eq)
  then have "spec_details spec minPoll maxPoll = [] \<longleftrightarrow> minPoll \<le> r_poll spec \<and> r_poll spec \<le> maxPoll
      \<and> parameter_details (r_poll spec) (0, hd (r_parameters spec)) = []"
    using p identRegex_nonempty [OF p(1)] identRegex_nonempty [OF p(2)]
    by (auto simp: spec_details_def window_details_def rules_normalizeParameters_def)
  moreover have "parameter_details (r_poll spec) (0, hd (r_parameters spec)) = [] \<longleftrightarrow> validateDetector ?d (r_poll spec) 0 = None"
    using p(3,6) identRegex_nonempty [OF p(3)] by (simp add: parameter_details_def split: option.split)
  ultimately show ?thesis using d [of "r_poll spec" "prompt_window (trim_space prompt)" 0] p(6)
    by (simp add: ValidateRuleSpec_def Let_def)
qed

definition example_prompt :: string where
  "example_prompt = ''table t value v time u missing''"

lemmas re_eval = FindStringSubmatch_def match_at_def spaces1_def spaces0_def some_of_def ident_re_def optional_def
  lit_def lower_char_def re_space_def ident_start_def ident_rest_def is_alpha_def is_digit_def digits1_def numeral_eq_Suc

lemma example_table: "FindStringSubmatch tableRe example_prompt = Some [(1, 6, 7)]"
  by (simp add: re_eval tableRe_def example_prompt_def)

lemma example_timestamp: "FindStringSubmatch timestampRe example_prompt = Some [(1, 16, 20), (2, 21, 22)]"
  by (simp add: re_eval timestampRe_def example_prompt_def)

lemma example_column: "FindStringSubmatch valueColRe example_prompt = Some [(1, 8, 13), (2, 14, 15)]"
  by (simp add: re_eval valueColRe_def example_prompt_def)

lemma example_interval: "FindStringSubmatch intervalRe example_prompt = None"
  by (simp add: re_eval intervalRe_def example_prompt_def)

lemma example_missing: "MatchString missingRe example_prompt"
  by (simp add: MatchString_def re_eval missingRe_def example_prompt_def)

lemma example_trim: "trim_space example_prompt = example_prompt"
  by (rule trim_space_id) (simp add: example_prompt_def is_space_def)

lemma example_parsed:
  "\<exists>spec. ParsePrompt example_prompt ''c'' = Inr spec \<and> r_poll spec = 60 \<and> d_type (p_detector (hd (r_parameters spec))) = ''missing_data''"
proof -
  have "prompt_table example_prompt None \<noteq> None" "prompt_timestamp example_prompt None \<noteq> None"
    by (simp_all add: prompt_table_def prompt_timestamp_def example_table example_timestamp)
  moreover have "prompt_detector_type example_prompt th = ''missing_data''" for th
    by (simp add: prompt_detector_type_def example_missing)
  moreover have "prompt_interval example_prompt = 60" by (simp add: prompt_interval_def example_interval)
  moreover have "example_prompt \<noteq> []" by (simp add: example_prompt_def)
  ultimately show ?thesis
    by (simp add: ParsePrompt_def ParsePromptWithDraft_def example_trim example_column draft_parameters_def Let_def rules_buildDetector_def)
qed

lemma parsed_prompt_validates_iff_witness:
  "ValidateRuleSpec (case ParsePrompt example_prompt ''c'' of Inr spec \<Rightarrow> spec) 5 3600 = None"
proof -
  obtain spec where s: "ParsePrompt example_prompt ''c'' = Inr spec" "r_poll spec = 60"
      "d_type (p_detector (hd (r_parameters spec))) = ''missing_data''"
    using example_parsed by blast
  then have "still_needed (p_detector (hd (r_parameters spec)))" by (simp add: still_needed_def)
  then show ?thesis using parsed_prompt_validates_iff [OF s(1), of 5 3600] s by simp
qed

subsection \<open>Validated rules do not crash the worker\<close>

lemma concat_enumerate_empty:
  "concat (map f (enumerate n xs)) = [] \<Longrightarrow> x \<in> set xs \<Longrightarrow> \<exists>i. f (i, x) = []"
  by (induction xs arbitrary: n) auto

lemma validated_parameters:
  assumes "ValidateRuleSpec spec minPoll maxPoll = None" "p \<in> set (rules_normalizeParameters spec)"
  shows "\<exists>i. validateDetector (p_detector p) (r_poll spec) i = None"
proof -
  have "concat (map (parameter_details (r_poll spec)) (enumerate 0 (rules_normalizeParameters spec))) = []"
    using assms(1) by (simp add: ValidateRuleSpec_def Let_def spec_details_def split: if_splits)
  then obtain i where "parameter_details (r_poll spec) (i, p) = []"
    using concat_enumerate_empty [OF _ assms(2)] by blast
  then show ?thesis by (auto simp: parameter_details_def split: option.splits)
qed

lemma validated_not_risky:
  assumes "validateDetector d poll i = None"
  shows "\<not> risky_config d" "d_type d = ''robust_zscore'' \<Longrightarrow> d_robust_z d \<noteq> None"
  using assms
  by (auto simp: validateDetector_def risky_config_def validate_shewhart_def validate_trend_def validate_range_chart_def
      validate_robust_def rules_rangeChartSize_def Let_def split: if_splits option.splits)

lemma same_parameters:
  "map p_detector (normalizeParameters spec) = map p_detector (rules_normalizeParameters spec)"
  "validation_parameters spec = rules_normalizeParameters spec"
  by (auto simp: normalizeParameters_def rules_normalizeParameters_def validation_parameters_def legacy_threshold_def Let_def)

text \<open>What a rule needs so that the worker never panics on it.\<close>

definition worker_safe :: "RuleSpec \<Rightarrow> bool" where
  "worker_safe spec = (safe_rule spec \<and> \<not> robust_without_config spec)"

lemma worker_safe_iff: "worker_safe spec \<longleftrightarrow> (\<forall>d \<in> p_detector ` set (rules_normalizeParameters spec).
    \<not> risky_config d \<and> \<not> (d_type d = ''robust_zscore'' \<and> d_robust_z d = None))"
proof -
  have "safe_rule spec \<longleftrightarrow> (\<forall>d \<in> p_detector ` set (rules_normalizeParameters spec). \<not> risky_config d)"
    unfolding safe_rule_def list_all_iff set_map [symmetric] same_parameters(1) [symmetric] by simp
  then show ?thesis by (auto simp: worker_safe_def robust_without_config_def same_parameters(2) list_ex_iff)
qed

lemma worker_safe_never_panics:
  assumes "worker_safe spec"
  shows "\<not> panics (RuntimeValidateRule ad spec allow lims now)" "\<not> panics (execute_run lims rule spec adapter lastRun runAt w)"
  using assms RuntimeValidateRule_panics execute_run_safe unfolding worker_safe_def by blast+

lemma validated_worker_safe: "ValidateRuleSpec spec minPoll maxPoll = None \<Longrightarrow> worker_safe spec"
  unfolding worker_safe_iff using validated_parameters validated_not_risky by blast

text \<open>
  C13: The schema validation protects the worker: for a rule the rule service accepted, neither
  the runtime validation nor a run of the scheduler panics, whatever the database holds and
  the adapter answers. (The runtime validation alone does not give this.)
\<close>
theorem validated_rule_never_panics:
  assumes "ValidateRuleSpec spec minPoll maxPoll = None"
  shows "\<not> panics (RuntimeValidateRule ad spec allow lims now) \<and> \<not> panics (execute_run lims rule spec adapter lastRun runAt w)"
  using worker_safe_never_panics validated_worker_safe [OF assms] by blast

definition valid_trend :: RuleSpec where
  "valid_trend = empty_rule \<lparr> r_source := \<lparr> so_table = ''t'', so_timestamp = ''ts'', so_where = None, so_value_column = [] \<rparr>,
     r_poll := 10, r_parameters := [\<lparr> p_name = ''v'', p_column = ''v'',
       p_detector = empty_detector \<lparr> d_type := ''trend'', d_trend := Some \<lparr> tn_window = 6, tn_epsilon = f0, tn_consecutive = False \<rparr> \<rparr> \<rparr>] \<rparr>"

lemma valid_trend_ok: "ValidateRuleSpec valid_trend 5 3600 = None"
  by code_simp

lemma validated_rule_never_panics_witness:
  "\<not> panics (execute_run DefaultLimits ''r'' valid_trend (Some (\<lambda>_. example_adapter [])) None 0 example_world)"
  using validated_rule_never_panics [OF valid_trend_ok] by blast

subsection \<open>Lists in a prompt\<close>

lemma spans_many_last: "spans s (RMany P) i j \<Longrightarrow> list_all P (span s (i, j))"
  by simp

lemma no_comma_value:
  assumes "match_ok s (RSeq (lit w) clause_tail) c"
  shows "CHR 0x2C \<notin> set (group_text s c 3)"
proof -
  have "3 \<in> must (RSeq (lit w) clause_tail)" by (simp add: clause_tail_def)
  from match_group [OF assms this] obtain a i j where g: "(3, a) \<in> set (groups_of (RSeq (lit w) clause_tail))"
      "spans s a i j" "group_text s c 3 = span s (i, j)" by blast
  have "a = some_of (\<lambda>c. c \<noteq> CHR 0x2C)" using g(1) by (auto simp: clause_tail_def some_of_def)
  then obtain x xs where "span s (i, j) = x # xs" "x \<noteq> CHR 0x2C" "list_all (\<lambda>c. c \<noteq> CHR 0x2C) xs"
    using spans_ident [of s "\<lambda>c. c \<noteq> CHR 0x2C" "\<lambda>c. c \<noteq> CHR 0x2C" i j] g(2) unfolding some_of_def by blast
  then show ?thesis using g(3) by (auto simp: list_all_iff)
qed

lemma set_trim_set: "set (trim_set chars w) \<subseteq> set w"
  unfolding trim_set_def by (auto dest!: set_dropWhileD)

lemma parseValue_list:
  assumes "CHR 0x2C \<notin> set raw" "parseValue raw = VList vs"
  shows "length vs \<le> 1"
proof -
  let ?t = "trim_set quotes (trim_space raw)"
  have "set (trim_set ''[]'' ?t) \<subseteq> set raw" using set_trim_set set_trim_space by (meson subset_trans)
  then have "split_on (CHR 0x2C) (trim_set ''[]'' ?t) = [trim_set ''[]'' ?t]"
    using assms(1) by (intro split_on_none) blast
  then show ?thesis using assms(2)
    by (auto simp: parseValue_def Let_def split: if_splits prod.splits)
qed

text \<open>
  C38: A list in a filter of a prompt never has two elements: the pattern of a clause ends its
  value at the first comma, so of \<open>in [a, b]\<close> only the text \<open>[a\<close> is kept.
\<close>
theorem prompt_lists_are_cut:
  "list_all (\<lambda>cl. case cl_value cl of VList vs \<Rightarrow> length vs \<le> 1 | _ \<Rightarrow> True) (prompt_clauses prompt)"
proof -
  have "CHR 0x2C \<notin> set (group_text prompt c 3)"
    if "FindStringSubmatch whereClause prompt = Some c \<or> c \<in> set (FindAllStringSubmatch andClause prompt)" for c
  proof -
    have "match_ok prompt whereClause c \<or> match_ok prompt andClause c"
      using that FindStringSubmatch_sound FindAll_sound by blast
    then show ?thesis using no_comma_value unfolding whereClause_def andClause_def by blast
  qed
  then have "length vs \<le> 1" if "cl \<in> set (prompt_clauses prompt)" "cl_value cl = VList vs" for cl vs
    using prompt_clause_cases [OF that(1)] that(2) parseValue_list by (metis clause_of_def WhereClause.select_convs(3))
  then show ?thesis by (auto simp: list_all_iff split: goval.split)
qed

end
