(* ===== verification/RuleStorage.thy ===== *)
theory RuleStorage
  imports Main RuleValidator McpServer
begin

text \<open>
  The database layer of the rule service (\<open>internal/storage\<close>): the tables of its migrations as
  lists of rows and every repository method as one statement, or one transaction, over them.
  Keys, references and their cascades are those of the migrations. A statement can fail at
  any step, which also covers the values Postgres would refuse for their size or bytes; a
  read can be cut short, because the loops never ask \<open>rows.Err\<close>. How Postgres reads a UUID
  and rounds a \<open>numeric\<close> column are parameters. The table \<open>rules\<close> is the one of the
  scheduler: its rows extend the scheduler's record.
\<close>

subsection \<open>Tables\<close>

datatype store_error = NotFound | NoRows | DbError string

type_synonym 'a sres = "store_error + 'a"

record DBConnection =
  dn_id :: string
  dn_name :: string
  dn_type :: string
  dn_host :: string
  dn_port :: int
  dn_user :: string
  dn_password :: string
  dn_database :: string
  dn_created :: int

text \<open>
  A rule. Its JSON is the value \<open>json.Unmarshal\<close> gives back, \<open>None\<close> for nil bytes; the last run
  is a column only the scheduler knows.
\<close>

record RuleRow = RuleRecord +
  rw_name :: string
  rw_description :: string
  rw_parameter :: string
  rw_created :: int
  rw_updated :: int

record AlertRow = AlertRecord +
  aw_id :: int

text \<open>A machine unit; a raw message is its JSON value, \<open>None\<close> for no bytes.\<close>

record MachineUnit =
  mu_id :: string
  mu_name :: string
  mu_connection :: string
  mu_table :: string
  mu_timestamp :: string
  mu_columns :: "string list"
  mu_live :: "goval option"
  mu_rules :: "string list"
  mu_x :: f64
  mu_y :: f64
  mu_line :: string
  mu_created :: int
  mu_updated :: int

text \<open>The row of a machine unit, with its three \<open>jsonb\<close> columns.\<close>

record UnitRow =
  ut_id :: string
  ut_name :: string
  ut_connection :: string
  ut_table :: string
  ut_timestamp :: string
  ut_columns :: goval
  ut_live :: goval
  ut_rules :: goval
  ut_x :: f64
  ut_y :: f64
  ut_line :: "string option"
  ut_created :: int
  ut_updated :: int

record StepperRule =
  sr_id :: string
  sr_unit :: string
  sr_name :: string
  sr_type :: string
  sr_parameter :: string
  sr_config :: goval
  sr_enabled :: bool
  sr_created :: int
  sr_updated :: int

record ProductionLine =
  ln_id :: string
  ln_name :: string
  ln_created :: int
  ln_updated :: int

record CanvasWire =
  wi_id :: string
  wi_line :: string
  wi_source :: string
  wi_target :: string
  wi_source_x :: f64
  wi_source_y :: f64
  wi_target_x :: f64
  wi_target_y :: f64
  wi_label :: string
  wi_created :: int

record ParameterStats =
  ps_id :: string
  ps_unit :: string
  ps_parameter :: string
  ps_column :: string
  ps_table :: string
  ps_rows :: int
  ps_avg :: "f64 option"
  ps_min :: "f64 option"
  ps_max :: "f64 option"
  ps_std :: "f64 option"
  ps_s2_lower :: "f64 option"
  ps_s2_upper :: "f64 option"
  ps_s3_lower :: "f64 option"
  ps_s3_upper :: "f64 option"
  ps_computed :: int

record RuleDB =
  t_connections :: "DBConnection list"
  t_rules :: "RuleRow list"
  t_alerts :: "AlertRow list"
  t_units :: "UnitRow list"
  t_ui_rules :: "StepperRule list"
  t_lines :: "ProductionLine list"
  t_wires :: "CanvasWire list"
  t_stats :: "ParameterStats list"

text \<open>
  What the service depends on, by the number of the step: the clock, whether a statement
  gets through, after how many rows a read breaks off, a fresh UUID and whether the bus takes
  a message; how Postgres reads a UUID and rounds a statistic.
\<close>

record PgEnv =
  pg_clock :: "nat \<Rightarrow> int"
  pg_up :: "nat \<Rightarrow> bool"
  pg_cut :: "nat \<Rightarrow> nat option"
  pg_fresh :: "nat \<Rightarrow> string"
  pg_bus :: "nat \<Rightarrow> bool"
  pg_uuid :: "string \<Rightarrow> string option"
  pg_numeric :: "f64 \<Rightarrow> f64"

record RuleStore =
  rs_db :: RuleDB
  rs_step :: nat
  rs_events :: "(string \<times> string) list"

subsection \<open>Statements\<close>

type_synonym 'a action = "PgEnv \<Rightarrow> RuleStore \<Rightarrow> 'a sres \<times> RuleStore"

definition rs_tick :: "RuleStore \<Rightarrow> RuleStore" where
  "rs_tick s = s \<lparr> rs_step := Suc (rs_step s) \<rparr>"

text \<open>A statement changes the tables and answers, or fails and changes nothing.\<close>

definition statement :: "(RuleDB \<Rightarrow> store_error + ('a \<times> RuleDB)) \<Rightarrow> 'a action" where
  "statement f env s = (if \<not> pg_up env (rs_step s) then (Inl (DbError ''database unavailable''), rs_tick s)
     else case f (rs_db s) of Inl e \<Rightarrow> (Inl e, rs_tick s) | Inr (x, d) \<Rightarrow> (Inr x, rs_tick (s \<lparr> rs_db := d \<rparr>)))"

definition query :: "(RuleDB \<Rightarrow> 'a sres) \<Rightarrow> 'a action" where
  "query q = statement (\<lambda>d. case q d of Inl e \<Rightarrow> Inl e | Inr x \<Rightarrow> Inr (x, d))"

text \<open>The rows a loop over \<open>rows.Next\<close> sees: a broken read ends the loop like the last row does.\<close>

definition rows_read :: "PgEnv \<Rightarrow> nat \<Rightarrow> 'r list \<Rightarrow> 'r list" where
  "rows_read env n rs = (case pg_cut env n of None \<Rightarrow> rs | Some k \<Rightarrow> take k rs)"

fun all_ok :: "'a sres list \<Rightarrow> 'a list sres" where
  "all_ok [] = Inr []"
| "all_ok (r # rs) = (case r of Inl e \<Rightarrow> Inl e | Inr x \<Rightarrow> (case all_ok rs of Inl e \<Rightarrow> Inl e | Inr xs \<Rightarrow> Inr (x # xs)))"

definition query_rows :: "(RuleDB \<Rightarrow> 'r list sres) \<Rightarrow> ('r \<Rightarrow> 'a sres) \<Rightarrow> 'a list action" where
  "query_rows q scan env s = query (\<lambda>d. case q d of Inl e \<Rightarrow> Inl e
     | Inr rs \<Rightarrow> all_ok (map scan (rows_read env (rs_step s) rs))) env s"

definition s_bind :: "'a action \<Rightarrow> ('a \<Rightarrow> 'b action) \<Rightarrow> 'b action" where
  "s_bind m k env s = (case m env s of (Inl e, s') \<Rightarrow> (Inl e, s') | (Inr x, s') \<Rightarrow> k x env s')"

definition s_return :: "'a sres \<Rightarrow> 'a action" where
  "s_return r env s = (r, s)"

text \<open>
  A transaction: begin, the statements, commit. What fails rolls the tables back; a commit that
  reports an error has not happened.
\<close>

definition transaction :: "'a action \<Rightarrow> 'a action" where
  "transaction body env s = (case query (\<lambda>_. Inr ()) env s of (Inl e, s1) \<Rightarrow> (Inl e, s1)
     | (Inr _, s1) \<Rightarrow> (case body env s1 of (Inl e, s2) \<Rightarrow> (Inl e, s2 \<lparr> rs_db := rs_db s1 \<rparr>)
       | (Inr x, s2) \<Rightarrow> (case query (\<lambda>_. Inr ()) env s2 of (Inl e, s3) \<Rightarrow> (Inl e, s3 \<lparr> rs_db := rs_db s1 \<rparr>)
         | (Inr _, s3) \<Rightarrow> (Inr x, s3))))"

text \<open>\<open>now()\<close> outside a transaction is the clock of the statement.\<close>

definition with_now :: "(int \<Rightarrow> 'a action) \<Rightarrow> 'a action" where
  "with_now f env s = f (pg_clock env (rs_step s)) env s"

definition with_fresh :: "(string \<Rightarrow> 'a action) \<Rightarrow> 'a action" where
  "with_fresh f env s = f (pg_fresh env (rs_step s)) env s"

definition as_uuid :: "PgEnv \<Rightarrow> string \<Rightarrow> string sres" where
  "as_uuid env t = (case pg_uuid env t of None \<Rightarrow> Inl (DbError ''invalid input syntax for type uuid'') | Some u \<Rightarrow> Inr u)"

definition res_bind :: "'a sres \<Rightarrow> ('a \<Rightarrow> 'b sres) \<Rightarrow> 'b sres" where
  "res_bind r k = (case r of Inl e \<Rightarrow> Inl e | Inr x \<Rightarrow> k x)"

definition require :: "bool \<Rightarrow> string \<Rightarrow> unit sres" where
  "require ok msg = (if ok then Inr () else Inl (DbError msg))"

definition int4 :: "int \<Rightarrow> bool" where
  "int4 z = (-2147483648 \<le> z \<and> z \<le> 2147483647)"

definition one_row :: "'r list \<Rightarrow> 'r sres" where
  "one_row rs = (case rs of [] \<Rightarrow> Inl NoRows | r # _ \<Rightarrow> Inr r)"

text \<open>\<open>ORDER BY\<close> an instant; rows of one instant stay in the order of the table.\<close>

definition newest_first :: "('r \<Rightarrow> int) \<Rightarrow> 'r list \<Rightarrow> 'r list" where
  "newest_first key rs = sort_key (\<lambda>r. - key r) rs"

definition oldest_first :: "('r \<Rightarrow> int) \<Rightarrow> 'r list \<Rightarrow> 'r list" where
  "oldest_first key rs = sort_key key rs"

subsection \<open>Connections\<close>

definition CreateConnection :: "DBConnection \<Rightarrow> string action" where
  "CreateConnection c = with_fresh (\<lambda>ident. with_now (\<lambda>now env. statement (\<lambda>d.
     res_bind (as_uuid env ident) (\<lambda>u. res_bind (require (int4 (dn_port c)) ''value out of range for int4'') (\<lambda>_.
     res_bind (require (u \<notin> dn_id ` set (t_connections d)) ''duplicate key'') (\<lambda>_.
     Inr (ident, d \<lparr> t_connections := t_connections d @ [c \<lparr> dn_id := u, dn_created := now \<rparr>] \<rparr>))))) env))"

definition ConnectionExists :: "string \<Rightarrow> bool action" where
  "ConnectionExists ident env s = (case query (\<lambda>d. res_bind (as_uuid env ident)
       (\<lambda>u. one_row (filter (\<lambda>c. dn_id c = u) (t_connections d)))) env s of
     (Inl NoRows, s') \<Rightarrow> (Inr False, s') | (Inl e, s') \<Rightarrow> (Inl e, s') | (Inr _, s') \<Rightarrow> (Inr True, s'))"

subsection \<open>Rules\<close>

definition connection_known :: "RuleDB \<Rightarrow> string \<Rightarrow> bool" where
  "connection_known d ref = (ref \<in> dn_id ` set (t_connections d))"

text \<open>Every error of the scan, a failed query included, is \<open>ErrNotFound\<close>.\<close>

definition repo_GetRule :: "string \<Rightarrow> RuleRow action" where
  "repo_GetRule ident env s = (case query (\<lambda>d. res_bind (as_uuid env ident)
       (\<lambda>u. one_row (filter (\<lambda>r. rr_id r = u) (t_rules d)))) env s of
     (Inl _, s') \<Rightarrow> (Inl NotFound, s') | (Inr r, s') \<Rightarrow> (Inr r, s'))"

definition ListRules :: "RuleRow list action" where
  "ListRules = query_rows (\<lambda>d. Inr (newest_first rw_created (t_rules d))) Inr"

text \<open>A new row: the identifier, the reference and the JSON are checked by the table.\<close>

definition insert_rule :: "PgEnv \<Rightarrow> int \<Rightarrow> RuleRow \<Rightarrow> RuleDB \<Rightarrow> RuleDB sres" where
  "insert_rule env now r d = res_bind (as_uuid env (rr_id r)) (\<lambda>u. res_bind (as_uuid env (rr_connection r)) (\<lambda>ref.
     res_bind (require (rr_spec r \<noteq> None) ''null value in column rule_json'') (\<lambda>_.
     res_bind (require (connection_known d ref) ''foreign key violation'') (\<lambda>_.
     res_bind (require (u \<notin> rr_id ` set (t_rules d)) ''duplicate key'') (\<lambda>_.
     Inr (d \<lparr> t_rules := t_rules d @ [r \<lparr> rr_id := u, rr_connection := ref, rr_last_run := None,
       rw_created := now, rw_updated := now \<rparr>] \<rparr>))))))"

definition CreateRule :: "RuleRow \<Rightarrow> string action" where
  "CreateRule r = with_fresh (\<lambda>ident. with_now (\<lambda>now env. statement (\<lambda>d.
     res_bind (insert_rule env now (r \<lparr> rr_id := ident \<rparr>) d) (\<lambda>d'. Inr (ident, d'))) env))"

definition update_rules :: "string \<Rightarrow> (RuleRow \<Rightarrow> RuleRow) \<Rightarrow> RuleDB \<Rightarrow> RuleDB" where
  "update_rules u f d = d \<lparr> t_rules := map (\<lambda>r. if rr_id r = u then f r else r) (t_rules d) \<rparr>"

definition UpdateRule :: "RuleRow \<Rightarrow> unit action" where
  "UpdateRule n = with_now (\<lambda>now env. statement (\<lambda>d. res_bind (as_uuid env (rr_id n)) (\<lambda>u.
     res_bind (require (rr_spec n \<noteq> None \<or> u \<notin> rr_id ` set (t_rules d)) ''null value in column rule_json'') (\<lambda>_.
     Inr ((), update_rules u (\<lambda>r. r \<lparr> rw_name := rw_name n, rw_description := rw_description n,
       rw_parameter := rw_parameter n, rr_spec := rr_spec n, rr_enabled := rr_enabled n, rr_status := rr_status n,
       rr_last_error := rr_last_error n, rr_last_validated := rr_last_validated n, rw_updated := now \<rparr>) d)))) env)"

definition SetRuleEnabled :: "string \<Rightarrow> bool \<Rightarrow> string \<Rightarrow> unit action" where
  "SetRuleEnabled ident enabled status = with_now (\<lambda>now env. statement (\<lambda>d. res_bind (as_uuid env ident) (\<lambda>u.
     Inr ((), update_rules u (\<lambda>r. r \<lparr> rr_enabled := enabled, rr_status := status, rw_updated := now \<rparr>) d))) env)"

definition UpsertStepperRuleToRules :: "RuleRow \<Rightarrow> unit action" where
  "UpsertStepperRuleToRules n = with_now (\<lambda>now env. statement (\<lambda>d. res_bind (as_uuid env (rr_id n)) (\<lambda>u.
     if u \<notin> rr_id ` set (t_rules d) then res_bind (insert_rule env now n d) (\<lambda>d'. Inr ((), d'))
     else res_bind (as_uuid env (rr_connection n)) (\<lambda>ref.
       res_bind (require (rr_spec n \<noteq> None) ''null value in column rule_json'') (\<lambda>_.
       res_bind (require (connection_known d ref) ''foreign key violation'') (\<lambda>_.
       Inr ((), update_rules u (\<lambda>r. r \<lparr> rw_name := rw_name n, rw_description := rw_description n,
         rr_connection := ref, rw_parameter := rw_parameter n, rr_spec := rr_spec n, rr_enabled := rr_enabled n,
         rr_status := rr_status n, rr_last_error := rr_last_error n, rr_last_validated := rr_last_validated n,
         rw_updated := now \<rparr>) d)))))) env)"

text \<open>The alerts refer to their rule without a cascade, so a rule that raised alerts cannot be deleted.\<close>

definition DeleteRule :: "string \<Rightarrow> unit action" where
  "DeleteRule ident env = statement (\<lambda>d. res_bind (as_uuid env ident) (\<lambda>u.
     res_bind (require (u \<notin> al_rule ` set (t_alerts d)) ''foreign key violation'') (\<lambda>_.
     Inr ((), d \<lparr> t_rules := filter (\<lambda>r. rr_id r \<noteq> u) (t_rules d) \<rparr>)))) env"

definition ListRuleIDs :: "string list \<Rightarrow> string list action" where
  "ListRuleIDs ids env s = (if ids = [] then (Inr [], s)
     else query_rows (\<lambda>d. case all_ok (map (as_uuid env) ids) of Inl e \<Rightarrow> Inl e
       | Inr us \<Rightarrow> Inr (filter (\<lambda>u. u \<in> set us) (map rr_id (t_rules d)))) Inr env s)"

subsection \<open>Alerts\<close>

definition ListAlerts :: "string \<Rightarrow> AlertRow list action" where
  "ListAlerts ruleID env = query_rows (\<lambda>d. res_bind (as_uuid env ruleID)
     (\<lambda>u. Inr (newest_first al_ts (filter (\<lambda>a. al_rule a = u) (t_alerts d))))) Inr env"

definition UpdateAlertTreated :: "int \<Rightarrow> bool \<Rightarrow> unit action" where
  "UpdateAlertTreated ident treated = statement (\<lambda>d. Inr ((),
     d \<lparr> t_alerts := map (\<lambda>a. if aw_id a = ident then a \<lparr> al_treated := treated \<rparr> else a) (t_alerts d) \<rparr>))"

text \<open>The identifiers count up; the gaps a failed insert leaves are not kept.\<close>

definition repo_CreateAlert :: "AlertRow \<Rightarrow> unit action" where
  "repo_CreateAlert a env = statement (\<lambda>d. res_bind (as_uuid env (al_rule a)) (\<lambda>u.
     res_bind (require (u \<in> rr_id ` set (t_rules d)) ''foreign key violation'') (\<lambda>_.
     Inr ((), d \<lparr> t_alerts := t_alerts d @ [a \<lparr> al_rule := u, aw_id := fold max (map aw_id (t_alerts d)) 0 + 1 \<rparr>] \<rparr>)))) env"

subsection \<open>Machine units\<close>

definition strings_json :: "string list \<Rightarrow> goval" where
  "strings_json xs = VList (map VStr xs)"

definition decodeStringArray :: "goval \<Rightarrow> string list sres" where
  "decodeStringArray v = (case json_list json_string v of Inl e \<Rightarrow> Inl (DbError e) | Inr xs \<Rightarrow> Inr xs)"

definition normalizeRawJSON :: "goval option \<Rightarrow> goval" where
  "normalizeRawJSON raw = (case raw of None \<Rightarrow> VList [] | Some v \<Rightarrow> v)"

definition unit_of_row :: "UnitRow \<Rightarrow> MachineUnit sres" where
  "unit_of_row r = res_bind (decodeStringArray (ut_columns r)) (\<lambda>columns. res_bind (decodeStringArray (ut_rules r)) (\<lambda>ruleIDs.
     Inr \<lparr> mu_id = ut_id r, mu_name = ut_name r, mu_connection = ut_connection r, mu_table = ut_table r,
       mu_timestamp = ut_timestamp r, mu_columns = columns, mu_live = Some (ut_live r), mu_rules = ruleIDs,
       mu_x = ut_x r, mu_y = ut_y r, mu_line = (case ut_line r of None \<Rightarrow> [] | Some l \<Rightarrow> l),
       mu_created = ut_created r, mu_updated = ut_updated r \<rparr>))"

text \<open>\<open>scanMachineUnit\<close>: the row a statement answered with, or no row.\<close>

definition scanMachineUnit :: "UnitRow sres \<Rightarrow> MachineUnit sres" where
  "scanMachineUnit row = (case row of Inl NoRows \<Rightarrow> Inl NotFound | Inl e \<Rightarrow> Inl e | Inr r \<Rightarrow> unit_of_row r)"

definition scanned :: "UnitRow action \<Rightarrow> MachineUnit action" where
  "scanned m env s = (case m env s of (row, s') \<Rightarrow> (scanMachineUnit row, s'))"

text \<open>
  The insert of a machine unit names thirteen columns and gives twelve expressions, which
  Postgres refuses when it prepares the statement.
\<close>

definition unit_insert_columns :: "string list" where
  "unit_insert_columns = [''unit_id'', ''unit_name'', ''connection_ref'', ''selected_table'', ''timestamp_column'',
     ''selected_columns'', ''live_parameters'', ''rule_ids'', ''pos_x'', ''pos_y'', ''production_line_id'',
     ''created_at'', ''updated_at'']"

definition unit_insert_values :: "string list" where
  "unit_insert_values = [''$1'', ''$2'', ''$3'', ''$4'', ''$5'', ''$6'', ''$7'', ''$8'', ''$9'', ''$10'', ''now()'', ''now()'']"

definition line_known :: "RuleDB \<Rightarrow> string option \<Rightarrow> bool" where
  "line_known d line = (case line of None \<Rightarrow> True | Some l \<Rightarrow> l \<in> ln_id ` set (t_lines d))"

definition CreateMachineUnit :: "MachineUnit \<Rightarrow> MachineUnit action" where
  "CreateMachineUnit u = scanned (with_now (\<lambda>now env. statement (\<lambda>d.
     res_bind (require (length unit_insert_columns \<le> length unit_insert_values)
       ''INSERT has more target columns than expressions'') (\<lambda>_.
     res_bind (as_uuid env (mu_connection u)) (\<lambda>ref.
     res_bind (if mu_line u = [] then Inr None else res_bind (as_uuid env (mu_line u)) (\<lambda>l. Inr (Some l))) (\<lambda>line.
     res_bind (require (connection_known d ref \<and> line_known d line) ''foreign key violation'') (\<lambda>_.
     res_bind (require (mu_id u \<notin> ut_id ` set (t_units d)) ''duplicate key'') (\<lambda>_.
     let r = \<lparr> ut_id = mu_id u, ut_name = mu_name u, ut_connection = ref, ut_table = mu_table u,
       ut_timestamp = mu_timestamp u, ut_columns = strings_json (mu_columns u), ut_live = normalizeRawJSON (mu_live u),
       ut_rules = strings_json (mu_rules u), ut_x = mu_x u, ut_y = mu_y u, ut_line = line,
       ut_created = now, ut_updated = now \<rparr>
     in Inr (r, d \<lparr> t_units := t_units d @ [r] \<rparr>))))))) env))"

definition ListMachineUnits :: "MachineUnit list action" where
  "ListMachineUnits = query_rows (\<lambda>d. Inr (newest_first ut_created (t_units d))) unit_of_row"

definition find_unit :: "string \<Rightarrow> RuleDB \<Rightarrow> UnitRow sres" where
  "find_unit ident d = one_row (filter (\<lambda>r. ut_id r = ident) (t_units d))"

definition GetMachineUnit :: "string \<Rightarrow> MachineUnit action" where
  "GetMachineUnit ident = scanned (query (find_unit ident))"

text \<open>\<open>UPDATE ... WHERE unit_id = $n RETURNING ...\<close>\<close>

definition update_unit :: "string \<Rightarrow> (UnitRow \<Rightarrow> UnitRow) \<Rightarrow> RuleDB \<Rightarrow> store_error + (UnitRow \<times> RuleDB)" where
  "update_unit ident f d = res_bind (find_unit ident d) (\<lambda>r.
     Inr (f r, d \<lparr> t_units := map (\<lambda>r. if ut_id r = ident then f r else r) (t_units d) \<rparr>))"

definition UpdateMachineUnit :: "MachineUnit \<Rightarrow> MachineUnit action" where
  "UpdateMachineUnit u = scanned (with_now (\<lambda>now env. statement (\<lambda>d. res_bind (as_uuid env (mu_connection u)) (\<lambda>ref.
     res_bind (find_unit (mu_id u) d) (\<lambda>_. res_bind (require (connection_known d ref) ''foreign key violation'') (\<lambda>_.
     update_unit (mu_id u) (\<lambda>r. r \<lparr> ut_name := mu_name u, ut_connection := ref, ut_table := mu_table u,
       ut_timestamp := mu_timestamp u, ut_columns := strings_json (mu_columns u), ut_live := normalizeRawJSON (mu_live u),
       ut_rules := strings_json (mu_rules u), ut_x := mu_x u, ut_y := mu_y u, ut_updated := now \<rparr>) d)))) env))"

definition drop_units :: "(UnitRow \<Rightarrow> bool) \<Rightarrow> RuleDB \<Rightarrow> RuleDB" where
  "drop_units gone d = (let ids = ut_id ` set (filter gone (t_units d)) in
     d \<lparr> t_units := filter (\<lambda>r. \<not> gone r) (t_units d), t_stats := filter (\<lambda>p. ps_unit p \<notin> ids) (t_stats d) \<rparr>)"

definition DeleteMachineUnit :: "string \<Rightarrow> unit action" where
  "DeleteMachineUnit ident env s = (case statement (\<lambda>d. Inr (\<exists>r \<in> set (t_units d). ut_id r = ident,
       drop_units (\<lambda>r. ut_id r = ident) d)) env s of
     (Inl e, s') \<Rightarrow> (Inl e, s') | (Inr found, s') \<Rightarrow> (if found then Inr () else Inl NotFound, s'))"

text \<open>\<open>seen\<close> is the map of the loops, \<open>gone\<close> the set of removed values.\<close>

fun keep_new :: "string list \<Rightarrow> string list \<Rightarrow> string list \<Rightarrow> string list" where
  "keep_new gone seen [] = []"
| "keep_new gone seen (v # vs) = (if v \<in> set gone \<or> v \<in> set seen then keep_new gone seen vs
     else v # keep_new gone (v # seen) vs)"

definition storage_applyAddRemove :: "string list \<Rightarrow> string list \<Rightarrow> string list \<Rightarrow> string list" where
  "storage_applyAddRemove current add remove = (let kept = keep_new remove [] current in kept @ keep_new remove kept add)"

datatype json_column = RuleIds | SelectedColumns

definition get_column :: "json_column \<Rightarrow> UnitRow \<Rightarrow> goval" where
  "get_column c r = (case c of RuleIds \<Rightarrow> ut_rules r | SelectedColumns \<Rightarrow> ut_columns r)"

definition set_column :: "json_column \<Rightarrow> goval \<Rightarrow> UnitRow \<Rightarrow> UnitRow" where
  "set_column c v r = (case c of RuleIds \<Rightarrow> r \<lparr> ut_rules := v \<rparr> | SelectedColumns \<Rightarrow> r \<lparr> ut_columns := v \<rparr>)"

text \<open>The first read of a transaction answers \<open>ErrNotFound\<close> on every error.\<close>

definition or_not_found :: "'a action \<Rightarrow> 'a action" where
  "or_not_found m env s = (case m env s of (Inl _, s') \<Rightarrow> (Inl NotFound, s') | (Inr x, s') \<Rightarrow> (Inr x, s'))"

definition updateMachineUnitJSONArrays :: "string \<Rightarrow> string list \<Rightarrow> string list \<Rightarrow> json_column \<Rightarrow> MachineUnit action" where
  "updateMachineUnitJSONArrays ident add remove c = with_now (\<lambda>now. transaction (
     s_bind (or_not_found (query (\<lambda>d. res_bind (find_unit ident d) (\<lambda>r. Inr (get_column c r))))) (\<lambda>raw.
     s_bind (s_return (decodeStringArray raw)) (\<lambda>current.
     scanned (statement (update_unit ident (\<lambda>r. (set_column c
       (strings_json (storage_applyAddRemove current add remove)) r) \<lparr> ut_updated := now \<rparr>)))))))"

definition UpdateRules :: "string \<Rightarrow> string list \<Rightarrow> string list \<Rightarrow> MachineUnit action" where
  "UpdateRules ident add remove = updateMachineUnitJSONArrays ident add remove RuleIds"

definition UpdateColumns :: "string \<Rightarrow> string list \<Rightarrow> string list \<Rightarrow> MachineUnit action" where
  "UpdateColumns ident add remove = updateMachineUnitJSONArrays ident add remove SelectedColumns"

definition UpdateTable :: "string \<Rightarrow> string \<Rightarrow> string list option \<Rightarrow> bool \<Rightarrow> MachineUnit action" where
  "UpdateTable ident table columns keepColumns = with_now (\<lambda>now. transaction (
     s_bind (or_not_found (query (\<lambda>d. res_bind (find_unit ident d) (\<lambda>r. Inr (ut_columns r))))) (\<lambda>raw.
     s_bind (s_return (decodeStringArray raw)) (\<lambda>current.
     let next = (case columns of Some cs \<Rightarrow> cs | None \<Rightarrow> if keepColumns then current else []) in
     scanned (statement (update_unit ident (\<lambda>r. r \<lparr> ut_table := table, ut_timestamp := [],
       ut_columns := strings_json next, ut_updated := now \<rparr>)))))))"

definition UpdateConnection :: "string \<Rightarrow> string \<Rightarrow> MachineUnit action" where
  "UpdateConnection ident connectionRef = scanned (with_now (\<lambda>now env. statement (\<lambda>d.
     res_bind (as_uuid env connectionRef) (\<lambda>ref. res_bind (find_unit ident d) (\<lambda>_.
     res_bind (require (connection_known d ref) ''foreign key violation'') (\<lambda>_.
     update_unit ident (\<lambda>r. r \<lparr> ut_connection := ref, ut_updated := now \<rparr>) d)))) env))"

definition UpdatePosition :: "string \<Rightarrow> f64 \<Rightarrow> f64 \<Rightarrow> MachineUnit action" where
  "UpdatePosition ident x y = scanned (with_now (\<lambda>now. statement (update_unit ident
     (\<lambda>r. r \<lparr> ut_x := x, ut_y := y, ut_updated := now \<rparr>))))"

subsection \<open>Production lines (\<open>production_lines_repository.go\<close>)\<close>

definition found_row :: "'r sres \<Rightarrow> 'r sres" where
  "found_row row = (case row of Inl NoRows \<Rightarrow> Inl NotFound | Inl e \<Rightarrow> Inl e | Inr r \<Rightarrow> Inr r)"

definition find_line :: "string \<Rightarrow> RuleDB \<Rightarrow> ProductionLine sres" where
  "find_line u d = one_row (filter (\<lambda>l. ln_id l = u) (t_lines d))"

definition ListProductionLines :: "ProductionLine list action" where
  "ListProductionLines = query_rows (\<lambda>d. Inr (oldest_first ln_created (t_lines d))) Inr"

definition GetProductionLine :: "string \<Rightarrow> ProductionLine action" where
  "GetProductionLine ident env s = (case query (\<lambda>d. res_bind (as_uuid env ident) (\<lambda>u. find_line u d)) env s of
     (row, s') \<Rightarrow> (found_row row, s'))"

definition CreateProductionLine :: "string \<Rightarrow> ProductionLine action" where
  "CreateProductionLine name = with_fresh (\<lambda>ident. with_now (\<lambda>now env. statement (\<lambda>d.
     res_bind (as_uuid env ident) (\<lambda>u. res_bind (require (u \<notin> ln_id ` set (t_lines d)) ''duplicate key'') (\<lambda>_.
     let l = \<lparr> ln_id = u, ln_name = name, ln_created = now, ln_updated = now \<rparr>
     in Inr (l, d \<lparr> t_lines := t_lines d @ [l] \<rparr>)))) env))"

definition UpdateProductionLine :: "string \<Rightarrow> string \<Rightarrow> ProductionLine action" where
  "UpdateProductionLine ident name env s = (case with_now (\<lambda>now env. statement (\<lambda>d. res_bind (as_uuid env ident) (\<lambda>u.
       res_bind (find_line u d) (\<lambda>l. let f = (\<lambda>l. l \<lparr> ln_name := name, ln_updated := now \<rparr>) in
       Inr (f l, d \<lparr> t_lines := map (\<lambda>l. if ln_id l = u then f l else l) (t_lines d) \<rparr>)))) env) env s of
     (row, s') \<Rightarrow> (found_row row, s'))"

text \<open>
  Deleting a line: its machine units go with it (migration 014), with their statistics, and so
  do the wires drawn on it.
\<close>

definition drop_line :: "string \<Rightarrow> RuleDB \<Rightarrow> RuleDB" where
  "drop_line u d = (let d' = drop_units (\<lambda>r. ut_line r = Some u) d in
     d' \<lparr> t_lines := filter (\<lambda>l. ln_id l \<noteq> u) (t_lines d'), t_wires := filter (\<lambda>w. wi_line w \<noteq> u) (t_wires d') \<rparr>)"

definition DeleteProductionLine :: "string \<Rightarrow> unit action" where
  "DeleteProductionLine ident env s = (case statement (\<lambda>d. res_bind (as_uuid env ident) (\<lambda>u.
       Inr (u \<in> ln_id ` set (t_lines d), drop_line u d))) env s of
     (Inl e, s') \<Rightarrow> (Inl e, s') | (Inr found, s') \<Rightarrow> (if found then Inr () else Inl NotFound, s'))"

definition ListMachineUnitsByLine :: "string \<Rightarrow> MachineUnit list action" where
  "ListMachineUnitsByLine ident env = query_rows (\<lambda>d. res_bind (as_uuid env ident)
     (\<lambda>u. Inr (newest_first ut_created (filter (\<lambda>r. ut_line r = Some u) (t_units d))))) unit_of_row env"

subsection \<open>Canvas wires\<close>

definition ListWiresByLine :: "string \<Rightarrow> CanvasWire list action" where
  "ListWiresByLine ident env = query_rows (\<lambda>d. res_bind (as_uuid env ident)
     (\<lambda>u. Inr (oldest_first wi_created (filter (\<lambda>w. wi_line w = u) (t_wires d))))) Inr env"

definition insert_wire :: "int \<Rightarrow> string \<Rightarrow> CanvasWire \<Rightarrow> unit action" where
  "insert_wire now lineID w env = statement (\<lambda>d. res_bind (as_uuid env lineID) (\<lambda>u.
     res_bind (require (line_known d (Some u)) ''foreign key violation'') (\<lambda>_.
     res_bind (require (wi_id w \<notin> wi_id ` set (t_wires d)) ''duplicate key'') (\<lambda>_.
     Inr ((), d \<lparr> t_wires := t_wires d @ [w \<lparr> wi_line := u, wi_created := now \<rparr>] \<rparr>))))) env"

fun insert_wires :: "int \<Rightarrow> string \<Rightarrow> CanvasWire list \<Rightarrow> unit action" where
  "insert_wires now lineID [] = s_return (Inr ())"
| "insert_wires now lineID (w # ws) = s_bind (insert_wire now lineID w) (\<lambda>_. insert_wires now lineID ws)"

definition ReplaceWiresForLine :: "string \<Rightarrow> CanvasWire list \<Rightarrow> CanvasWire list action" where
  "ReplaceWiresForLine lineID wires = s_bind (with_now (\<lambda>now. transaction (
     s_bind (\<lambda>env. statement (\<lambda>d. res_bind (as_uuid env lineID)
       (\<lambda>u. Inr ((), d \<lparr> t_wires := filter (\<lambda>w. wi_line w \<noteq> u) (t_wires d) \<rparr>))) env) (\<lambda>_.
     insert_wires now lineID wires)))) (\<lambda>_. ListWiresByLine lineID)"

subsection \<open>Parameter statistics\<close>

definition rounded :: "PgEnv \<Rightarrow> ParameterStats \<Rightarrow> ParameterStats" where
  "rounded env p = p \<lparr> ps_avg := map_option (pg_numeric env) (ps_avg p), ps_min := map_option (pg_numeric env) (ps_min p),
     ps_max := map_option (pg_numeric env) (ps_max p), ps_std := map_option (pg_numeric env) (ps_std p),
     ps_s2_lower := map_option (pg_numeric env) (ps_s2_lower p), ps_s2_upper := map_option (pg_numeric env) (ps_s2_upper p),
     ps_s3_lower := map_option (pg_numeric env) (ps_s3_lower p), ps_s3_upper := map_option (pg_numeric env) (ps_s3_upper p) \<rparr>"

definition same_parameter :: "ParameterStats \<Rightarrow> ParameterStats \<Rightarrow> bool" where
  "same_parameter p q = (ps_unit p = ps_unit q \<and> ps_parameter p = ps_parameter q)"

definition UpsertParameterStats :: "ParameterStats \<Rightarrow> unit action" where
  "UpsertParameterStats p = with_now (\<lambda>now env. statement (\<lambda>d.
     res_bind (require (int4 (ps_rows p)) ''value out of range for int4'') (\<lambda>_.
     let n = rounded env p \<lparr> ps_computed := now \<rparr> in
     if \<exists>q \<in> set (t_stats d). same_parameter p q
     then Inr ((), d \<lparr> t_stats := map (\<lambda>q. if same_parameter p q then n \<lparr> ps_id := ps_id q \<rparr> else q) (t_stats d) \<rparr>)
     else res_bind (require (ps_unit p \<in> ut_id ` set (t_units d)) ''foreign key violation'') (\<lambda>_.
       res_bind (require (ps_id p \<notin> ps_id ` set (t_stats d)) ''duplicate key'') (\<lambda>_.
       Inr ((), d \<lparr> t_stats := t_stats d @ [n] \<rparr>))))) env)"

definition ListParameterStatsByUnit :: "string \<Rightarrow> ParameterStats list action" where
  "ListParameterStatsByUnit ident = query_rows (\<lambda>d. Inr (newest_first ps_computed
     (filter (\<lambda>p. ps_unit p = ident) (t_stats d)))) Inr"

subsection \<open>Stepper rules (\<open>stepper_rules.go\<close>)\<close>

text \<open>\<open>scanStepperRule\<close>: every error is \<open>ErrNotFound\<close>; instants that are zero are filled in.\<close>

definition fill_instants :: "int \<Rightarrow> StepperRule \<Rightarrow> StepperRule" where
  "fill_instants now r = (let r1 = (if sr_created r = 0 then r \<lparr> sr_created := now \<rparr> else r)
     in if sr_updated r1 = 0 then r1 \<lparr> sr_updated := sr_created r1 \<rparr> else r1)"

definition scanStepperRule :: "StepperRule action \<Rightarrow> StepperRule action" where
  "scanStepperRule m env s = (case m env s of (Inl _, s') \<Rightarrow> (Inl NotFound, s')
     | (Inr r, s') \<Rightarrow> (Inr (fill_instants (pg_clock env (rs_step s')) r), s'))"

definition CreateStepperRule :: "StepperRule \<Rightarrow> StepperRule action" where
  "CreateStepperRule r = scanStepperRule (with_fresh (\<lambda>ident. with_now (\<lambda>now env. statement (\<lambda>d.
     res_bind (as_uuid env ident) (\<lambda>u. res_bind (require (u \<notin> sr_id ` set (t_ui_rules d)) ''duplicate key'') (\<lambda>_.
     let n = r \<lparr> sr_id := u, sr_created := now, sr_updated := now \<rparr>
     in Inr (n, d \<lparr> t_ui_rules := t_ui_rules d @ [n] \<rparr>)))) env)))"

definition update_ui_rules :: "string \<Rightarrow> (StepperRule \<Rightarrow> StepperRule) \<Rightarrow> RuleDB \<Rightarrow> RuleDB" where
  "update_ui_rules u f d = d \<lparr> t_ui_rules := map (\<lambda>r. if sr_id r = u then f r else r) (t_ui_rules d) \<rparr>"

definition find_ui_rule :: "string \<Rightarrow> RuleDB \<Rightarrow> StepperRule sres" where
  "find_ui_rule u d = one_row (filter (\<lambda>r. sr_id r = u) (t_ui_rules d))"

definition UpdateStepperRule :: "StepperRule \<Rightarrow> StepperRule action" where
  "UpdateStepperRule n = scanStepperRule (with_now (\<lambda>now env. statement (\<lambda>d. res_bind (as_uuid env (sr_id n)) (\<lambda>u.
     let f = (\<lambda>r. r \<lparr> sr_name := sr_name n, sr_type := sr_type n, sr_parameter := sr_parameter n,
       sr_config := sr_config n, sr_enabled := sr_enabled n, sr_updated := now \<rparr>)
     in res_bind (find_ui_rule u d) (\<lambda>r. Inr (f r, update_ui_rules u f d)))) env))"

definition SetStepperRuleEnabled :: "string \<Rightarrow> bool \<Rightarrow> unit action" where
  "SetStepperRuleEnabled ident enabled = with_now (\<lambda>now env. statement (\<lambda>d. res_bind (as_uuid env ident) (\<lambda>u.
     Inr ((), update_ui_rules u (\<lambda>r. r \<lparr> sr_enabled := enabled, sr_updated := now \<rparr>) d))) env)"

definition DeleteStepperRule :: "string \<Rightarrow> unit action" where
  "DeleteStepperRule ident env = statement (\<lambda>d. res_bind (as_uuid env ident) (\<lambda>u.
     Inr ((), d \<lparr> t_ui_rules := filter (\<lambda>r. sr_id r \<noteq> u) (t_ui_rules d) \<rparr>))) env"

definition GetStepperRule :: "string \<Rightarrow> StepperRule action" where
  "GetStepperRule ident = scanStepperRule (\<lambda>env. query (\<lambda>d. res_bind (as_uuid env ident) (\<lambda>u. find_ui_rule u d)) env)"

definition ListStepperRules :: "string \<Rightarrow> StepperRule list action" where
  "ListStepperRules unitID env s = query_rows (\<lambda>d. Inr (newest_first sr_created
     (filter (\<lambda>r. unitID = [] \<or> sr_unit r = unitID) (t_ui_rules d))))
     (\<lambda>r. Inr (fill_instants (pg_clock env (Suc (rs_step s))) r)) env s"

end
