(* ===== verification/RuleApi.thy ===== *)
theory RuleApi
  imports Main RuleStorage RuleParser Crypto GoTime
begin

text \<open>
  The HTTP handlers of the rule service over its storage (\<open>internal/api/handlers.go\<close>): stored
  connections, rules and alerts. A handler takes the decoded body, or the error of decoding
  it, and answers with a status and a payload while it changes the tables and publishes
  events. Publishing can fail, which the code ignores.
\<close>

subsection \<open>Answers\<close>

text \<open>A message with \<open>ok = false\<close>, a validation error with code and details, or a payload.\<close>

datatype 'a api_reply = ApiMessage int string | ApiInvalid string string "ErrorDetail list" | ApiOK int 'a

type_synonym 'a handler = "PgEnv \<Rightarrow> RuleStore \<Rightarrow> 'a api_reply \<times> RuleStore"

record RuleHandler =
  rh_seal :: sealing
  rh_random :: "nat \<Rightarrow> string res"
  rh_key :: string
  rh_min_poll :: int
  rh_max_poll :: int
  rh_uuid_ok :: "string \<Rightarrow> bool"

definition respond :: "'a api_reply \<Rightarrow> 'a handler" where
  "respond r env s = (r, s)"

definition on_ok :: "'a action \<Rightarrow> (store_error \<Rightarrow> 'b api_reply) \<Rightarrow> ('a \<Rightarrow> 'b handler) \<Rightarrow> 'b handler" where
  "on_ok m fail k env s = (case m env s of (Inl e, s') \<Rightarrow> (fail e, s') | (Inr x, s') \<Rightarrow> k x env s')"

definition with_body :: "'r res \<Rightarrow> ('r \<Rightarrow> 'b handler) \<Rightarrow> 'b handler" where
  "with_body body k = (case body of Inl e \<Rightarrow> respond (ApiMessage 400 e) | Inr req \<Rightarrow> k req)"

definition writeRuleError :: "ParseError \<Rightarrow> 'a api_reply" where
  "writeRuleError e = ApiInvalid (pe_code e) (pe_message e) (pe_details e)"

text \<open>\<open>_ = h.Bus.Publish(subject, {"rule_id": id})\<close>\<close>

definition publish :: "string \<Rightarrow> string \<Rightarrow> 'b handler \<Rightarrow> 'b handler" where
  "publish subject ident k env s = k env (if pg_bus env (rs_step s)
     then rs_tick (s \<lparr> rs_events := rs_events s @ [(subject, ident)] \<rparr>) else rs_tick s)"

subsection \<open>The JSON of a rule\<close>

definition finite_f :: "f64 \<Rightarrow> bool" where
  "finite_f x = (case x of Fin _ \<Rightarrow> True | _ \<Rightarrow> False)"

definition finite_opt :: "f64 option \<Rightarrow> bool" where
  "finite_opt x = (case x of None \<Rightarrow> True | Some y \<Rightarrow> finite_f y)"

definition opt_all :: "('a \<Rightarrow> bool) \<Rightarrow> 'a option \<Rightarrow> bool" where
  "opt_all P x = (case x of None \<Rightarrow> True | Some y \<Rightarrow> P y)"

definition detector_encodes :: "DetectorSpec \<Rightarrow> bool" where
  "detector_encodes d =
     (opt_all (\<lambda>t. json_encodes (th_value t) \<and> finite_opt (th_min t) \<and> finite_opt (th_max t)) (d_threshold d)
      \<and> opt_all (\<lambda>z. finite_f (rz_warn z) \<and> finite_f (rz_crit z)) (d_robust_z d)
      \<and> opt_all (\<lambda>l. opt_all (\<lambda>b. finite_opt (sb_usl b) \<and> finite_opt (sb_lsl b)) (sl_spec l)
          \<and> opt_all (\<lambda>b. finite_opt (cb_ucl b) \<and> finite_opt (cb_lcl b)) (sl_control l) \<and> finite_opt (sl_epsilon l)) (d_spec_limit d)
      \<and> opt_all (\<lambda>h. finite_f (sh_sigma h)) (d_shewhart d)
      \<and> opt_all (\<lambda>t. finite_f (tn_epsilon t)) (d_trend d)
      \<and> opt_all (\<lambda>t. finite_opt (tp_slope t) \<and> finite_opt (tp_time_to_spec t) \<and> finite_f (tp_epsilon t)
          \<and> opt_all (\<lambda>b. finite_opt (sb_usl b) \<and> finite_opt (sb_lsl b)) (tp_limits t)) (d_tpa d))"

definition spec_encodes :: "RuleSpec \<Rightarrow> bool" where
  "spec_encodes spec = (list_all (\<lambda>p. detector_encodes (p_detector p)) (r_parameters spec)
     \<and> opt_all (\<lambda>w. list_all (\<lambda>c. json_encodes (cl_value c)) (wh_clauses w)) (so_where (r_source spec))
     \<and> json_encodes (co_value (r_condition spec)) \<and> finite_opt (co_min (r_condition spec)) \<and> finite_opt (co_max (r_condition spec)))"

text \<open>What is read back: every value of type \<open>any\<close> comes back as JSON decodes it.\<close>

definition any_back :: "goval \<Rightarrow> goval" where
  "any_back v = json_any (json_wire v)"

definition detector_back :: "DetectorSpec \<Rightarrow> DetectorSpec" where
  "detector_back d = d \<lparr> d_threshold := map_option (\<lambda>t. t \<lparr> th_value := any_back (th_value t) \<rparr>) (d_threshold d) \<rparr>"

definition spec_back :: "RuleSpec \<Rightarrow> RuleSpec" where
  "spec_back spec = spec \<lparr>
     r_source := (r_source spec) \<lparr> so_where := map_option (\<lambda>w. w \<lparr> wh_clauses :=
       map (\<lambda>c. c \<lparr> cl_value := any_back (cl_value c) \<rparr>) (wh_clauses w) \<rparr>) (so_where (r_source spec)) \<rparr>,
     r_parameters := map (\<lambda>p. p \<lparr> p_detector := detector_back (p_detector p) \<rparr>) (r_parameters spec),
     r_condition := (r_condition spec) \<lparr> co_value := any_back (co_value (r_condition spec)) \<rparr> \<rparr>"

text \<open>\<open>ruleJSON, _ := json.Marshal(spec)\<close>: nil bytes when it fails.\<close>

definition rule_json :: "RuleSpec \<Rightarrow> RuleSpec option" where
  "rule_json spec = (if spec_encodes spec then Some (spec_back spec) else None)"

subsection \<open>Requests\<close>

record connectionRequest =
  cq_name :: string
  cq_type :: string
  cq_host :: string
  cq_port :: int
  cq_user :: string
  cq_password :: string
  cq_database :: string

record rulePromptRequest =
  rq_prompt :: string
  rq_connection :: string
  rq_name :: string
  rq_description :: string
  rq_enabled :: "bool option"
  rq_table :: string
  rq_column :: string
  rq_timestamp :: string
  rq_parameters :: "ParameterSpec list"
  rq_draft :: "RuleDraft option"

record ruleUpdateRequest =
  up_prompt :: string
  up_rule :: "RuleSpec option"
  up_enabled :: "bool option"
  up_table :: string
  up_column :: string
  up_timestamp :: string
  up_parameters :: "ParameterSpec list"
  up_draft :: "RuleDraft option"

definition buildRulePrompt :: "string \<Rightarrow> string \<Rightarrow> string \<Rightarrow> string \<Rightarrow> string" where
  "buildRulePrompt prompt tableName columnName timestamp = trim_space (join (
     (if trim_space tableName \<noteq> [] then [''table '' @ trim_space tableName] else [])
     @ (if trim_space columnName \<noteq> [] then [''column '' @ trim_space columnName] else [])
     @ (if trim_space timestamp \<noteq> [] then [''timestamp '' @ trim_space timestamp] else [])
     @ (if trim_space prompt \<noteq> [] then [trim_space prompt] else [])) '' '')"

definition buildDraft :: "rulePromptRequest \<Rightarrow> RuleDraft option" where
  "buildDraft req = (if rq_draft req \<noteq> None then rq_draft req
     else if trim_space (rq_table req) = [] \<and> trim_space (rq_timestamp req) = [] \<and> rq_parameters req = []
       \<and> trim_space (rq_column req) = [] then None
     else let params = (if rq_parameters req = [] \<and> trim_space (rq_column req) \<noteq> []
         then [\<lparr> p_name = trim_space (rq_column req), p_column = trim_space (rq_column req), p_detector = empty_detector \<rparr>]
         else rq_parameters req)
       in Some \<lparr> rd_table = trim_space (rq_table req), rd_timestamp = trim_space (rq_timestamp req), rd_where = None,
         rd_parameters = params \<rparr>)"

subsection \<open>Connections and rules\<close>

definition handleConnections :: "RuleHandler \<Rightarrow> string \<Rightarrow> connectionRequest res \<Rightarrow> string handler" where
  "handleConnections h meth body = (if meth \<noteq> ''POST'' then respond (ApiMessage 405 ''method not allowed'')
     else with_body body (\<lambda>req. case Encrypt (rh_seal h) (rh_random h) (rh_key h) (cq_password req) of
       Inl _ \<Rightarrow> respond (ApiMessage 500 ''encryption failed'')
     | Inr cipherText \<Rightarrow> on_ok (CreateConnection \<lparr> dn_id = [], dn_name = cq_name req, dn_type = cq_type req,
         dn_host = cq_host req, dn_port = cq_port req, dn_user = cq_user req, dn_password = cipherText,
         dn_database = cq_database req, dn_created = 0 \<rparr>)
         (\<lambda>_. ApiMessage 500 ''failed to store connection'') (\<lambda>ident. respond (ApiOK 200 ident))))"

text \<open>What the two handlers of a prompt do before they answer or store.\<close>

definition prompt_rule :: "RuleHandler \<Rightarrow> rulePromptRequest \<Rightarrow> ParseError + RuleSpec" where
  "prompt_rule h req = (case ParsePromptWithDraft (rq_prompt req) (rq_connection req) (buildDraft req) of
       Inl e \<Rightarrow> Inl e
     | Inr s0 \<Rightarrow> let s1 = (if rq_name req \<noteq> [] then s0 \<lparr> r_name := rq_name req \<rparr> else s0);
         s2 = (if rq_description req \<noteq> [] then s1 \<lparr> r_description := rq_description req \<rparr> else s1);
         s3 = (case rq_enabled req of None \<Rightarrow> s2 | Some b \<Rightarrow> s2 \<lparr> r_enabled := b \<rparr>);
         spec = (if r_name s3 = [] then s3 \<lparr> r_name := r_parameter_name s3 \<rparr> else s3)
       in case ValidateRuleSpec spec (rh_min_poll h) (rh_max_poll h) of Some e \<Rightarrow> Inl e | None \<Rightarrow> Inr spec)"

definition handleRulesValidate :: "RuleHandler \<Rightarrow> string \<Rightarrow> rulePromptRequest res \<Rightarrow> RuleSpec handler" where
  "handleRulesValidate h meth body = (if meth \<noteq> ''POST'' then respond (ApiMessage 405 ''method not allowed'')
     else with_body body (\<lambda>req. respond (case prompt_rule h req of Inl e \<Rightarrow> writeRuleError e | Inr spec \<Rightarrow> ApiOK 200 spec)))"

definition rule_row :: "RuleSpec \<Rightarrow> RuleRow" where
  "rule_row spec = \<lparr> rr_id = [], rr_connection = r_connection spec, rr_spec = rule_json spec, rr_enabled = r_enabled spec,
     rr_status = ''DRAFT'', rr_last_error = None, rr_last_validated = None, rr_last_run = None, rw_name = r_name spec,
     rw_description = r_description spec, rw_parameter = r_parameter_name spec, rw_created = 0, rw_updated = 0 \<rparr>"

definition handleRulesCreate :: "RuleHandler \<Rightarrow> rulePromptRequest res \<Rightarrow> (string \<times> RuleSpec) handler" where
  "handleRulesCreate h body = with_body body (\<lambda>req. case prompt_rule h req of Inl e \<Rightarrow> respond (writeRuleError e)
     | Inr spec \<Rightarrow> on_ok (CreateRule (rule_row spec)) (\<lambda>_. ApiMessage 500 ''failed to persist rule'')
         (\<lambda>ident. publish ''rule.created'' ident (respond (ApiOK 200 (ident, spec)))))"

definition handleRulesList :: "RuleRow list handler" where
  "handleRulesList = on_ok ListRules (\<lambda>_. ApiMessage 500 ''failed to list rules'') (\<lambda>rs. respond (ApiOK 200 rs))"

definition handleRuleGetByID :: "string \<Rightarrow> RuleRow handler" where
  "handleRuleGetByID ident = on_ok (repo_GetRule ident) (\<lambda>_. ApiMessage 404 ''rule not found'') (\<lambda>r. respond (ApiOK 200 r))"

definition empty_spec :: RuleSpec where
  "empty_spec = \<lparr> r_name = [], r_description = [], r_connection = [],
     r_source = \<lparr> so_table = [], so_timestamp = [], so_where = None, so_value_column = [] \<rparr>, r_parameters = [], r_poll = 0,
     r_cooldown = None, r_enabled = False, r_parameter_name = [], r_aggregation = [], r_window = None,
     r_condition = empty_condition \<rparr>"

definition updated_rule :: "ruleUpdateRequest \<Rightarrow> RuleRow \<Rightarrow> ParseError + RuleSpec" where
  "updated_rule req rec = (case up_rule req of Some spec \<Rightarrow> Inr spec
     | None \<Rightarrow> if up_prompt req \<noteq> [] \<or> up_table req \<noteq> [] \<or> up_column req \<noteq> [] \<or> up_timestamp req \<noteq> []
           \<or> up_parameters req \<noteq> [] \<or> up_draft req \<noteq> None
         then ParsePromptWithDraft (up_prompt req) (rr_connection rec) (buildDraft \<lparr> rq_prompt = up_prompt req,
           rq_connection = [], rq_name = [], rq_description = [], rq_enabled = None, rq_table = up_table req,
           rq_column = up_column req, rq_timestamp = up_timestamp req, rq_parameters = up_parameters req,
           rq_draft = up_draft req \<rparr>)
         else Inr empty_spec)"

definition handleRuleUpdateByID :: "RuleHandler \<Rightarrow> string \<Rightarrow> ruleUpdateRequest res \<Rightarrow> RuleSpec handler" where
  "handleRuleUpdateByID h ident body = with_body body (\<lambda>req.
     on_ok (repo_GetRule ident) (\<lambda>_. ApiMessage 404 ''rule not found'') (\<lambda>rec.
     case updated_rule req rec of Inl e \<Rightarrow> respond (writeRuleError e)
     | Inr s0 \<Rightarrow> let s1 = (case up_enabled req of None \<Rightarrow> s0 | Some b \<Rightarrow> s0 \<lparr> r_enabled := b \<rparr>);
         spec = (if r_name s1 = [] then s1 \<lparr> r_name := rw_name rec \<rparr> else s1)
       in case ValidateRuleSpec spec (rh_min_poll h) (rh_max_poll h) of Some e \<Rightarrow> respond (writeRuleError e)
       | None \<Rightarrow> on_ok (UpdateRule (rec \<lparr> rw_name := r_name spec, rw_description := r_description spec,
             rw_parameter := r_parameter_name spec, rr_spec := rule_json spec, rr_enabled := r_enabled spec,
             rr_status := ''DRAFT'', rr_last_error := None, rr_last_validated := None \<rparr>))
           (\<lambda>_. ApiMessage 500 ''failed to update rule'')
           (\<lambda>_. publish ''rule.updated'' ident (respond (ApiOK 200 spec)))))"

definition handleRuleEnable :: "string \<Rightarrow> unit handler" where
  "handleRuleEnable ident = on_ok (SetRuleEnabled ident True ''DRAFT'') (\<lambda>_. ApiMessage 500 ''failed to enable rule'')
     (\<lambda>_. publish ''rule.enabled'' ident (respond (ApiOK 200 ())))"

definition handleRuleDisable :: "string \<Rightarrow> unit handler" where
  "handleRuleDisable ident = on_ok (SetRuleEnabled ident False ''DISABLED'') (\<lambda>_. ApiMessage 500 ''failed to disable rule'')
     (\<lambda>_. publish ''rule.disabled'' ident (respond (ApiOK 200 ())))"

subsection \<open>Alerts\<close>

definition handleRuleAlerts :: "string \<Rightarrow> AlertRow list handler" where
  "handleRuleAlerts ident = on_ok (ListAlerts ident) (\<lambda>_. ApiMessage 500 ''failed to fetch alerts'')
     (\<lambda>alerts. respond (ApiOK 200 alerts))"

definition handleAlertUpdate :: "string \<Rightarrow> bool res \<Rightarrow> unit handler" where
  "handleAlertUpdate idStr body = (case atoi idStr of None \<Rightarrow> respond (ApiMessage 400 ''invalid alert id'')
     | Some ident \<Rightarrow> with_body body (\<lambda>treated. on_ok (UpdateAlertTreated ident treated)
         (\<lambda>_. ApiMessage 500 ''failed to update alert'') (\<lambda>_. respond (ApiOK 200 ()))))"

end
