(* ===== verification/RuleUnits.thy ===== *)
theory RuleUnits
  imports Main RuleApi
begin

text \<open>
  The handlers of machine units (\<open>internal/api/machine_units.go\<close>) and production lines
  (\<open>production_lines.go\<close>) of the rule service. \<open>uuid.Parse\<close> is the parameter \<open>rh_uuid_ok\<close>.
  The payload of an answer is the record it is made of.
\<close>

subsection \<open>Lists of identifiers\<close>

definition maxSelectedColumns :: nat where "maxSelectedColumns = 200"
definition maxRuleIDs :: nat where "maxRuleIDs = 500"

text \<open>The pattern \<open>^[a-zA-Z_][a-zA-Z0-9_]*$\<close>.\<close>

definition identifierRe :: "string \<Rightarrow> bool" where
  "identifierRe s = (case s of [] \<Rightarrow> False | c # cs \<Rightarrow> ident_start c \<and> list_all ident_rest cs)"

definition list_details :: "(string \<Rightarrow> bool) \<Rightarrow> string \<Rightarrow> string \<Rightarrow> string list \<Rightarrow> ErrorDetail list" where
  "list_details ok hint field values = concat (map (\<lambda>(i, v). if ok v then []
     else [detail (field @ ''['' @ nat_str i @ '']'') ''invalid'' hint]) (enumerate 0 values))"

definition validateIdentifierList :: "string \<Rightarrow> string list \<Rightarrow> ErrorDetail list" where
  "validateIdentifierList = list_details identifierRe ''Must match ^[a-zA-Z_][a-zA-Z0-9_]*$''"

definition validateUUIDList :: "RuleHandler \<Rightarrow> string \<Rightarrow> string list \<Rightarrow> ErrorDetail list" where
  "validateUUIDList h = list_details (rh_uuid_ok h) ''Must be a UUID''"

fun dedupe_from :: "string list \<Rightarrow> string list \<Rightarrow> string list" where
  "dedupe_from seen [] = []"
| "dedupe_from seen (v # vs) = (if v \<in> set seen then dedupe_from seen vs else v # dedupe_from (v # seen) vs)"

definition dedupePreserveOrder :: "string list \<Rightarrow> string list" where
  "dedupePreserveOrder values = dedupe_from [] values"

definition applyAddRemove :: "string list \<Rightarrow> string list \<Rightarrow> string list \<Rightarrow> string list" where
  "applyAddRemove current add remove = (let kept = keep_new remove [] current in kept @ keep_new remove kept add)"

subsection \<open>Requests and answers\<close>

record positionInput =
  po_x :: f64
  po_y :: f64

record machineUnitRequest =
  mr_id :: string
  mr_name :: string
  mr_connection :: string
  mr_table :: string
  mr_timestamp :: string
  mr_columns :: "string list"
  mr_live :: "goval option"
  mr_rules :: "string list"
  mr_pos :: "positionInput option"
  mr_line :: string

record machineUnitResponse =
  ma_id :: string
  ma_name :: string
  ma_connection :: string
  ma_table :: string
  ma_timestamp :: string
  ma_columns :: "string list"
  ma_live :: goval
  ma_rules :: "string list"
  ma_pos :: positionInput
  ma_line :: string

text \<open>The field \<open>rule\<close> of a request: null and any object count as an empty list.\<close>

definition decode_ruleIDList :: "goval \<Rightarrow> string list res" where
  "decode_ruleIDList v = (case v of VNil \<Rightarrow> Inr [] | VMap _ \<Rightarrow> Inr [] | _ \<Rightarrow> json_list json_string v)"

definition normalizeRawMessage :: "goval option \<Rightarrow> goval" where
  "normalizeRawMessage raw = (case raw of None \<Rightarrow> VList [] | Some v \<Rightarrow> v)"

definition buildMachineUnitResponse :: "MachineUnit \<Rightarrow> machineUnitResponse" where
  "buildMachineUnitResponse u = \<lparr> ma_id = mu_id u, ma_name = mu_name u, ma_connection = mu_connection u,
     ma_table = mu_table u, ma_timestamp = mu_timestamp u, ma_columns = mu_columns u,
     ma_live = normalizeRawMessage (mu_live u), ma_rules = mu_rules u, ma_pos = \<lparr> po_x = mu_x u, po_y = mu_y u \<rparr>,
     ma_line = mu_line u \<rparr>"

definition coordinate_details :: "string \<Rightarrow> f64 \<Rightarrow> ErrorDetail list" where
  "coordinate_details field x = (if isNaN x \<or> isInf0 x then [detail field ''invalid'' ''Must be a finite number'']
     else if flt x f0 \<or> fgt x (Fin 1) then [detail field ''out_of_range'' ''Must be between 0 and 1''] else [])"

definition validatePosition :: "positionInput \<Rightarrow> ErrorDetail list" where
  "validatePosition pos = coordinate_details ''pos.x'' (po_x pos) @ coordinate_details ''pos.y'' (po_y pos)"

definition writeValidationError :: "string \<Rightarrow> string \<Rightarrow> ErrorDetail list \<Rightarrow> 'a api_reply" where
  "writeValidationError code message details = ApiInvalid code message details"

subsection \<open>Validation against the tables\<close>

definition findMissingRuleIDs :: "string list \<Rightarrow> string list action" where
  "findMissingRuleIDs ids = s_bind (ListRuleIDs ids) (\<lambda>existing. s_return (Inr (filter (\<lambda>i. i \<notin> set existing) ids)))"

text \<open>A check that only adds details: it never fails itself.\<close>

definition connection_details :: "RuleHandler \<Rightarrow> string \<Rightarrow> PgEnv \<Rightarrow> RuleStore \<Rightarrow> ErrorDetail list \<times> RuleStore" where
  "connection_details h ref env s =
     (if ref = [] then ([detail ''connectionRef'' ''missing'' ''Provide connectionRef''], s)
      else if \<not> rh_uuid_ok h ref then ([detail ''connectionRef'' ''invalid'' ''Must be a UUID''], s)
      else case ConnectionExists ref env s of
        (Inl _, s') \<Rightarrow> ([detail ''connectionRef'' ''invalid'' ''Failed to validate connectionRef''], s')
      | (Inr ok, s') \<Rightarrow> (if ok then [] else [detail ''connectionRef'' ''not_found'' ''Provide a valid connectionRef''], s'))"

definition missing_hint :: "string list \<Rightarrow> string" where
  "missing_hint missing = ''Missing: '' @ join missing '', ''"

definition rule_details :: "RuleHandler \<Rightarrow> string list \<Rightarrow> PgEnv \<Rightarrow> RuleStore \<Rightarrow> ErrorDetail list \<times> RuleStore" where
  "rule_details h ruleIDs env s = (if maxRuleIDs < length ruleIDs then ([detail ''rule'' ''max'' ''Maximum 500 rules''], s)
     else let uuids = validateUUIDList h ''rule'' ruleIDs in
       if ruleIDs = [] then (uuids, s)
       else case findMissingRuleIDs ruleIDs env s of
         (Inl _, s') \<Rightarrow> (uuids @ [detail ''rule'' ''invalid'' ''Failed to validate rule ids''], s')
       | (Inr missing, s') \<Rightarrow> (uuids @ (if missing = [] then [] else [detail ''rule'' ''not_found'' (missing_hint missing)]), s'))"

definition validateMachineUnitRequest :: "RuleHandler \<Rightarrow> machineUnitRequest \<Rightarrow> PgEnv \<Rightarrow> RuleStore
    \<Rightarrow> (MachineUnit \<times> ErrorDetail list) \<times> RuleStore" where
  "validateMachineUnitRequest h req env s =
     (let unitName = trim_space (mr_name req);
        names = (if unitName = [] then [detail ''unitName'' ''missing'' ''Provide unitName''] else []);
        connectionRef = trim_space (mr_connection req);
        (refs, s1) = connection_details h connectionRef env s;
        table = trim_space (mr_table req);
        tables = (if table = [] then [detail ''selectedTable'' ''missing'' ''Provide selectedTable'']
          else if \<not> identifierRe table then [detail ''selectedTable'' ''invalid'' ''Use a valid table identifier''] else []);
        timestamp = trim_space (mr_timestamp req);
        timestamps = (if timestamp \<noteq> [] \<and> \<not> identifierRe timestamp
          then [detail ''timestampColumn'' ''invalid'' ''Use a valid column identifier''] else []);
        columns = dedupePreserveOrder (mr_columns req);
        cols = (if maxSelectedColumns < length columns then [detail ''selectedColumns'' ''max'' ''Maximum 200 columns'']
          else validateIdentifierList ''selectedColumns'' columns);
        ruleIDs = dedupePreserveOrder (mr_rules req);
        (ruls, s2) = rule_details h ruleIDs env s1;
        positions = (case mr_pos req of None \<Rightarrow> [] | Some p \<Rightarrow> validatePosition p);
        pos = (case mr_pos req of None \<Rightarrow> \<lparr> po_x = f0, po_y = f0 \<rparr>
          | Some p \<Rightarrow> if validatePosition p \<noteq> [] then \<lparr> po_x = f0, po_y = f0 \<rparr> else p)
      in ((\<lparr> mu_id = [], mu_name = unitName, mu_connection = connectionRef, mu_table = table, mu_timestamp = timestamp,
             mu_columns = columns, mu_live = Some (normalizeRawMessage (mr_live req)), mu_rules = ruleIDs,
             mu_x = po_x pos, mu_y = po_y pos, mu_line = trim_space (mr_line req), mu_created = 0, mu_updated = 0 \<rparr>,
           names @ refs @ tables @ timestamps @ cols @ ruls @ positions), s2))"

subsection \<open>Machine units\<close>

text \<open>\<open>ErrNotFound\<close> is a 404, any other error a 500.\<close>

definition unit_error :: "string \<Rightarrow> store_error \<Rightarrow> 'a api_reply" where
  "unit_error message e = (if e = NotFound then ApiMessage 404 ''machine unit not found'' else ApiMessage 500 message)"

definition answer_unit :: "MachineUnit \<Rightarrow> machineUnitResponse handler" where
  "answer_unit u = respond (ApiOK 200 (buildMachineUnitResponse u))"

definition invalid_unit :: "ErrorDetail list \<Rightarrow> 'a handler" where
  "invalid_unit details = respond (writeValidationError ''VALIDATION_ERROR'' ''invalid machine unit request'' details)"

definition handleMachineUnitCreate :: "RuleHandler \<Rightarrow> machineUnitRequest res \<Rightarrow> machineUnitResponse handler" where
  "handleMachineUnitCreate h body = with_body body (\<lambda>req env s.
     case validateMachineUnitRequest h req env s of ((u, details), s1) \<Rightarrow>
       (if details \<noteq> [] then invalid_unit details
        else if trim_space (mr_id req) \<noteq> [] then
          on_ok (GetMachineUnit (mr_id req)) (\<lambda>e. if e = NotFound
              then writeValidationError ''UNIT_ID_NOT_ALLOWED'' ''unitId is server-generated''
                [detail ''unitId'' ''not_allowed'' ''Remove unitId or use an existing unitId'']
              else ApiMessage 500 ''failed to fetch machine unit'') (\<lambda>_.
          on_ok (UpdateMachineUnit (u \<lparr> mu_id := mr_id req \<rparr>)) (\<lambda>_. ApiMessage 500 ''failed to update machine unit'') answer_unit)
        else on_ok (\<lambda>env s. CreateMachineUnit (u \<lparr> mu_id := ''machine-'' @ pg_fresh env (rs_step s) \<rparr>) env s)
          (\<lambda>_. ApiMessage 500 ''failed to create machine unit'') answer_unit) env s1)"

definition handleMachineUnitList :: "machineUnitResponse list handler" where
  "handleMachineUnitList = on_ok ListMachineUnits (\<lambda>_. ApiMessage 500 ''failed to list machine units'')
     (\<lambda>us. respond (ApiOK 200 (map buildMachineUnitResponse us)))"

definition handleMachineUnitGet :: "string \<Rightarrow> machineUnitResponse handler" where
  "handleMachineUnitGet unitID = on_ok (GetMachineUnit unitID) (unit_error ''failed to fetch machine unit'') answer_unit"

definition handleMachineUnitUpdate :: "RuleHandler \<Rightarrow> string \<Rightarrow> machineUnitRequest res \<Rightarrow> machineUnitResponse handler" where
  "handleMachineUnitUpdate h unitID body = with_body body (\<lambda>req.
     if trim_space (mr_id req) \<noteq> [] \<and> mr_id req \<noteq> unitID
     then respond (writeValidationError ''UNIT_ID_IMMUTABLE'' ''unitId cannot be changed''
       [detail ''unitId'' ''immutable'' ''unitId in path must be preserved''])
     else (\<lambda>env s. case validateMachineUnitRequest h req env s of ((u, details), s1) \<Rightarrow>
       (if details \<noteq> [] then invalid_unit details
        else on_ok (UpdateMachineUnit (u \<lparr> mu_id := unitID \<rparr>)) (unit_error ''failed to update machine unit'') answer_unit) env s1))"

definition handleMachineUnitDelete :: "string \<Rightarrow> unit handler" where
  "handleMachineUnitDelete unitID = on_ok (DeleteMachineUnit unitID) (unit_error ''failed to delete machine unit'')
     (\<lambda>_. respond (ApiOK 200 ()))"

record updateListRequest =
  ul_add :: "string list"
  ul_remove :: "string list"

text \<open>The first complaints of two lists stop the handler.\<close>

definition check_lists :: "string \<Rightarrow> ErrorDetail list \<Rightarrow> ErrorDetail list \<Rightarrow> 'a handler \<Rightarrow> 'a handler" where
  "check_lists message d1 d2 k = (if d1 \<noteq> [] then respond (writeValidationError ''VALIDATION_ERROR'' message d1)
     else if d2 \<noteq> [] then respond (writeValidationError ''VALIDATION_ERROR'' message d2) else k)"

definition limit_exceeded :: "string \<Rightarrow> string \<Rightarrow> string \<Rightarrow> 'a handler" where
  "limit_exceeded message field hint = respond (writeValidationError ''LIMIT_EXCEEDED'' message [detail field ''max'' hint])"

definition handleMachineUnitRules :: "RuleHandler \<Rightarrow> string \<Rightarrow> updateListRequest res \<Rightarrow> machineUnitResponse handler" where
  "handleMachineUnitRules h unitID body = with_body body (\<lambda>req.
     let add = dedupePreserveOrder (ul_add req); remove = dedupePreserveOrder (ul_remove req) in
     check_lists ''invalid rule ids'' (validateUUIDList h ''rule.add'' add) (validateUUIDList h ''rule.remove'' remove)
     (on_ok (findMissingRuleIDs add) (\<lambda>_. ApiMessage 500 ''failed to validate rule ids'') (\<lambda>missing.
      if missing \<noteq> [] then respond (writeValidationError ''RULES_NOT_FOUND'' ''some rule ids do not exist''
        [detail ''rule.add'' ''not_found'' (missing_hint missing)])
      else on_ok (GetMachineUnit unitID) (unit_error ''failed to fetch machine unit'') (\<lambda>current.
        if maxRuleIDs < length (applyAddRemove (mu_rules current) add remove)
        then limit_exceeded ''rule limit exceeded'' ''rule'' ''Maximum 500 rules per unit''
        else on_ok (UpdateRules unitID add remove) (unit_error ''failed to update rule ids'') answer_unit))))"

definition handleMachineUnitColumns :: "string \<Rightarrow> updateListRequest res \<Rightarrow> machineUnitResponse handler" where
  "handleMachineUnitColumns unitID body = with_body body (\<lambda>req.
     let add = dedupePreserveOrder (ul_add req); remove = dedupePreserveOrder (ul_remove req) in
     check_lists ''invalid selectedColumns'' (validateIdentifierList ''selectedColumns.add'' add)
       (validateIdentifierList ''selectedColumns.remove'' remove)
     (on_ok (GetMachineUnit unitID) (unit_error ''failed to fetch machine unit'') (\<lambda>current.
       if maxSelectedColumns < length (applyAddRemove (mu_columns current) add remove)
       then limit_exceeded ''selectedColumns limit exceeded'' ''selectedColumns'' ''Maximum 200 columns''
       else on_ok (UpdateColumns unitID add remove) (unit_error ''failed to update selected columns'') answer_unit)))"

definition handleMachineUnitColumnsReplace :: "string \<Rightarrow> string list res \<Rightarrow> machineUnitResponse handler" where
  "handleMachineUnitColumnsReplace unitID body = with_body body (\<lambda>requested.
     let columns = dedupePreserveOrder requested in
     if maxSelectedColumns < length columns
     then limit_exceeded ''selectedColumns limit exceeded'' ''selectedColumns'' ''Maximum 200 columns''
     else check_lists ''invalid selectedColumns'' (validateIdentifierList ''selectedColumns'' columns) []
       (on_ok (GetMachineUnit unitID) (unit_error ''failed to fetch machine unit'') (\<lambda>current.
         on_ok (UpdateColumns unitID columns (mu_columns current)) (unit_error ''failed to update selected columns'') answer_unit)))"

record updateTableRequest =
  tr_table :: string
  tr_columns :: "string list"
  tr_keep :: bool

definition handleMachineUnitTable :: "string \<Rightarrow> updateTableRequest res \<Rightarrow> machineUnitResponse handler" where
  "handleMachineUnitTable unitID body = with_body body (\<lambda>req.
     if trim_space (tr_table req) = [] \<or> \<not> identifierRe (tr_table req)
     then respond (writeValidationError ''VALIDATION_ERROR'' ''invalid selectedTable''
       [detail ''selectedTable'' ''invalid'' ''Use a valid table identifier''])
     else let clean = dedupePreserveOrder (tr_columns req);
        columns = (if tr_columns req = [] then None else Some clean);
        store = on_ok (UpdateTable unitID (tr_table req) columns (tr_keep req)) (unit_error ''failed to update selected table'') answer_unit
       in if columns = None then store
          else if maxSelectedColumns < length clean
          then limit_exceeded ''selectedColumns limit exceeded'' ''selectedColumns'' ''Maximum 200 columns''
          else check_lists ''invalid selectedColumns'' (validateIdentifierList ''selectedColumns'' clean) [] store)"

definition handleMachineUnitConnection :: "RuleHandler \<Rightarrow> string \<Rightarrow> string res \<Rightarrow> machineUnitResponse handler" where
  "handleMachineUnitConnection h unitID body = with_body body (\<lambda>ref.
     if trim_space ref = [] then respond (writeValidationError ''VALIDATION_ERROR'' ''missing connectionRef''
       [detail ''connectionRef'' ''missing'' ''Provide connectionRef''])
     else if \<not> rh_uuid_ok h ref then respond (writeValidationError ''VALIDATION_ERROR'' ''invalid connectionRef''
       [detail ''connectionRef'' ''invalid'' ''Must be a UUID''])
     else on_ok (ConnectionExists ref) (\<lambda>_. ApiMessage 500 ''failed to validate connectionRef'') (\<lambda>exists.
       if \<not> exists then respond (writeValidationError ''CONNECTION_NOT_FOUND'' ''connectionRef does not exist''
         [detail ''connectionRef'' ''not_found'' ''Provide a valid connectionRef''])
       else on_ok (UpdateConnection unitID ref) (unit_error ''failed to update connection'') answer_unit))"

definition handleMachineUnitPosition :: "string \<Rightarrow> positionInput res \<Rightarrow> machineUnitResponse handler" where
  "handleMachineUnitPosition unitID body = with_body body (\<lambda>pos.
     if validatePosition pos \<noteq> [] then respond (writeValidationError ''VALIDATION_ERROR'' ''invalid position'' (validatePosition pos))
     else on_ok (UpdatePosition unitID (po_x pos) (po_y pos)) (unit_error ''failed to update position'') answer_unit)"

end
