(* ===== verification/RuleLines.thy ===== *)
theory RuleLines
  imports Main RuleUnits
begin

text \<open>
  The statistics of machine units (the second half of \<open>internal/api/machine_units.go\<close>) and the
  production lines with their wires (\<open>production_lines.go\<close>). Instants are printed in UTC.
\<close>

subsection \<open>Parameter statistics\<close>

record parameterStatInput =
  pi_parameter :: string
  pi_column :: string
  pi_table :: string
  pi_rows :: int
  pi_avg :: "f64 option"
  pi_min :: "f64 option"
  pi_max :: "f64 option"
  pi_std :: "f64 option"
  pi_s2_lower :: "f64 option"
  pi_s2_upper :: "f64 option"
  pi_s3_lower :: "f64 option"
  pi_s3_upper :: "f64 option"

record parameterStatOutput =
  pt_id :: string
  pt_parameter :: string
  pt_column :: string
  pt_table :: string
  pt_rows :: int
  pt_avg :: "f64 option"
  pt_min :: "f64 option"
  pt_max :: "f64 option"
  pt_std :: "f64 option"
  pt_s2_lower :: "f64 option"
  pt_s2_upper :: "f64 option"
  pt_s3_lower :: "f64 option"
  pt_s3_upper :: "f64 option"
  pt_computed :: string

definition stat_complete :: "parameterStatInput \<Rightarrow> bool" where
  "stat_complete p = (pi_parameter p \<noteq> [] \<and> pi_column p \<noteq> [] \<and> pi_table p \<noteq> [])"

definition stat_record :: "string \<Rightarrow> string \<Rightarrow> parameterStatInput \<Rightarrow> ParameterStats" where
  "stat_record ident unitID p = \<lparr> ps_id = ident, ps_unit = unitID, ps_parameter = pi_parameter p, ps_column = pi_column p,
     ps_table = pi_table p, ps_rows = pi_rows p, ps_avg = pi_avg p, ps_min = pi_min p, ps_max = pi_max p,
     ps_std = pi_std p, ps_s2_lower = pi_s2_lower p, ps_s2_upper = pi_s2_upper p, ps_s3_lower = pi_s3_lower p,
     ps_s3_upper = pi_s3_upper p, ps_computed = 0 \<rparr>"

text \<open>The loop checks a statistic, stores it and goes on, so what came before a refusal stays stored.\<close>

fun upsert_stats :: "string \<Rightarrow> parameterStatInput list \<Rightarrow> int \<Rightarrow> int handler" where
  "upsert_stats unitID [] n = respond (ApiOK 200 n)"
| "upsert_stats unitID (p # ps) n = (if \<not> stat_complete p
     then respond (ApiMessage 400 ''parameterId, columnName and tableName are required'')
     else on_ok (\<lambda>env s. UpsertParameterStats (stat_record (pg_fresh env (rs_step s)) unitID p) env s)
       (\<lambda>_. ApiMessage 500 ''db error'') (\<lambda>_. upsert_stats unitID ps n))"

definition handleUpsertParameterStats :: "string \<Rightarrow> parameterStatInput list res \<Rightarrow> int handler" where
  "handleUpsertParameterStats unitID body = (if trim_space unitID = [] then respond (ApiMessage 400 ''invalid unit id'')
     else case body of Inl _ \<Rightarrow> respond (ApiMessage 400 ''invalid json'')
     | Inr stats \<Rightarrow> if stats = [] then respond (ApiMessage 400 ''stats array is empty'')
         else upsert_stats unitID stats (int (length stats)))"

definition stat_output :: "ParameterStats \<Rightarrow> parameterStatOutput" where
  "stat_output p = \<lparr> pt_id = ps_id p, pt_parameter = ps_parameter p, pt_column = ps_column p, pt_table = ps_table p,
     pt_rows = ps_rows p, pt_avg = ps_avg p, pt_min = ps_min p, pt_max = ps_max p, pt_std = ps_std p,
     pt_s2_lower = ps_s2_lower p, pt_s2_upper = ps_s2_upper p, pt_s3_lower = ps_s3_lower p, pt_s3_upper = ps_s3_upper p,
     pt_computed = format_rfc3339 (ps_computed p) \<rparr>"

definition handleListParameterStats :: "string \<Rightarrow> parameterStatOutput list handler" where
  "handleListParameterStats unitID = (if trim_space unitID = [] then respond (ApiMessage 400 ''invalid unit id'')
     else on_ok (ListParameterStatsByUnit unitID) (\<lambda>_. ApiMessage 500 ''db error'')
       (\<lambda>records. respond (ApiOK 200 (map stat_output records))))"

subsection \<open>Production lines\<close>

record productionLineResponse =
  pl_id :: string
  pl_name :: string
  pl_created :: string
  pl_updated :: string

definition buildProductionLineResponse :: "ProductionLine \<Rightarrow> productionLineResponse" where
  "buildProductionLineResponse l = \<lparr> pl_id = ln_id l, pl_name = ln_name l, pl_created = format_rfc3339 (ln_created l),
     pl_updated = format_rfc3339 (ln_updated l) \<rparr>"

definition line_error :: "string \<Rightarrow> store_error \<Rightarrow> 'a api_reply" where
  "line_error message e = (if e = NotFound then ApiMessage 404 ''production line not found'' else ApiMessage 500 message)"

definition answer_line :: "int \<Rightarrow> ProductionLine \<Rightarrow> productionLineResponse handler" where
  "answer_line status l = respond (ApiOK status (buildProductionLineResponse l))"

definition with_line_name :: "string res \<Rightarrow> (string \<Rightarrow> 'a handler) \<Rightarrow> 'a handler" where
  "with_line_name body k = with_body body (\<lambda>lineName. let name = trim_space lineName in
     if name = [] then respond (writeValidationError ''VALIDATION_ERROR'' ''lineName is required''
       [detail ''lineName'' ''missing'' ''Provide lineName''])
     else k name)"

definition handleProductionLineCreate :: "string res \<Rightarrow> productionLineResponse handler" where
  "handleProductionLineCreate body = with_line_name body (\<lambda>name. on_ok (CreateProductionLine name)
     (\<lambda>_. ApiMessage 500 ''failed to create production line'') (answer_line 201))"

definition handleProductionLineList :: "productionLineResponse list handler" where
  "handleProductionLineList = on_ok ListProductionLines (\<lambda>_. ApiMessage 500 ''failed to list production lines'')
     (\<lambda>ls. respond (ApiOK 200 (map buildProductionLineResponse ls)))"

definition handleProductionLineGet :: "string \<Rightarrow> productionLineResponse handler" where
  "handleProductionLineGet lineID = on_ok (GetProductionLine lineID) (line_error ''failed to fetch production line'') (answer_line 200)"

definition handleProductionLineUpdate :: "string \<Rightarrow> string res \<Rightarrow> productionLineResponse handler" where
  "handleProductionLineUpdate lineID body = with_line_name body (\<lambda>name. on_ok (UpdateProductionLine lineID name)
     (line_error ''failed to update production line'') (answer_line 200))"

definition handleProductionLineDelete :: "string \<Rightarrow> unit handler" where
  "handleProductionLineDelete lineID = on_ok (DeleteProductionLine lineID) (line_error ''failed to delete production line'')
     (\<lambda>_. respond (ApiOK 200 ()))"

definition handleProductionLineMachineUnits :: "string \<Rightarrow> machineUnitResponse list handler" where
  "handleProductionLineMachineUnits lineID = on_ok (GetProductionLine lineID) (line_error ''failed to fetch production line'') (\<lambda>_.
     on_ok (ListMachineUnitsByLine lineID) (\<lambda>_. ApiMessage 500 ''failed to list machine units'')
       (\<lambda>us. respond (ApiOK 200 (map buildMachineUnitResponse us))))"

subsection \<open>Wires\<close>

record wireRequest =
  wq_id :: string
  wq_source :: string
  wq_target :: string
  wq_source_x :: f64
  wq_source_y :: f64
  wq_target_x :: f64
  wq_target_y :: f64
  wq_label :: string

text \<open>A wire of an answer has the fields of a wire of a request.\<close>

definition wireToResponse :: "CanvasWire \<Rightarrow> wireRequest" where
  "wireToResponse w = \<lparr> wq_id = wi_id w, wq_source = wi_source w, wq_target = wi_target w, wq_source_x = wi_source_x w,
     wq_source_y = wi_source_y w, wq_target_x = wi_target_x w, wq_target_y = wi_target_y w, wq_label = wi_label w \<rparr>"

definition wire_of_request :: "string \<Rightarrow> wireRequest \<Rightarrow> CanvasWire" where
  "wire_of_request lineID q = \<lparr> wi_id = wq_id q, wi_line = lineID, wi_source = wq_source q, wi_target = wq_target q,
     wi_source_x = wq_source_x q, wi_source_y = wq_source_y q, wi_target_x = wq_target_x q, wi_target_y = wq_target_y q,
     wi_label = wq_label q, wi_created = 0 \<rparr>"

definition handleProductionLineWiresList :: "string \<Rightarrow> wireRequest list handler" where
  "handleProductionLineWiresList lineID = (if lineID = [] then respond (ApiMessage 400 ''lineId required'')
     else on_ok (ListWiresByLine lineID) (\<lambda>_. ApiMessage 500 ''failed to list wires'')
       (\<lambda>ws. respond (ApiOK 200 (map wireToResponse ws))))"

definition handleProductionLineWiresReplace :: "string \<Rightarrow> wireRequest list res \<Rightarrow> wireRequest list handler" where
  "handleProductionLineWiresReplace lineID body = (if lineID = [] then respond (ApiMessage 400 ''lineId required'')
     else case body of Inl _ \<Rightarrow> respond (ApiMessage 400 ''invalid body'')
     | Inr wires \<Rightarrow> on_ok (ReplaceWiresForLine lineID (map (wire_of_request lineID) wires))
         (\<lambda>_. ApiMessage 500 ''failed to save wires'') (\<lambda>saved. respond (ApiOK 200 (map wireToResponse saved))))"

end
