(* ===== verification/RuleStepper.thy ===== *)
theory RuleStepper
  imports Main RuleUnits Stepper
begin

text \<open>
  The stepper rules of the rule service (\<open>internal/api/stepper_*.go\<close>): the conversion of a
  rule the user interface stores into the rule the scheduler runs, the handlers that store
  such rules and keep the table \<open>rules\<close> in step with them, and the endpoints that ask the
  connector service for a schema or the scheduler for a baseline check or a preview. The
  two services are a parameter: the answer to a POST, by the number of the step. A type of
  the database goes back as the JSON it was stored as.
\<close>

subsection \<open>Parameter identifiers (\<open>stepper_parameters.go\<close>)\<close>

definition buildParameterID :: "string \<Rightarrow> string \<Rightarrow> string" where
  "buildParameterID table column = table @ ''.'' @ column"

definition parseParameterID :: "string \<Rightarrow> string \<times> string" where
  "parseParameterID p = (case split_first CHR 0x2E p of [t, c] \<Rightarrow> (t, c) | _ \<Rightarrow> ([], []))"

definition parameterInUnit :: "string \<Rightarrow> string list \<Rightarrow> string \<Rightarrow> bool" where
  "parameterInUnit table columns p = (let (t, c) = parseParameterID p in
     t \<noteq> [] \<and> c \<noteq> [] \<and> t = table \<and> c \<in> set columns)"

definition api_isNumericType :: "string \<Rightarrow> bool" where
  "api_isNumericType t = (let v = to_lower t in
     contains_sub v ''int'' \<or> contains_sub v ''decimal'' \<or> contains_sub v ''numeric''
     \<or> contains_sub v ''float'' \<or> contains_sub v ''double'' \<or> contains_sub v ''real'')"

definition api_isTimeType :: "string \<Rightarrow> bool" where
  "api_isTimeType t = (let v = to_lower t in contains_sub v ''time'' \<or> contains_sub v ''date'')"

definition pickTimestampColumn :: "string list \<Rightarrow> string" where
  "pickTimestampColumn candidates =
     (case find (\<lambda>n. let l = to_lower n in l = ''ts'' \<or> l = ''timestamp'' \<or> contains_sub l ''time'') candidates of
       Some n \<Rightarrow> n | None \<Rightarrow> (case candidates of [] \<Rightarrow> [] | n # _ \<Rightarrow> n))"

subsection \<open>The configuration of a stepper rule (\<open>stepper_sync.go\<close>)\<close>

record baselineSelector =
  bs_kind :: string
  bs_value :: "int option"
  bs_start :: string
  bs_end :: string

record stepperBaseline =
  sb_selector :: "baselineSelector option"
  sb_last_n :: "int option"
  sb_range :: "TimeRangeSpec option"

record stepperSubgrouping =
  ss_kind :: string
  ss_column :: string
  ss_size :: "int option"

record stepperConfig =
  sy_window_size :: "int option"
  sy_epsilon :: "f64 option"
  sy_consecutive :: "bool option"
  sy_min_n :: "int option"
  sy_sigma :: "f64 option"
  sy_baseline :: "stepperBaseline option"
  sy_sub_size :: "int option"
  sy_min_subgroups :: "int option"
  sy_subgrouping :: "stepperSubgrouping option"
  sy_mode :: string
  sy_flat_usl :: "f64 option"
  sy_flat_lsl :: "f64 option"
  sy_flat_ucl :: "f64 option"
  sy_flat_lcl :: "f64 option"
  sy_spec :: "SpecLimitBounds option"
  sy_control :: "ControlLimitBounds option"
  sy_window_n :: "int option"
  sy_basis :: string
  sy_slope :: "f64 option"
  sy_time_to_spec :: "f64 option"
  sy_require :: "bool option"
  sy_poll :: "int option"
  sy_cooldown :: "int option"

definition empty_config :: stepperConfig where
  "empty_config = \<lparr> sy_window_size = None, sy_epsilon = None, sy_consecutive = None, sy_min_n = None, sy_sigma = None,
     sy_baseline = None, sy_sub_size = None, sy_min_subgroups = None, sy_subgrouping = None, sy_mode = [],
     sy_flat_usl = None, sy_flat_lsl = None, sy_flat_ucl = None, sy_flat_lcl = None, sy_spec = None, sy_control = None,
     sy_window_n = None, sy_basis = [], sy_slope = None, sy_time_to_spec = None, sy_require = None, sy_poll = None,
     sy_cooldown = None \<rparr>"

text \<open>Decoding into pointers: a missing field or null is nil.\<close>

definition json_ptr :: "(goval \<Rightarrow> 'a res) \<Rightarrow> goval \<Rightarrow> 'a option res" where
  "json_ptr f v = (if v = VNil then Inr None else case f v of Inl e \<Rightarrow> Inl e | Inr x \<Rightarrow> Inr (Some x))"

definition json_float :: "goval \<Rightarrow> f64 res" where
  "json_float v = (case v of VFloat x \<Rightarrow> Inr x | VInt z \<Rightarrow> Inr (f_of_int z) | VNil \<Rightarrow> Inr f0
     | _ \<Rightarrow> Inl ''json: cannot unmarshal value into Go value of type float64'')"

definition json_bool :: "goval \<Rightarrow> bool res" where
  "json_bool v = (case v of VBool b \<Rightarrow> Inr b | VNil \<Rightarrow> Inr False
     | _ \<Rightarrow> Inl ''json: cannot unmarshal value into Go value of type bool'')"

definition and_then :: "'a res \<Rightarrow> ('a \<Rightarrow> 'b res) \<Rightarrow> 'b res" where
  "and_then r k = (case r of Inl e \<Rightarrow> Inl e | Inr x \<Rightarrow> k x)"

definition opt_field :: "(goval \<Rightarrow> 'a res) \<Rightarrow> string \<Rightarrow> (string \<times> goval) list \<Rightarrow> ('a option \<Rightarrow> 'b res) \<Rightarrow> 'b res" where
  "opt_field f name kvs k = and_then (field_or None (json_ptr f) name kvs) k"

definition text_field :: "string \<Rightarrow> (string \<times> goval) list \<Rightarrow> (string \<Rightarrow> 'b res) \<Rightarrow> 'b res" where
  "text_field name kvs k = and_then (field_or [] json_string name kvs) k"

definition decode_selector :: "goval \<Rightarrow> baselineSelector res" where
  "decode_selector v = and_then (json_object v) (\<lambda>kvs. text_field ''kind'' kvs (\<lambda>kind. opt_field json_int ''value'' kvs
     (\<lambda>value. text_field ''start'' kvs (\<lambda>start. text_field ''end'' kvs (\<lambda>stop.
     Inr \<lparr> bs_kind = kind, bs_value = value, bs_start = start, bs_end = stop \<rparr>)))))"

definition decode_range :: "goval \<Rightarrow> TimeRangeSpec res" where
  "decode_range v = and_then (json_object v) (\<lambda>kvs. text_field ''start'' kvs (\<lambda>start. text_field ''end'' kvs (\<lambda>stop.
     Inr \<lparr> tr_start = start, tr_end = stop \<rparr>)))"

definition decode_baseline :: "goval \<Rightarrow> stepperBaseline res" where
  "decode_baseline v = and_then (json_object v) (\<lambda>kvs. opt_field decode_selector ''selector'' kvs (\<lambda>sel.
     opt_field json_int ''lastN'' kvs (\<lambda>lastN. opt_field decode_range ''timeRange'' kvs (\<lambda>range.
     Inr \<lparr> sb_selector = sel, sb_last_n = lastN, sb_range = range \<rparr>))))"

definition decode_subgrouping :: "goval \<Rightarrow> stepperSubgrouping res" where
  "decode_subgrouping v = and_then (json_object v) (\<lambda>kvs. text_field ''kind'' kvs (\<lambda>kind. text_field ''column'' kvs (\<lambda>column.
     opt_field json_int ''subgroupSize'' kvs (\<lambda>n. Inr \<lparr> ss_kind = kind, ss_column = column, ss_size = n \<rparr>))))"

definition decode_spec_bounds :: "goval \<Rightarrow> SpecLimitBounds res" where
  "decode_spec_bounds v = and_then (json_object v) (\<lambda>kvs. opt_field json_float ''usl'' kvs (\<lambda>usl.
     opt_field json_float ''lsl'' kvs (\<lambda>lsl. Inr \<lparr> sb_usl = usl, sb_lsl = lsl \<rparr>)))"

definition decode_control_bounds :: "goval \<Rightarrow> ControlLimitBounds res" where
  "decode_control_bounds v = and_then (json_object v) (\<lambda>kvs. opt_field json_float ''ucl'' kvs (\<lambda>ucl.
     opt_field json_float ''lcl'' kvs (\<lambda>lcl. Inr \<lparr> cb_ucl = ucl, cb_lcl = lcl \<rparr>)))"

definition decode_config :: "goval \<Rightarrow> stepperConfig res" where
  "decode_config v = and_then (json_object v) (\<lambda>kvs.
     opt_field json_int ''windowSize'' kvs (\<lambda>windowSize. opt_field json_float ''epsilon'' kvs (\<lambda>epsilon.
     opt_field json_bool ''requireConsecutiveTimestamps'' kvs (\<lambda>consecutive. opt_field json_int ''minBaselineN'' kvs (\<lambda>minN.
     opt_field json_float ''sigmaMultiplier'' kvs (\<lambda>sigma. opt_field decode_baseline ''baseline'' kvs (\<lambda>baseline.
     opt_field json_int ''subgroupSize'' kvs (\<lambda>subSize. opt_field json_int ''minBaselineSubgroups'' kvs (\<lambda>minSubgroups.
     opt_field decode_subgrouping ''subgrouping'' kvs (\<lambda>subgrouping. text_field ''mode'' kvs (\<lambda>mode.
     opt_field json_float ''specLimits.usl'' kvs (\<lambda>usl. opt_field json_float ''specLimits.lsl'' kvs (\<lambda>lsl.
     opt_field json_float ''controlLimits.ucl'' kvs (\<lambda>ucl. opt_field json_float ''controlLimits.lcl'' kvs (\<lambda>lcl.
     opt_field decode_spec_bounds ''specLimits'' kvs (\<lambda>spec. opt_field decode_control_bounds ''controlLimits'' kvs (\<lambda>control.
     opt_field json_int ''windowN'' kvs (\<lambda>windowN. text_field ''regressionTimeBasis'' kvs (\<lambda>basis.
     opt_field json_float ''slopeThreshold'' kvs (\<lambda>slope. opt_field json_float ''timeToSpecThreshold'' kvs (\<lambda>tts.
     opt_field json_bool ''requireSpecLimits'' kvs (\<lambda>req. opt_field json_int ''pollIntervalSeconds'' kvs (\<lambda>poll.
     opt_field json_int ''cooldownSeconds'' kvs (\<lambda>cooldown.
     Inr \<lparr> sy_window_size = windowSize, sy_epsilon = epsilon, sy_consecutive = consecutive, sy_min_n = minN,
       sy_sigma = sigma, sy_baseline = baseline, sy_sub_size = subSize, sy_min_subgroups = minSubgroups,
       sy_subgrouping = subgrouping, sy_mode = mode, sy_flat_usl = usl, sy_flat_lsl = lsl, sy_flat_ucl = ucl,
       sy_flat_lcl = lcl, sy_spec = spec, sy_control = control, sy_window_n = windowN, sy_basis = basis,
       sy_slope = slope, sy_time_to_spec = tts, sy_require = req, sy_poll = poll, sy_cooldown = cooldown
     \<rparr>))))))))))))))))))))))))"

subsection \<open>The scheduler's rule\<close>

definition defaultStepperPollIntervalSeconds :: int where "defaultStepperPollIntervalSeconds = 60"

text \<open>\<open>if p != nil && *p > 0 { x = *p }\<close>\<close>

definition positive_or :: "int \<Rightarrow> int option \<Rightarrow> int" where
  "positive_or zero p = (case p of None \<Rightarrow> zero | Some n \<Rightarrow> if n > 0 then n else zero)"

definition value_or :: "'a \<Rightarrow> 'a option \<Rightarrow> 'a" where
  "value_or zero p = (case p of None \<Rightarrow> zero | Some x \<Rightarrow> x)"

definition text_or :: "string \<Rightarrow> string \<Rightarrow> string" where
  "text_or zero s = (if s \<noteq> [] then s else zero)"

definition no_baseline :: BaselineSpec where
  "no_baseline = \<lparr> bl_last_n = None, bl_time_range = None \<rparr>"

definition buildBaselineSpec :: "stepperConfig \<Rightarrow> BaselineSpec" where
  "buildBaselineSpec cfg = (case sy_baseline cfg of None \<Rightarrow> no_baseline
     | Some b \<Rightarrow>
         let lastN = (case sb_selector b of Some sel \<Rightarrow> if bs_kind sel = ''lastN'' then bs_value sel else None | None \<Rightarrow> None);
             range = (case sb_selector b of Some sel \<Rightarrow> if bs_kind sel = ''dateRange'' \<and> bs_start sel \<noteq> [] \<and> bs_end sel \<noteq> []
               then Some \<lparr> tr_start = bs_start sel, tr_end = bs_end sel \<rparr> else None | None \<Rightarrow> None)
         in if lastN \<noteq> None then no_baseline \<lparr> bl_last_n := lastN \<rparr>
            else if range \<noteq> None then no_baseline \<lparr> bl_time_range := range \<rparr>
            else if sb_last_n b \<noteq> None then no_baseline \<lparr> bl_last_n := sb_last_n b \<rparr>
            else if sb_range b \<noteq> None then no_baseline \<lparr> bl_time_range := sb_range b \<rparr>
            else no_baseline)"

definition sync_trend :: "stepperConfig \<Rightarrow> TrendSpec" where
  "sync_trend cfg = \<lparr> tn_window = positive_or 6 (sy_window_size cfg), tn_epsilon = value_or f0 (sy_epsilon cfg),
     tn_consecutive = value_or True (sy_consecutive cfg) \<rparr>"

definition sync_shewhart :: "string \<Rightarrow> stepperConfig \<Rightarrow> ShewhartSpec" where
  "sync_shewhart ruleType cfg = \<lparr> sh_baseline = buildBaselineSpec cfg,
     sh_sigma = (case sy_sigma cfg of Some x \<Rightarrow> if fgt x f0 then x else if ruleType = ''SHEWHART_2SIGMA'' then Fin 2 else Fin 3
       | None \<Rightarrow> if ruleType = ''SHEWHART_2SIGMA'' then Fin 2 else Fin 3),
     sh_min_n = positive_or 20 (sy_min_n cfg), sh_population = False \<rparr>"

definition sync_range_chart :: "stepperConfig \<Rightarrow> RangeChartSpec" where
  "sync_range_chart cfg = (let n = positive_or 5 (sy_sub_size cfg) in
     \<lparr> rc_size = (case sy_subgrouping cfg of None \<Rightarrow> n | Some g \<Rightarrow> positive_or n (ss_size g)),
       rc_subgrouping = \<lparr> sg_mode = (case sy_subgrouping cfg of None \<Rightarrow> ''consecutive'' | Some g \<Rightarrow> text_or ''consecutive'' (ss_kind g)),
         sg_column = (case sy_subgrouping cfg of None \<Rightarrow> [] | Some g \<Rightarrow> ss_column g) \<rparr>,
       rc_baseline = buildBaselineSpec cfg, rc_min_subgroups = positive_or 10 (sy_min_subgroups cfg) \<rparr>)"

definition sync_spec_limit :: "stepperConfig \<Rightarrow> SpecLimitSpec" where
  "sync_spec_limit cfg = \<lparr>
     sl_spec = (case sy_spec cfg of Some b \<Rightarrow> if sb_usl b \<noteq> None \<or> sb_lsl b \<noteq> None then Some b
         else if sy_flat_usl cfg \<noteq> None \<or> sy_flat_lsl cfg \<noteq> None
           then Some \<lparr> sb_usl = sy_flat_usl cfg, sb_lsl = sy_flat_lsl cfg \<rparr> else None
       | None \<Rightarrow> if sy_flat_usl cfg \<noteq> None \<or> sy_flat_lsl cfg \<noteq> None
           then Some \<lparr> sb_usl = sy_flat_usl cfg, sb_lsl = sy_flat_lsl cfg \<rparr> else None),
     sl_control = (case sy_control cfg of Some b \<Rightarrow> if cb_ucl b \<noteq> None \<or> cb_lcl b \<noteq> None then Some b
         else if sy_flat_ucl cfg \<noteq> None \<or> sy_flat_lcl cfg \<noteq> None
           then Some \<lparr> cb_ucl = sy_flat_ucl cfg, cb_lcl = sy_flat_lcl cfg \<rparr> else None
       | None \<Rightarrow> if sy_flat_ucl cfg \<noteq> None \<or> sy_flat_lcl cfg \<noteq> None
           then Some \<lparr> cb_ucl = sy_flat_ucl cfg, cb_lcl = sy_flat_lcl cfg \<rparr> else None),
     sl_mode = text_or ''spec'' (sy_mode cfg), sl_epsilon = sy_epsilon cfg \<rparr>"

definition sync_tpa :: "stepperConfig \<Rightarrow> TPASpec" where
  "sync_tpa cfg = \<lparr> tp_window = positive_or 5 (sy_window_n cfg), tp_basis = text_or ''timestamp'' (sy_basis cfg),
     tp_slope = sy_slope cfg, tp_time_to_spec = sy_time_to_spec cfg, tp_require_limits = value_or False (sy_require cfg),
     tp_limits = sy_spec cfg, tp_epsilon = value_or f0 (sy_epsilon cfg) \<rparr>"

definition sync_buildDetector :: "string \<Rightarrow> stepperConfig \<Rightarrow> DetectorSpec res" where
  "sync_buildDetector ruleType cfg =
     (if ruleType = ''TREND_6_POINTS'' then Inr (empty_detector \<lparr> d_type := ''trend'', d_trend := Some (sync_trend cfg) \<rparr>)
      else if ruleType = ''SHEWHART_3SIGMA'' \<or> ruleType = ''SHEWHART_2SIGMA''
      then Inr (empty_detector \<lparr> d_type := ''shewhart'', d_shewhart := Some (sync_shewhart ruleType cfg) \<rparr>)
      else if ruleType = ''RANGE_CHART_R''
      then Inr (empty_detector \<lparr> d_type := ''range_chart'', d_range_chart := Some (sync_range_chart cfg) \<rparr>)
      else if ruleType = ''SPEC_LIMIT_VIOLATION''
      then Inr (empty_detector \<lparr> d_type := ''spec_limit'', d_spec_limit := Some (sync_spec_limit cfg) \<rparr>)
      else if ruleType = ''TPA'' then Inr (empty_detector \<lparr> d_type := ''tpa'', d_tpa := Some (sync_tpa cfg) \<rparr>)
      else Inl ''unsupported rule_type'')"

definition rule_config :: "goval \<Rightarrow> stepperConfig res" where
  "rule_config v = (if v = VMap [] \<or> v = VNil then Inr empty_config
     else case decode_config v of Inl _ \<Rightarrow> Inl ''invalid config json'' | Inr cfg \<Rightarrow> Inr cfg)"

definition BuildRuleSpecFromStepper :: "StepperRule \<Rightarrow> MachineUnit \<Rightarrow> RuleSpec res" where
  "BuildRuleSpecFromStepper rule u =
     (if sr_id rule = [] then Inl ''rule id is required''
      else if mu_connection u = [] then Inl ''machine unit has no connection_ref''
      else if mu_table u = [] then Inl ''machine unit has no selected_table''
      else if mu_timestamp u = [] then Inl ''machine unit has no timestamp_column''
      else let column = snd (parseParameterID (sr_parameter rule)) in
        if column = [] then Inl ''invalid parameterId''
        else case rule_config (sr_config rule) of Inl e \<Rightarrow> Inl e
        | Inr cfg \<Rightarrow> (case sync_buildDetector (sr_type rule) cfg of Inl e \<Rightarrow> Inl e
          | Inr d \<Rightarrow> Inr (empty_spec \<lparr> r_name := sr_name rule, r_connection := mu_connection u,
              r_source := \<lparr> so_table = mu_table u, so_timestamp = mu_timestamp u, so_where = None, so_value_column = [] \<rparr>,
              r_parameters := [\<lparr> p_name = column, p_column = column, p_detector = d \<rparr>],
              r_poll := positive_or defaultStepperPollIntervalSeconds (sy_poll cfg), r_cooldown := sy_cooldown cfg,
              r_enabled := sr_enabled rule \<rparr>)))"

subsection \<open>Requests (\<open>stepper_types.go\<close>, \<open>stepper_validation.go\<close>)\<close>

text \<open>A field error is an error detail whose empty hint is not written.\<close>

definition field_error :: "string \<Rightarrow> string \<Rightarrow> ErrorDetail" where
  "field_error field problem = detail field problem []"

definition writeStepperValidationError :: "string \<Rightarrow> string \<Rightarrow> ErrorDetail list \<Rightarrow> 'a api_reply" where
  "writeStepperValidationError code message errors = ApiInvalid code message errors"

record stepperRuleRequest =
  sq_unit :: string
  sq_name :: string
  sq_type :: string
  sq_parameter :: string
  sq_enabled :: "bool option"
  sq_config :: "goval option"

record stepperRuleResponse =
  sp_id :: string
  sp_unit :: string
  sp_name :: string
  sp_type :: string
  sp_parameter :: string
  sp_enabled :: bool
  sp_config :: goval
  sp_created :: string
  sp_updated :: string

record baselineCheckRequest =
  bk_unit :: string
  bk_parameter :: string
  bk_type :: string
  bk_connection :: string
  bk_selector :: selectorSpec
  bk_subgrouping :: "subgroupSpec option"

record previewRequest =
  pv_unit :: string
  pv_parameter :: string
  pv_type :: string
  pv_connection :: string
  pv_config :: "goval option"
  pv_baseline :: "selectorSpec option"
  pv_eval :: "selectorSpec option"
  pv_subgrouping :: "subgroupSpec option"

definition blank_field :: "string \<Rightarrow> string \<Rightarrow> ErrorDetail list" where
  "blank_field field value = (if trim_space value = [] then [field_error field ''missing''] else [])"

definition kind_field :: "string \<Rightarrow> string \<Rightarrow> ErrorDetail list" where
  "kind_field field kind = (if kind \<noteq> [] \<and> kind \<noteq> ''lastN'' \<and> kind \<noteq> ''timeRange'' then [field_error field ''invalid''] else [])"

definition validateStepperRuleRequest :: "stepperRuleRequest \<Rightarrow> ErrorDetail list" where
  "validateStepperRuleRequest req = blank_field ''unitId'' (sq_unit req) @ blank_field ''ruleType'' (sq_type req)
     @ blank_field ''parameterId'' (sq_parameter req) @ (if sq_config req = None then [field_error ''config'' ''missing''] else [])"

definition validateBaselineCheck :: "baselineCheckRequest \<Rightarrow> ErrorDetail list" where
  "validateBaselineCheck req = blank_field ''unitId'' (bk_unit req) @ blank_field ''parameterId'' (bk_parameter req)
     @ blank_field ''ruleType'' (bk_type req) @ blank_field ''connectionRef'' (bk_connection req)
     @ blank_field ''baselineSelector.kind'' (se_kind (bk_selector req))
     @ kind_field ''baselineSelector.kind'' (se_kind (bk_selector req))"

definition validatePreviewRequest :: "previewRequest \<Rightarrow> ErrorDetail list" where
  "validatePreviewRequest req = blank_field ''unitId'' (pv_unit req) @ blank_field ''parameterId'' (pv_parameter req)
     @ blank_field ''ruleType'' (pv_type req) @ blank_field ''connectionRef'' (pv_connection req)
     @ (if pv_config req = None then [field_error ''config'' ''missing''] else [])
     @ (case pv_baseline req of None \<Rightarrow> [] | Some sel \<Rightarrow> kind_field ''baselineSelector.kind'' (se_kind sel))
     @ (case pv_eval req of None \<Rightarrow> [] | Some sel \<Rightarrow> kind_field ''evalSelector.kind'' (se_kind sel))"

subsection \<open>Stored stepper rules (\<open>stepper_rules.go\<close>)\<close>

definition toStepperRecord :: "stepperRuleRequest \<Rightarrow> bool \<Rightarrow> StepperRule" where
  "toStepperRecord req includeEnabled = (let name = trim_space (sq_name req) in
     \<lparr> sr_id = [], sr_unit = sq_unit req, sr_name = (if name = [] then sq_type req else name), sr_type = sq_type req,
       sr_parameter = sq_parameter req, sr_config = (case sq_config req of None \<Rightarrow> VMap [] | Some v \<Rightarrow> v),
       sr_enabled = (case sq_enabled req of Some b \<Rightarrow> if includeEnabled then b else True | None \<Rightarrow> True),
       sr_created = 0, sr_updated = 0 \<rparr>)"

definition toStepperResponse :: "StepperRule \<Rightarrow> stepperRuleResponse" where
  "toStepperResponse r = \<lparr> sp_id = sr_id r, sp_unit = sr_unit r, sp_name = sr_name r, sp_type = sr_type r,
     sp_parameter = sr_parameter r, sp_enabled = sr_enabled r, sp_config = sr_config r,
     sp_created = format_rfc3339 (sr_created r), sp_updated = format_rfc3339 (sr_updated r) \<rparr>"

text \<open>The row of \<open>rules\<close> that runs a stepper rule. Errors stop the synchronisation silently.\<close>

definition synced_row :: "StepperRule \<Rightarrow> MachineUnit \<Rightarrow> RuleSpec \<Rightarrow> RuleRow" where
  "synced_row rec u spec = \<lparr> rr_id = sr_id rec, rr_connection = mu_connection u, rr_spec = rule_json spec,
     rr_enabled = sr_enabled rec, rr_status = ''DRAFT'', rr_last_error = None, rr_last_validated = None, rr_last_run = None,
     rw_name = sr_name rec, rw_description = [], rw_parameter = sr_parameter rec, rw_created = 0, rw_updated = 0 \<rparr>"

definition syncStepperRule :: "StepperRule \<Rightarrow> string \<Rightarrow> 'b handler \<Rightarrow> 'b handler" where
  "syncStepperRule rec subject k env s = (case GetMachineUnit (sr_unit rec) env s of (Inl _, s1) \<Rightarrow> k env s1
     | (Inr u, s1) \<Rightarrow> (case BuildRuleSpecFromStepper rec u of Inl _ \<Rightarrow> k env s1
       | Inr spec \<Rightarrow> if rule_json spec = None then k env s1
           else publish subject (sr_id rec) k env (snd (UpsertStepperRuleToRules (synced_row rec u spec) env s1))))"

definition invalid_request :: "string \<Rightarrow> ErrorDetail list \<Rightarrow> 'a handler" where
  "invalid_request message errors = respond (writeStepperValidationError ''INVALID_REQUEST'' message errors)"

definition unit_missing :: "store_error \<Rightarrow> 'a api_reply" where
  "unit_missing e = ApiMessage 404 ''machine unit not found''"

definition rule_missing :: "store_error \<Rightarrow> 'a api_reply" where
  "rule_missing e = ApiMessage 404 ''rule not found''"

definition parameter_not_found :: "string \<Rightarrow> 'a handler" where
  "parameter_not_found message = respond (writeStepperValidationError ''PARAMETER_NOT_FOUND'' message
     [field_error ''parameterId'' ''not_found''])"

definition handleStepperRuleCreate :: "stepperRuleRequest res \<Rightarrow> stepperRuleResponse handler" where
  "handleStepperRuleCreate body = with_body body (\<lambda>req.
     if validateStepperRuleRequest req \<noteq> [] then invalid_request ''invalid rule request'' (validateStepperRuleRequest req)
     else on_ok (GetMachineUnit (sq_unit req)) unit_missing (\<lambda>u.
       if \<not> parameterInUnit (mu_table u) (mu_columns u) (sq_parameter req) then parameter_not_found ''parameterId not found''
       else on_ok (CreateStepperRule (toStepperRecord req True)) (\<lambda>_. ApiMessage 500 ''failed to create rule'') (\<lambda>rec.
         syncStepperRule rec ''rule.created'' (respond (ApiOK 200 (toStepperResponse rec))))))"

definition handleStepperRuleGetByID :: "string \<Rightarrow> stepperRuleResponse handler" where
  "handleStepperRuleGetByID ruleID = on_ok (GetStepperRule ruleID) rule_missing (\<lambda>rec. respond (ApiOK 200 (toStepperResponse rec)))"

definition handleStepperRuleUpdate :: "string \<Rightarrow> stepperRuleRequest res \<Rightarrow> stepperRuleResponse handler" where
  "handleStepperRuleUpdate ruleID body = with_body body (\<lambda>req.
     if validateStepperRuleRequest req \<noteq> [] then invalid_request ''invalid rule request'' (validateStepperRuleRequest req)
     else on_ok (GetStepperRule ruleID) rule_missing (\<lambda>_. on_ok (GetMachineUnit (sq_unit req)) unit_missing (\<lambda>u.
       if \<not> parameterInUnit (mu_table u) (mu_columns u) (sq_parameter req) then parameter_not_found ''parameterId not found''
       else on_ok (UpdateStepperRule ((toStepperRecord req True) \<lparr> sr_id := ruleID \<rparr>)) (\<lambda>_. ApiMessage 500 ''failed to update rule'')
         (\<lambda>rec. syncStepperRule rec ''rule.updated'' (respond (ApiOK 200 (toStepperResponse rec)))))))"

definition handleStepperRuleDelete :: "string \<Rightarrow> unit handler" where
  "handleStepperRuleDelete ruleID = on_ok (DeleteStepperRule ruleID) rule_missing (\<lambda>_ env s.
     publish ''rule.deleted'' ruleID (respond (ApiOK 200 ())) env (snd (DeleteRule ruleID env s)))"

text \<open>Enabling and disabling: the rule is read back, and synchronised when that works.\<close>

definition switch_rule :: "string \<Rightarrow> bool \<Rightarrow> string \<Rightarrow> unit handler" where
  "switch_rule ruleID enabled subject = on_ok (SetStepperRuleEnabled ruleID enabled) rule_missing (\<lambda>_ env s.
     case GetStepperRule ruleID env s of (Inl _, s1) \<Rightarrow> respond (ApiOK 200 ()) env s1
     | (Inr rec, s1) \<Rightarrow> syncStepperRule rec subject (respond (ApiOK 200 ())) env s1)"

definition handleStepperRuleEnable :: "string \<Rightarrow> unit handler" where
  "handleStepperRuleEnable ruleID = switch_rule ruleID True ''rule.enabled''"

definition handleStepperRuleDisable :: "string \<Rightarrow> unit handler" where
  "handleStepperRuleDisable ruleID = switch_rule ruleID False ''rule.disabled''"

definition handleStepperRuleList :: "string \<Rightarrow> stepperRuleResponse list handler" where
  "handleStepperRuleList unitId = on_ok (ListStepperRules (trim_space unitId)) (\<lambda>_. ApiMessage 500 ''failed to list rules'')
     (\<lambda>recs. respond (ApiOK 200 (map toStepperResponse recs)))"

end
