(* ===== verification/RulePreview.thy ===== *)
theory RulePreview
  imports Main RuleStepper
begin

text \<open>
  The endpoints of the rule service that ask another service: the parameters of a unit and
  the health of its rules need the schema of its table (\<open>stepper_parameters.go\<close>,
  \<open>stepper_health.go\<close>), the baseline check and the preview are passed on to the scheduler
  (\<open>stepper_preview.go\<close>), both over the clients of \<open>stepper_clients.go\<close>. A POST answers with a
  status and a body, which may not be JSON, or fails.
\<close>

subsection \<open>The clients\<close>

type_synonym http_post = "nat \<Rightarrow> string \<Rightarrow> goval \<Rightarrow> (int \<times> goval res) res"

record StepperHandler = RuleHandler +
  sh_connector_url :: string
  sh_scheduler_url :: string
  sh_post :: http_post

definition trim_slashes :: "string \<Rightarrow> string" where
  "trim_slashes s = rev (dropWhile (\<lambda>c. c = CHR 0x2F) (rev s))"

definition post_json :: "http_post \<Rightarrow> nat \<Rightarrow> string \<Rightarrow> string \<Rightarrow> string \<Rightarrow> string \<Rightarrow> goval \<Rightarrow> (goval \<Rightarrow> 'a res) \<Rightarrow> 'a res" where
  "post_json post n unset failed base path payload decode = (if trim_space base = [] then Inl unset
     else case post n (trim_slashes base @ path) payload of Inl e \<Rightarrow> Inl e
     | Inr (status, body) \<Rightarrow> if status \<ge> 400 then Inl failed
         else (case body of Inl e \<Rightarrow> Inl e | Inr v \<Rightarrow> decode v))"

text \<open>A column of a schema has a name and a type, as for the MCP adapters.\<close>

definition decode_schema :: "goval \<Rightarrow> Column list res" where
  "decode_schema v = and_then (json_object v) (\<lambda>kvs. field_or [] (json_list decode_column) ''columns'' kvs)"

definition DescribeTable :: "StepperHandler \<Rightarrow> string \<Rightarrow> string \<Rightarrow> nat \<Rightarrow> Column list res" where
  "DescribeTable h connectionRef table n = post_json (sh_post h) n ''db-connector url not configured'' ''describe failed''
     (sh_connector_url h) ''/describe'' (VMap [(''connectionRef'', VStr connectionRef), (''table'', VStr table)]) decode_schema"

definition PostJSON :: "StepperHandler \<Rightarrow> string \<Rightarrow> goval \<Rightarrow> (goval \<Rightarrow> 'a res) \<Rightarrow> nat \<Rightarrow> 'a res" where
  "PostJSON h path payload decode n = post_json (sh_post h) n ''scheduler url not configured'' ''scheduler request failed''
     (sh_scheduler_url h) path payload decode"

text \<open>A call takes one step.\<close>

definition on_call :: "(nat \<Rightarrow> 'a res) \<Rightarrow> (string \<Rightarrow> 'b handler) \<Rightarrow> ('a \<Rightarrow> 'b handler) \<Rightarrow> 'b handler" where
  "on_call call fail k env s = (case call (rs_step s) of Inl e \<Rightarrow> fail e env (rs_tick s) | Inr x \<Rightarrow> k x env (rs_tick s))"

subsection \<open>The schema as a map\<close>

text \<open>The last column of a name counts, as in the map the loops fill.\<close>

definition column_type :: "Column list \<Rightarrow> string \<Rightarrow> string option" where
  "column_type columns name = map_of (rev (map (\<lambda>c. (col_name c, col_type c)) columns)) name"

definition type_text :: "Column list \<Rightarrow> string \<Rightarrow> string" where
  "type_text columns name = (case column_type columns name of None \<Rightarrow> [] | Some t \<Rightarrow> t)"

definition timestampCandidates :: "Column list \<Rightarrow> string list" where
  "timestampCandidates columns = map col_name (filter (\<lambda>c. api_isTimeType (col_type c)) columns)"

definition subgroupCandidates :: "Column list \<Rightarrow> string \<Rightarrow> string \<Rightarrow> string list" where
  "subgroupCandidates columns valueColumn timestampColumn =
     filter (\<lambda>n. n \<noteq> valueColumn \<and> n \<noteq> timestampColumn) (map col_name columns)"

subsection \<open>Parameters of a unit (\<open>stepper_parameters.go\<close>)\<close>

record parameterResponse =
  px_id :: string
  px_unit :: string
  px_table :: string
  px_column :: string
  px_type :: string
  px_timestamp :: string
  px_subgroups :: "string list"
  px_trend :: bool
  px_shewhart :: bool
  px_range :: bool
  px_notes :: "string list"

definition default_timestamp :: "MachineUnit \<Rightarrow> Column list \<Rightarrow> string" where
  "default_timestamp u columns = (let t = trim_space (mu_timestamp u) in
     if t \<noteq> [] \<and> column_type columns t \<noteq> None then t else pickTimestampColumn (timestampCandidates columns))"

definition timestamp_notes :: "MachineUnit \<Rightarrow> Column list \<Rightarrow> string list" where
  "timestamp_notes u columns = (let t = trim_space (mu_timestamp u) in if t = [] then []
     else case column_type columns t of None \<Rightarrow> [''timestampColumn not found in schema'']
     | Some ty \<Rightarrow> if \<not> api_isTimeType ty then [''timestampColumn must be time/date''] else [])"

definition parameter_response :: "MachineUnit \<Rightarrow> Column list \<Rightarrow> string \<Rightarrow> parameterResponse" where
  "parameter_response u columns col = (let ty = type_text columns col; ts = default_timestamp u columns in
     \<lparr> px_id = buildParameterID (mu_table u) col, px_unit = mu_name u, px_table = mu_table u, px_column = col, px_type = ty,
       px_timestamp = ts, px_subgroups = subgroupCandidates columns col ts, px_trend = (api_isNumericType ty \<and> ts \<noteq> []),
       px_shewhart = api_isNumericType ty, px_range = api_isNumericType ty,
       px_notes = (if ty = [] then [''column not found in schema''] else []) @ timestamp_notes u columns \<rparr>)"

definition handleUnitParameters :: "StepperHandler \<Rightarrow> string \<Rightarrow> (string \<times> parameterResponse list) handler" where
  "handleUnitParameters h unitID = on_ok (GetMachineUnit unitID) unit_missing (\<lambda>u.
     if trim_space (mu_connection u) = [] then respond (ApiMessage 400 ''connectionRef missing'')
     else on_call (DescribeTable h (mu_connection u) (mu_table u)) (\<lambda>_. respond (ApiMessage 502 ''failed to describe table'')) (\<lambda>columns.
       respond (ApiOK 200 (unitID, map (parameter_response u columns) (mu_columns u)))))"

subsection \<open>The health of the rules (\<open>stepper_health.go\<close>)\<close>

record ruleHealthItem =
  hi_severity :: string
  hi_code :: string
  hi_message :: string
  hi_rule :: string
  hi_parameter :: string

record ruleHealthResponse =
  hr_unit :: string
  hr_warnings :: nat
  hr_errors :: nat
  hr_items :: "ruleHealthItem list"

definition health_error :: "StepperRule \<Rightarrow> string \<Rightarrow> string \<Rightarrow> ruleHealthItem list" where
  "health_error r code message = [\<lparr> hi_severity = ''error'', hi_code = code, hi_message = message, hi_rule = sr_id r,
     hi_parameter = sr_parameter r \<rparr>]"

definition health_items :: "Column list \<Rightarrow> StepperRule \<Rightarrow> ruleHealthItem list" where
  "health_items columns r = (let col = snd (parseParameterID (sr_parameter r)); ty = type_text columns col in
     if col = [] then health_error r ''PARAMETER_NOT_FOUND'' ''parameterId invalid''
     else if trim_space ty = [] then health_error r ''COLUMN_NOT_FOUND'' ''value column not found''
     else if \<not> api_isNumericType ty then health_error r ''COLUMN_NOT_NUMERIC'' ''value column must be numeric'' else [])"

definition severity_count :: "string \<Rightarrow> ruleHealthItem list \<Rightarrow> nat" where
  "severity_count severity items = length (filter (\<lambda>i. hi_severity i = severity) items)"

definition handleRuleHealth :: "StepperHandler \<Rightarrow> string \<Rightarrow> ruleHealthResponse handler" where
  "handleRuleHealth h unitID = on_ok (GetMachineUnit unitID) unit_missing (\<lambda>u.
     on_ok (ListStepperRules unitID) (\<lambda>_. ApiMessage 500 ''failed to fetch rules'') (\<lambda>rs.
     on_call (DescribeTable h (mu_connection u) (mu_table u)) (\<lambda>_. respond (ApiMessage 502 ''failed to describe table'')) (\<lambda>columns.
       let items = concat (map (health_items columns) rs) in respond (ApiOK 200 \<lparr> hr_unit = unitID,
         hr_warnings = severity_count ''warning'' items, hr_errors = severity_count ''error'' items, hr_items = items \<rparr>))))"

subsection \<open>Passing on to the scheduler (\<open>stepper_preview.go\<close>)\<close>

record parameterInfo =
  in_table :: string
  in_value :: string
  in_timestamp :: string

datatype resolve_error = InvalidParameter | InvalidTimestamp | OtherFailure

definition resolveParameter :: "StepperHandler \<Rightarrow> string \<Rightarrow> string \<Rightarrow> (resolve_error \<Rightarrow> 'b handler) \<Rightarrow> (parameterInfo \<Rightarrow> 'b handler) \<Rightarrow> 'b handler" where
  "resolveParameter h unitID parameterID fail k env s = (case GetMachineUnit unitID env s of
       (Inl _, s1) \<Rightarrow> fail OtherFailure env s1
     | (Inr u, s1) \<Rightarrow> let (t, c) = parseParameterID parameterID in
         if t = [] \<or> c = [] then fail InvalidParameter env s1
         else if t \<noteq> mu_table u then fail InvalidParameter env s1
         else if c \<notin> set (mu_columns u) then fail InvalidParameter env s1
         else on_call (DescribeTable h (mu_connection u) (mu_table u)) (\<lambda>_. fail OtherFailure) (\<lambda>columns.
           let own = trim_space (mu_timestamp u);
             ts = (if own \<noteq> [] then own else pickTimestampColumn (timestampCandidates columns))
           in if own \<noteq> [] \<and> column_type columns own = None then fail InvalidTimestamp
              else if trim_space ts = [] then fail InvalidTimestamp
              else k \<lparr> in_table = mu_table u, in_value = c, in_timestamp = ts \<rparr>) env s1)"

definition resolve_failed :: "resolve_error \<Rightarrow> 'b handler" where
  "resolve_failed e = (case e of InvalidParameter \<Rightarrow> parameter_not_found ''parameterId invalid''
     | InvalidTimestamp \<Rightarrow> respond (writeStepperValidationError ''TIMESTAMP_COLUMN_INVALID'' ''timestampColumn invalid''
         [field_error ''timestampColumn'' ''invalid''])
     | OtherFailure \<Rightarrow> respond (ApiMessage 400 ''parameter resolution failed''))"

text \<open>The JSON the scheduler gets; fields marked \<open>omitempty\<close> are left out when they are zero.\<close>

definition text_unless_empty :: "string \<Rightarrow> string \<Rightarrow> (string \<times> goval) list" where
  "text_unless_empty name s = (if s = [] then [] else [(name, VStr s)])"

definition int_unless_zero :: "string \<Rightarrow> int \<Rightarrow> (string \<times> goval) list" where
  "int_unless_zero name z = (if z = 0 then [] else [(name, VInt z)])"

definition selector_json :: "selectorSpec \<Rightarrow> goval" where
  "selector_json sel = VMap ((''kind'', VStr (se_kind sel)) # int_unless_zero ''value'' (se_value sel)
     @ text_unless_empty ''start'' (se_start sel) @ text_unless_empty ''end'' (se_end sel))"

definition subgroup_json :: "subgroupSpec \<Rightarrow> goval" where
  "subgroup_json g = VMap ((''kind'', VStr (su_kind g)) # text_unless_empty ''column'' (su_column g)
     @ int_unless_zero ''subgroupSize'' (su_size g))"

definition opt_json :: "('a \<Rightarrow> goval) \<Rightarrow> string \<Rightarrow> 'a option \<Rightarrow> (string \<times> goval) list" where
  "opt_json f name v = (case v of None \<Rightarrow> [] | Some x \<Rightarrow> [(name, f x)])"

definition source_json :: "string \<Rightarrow> parameterInfo \<Rightarrow> string \<Rightarrow> (string \<times> goval) list" where
  "source_json connectionRef info ruleType = [(''connectionRef'', VStr connectionRef), (''table'', VStr (in_table info)),
     (''timestampColumn'', VStr (in_timestamp info)), (''valueColumn'', VStr (in_value info)), (''ruleType'', VStr ruleType)]"

definition baseline_json :: "baselineCheckRequest \<Rightarrow> parameterInfo \<Rightarrow> goval" where
  "baseline_json req info = VMap (source_json (bk_connection req) info (bk_type req)
     @ [(''baselineSelector'', selector_json (bk_selector req))] @ opt_json subgroup_json ''subgrouping'' (bk_subgrouping req))"

definition preview_json :: "previewRequest \<Rightarrow> parameterInfo \<Rightarrow> goval" where
  "preview_json req info = VMap (source_json (pv_connection req) info (pv_type req)
     @ [(''config'', case pv_config req of None \<Rightarrow> VNil | Some v \<Rightarrow> v)]
     @ opt_json selector_json ''baselineSelector'' (pv_baseline req) @ opt_json selector_json ''evalSelector'' (pv_eval req)
     @ opt_json subgroup_json ''subgrouping'' (pv_subgrouping req))"

text \<open>How the scheduler decodes a request; a selector that is missing keeps its zero value.\<close>

definition decode_selectorSpec :: "goval \<Rightarrow> selectorSpec res" where
  "decode_selectorSpec v = and_then (json_object v) (\<lambda>kvs. text_field ''kind'' kvs (\<lambda>kind.
     and_then (field_or 0 json_int ''value'' kvs) (\<lambda>value. text_field ''start'' kvs (\<lambda>start. text_field ''end'' kvs (\<lambda>stop.
     Inr \<lparr> se_kind = kind, se_value = value, se_start = start, se_end = stop \<rparr>)))))"

definition decode_subgroupSpec :: "goval \<Rightarrow> subgroupSpec res" where
  "decode_subgroupSpec v = and_then (json_object v) (\<lambda>kvs. text_field ''kind'' kvs (\<lambda>kind. text_field ''column'' kvs (\<lambda>column.
     and_then (field_or 0 json_int ''subgroupSize'' kvs) (\<lambda>n. Inr \<lparr> su_kind = kind, su_column = column, su_size = n \<rparr>))))"

definition zero_selector :: selectorSpec where
  "zero_selector = \<lparr> se_kind = [], se_value = 0, se_start = [], se_end = [] \<rparr>"

definition decode_baseline_request :: "goval \<Rightarrow> StepperBaselineRequest res" where
  "decode_baseline_request v = and_then (json_object v) (\<lambda>kvs. text_field ''connectionRef'' kvs (\<lambda>conn.
     text_field ''table'' kvs (\<lambda>table. text_field ''timestampColumn'' kvs (\<lambda>ts. text_field ''valueColumn'' kvs (\<lambda>col.
     text_field ''ruleType'' kvs (\<lambda>ruleType. and_then (field_or zero_selector decode_selectorSpec ''baselineSelector'' kvs) (\<lambda>sel.
     opt_field decode_subgroupSpec ''subgrouping'' kvs (\<lambda>g.
     Inr \<lparr> bq_connection = conn, bq_table = table, bq_timestamp = ts, bq_value = col, bq_rule_type = ruleType,
       bq_selector = sel, bq_subgrouping = g \<rparr>))))))))"

text \<open>The answers, which both services declare with the same fields.\<close>

definition json_map :: "(goval \<Rightarrow> 'a res) \<Rightarrow> goval \<Rightarrow> (string \<times> 'a) list res" where
  "json_map f v = and_then (json_object v) (\<lambda>kvs. fold (\<lambda>(k, x) acc. and_then acc (\<lambda>m. and_then (f x)
     (\<lambda>y. Inr (mput k y m)))) kvs (Inr []))"

definition decode_continuity :: "goval \<Rightarrow> continuitySummary res" where
  "decode_continuity v = and_then (json_object v) (\<lambda>kvs. and_then (field_or False json_bool ''gapsDetected'' kvs) (\<lambda>gaps.
     and_then (field_or f0 json_float ''largestGapSeconds'' kvs) (\<lambda>largest. Inr \<lparr> cs_gaps = gaps, cs_largest = largest \<rparr>)))"

definition decode_baseline_response :: "goval \<Rightarrow> StepperBaselineResponse res" where
  "decode_baseline_response v = and_then (json_object v) (\<lambda>kvs. text_field ''status'' kvs (\<lambda>status.
     and_then (field_or [] (json_map json_int) ''available'' kvs) (\<lambda>available.
     and_then (field_or [] (json_map json_int) ''required'' kvs) (\<lambda>required.
     and_then (field_or \<lparr> cs_gaps = False, cs_largest = f0 \<rparr> decode_continuity ''continuity'' kvs) (\<lambda>continuity.
     and_then (field_or [] (json_list json_string) ''messages'' kvs) (\<lambda>messages.
     Inr \<lparr> br_status = status, br_available = available, br_required = required, br_continuity = continuity,
       br_messages = messages \<rparr>))))))"

record previewResponse =
  vr_status :: string
  vr_window :: "(string \<times> string) list"
  vr_baseline :: "(string \<times> goval) list"
  vr_computed :: "(string \<times> goval) list"
  vr_violations :: "(string \<times> goval) list list"
  vr_explain :: string

definition any_res :: "goval \<Rightarrow> goval res" where
  "any_res v = Inr (json_any v)"

definition decode_preview_response :: "goval \<Rightarrow> previewResponse res" where
  "decode_preview_response v = and_then (json_object v) (\<lambda>kvs. text_field ''status'' kvs (\<lambda>status.
     and_then (field_or [] (json_map json_string) ''window'' kvs) (\<lambda>window.
     and_then (field_or [] (json_map any_res) ''baseline'' kvs) (\<lambda>baseline.
     and_then (field_or [] (json_map any_res) ''computed'' kvs) (\<lambda>computed.
     and_then (field_or [] (json_list (json_map any_res)) ''violations'' kvs) (\<lambda>violations.
     text_field ''explain'' kvs (\<lambda>explain. Inr \<lparr> vr_status = status, vr_window = window, vr_baseline = baseline,
       vr_computed = computed, vr_violations = violations, vr_explain = explain \<rparr>)))))))"

text \<open>What both endpoints do: check the connection, resolve the parameter, ask the scheduler.\<close>

definition ask_scheduler :: "StepperHandler \<Rightarrow> string \<Rightarrow> string \<Rightarrow> string \<Rightarrow> string \<Rightarrow> (parameterInfo \<Rightarrow> goval) \<Rightarrow> (goval \<Rightarrow> 'a res)
    \<Rightarrow> string \<Rightarrow> 'a handler" where
  "ask_scheduler h connectionRef unitID parameterID path payload decode message =
     on_ok (\<lambda>env s. case ConnectionExists connectionRef env s of (Inr False, s') \<Rightarrow> (Inl NotFound, s') | r \<Rightarrow> r)
       (\<lambda>_. ApiMessage 404 ''connectionRef not found'') (\<lambda>_.
     resolveParameter h unitID parameterID resolve_failed (\<lambda>info.
     on_call (PostJSON h path (payload info) decode) (\<lambda>_. respond (ApiMessage 502 message)) (\<lambda>resp. respond (ApiOK 200 resp))))"

definition handleRuleBaselineCheck :: "StepperHandler \<Rightarrow> baselineCheckRequest res \<Rightarrow> StepperBaselineResponse handler" where
  "handleRuleBaselineCheck h body = with_body body (\<lambda>req.
     if validateBaselineCheck req \<noteq> [] then invalid_request ''invalid baseline check'' (validateBaselineCheck req)
     else ask_scheduler h (bk_connection req) (bk_unit req) (bk_parameter req) ''/api/rules/baseline/check''
       (baseline_json req) decode_baseline_response ''baseline check failed'')"

definition handleRulePreview :: "StepperHandler \<Rightarrow> previewRequest res \<Rightarrow> previewResponse handler" where
  "handleRulePreview h body = with_body body (\<lambda>req.
     if validatePreviewRequest req \<noteq> [] then invalid_request ''invalid preview request'' (validatePreviewRequest req)
     else ask_scheduler h (pv_connection req) (pv_unit req) (pv_parameter req) ''/api/rules/preview''
       (preview_json req) decode_preview_response ''preview failed'')"

end
