(* ===== verification/RuleCatalog.thy ===== *)
theory RuleCatalog
  imports Main RuleStepper
begin

text \<open>
  The catalog of rule types the user interface offers (\<open>internal/api/stepper_catalog.go\<close>): what
  each type is called, what its configuration holds, with defaults and an example. Texts are
  bytes of UTF-8.
\<close>

record configField =
  cf_key :: string
  cf_label :: string
  cf_type :: string
  cf_required :: bool
  cf_default :: "goval option"
  cf_enum :: "string list"
  cf_min :: "f64 option"
  cf_max :: "f64 option"
  cf_help :: string
  cf_visible :: "(string \<times> goval) option"

text \<open>The least data are baseline samples, baseline subgroups and evaluated samples.\<close>

record catalogType =
  ct_type :: string
  ct_title :: string
  ct_description :: string
  ct_phase :: int
  ct_category :: string
  ct_baseline :: bool
  ct_subgrouping :: bool
  ct_min_data :: "int \<times> int \<times> int"
  ct_inputs :: "string list"
  ct_fields :: "configField list"
  ct_examples :: "(string \<times> goval) list"

definition the_field :: "string \<Rightarrow> string \<Rightarrow> string \<Rightarrow> bool \<Rightarrow> configField" where
  "the_field key label ty required = \<lparr> cf_key = key, cf_label = label, cf_type = ty, cf_required = required,
     cf_default = None, cf_enum = [], cf_min = None, cf_max = None, cf_help = [], cf_visible = None \<rparr>"

definition catalog_spec_limit_violation :: catalogType where
  "catalog_spec_limit_violation = \<lparr> ct_type = ''SPEC_LIMIT_VIOLATION'', ct_title = ''Spec Limit Violation'',
     ct_description = ''Check latest value against spec or control limits'',
     ct_phase = 1, ct_category = ''spec_limit'', ct_baseline = False, ct_subgrouping = False, ct_min_data = (0, 0, 1),
     ct_inputs = [''specLimits''],
     ct_fields = [
       (the_field ''mode'' ''Mode'' ''enum'' True) \<lparr> cf_default := Some (VStr ''spec''), cf_enum := [''spec'', ''control'', ''both''] \<rparr>,
       (the_field ''specLimits.usl'' ''USL'' ''number'' False),
       (the_field ''specLimits.lsl'' ''LSL'' ''number'' False),
       (the_field ''controlLimits.ucl'' ''UCL'' ''number'' False),
       (the_field ''controlLimits.lcl'' ''LCL'' ''number'' False),
       (the_field ''epsilon'' ''Tolerance'' ''number'' False) \<lparr> cf_default := Some (VInt 0) \<rparr>],
     ct_examples = [(''Default'', VMap [(''mode'', VStr ''spec''), (''specLimits'', VMap [(''usl'', VInt 100), (''lsl'', VInt 10)])])] \<rparr>"

definition catalog_shewhart_3sigma :: catalogType where
  "catalog_shewhart_3sigma = \<lparr> ct_type = ''SHEWHART_3SIGMA'', ct_title = ''3'' @ [CHR 0xCF, CHR 0x83] @ '' Spec Limits (Shewhart)'',
     ct_description = ''Compute '' @ [CHR 0xCE, CHR 0xBC] @ '' and '' @ [CHR 0xCF, CHR 0x83] @ '' from baseline; flag points outside '' @ [CHR 0xCE, CHR 0xBC, CHR 0xC2, CHR 0xB1] @ ''3'' @ [CHR 0xCF, CHR 0x83],
     ct_phase = 1, ct_category = ''shewhart'', ct_baseline = True, ct_subgrouping = False, ct_min_data = (20, 0, 1),
     ct_inputs = [''baselineSelector''],
     ct_fields = [
       (the_field ''baseline.selector'' ''Baseline'' ''baselineSelector'' True) \<lparr> cf_default := Some (VMap [(''kind'', VStr ''lastN''), (''value'', VInt 100)]), cf_help := ''Choose stable baseline period'' \<rparr>,
       (the_field ''minBaselineN'' ''Min Baseline N'' ''number'' False) \<lparr> cf_default := Some (VInt 20) \<rparr>],
     ct_examples = [(''Default'', VMap [(''sigmaMultiplier'', VInt 3), (''minBaselineN'', VInt 20)])] \<rparr>"

definition catalog_shewhart_2sigma :: catalogType where
  "catalog_shewhart_2sigma = \<lparr> ct_type = ''SHEWHART_2SIGMA'', ct_title = ''2'' @ [CHR 0xCF, CHR 0x83] @ '' Spec Limits (Shewhart)'',
     ct_description = ''Compute '' @ [CHR 0xCE, CHR 0xBC] @ '' and '' @ [CHR 0xCF, CHR 0x83] @ '' from baseline; flag points outside '' @ [CHR 0xCE, CHR 0xBC, CHR 0xC2, CHR 0xB1] @ ''2'' @ [CHR 0xCF, CHR 0x83],
     ct_phase = 1, ct_category = ''shewhart'', ct_baseline = True, ct_subgrouping = False, ct_min_data = (20, 0, 1),
     ct_inputs = [''baselineSelector''],
     ct_fields = [
       (the_field ''baseline.selector'' ''Baseline'' ''baselineSelector'' True) \<lparr> cf_default := Some (VMap [(''kind'', VStr ''lastN''), (''value'', VInt 100)]), cf_help := ''Choose stable baseline period'' \<rparr>,
       (the_field ''minBaselineN'' ''Min Baseline N'' ''number'' False) \<lparr> cf_default := Some (VInt 20) \<rparr>],
     ct_examples = [(''Default'', VMap [(''sigmaMultiplier'', VInt 2), (''minBaselineN'', VInt 20)])] \<rparr>"

definition catalog_range_chart_r :: catalogType where
  "catalog_range_chart_r = \<lparr> ct_type = ''RANGE_CHART_R'', ct_title = ''Range Chart (R)'',
     ct_description = ''Compute subgroup range (R) and compare against D3/D4 limits'',
     ct_phase = 1, ct_category = ''range_chart'', ct_baseline = True, ct_subgrouping = True, ct_min_data = (0, 10, 1),
     ct_inputs = [''baselineSelector'', ''subgrouping''],
     ct_fields = [
       (the_field ''baseline.selector'' ''Baseline'' ''baselineSelector'' True) \<lparr> cf_default := Some (VMap [(''kind'', VStr ''lastN''), (''value'', VInt 100)]) \<rparr>,
       (the_field ''subgrouping.subgroupSize'' ''Subgroup Size'' ''number'' True) \<lparr> cf_default := Some (VInt 5), cf_help := ''Supported sizes: 2-10'' \<rparr>,
       (the_field ''subgrouping.kind'' ''Subgrouping'' ''enum'' True) \<lparr> cf_default := Some (VStr ''column''), cf_enum := [''column'', ''consecutive''] \<rparr>,
       (the_field ''subgrouping.column'' ''Subgroup Column'' ''column'' False) \<lparr> cf_visible := Some (''subgrouping.kind'', VStr ''column'') \<rparr>,
       (the_field ''minBaselineSubgroups'' ''Min Baseline Subgroups'' ''number'' False) \<lparr> cf_default := Some (VInt 10) \<rparr>],
     ct_examples = [(''Default'', VMap [(''subgroupSize'', VInt 5), (''minBaselineSubgroups'', VInt 10)])] \<rparr>"

definition catalog_trend_6_points :: catalogType where
  "catalog_trend_6_points = \<lparr> ct_type = ''TREND_6_POINTS'', ct_title = ''6-Point Trend'',
     ct_description = ''Flags 6 consecutive increases or decreases'',
     ct_phase = 1, ct_category = ''trend'', ct_baseline = False, ct_subgrouping = False, ct_min_data = (0, 0, 6),
     ct_inputs = [],
     ct_fields = [
       (the_field ''windowSize'' ''Window Size'' ''number'' False) \<lparr> cf_default := Some (VInt 6) \<rparr>,
       (the_field ''epsilon'' ''Epsilon'' ''number'' False) \<lparr> cf_default := Some (VInt 0) \<rparr>,
       (the_field ''requireConsecutiveTimestamps'' ''Require consecutive timestamps'' ''boolean'' False) \<lparr> cf_default := Some (VBool True) \<rparr>],
     ct_examples = [(''Default'', VMap [(''windowSize'', VInt 6), (''epsilon'', VInt 0), (''requireConsecutiveTimestamps'', VBool True)])] \<rparr>"

definition catalog_tpa :: catalogType where
  "catalog_tpa = \<lparr> ct_type = ''TPA'', ct_title = ''Trend Projection (TPA)'',
     ct_description = ''Linear regression on recent points to project slope/time-to-spec'',
     ct_phase = 1, ct_category = ''tpa'', ct_baseline = False, ct_subgrouping = False, ct_min_data = (0, 0, 3),
     ct_inputs = [''threshold''],
     ct_fields = [
       (the_field ''windowN'' ''Window N'' ''number'' True) \<lparr> cf_default := Some (VInt 5) \<rparr>,
       (the_field ''regressionTimeBasis'' ''Regression Time Basis'' ''enum'' False) \<lparr> cf_default := Some (VStr ''timestamp''), cf_enum := [''timestamp'', ''index''] \<rparr>,
       (the_field ''slopeThreshold'' ''Slope Threshold'' ''number'' False),
       (the_field ''timeToSpecThreshold'' ''Time-to-Spec Threshold'' ''number'' False),
       (the_field ''requireSpecLimits'' ''Require Spec Limits'' ''boolean'' False) \<lparr> cf_default := Some (VBool False) \<rparr>],
     ct_examples = [(''Default'', VMap [(''windowN'', VInt 5), (''regressionTimeBasis'', VStr ''timestamp''), (''slopeThreshold'', VFloat (Fin (1 / 2)))])] \<rparr>"

record catalogResponse =
  cr_version :: string
  cr_types :: "catalogType list"

definition buildCatalog :: catalogResponse where
  "buildCatalog = \<lparr> cr_version = ''1.0'', cr_types = [catalog_spec_limit_violation, catalog_shewhart_3sigma, catalog_shewhart_2sigma, catalog_range_chart_r, catalog_trend_6_points, catalog_tpa] \<rparr>"

definition handleRuleCatalog :: "catalogResponse handler" where
  "handleRuleCatalog = respond (ApiOK 200 buildCatalog)"

end
