(* ===== verification/RuleStoreProps.thy ===== *)
theory RuleStoreProps
  imports Main RuleLines
begin

text \<open>
  The properties of the rule service's storage: the keys and references every method keeps,
  the reference of the list updates, the atomic replacement of wires, and what the insert
  of a machine unit does.
\<close>

named_theorems sql_simps

lemma res_bind_Inr [sql_simps]: "res_bind r k = Inr y \<longleftrightarrow> (\<exists>x. r = Inr x \<and> k x = Inr y)"
  by (cases r) (simp_all add: res_bind_def)

lemma require_Inr [sql_simps]: "require ok msg = Inr u \<longleftrightarrow> ok"
  by (simp add: require_def)

lemma one_row_Inr [sql_simps]: "one_row rs = Inr r \<longleftrightarrow> (\<exists>rest. rs = r # rest)"
  by (cases rs) (simp_all add: one_row_def)

lemma rs_tick_sel [simp]: "rs_db (rs_tick s) = rs_db s" "rs_events (rs_tick s) = rs_events s" "rs_step (rs_tick s) = Suc (rs_step s)"
  by (simp_all add: rs_tick_def)

subsection \<open>What keeps a property of the tables\<close>

definition keeps :: "(RuleDB \<Rightarrow> bool) \<Rightarrow> 'a action \<Rightarrow> bool" where
  "keeps I m = (\<forall>env s. I (rs_db s) \<longrightarrow> I (rs_db (snd (m env s))))"

named_theorems keeps_intros

lemma keepsD: "keeps I m \<Longrightarrow> I (rs_db s) \<Longrightarrow> I (rs_db (snd (m env s)))"
  by (simp add: keeps_def)

lemma keeps_statement [keeps_intros]:
  assumes "\<And>env d x d'. I d \<Longrightarrow> f env d = Inr (x, d') \<Longrightarrow> I d'"
  shows "keeps I (\<lambda>env. statement (f env) env)"
  using assms by (auto simp: keeps_def statement_def split: sum.split)

lemma keeps_statement' [keeps_intros]: "(\<And>d x d'. I d \<Longrightarrow> f d = Inr (x, d') \<Longrightarrow> I d') \<Longrightarrow> keeps I (statement f)"
  using keeps_statement [of I "\<lambda>_. f"] by simp

lemma query_db [simp]: "rs_db (snd (query q env s)) = rs_db s"
  by (auto simp: query_def statement_def split: sum.split)

lemma keeps_query [keeps_intros]: "keeps I (query q)" "keeps I (\<lambda>env. query (p env) env)"
  by (simp_all add: keeps_def)

lemma query_rows_db [simp]: "rs_db (snd (query_rows q scan env s)) = rs_db s"
  by (simp add: query_rows_def)

lemma keeps_with_now [keeps_intros]: "(\<And>now. keeps I (m now)) \<Longrightarrow> keeps I (with_now m)"
  by (simp add: keeps_def with_now_def)

lemma keeps_with_fresh [keeps_intros]: "(\<And>u. keeps I (m u)) \<Longrightarrow> keeps I (with_fresh m)"
  by (simp add: keeps_def with_fresh_def)

lemma keeps_bind [keeps_intros]: "keeps I m \<Longrightarrow> (\<And>x. keeps I (k x)) \<Longrightarrow> keeps I (s_bind m k)"
  by (auto simp: keeps_def s_bind_def split: prod.split sum.split) (metis snd_conv)+

lemma keeps_return [keeps_intros]: "keeps I (s_return r)"
  by (simp add: keeps_def s_return_def)

lemma keeps_scanned [keeps_intros]: "keeps I m \<Longrightarrow> keeps I (scanned m)"
  by (auto simp: keeps_def scanned_def split: prod.split) (metis snd_conv)+

lemma keeps_or_not_found [keeps_intros]: "keeps I m \<Longrightarrow> keeps I (or_not_found m)"
  by (auto simp: keeps_def or_not_found_def split: prod.split sum.split) (metis snd_conv)+

lemma keeps_scan_rule [keeps_intros]: "keeps I m \<Longrightarrow> keeps I (scanStepperRule m)"
  by (auto simp: keeps_def scanStepperRule_def split: prod.split sum.split) (metis snd_conv)+

lemma keeps_same: "keeps I m \<Longrightarrow> (\<And>env s. rs_db (snd (n env s)) = rs_db (snd (m env s))) \<Longrightarrow> keeps I n"
  by (simp add: keeps_def)

lemma query_state: "query q env s = (r, s') \<Longrightarrow> rs_db s' = rs_db s"
  using query_db [of q env s] by simp

lemma keeps_transaction [keeps_intros]:
  assumes "keeps I m"
  shows "keeps I (transaction m)"
  unfolding keeps_def
proof (intro allI impI)
  fix env and s :: RuleStore
  assume I: "I (rs_db s)"
  obtain r s1 where b: "query (\<lambda>_. Inr ()) env s = (r, s1)" by fastforce
  obtain x s2 where m: "m env s1 = (x, s2)" by fastforce
  obtain c s3 where e: "query (\<lambda>_. Inr ()) env s2 = (c, s3)" by fastforce
  have "I (rs_db s1)" using query_state [OF b] I by simp
  moreover from this have "I (rs_db s2)" using keepsD [OF assms, of s1 env] m by simp
  ultimately show "I (rs_db (snd (transaction m env s)))"
    using query_state [OF b] query_state [OF e] by (simp add: transaction_def b m e split: sum.split)
qed

subsection \<open>Keys and references\<close>

definition keys_unique :: "RuleDB \<Rightarrow> bool" where
  "keys_unique d = (distinct (map dn_id (t_connections d)) \<and> distinct (map rr_id (t_rules d)) \<and> distinct (map aw_id (t_alerts d))
     \<and> distinct (map ut_id (t_units d)) \<and> distinct (map sr_id (t_ui_rules d)) \<and> distinct (map ln_id (t_lines d))
     \<and> distinct (map wi_id (t_wires d)) \<and> distinct (map ps_id (t_stats d))
     \<and> distinct (map (\<lambda>p. (ps_unit p, ps_parameter p)) (t_stats d)))"

definition references_ok :: "RuleDB \<Rightarrow> bool" where
  "references_ok d = ((\<forall>r \<in> set (t_rules d). connection_known d (rr_connection r))
     \<and> (\<forall>a \<in> set (t_alerts d). al_rule a \<in> rr_id ` set (t_rules d))
     \<and> (\<forall>u \<in> set (t_units d). connection_known d (ut_connection u) \<and> line_known d (ut_line u))
     \<and> (\<forall>w \<in> set (t_wires d). line_known d (Some (wi_line w)))
     \<and> (\<forall>p \<in> set (t_stats d). ps_unit p \<in> ut_id ` set (t_units d)))"

text \<open>The columns the service reads back as lists of texts hold such lists, and every rule has its JSON.\<close>

definition unit_readable :: "UnitRow \<Rightarrow> bool" where
  "unit_readable r = ((\<exists>cs. ut_columns r = strings_json cs) \<and> (\<exists>rs. ut_rules r = strings_json rs))"

definition rows_readable :: "RuleDB \<Rightarrow> bool" where
  "rows_readable d = ((\<forall>r \<in> set (t_units d). unit_readable r)
     \<and> (\<forall>r \<in> set (t_rules d). rr_spec r \<noteq> None))"

definition db_ok :: "RuleDB \<Rightarrow> bool" where
  "db_ok d = (keys_unique d \<and> references_ok d \<and> rows_readable d)"

lemma connection_known_frame [simp]:
    "connection_known (t_rules_update f1 d) r = connection_known d r"
    "connection_known (t_alerts_update f2 d) r = connection_known d r"
    "connection_known (t_units_update f3 d) r = connection_known d r"
    "connection_known (t_ui_rules_update f4 d) r = connection_known d r"
    "connection_known (t_wires_update f5 d) r = connection_known d r"
    "connection_known (t_stats_update f6 d) r = connection_known d r"
    "connection_known (t_lines_update f7 d) r = connection_known d r"
  by (simp_all add: connection_known_def)

lemma line_known_frame [simp]:
    "line_known (t_rules_update f8 d) l = line_known d l"
    "line_known (t_alerts_update f9 d) l = line_known d l"
    "line_known (t_units_update f10 d) l = line_known d l"
    "line_known (t_ui_rules_update f11 d) l = line_known d l"
    "line_known (t_wires_update f12 d) l = line_known d l"
    "line_known (t_stats_update f13 d) l = line_known d l"
    "line_known (t_connections_update f14 d) l = line_known d l"
  by (simp_all add: line_known_def split: option.split)

lemma map_same_key: "(\<And>r. key (f r) = key r) \<Longrightarrow> map key (map (\<lambda>r. if c r then f r else r) rs) = map key rs"
  by (induction rs) simp_all

lemma image_same_key: "(\<And>r. key (f r) = key r) \<Longrightarrow> (\<lambda>r. key (if c r then f r else r)) ` A = key ` A"
  by (intro image_cong) auto

lemma distinct_filter_key: "distinct (map key rs) \<Longrightarrow> distinct (map key (filter P rs))"
  by (simp add: distinct_map inj_on_def)

lemma fold_max_ge: "x \<in> set xs \<or> x \<le> (m :: int) \<Longrightarrow> x \<le> fold max xs m"
proof (induction xs arbitrary: m)
  case (Cons a xs)
  from Cons.prems have "x \<in> set xs \<or> x \<le> max a m" by auto
  from Cons.IH [OF this] show ?case by simp
qed simp

lemma db_okI: "keys_unique d \<Longrightarrow> references_ok d \<Longrightarrow> rows_readable d \<Longrightarrow> db_ok d"
  by (simp add: db_ok_def)

lemma db_okD: "db_ok d \<Longrightarrow> keys_unique d" "db_ok d \<Longrightarrow> references_ok d" "db_ok d \<Longrightarrow> rows_readable d"
  by (simp_all add: db_ok_def)

subsection \<open>Connections, rules and alerts\<close>

lemma add_connection_ok:
  assumes "db_ok d" "dn_id c \<notin> dn_id ` set (t_connections d)"
  shows "db_ok (d \<lparr> t_connections := t_connections d @ [c] \<rparr>)"
  using assms unfolding db_ok_def
  by (auto simp: keys_unique_def references_ok_def rows_readable_def connection_known_def)

lemma keep_connection [keeps_intros]: "keeps db_ok (CreateConnection c)"
  unfolding CreateConnection_def
  by (intro keeps_intros) (auto simp: sql_simps intro!: add_connection_ok)

lemma insert_rule_ok: "db_ok d \<Longrightarrow> insert_rule env now r d = Inr d' \<Longrightarrow> db_ok d'"
  unfolding insert_rule_def db_ok_def
  by (auto simp: sql_simps keys_unique_def references_ok_def rows_readable_def)

lemma update_rules_ok:
  assumes "db_ok d" and id: "\<And>r. rr_id (f r) = rr_id r"
    and ref: "\<And>r. rr_connection (f r) = rr_connection r \<or> connection_known d (rr_connection (f r))"
    and json: "u \<in> rr_id ` set (t_rules d) \<Longrightarrow> (\<And>r. rr_spec r \<noteq> None \<Longrightarrow> rr_spec (f r) \<noteq> None)"
  shows "db_ok (update_rules u f d)"
proof (rule db_okI)
  let ?rs = "map (\<lambda>r. if rr_id r = u then f r else r) (t_rules d)"
  have k: "map rr_id ?rs = map rr_id (t_rules d)" by (rule map_same_key [where f = f]) (rule id)
  then have i: "rr_id ` set ?rs = rr_id ` set (t_rules d)" by (metis set_map)
  show "keys_unique (update_rules u f d)" using db_okD(1) [OF assms(1)] k by (simp add: keys_unique_def update_rules_def del: map_map)
  have "connection_known d (rr_connection (f r))" if "r \<in> set (t_rules d)" for r
    using db_okD(2) [OF assms(1)] ref [of r] that by (auto simp: references_ok_def)
  then show "references_ok (update_rules u f d)"
    using db_okD(2) [OF assms(1)] unfolding references_ok_def update_rules_def by (auto simp: i simp del: set_map) auto
  show "rows_readable (update_rules u f d)"
    using db_okD(3) [OF assms(1)] json by (auto simp: rows_readable_def update_rules_def)
qed


lemma keep_rule_calls [keeps_intros]:
  "keeps db_ok (CreateRule r)" "keeps db_ok (UpdateRule r)" "keeps db_ok (SetRuleEnabled i b t)"
  "keeps db_ok (UpsertStepperRuleToRules r)"
  unfolding CreateRule_def UpdateRule_def SetRuleEnabled_def UpsertStepperRuleToRules_def
  by (intro keeps_intros; clarsimp simp: sql_simps split: if_splits;
      auto intro!: update_rules_ok elim: insert_rule_ok simp: sql_simps)+

lemma keep_delete_rule [keeps_intros]: "keeps db_ok (DeleteRule i)"
  unfolding DeleteRule_def
proof (intro keeps_intros, clarsimp simp: sql_simps)
  fix env d u
  assume d: "db_ok d" and a: "u \<notin> al_rule ` set (t_alerts d)"
  let ?d = "d \<lparr> t_rules := filter (\<lambda>r. rr_id r \<noteq> u) (t_rules d) \<rparr>"
  have "keys_unique ?d" using db_okD(1) [OF d] by (simp add: keys_unique_def distinct_filter_key)
  moreover have "references_ok ?d" using db_okD(2) [OF d] a by (fastforce simp: references_ok_def image_iff)
  moreover have "rows_readable ?d" using db_okD(3) [OF d] by (simp add: rows_readable_def)
  ultimately show "db_ok ?d" by (rule db_okI)
qed

lemma keep_alert_calls [keeps_intros]: "keeps db_ok (UpdateAlertTreated n b)" "keeps db_ok (repo_CreateAlert a)"
proof -
  have k: "map aw_id (map (\<lambda>a. if aw_id a = n then a \<lparr> al_treated := b \<rparr> else a) as) = map aw_id as" for as :: "AlertRow list"
    by (rule map_same_key [where f = "\<lambda>a. a \<lparr> al_treated := b \<rparr>"]) simp
  show "keeps db_ok (UpdateAlertTreated n b)"
    unfolding UpdateAlertTreated_def
    by (intro keeps_intros) (auto simp: db_ok_def keys_unique_def references_ok_def rows_readable_def k simp del: map_map)
  have n: "fold max (map aw_id as) 0 + 1 \<notin> aw_id ` set as" for as :: "AlertRow list"
  proof
    assume "fold max (map aw_id as) 0 + 1 \<in> aw_id ` set as"
    then have "fold max (map aw_id as) 0 + 1 \<le> fold max (map aw_id as) 0" by (intro fold_max_ge) simp
    then show False by simp
  qed
  show "keeps db_ok (repo_CreateAlert a)"
    unfolding repo_CreateAlert_def
    by (intro keeps_intros) (auto simp: sql_simps db_ok_def keys_unique_def references_ok_def rows_readable_def n)
qed


subsection \<open>Machine units\<close>

lemma update_unit_ok:
  assumes "db_ok d" "update_unit i f d = Inr (r, d')" and id: "\<And>r. ut_id (f r) = ut_id r"
    and line: "\<And>r. ut_line (f r) = ut_line r"
    and ref: "\<And>r. ut_connection (f r) = ut_connection r \<or> connection_known d (ut_connection (f r))"
    and read: "\<And>r. unit_readable r \<Longrightarrow> unit_readable (f r)"
  shows "db_ok d'"
proof (rule db_okI)
  let ?us = "map (\<lambda>r. if ut_id r = i then f r else r) (t_units d)"
  have d': "d' = d \<lparr> t_units := ?us \<rparr>" using assms(2) by (auto simp: update_unit_def sql_simps)
  have k: "map ut_id ?us = map ut_id (t_units d)" by (rule map_same_key [where f = f]) (rule id)
  then have i: "ut_id ` set ?us = ut_id ` set (t_units d)" by (metis set_map)
  show "keys_unique d'" using db_okD(1) [OF assms(1)] k by (simp add: keys_unique_def d' del: map_map)
  have "connection_known d (ut_connection (f r)) \<and> line_known d (ut_line (f r))" if "r \<in> set (t_units d)" for r
    using db_okD(2) [OF assms(1)] ref [of r] line that by (auto simp: references_ok_def)
  then show "references_ok d'"
    using db_okD(2) [OF assms(1)] unfolding references_ok_def d' by (auto simp: i simp del: set_map) auto
  show "rows_readable d'" using db_okD(3) [OF assms(1)] read by (auto simp: rows_readable_def d')
qed

lemma readable_simps [simp]:
  "unit_readable (r \<lparr> ut_updated := now \<rparr>) = unit_readable r"
  "unit_readable (r \<lparr> ut_connection := ref \<rparr>) = unit_readable r"
  "unit_readable (r \<lparr> ut_table := t \<rparr>) = unit_readable r"
  "unit_readable (r \<lparr> ut_timestamp := t \<rparr>) = unit_readable r"
  "unit_readable (r \<lparr> ut_x := x \<rparr>) = unit_readable r"
  "unit_readable (r \<lparr> ut_y := x \<rparr>) = unit_readable r"
  by (simp_all add: unit_readable_def)

lemma readable_columns [simp]: "unit_readable r \<Longrightarrow> unit_readable (r \<lparr> ut_columns := strings_json cs \<rparr>)"
  by (auto simp: unit_readable_def)

lemma readable_set_column [simp]: "unit_readable r \<Longrightarrow> unit_readable (set_column c (strings_json xs) r)"
  by (auto simp: unit_readable_def set_column_def split: json_column.split)

lemma set_column_sel [simp]: "ut_id (set_column c v r) = ut_id r" "ut_line (set_column c v r) = ut_line r"
  "ut_connection (set_column c v r) = ut_connection r"
  by (simp_all add: set_column_def split: json_column.split)

lemma keep_create_unit [keeps_intros]: "keeps db_ok (CreateMachineUnit u)"
  unfolding CreateMachineUnit_def
  by (intro keeps_intros) (simp add: sql_simps unit_insert_columns_def unit_insert_values_def)

lemma keep_unit_updates [keeps_intros]: "keeps db_ok (UpdateMachineUnit u)" "keeps db_ok (UpdateConnection i ref)"
  "keeps db_ok (UpdatePosition i x y)"
  unfolding UpdateMachineUnit_def UpdateConnection_def UpdatePosition_def
  by (intro keeps_intros; clarsimp simp: sql_simps; erule (1) update_unit_ok; auto simp: unit_readable_def)+

lemma keep_unit_transactions [keeps_intros]: "keeps db_ok (updateMachineUnitJSONArrays i add remove c)"
  "keeps db_ok (UpdateTable i table columns keepColumns)"
  unfolding updateMachineUnitJSONArrays_def UpdateTable_def Let_def
  by (intro keeps_intros; erule (1) update_unit_ok; simp)+

lemma keep_unit_lists [keeps_intros]: "keeps db_ok (UpdateRules i add remove)" "keeps db_ok (UpdateColumns i add remove)"
  unfolding UpdateRules_def UpdateColumns_def by (intro keeps_intros)+

lemma drop_units_ok:
  assumes "db_ok d"
  shows "db_ok (drop_units gone d)"
proof (rule db_okI)
  let ?ids = "ut_id ` set (filter gone (t_units d))"
  show "keys_unique (drop_units gone d)"
    using db_okD(1) [OF assms] by (simp add: keys_unique_def drop_units_def Let_def distinct_filter_key)
  have "ps_unit p \<in> ut_id ` set (filter (\<lambda>r. \<not> gone r) (t_units d))" if "p \<in> set (t_stats d)" "ps_unit p \<notin> ?ids" for p
  proof -
    have "ps_unit p \<in> ut_id ` set (t_units d)" using db_okD(2) [OF assms] that(1) by (simp add: references_ok_def)
    then obtain r where "r \<in> set (t_units d)" "ps_unit p = ut_id r" by blast
    then show ?thesis using that(2) by auto
  qed
  then show "references_ok (drop_units gone d)"
    using db_okD(2) [OF assms] by (simp add: references_ok_def drop_units_def Let_def)
  show "rows_readable (drop_units gone d)" using db_okD(3) [OF assms] by (simp add: rows_readable_def drop_units_def Let_def)
qed

lemma keep_delete_unit [keeps_intros]: "keeps db_ok (DeleteMachineUnit i)"
proof -
  have "keeps db_ok (statement (\<lambda>d. Inr (\<exists>r \<in> set (t_units d). ut_id r = i, drop_units (\<lambda>r. ut_id r = i) d)))"
    by (intro keeps_intros) (auto intro: drop_units_ok)
  then show ?thesis
    by (rule keeps_same) (simp add: DeleteMachineUnit_def split: prod.split sum.split)
qed


subsection \<open>Production lines, wires, statistics and stepper rules\<close>

lemma keep_create_line [keeps_intros]: "keeps db_ok (CreateProductionLine name)"
  unfolding CreateProductionLine_def
proof (intro keeps_intros, clarsimp simp: sql_simps Let_def)
  fix now d u
  assume d: "db_ok d" and u: "u \<notin> ln_id ` set (t_lines d)"
  let ?l = "\<lparr> ln_id = u, ln_name = name, ln_created = now, ln_updated = now \<rparr>"
  have "line_known (d \<lparr> t_lines := t_lines d @ [?l] \<rparr>) l" if "line_known d l" for l
    using that by (auto simp: line_known_def split: option.splits)
  then show "db_ok (d \<lparr> t_lines := t_lines d @ [?l] \<rparr>)"
    using d u by (simp add: db_ok_def keys_unique_def references_ok_def rows_readable_def)
qed

lemma keep_update_line [keeps_intros]: "keeps db_ok (UpdateProductionLine i name)"
proof -
  have "keeps db_ok (with_now (\<lambda>now env. statement (\<lambda>d. res_bind (as_uuid env i) (\<lambda>u.
       res_bind (find_line u d) (\<lambda>l. let f = (\<lambda>l. l \<lparr> ln_name := name, ln_updated := now \<rparr>) in
       Inr (f l, d \<lparr> t_lines := map (\<lambda>l. if ln_id l = u then f l else l) (t_lines d) \<rparr>)))) env))"
  proof (intro keeps_intros, clarsimp simp: sql_simps Let_def)
    fix now d u
    assume d: "db_ok d"
    let ?ls = "map (\<lambda>l. if ln_id l = u then l \<lparr> ln_name := name, ln_updated := now \<rparr> else l) (t_lines d)"
    have k: "map ln_id ?ls = map ln_id (t_lines d)"
      by (rule map_same_key [where f = "\<lambda>l. l \<lparr> ln_name := name, ln_updated := now \<rparr>"]) simp
    then have i: "ln_id ` set ?ls = ln_id ` set (t_lines d)" by (metis set_map)
    have l: "line_known (d \<lparr> t_lines := ?ls \<rparr>) l = line_known d l" for l
      using i by (simp add: line_known_def del: set_map split: option.split)
    show "db_ok (d \<lparr> t_lines := ?ls \<rparr>)"
      using d k unfolding db_ok_def keys_unique_def references_ok_def rows_readable_def l by (simp del: map_map)
  qed
  then show ?thesis by (rule keeps_same) (simp add: UpdateProductionLine_def split: prod.split)
qed

lemma drop_line_ok:
  assumes "db_ok d"
  shows "db_ok (drop_line u d)"
proof -
  let ?d = "drop_units (\<lambda>r. ut_line r = Some u) d"
  have d: "db_ok ?d" by (rule drop_units_ok [OF assms])
  have no: "ut_line r \<noteq> Some u" if "r \<in> set (t_units ?d)" for r using that by (simp add: drop_units_def Let_def)
  let ?e = "?d \<lparr> t_lines := filter (\<lambda>l. ln_id l \<noteq> u) (t_lines ?d), t_wires := filter (\<lambda>w. wi_line w \<noteq> u) (t_wires ?d) \<rparr>"
  have l: "line_known ?e l" if "line_known ?d l" "l \<noteq> Some u" for l
    using that by (auto simp: line_known_def split: option.splits)
  show ?thesis
    unfolding drop_line_def Let_def
  proof (rule db_okI)
    show "keys_unique ?e" using db_okD(1) [OF d] by (simp add: keys_unique_def distinct_filter_key)
    show "references_ok ?e" using db_okD(2) [OF d] l no unfolding references_ok_def by simp
    show "rows_readable ?e" using db_okD(3) [OF d] by (simp add: rows_readable_def)
  qed
qed

lemma keep_delete_line [keeps_intros]: "keeps db_ok (DeleteProductionLine i)"
proof -
  have "keeps db_ok (\<lambda>env. statement (\<lambda>d. res_bind (as_uuid env i) (\<lambda>u. Inr (u \<in> ln_id ` set (t_lines d), drop_line u d))) env)"
    by (intro keeps_intros) (auto simp: sql_simps intro: drop_line_ok)
  then show ?thesis by (rule keeps_same) (simp add: DeleteProductionLine_def split: prod.split sum.split)
qed

lemma keep_insert_wire [keeps_intros]: "keeps db_ok (insert_wire now i w)"
  unfolding insert_wire_def
  by (intro keeps_intros) (auto simp: sql_simps db_ok_def keys_unique_def references_ok_def rows_readable_def)

lemma keep_insert_wires [keeps_intros]: "keeps db_ok (insert_wires now i ws)"
  by (induction ws) (auto intro!: keeps_intros)

lemma keep_wires [keeps_intros]: "keeps db_ok (ReplaceWiresForLine i ws)"
proof -
  have read: "keeps db_ok (ListWiresByLine i)" by (simp add: keeps_def ListWiresByLine_def)
  have del: "keeps db_ok (\<lambda>env. statement (\<lambda>d. res_bind (as_uuid env i)
       (\<lambda>u. Inr ((), d \<lparr> t_wires := filter (\<lambda>w. wi_line w \<noteq> u) (t_wires d) \<rparr>))) env)"
    by (intro keeps_intros)
      (auto simp: sql_simps db_ok_def keys_unique_def references_ok_def rows_readable_def distinct_filter_key)
  show ?thesis unfolding ReplaceWiresForLine_def by (intro keeps_intros del read)
qed

lemma rounded_sel [simp]: "ps_id (rounded env p) = ps_id p" "ps_unit (rounded env p) = ps_unit p"
  "ps_parameter (rounded env p) = ps_parameter p"
  by (simp_all add: rounded_def)

lemma keep_stats [keeps_intros]: "keeps db_ok (UpsertParameterStats p)"
  unfolding UpsertParameterStats_def
proof (intro keeps_intros)
  fix now env d x d'
  assume d: "db_ok d" and r: "res_bind (require (int4 (ps_rows p)) ''value out of range for int4'')
    (\<lambda>_. let n = rounded env p \<lparr> ps_computed := now \<rparr> in
       if \<exists>q \<in> set (t_stats d). same_parameter p q
       then Inr ((), d \<lparr> t_stats := map (\<lambda>q. if same_parameter p q then n \<lparr> ps_id := ps_id q \<rparr> else q) (t_stats d) \<rparr>)
       else res_bind (require (ps_unit p \<in> ut_id ` set (t_units d)) ''foreign key violation'') (\<lambda>_.
         res_bind (require (ps_id p \<notin> ps_id ` set (t_stats d)) ''duplicate key'') (\<lambda>_.
         Inr ((), d \<lparr> t_stats := t_stats d @ [n] \<rparr>)))) = Inr (x, d')"
  let ?n = "rounded env p \<lparr> ps_computed := now \<rparr>"
  let ?f = "\<lambda>q. if same_parameter p q then ?n \<lparr> ps_id := ps_id q \<rparr> else q"
  have f: "ps_id (?f q) = ps_id q" "ps_unit (?f q) = ps_unit q" "ps_parameter (?f q) = ps_parameter q" for q
    by (simp_all add: same_parameter_def)
  show "db_ok d'"
  proof (cases "\<exists>q \<in> set (t_stats d). same_parameter p q")
    case True
    then have d': "d' = d \<lparr> t_stats := map ?f (t_stats d) \<rparr>" using r by (auto simp: sql_simps Let_def)
    have "map ps_id (map ?f qs) = map ps_id qs" "map (\<lambda>q. (ps_unit q, ps_parameter q)) (map ?f qs) = map (\<lambda>q. (ps_unit q, ps_parameter q)) qs"
      for qs by (induction qs) (simp_all add: f)
    then show ?thesis
      using d unfolding d' db_ok_def keys_unique_def references_ok_def rows_readable_def by (auto simp: same_parameter_def simp del: map_map)
  next
    case False
    then have d': "d' = d \<lparr> t_stats := t_stats d @ [?n] \<rparr>" and u: "ps_unit p \<in> ut_id ` set (t_units d)"
      and i: "ps_id p \<notin> ps_id ` set (t_stats d)" using r by (auto simp: sql_simps Let_def)
    have "(ps_unit p, ps_parameter p) \<notin> (\<lambda>q. (ps_unit q, ps_parameter q)) ` set (t_stats d)"
      using False by (auto simp: same_parameter_def)
    then show ?thesis
      using d u i unfolding d' db_ok_def keys_unique_def references_ok_def rows_readable_def by auto
  qed
qed


lemma keep_stepper_calls [keeps_intros]: "keeps db_ok (CreateStepperRule r)" "keeps db_ok (UpdateStepperRule r)"
  "keeps db_ok (SetStepperRuleEnabled i b)" "keeps db_ok (DeleteStepperRule i)"
proof -
  have up: "db_ok (update_ui_rules u f d)" if "db_ok d" "\<And>r. sr_id (f r) = sr_id r" for u f d
  proof -
    have "map sr_id (map (\<lambda>r. if sr_id r = u then f r else r) (t_ui_rules d)) = map sr_id (t_ui_rules d)"
      by (rule map_same_key [where f = f]) (rule that(2))
    then show ?thesis
      using that(1) by (simp add: db_ok_def keys_unique_def references_ok_def rows_readable_def update_ui_rules_def del: map_map)
  qed
  show "keeps db_ok (CreateStepperRule r)"
    unfolding CreateStepperRule_def
    by (intro keeps_intros)
      (auto simp: sql_simps Let_def db_ok_def keys_unique_def references_ok_def rows_readable_def)
  show "keeps db_ok (UpdateStepperRule r)" "keeps db_ok (SetStepperRuleEnabled i b)"
    unfolding UpdateStepperRule_def SetStepperRuleEnabled_def
    by (intro keeps_intros; auto simp: sql_simps Let_def intro!: up)+
  show "keeps db_ok (DeleteStepperRule i)"
    unfolding DeleteStepperRule_def
    by (intro keeps_intros)
      (auto simp: sql_simps db_ok_def keys_unique_def references_ok_def rows_readable_def distinct_filter_key)
qed

subsection \<open>Sequences of calls\<close>

datatype repo_call = DoCreateConnection DBConnection | DoCreateRule RuleRow | DoUpdateRule RuleRow
  | DoSetRuleEnabled string bool string | DoUpsertRule RuleRow | DoDeleteRule string | DoAlertTreated int bool
  | DoCreateAlert AlertRow | DoCreateUnit MachineUnit | DoUpdateUnit MachineUnit | DoDeleteUnit string
  | DoUpdateRules string "string list" "string list" | DoUpdateColumns string "string list" "string list"
  | DoUpdateTable string string "string list option" bool | DoUpdateConnection string string | DoUpdatePosition string f64 f64
  | DoCreateLine string | DoUpdateLine string string | DoDeleteLine string | DoReplaceWires string "CanvasWire list"
  | DoUpsertStats ParameterStats | DoCreateStepper StepperRule | DoUpdateStepper StepperRule
  | DoSetStepperEnabled string bool | DoDeleteStepper string

fun run_call :: "PgEnv \<Rightarrow> repo_call \<Rightarrow> RuleStore \<Rightarrow> RuleStore" where
  "run_call env (DoCreateConnection c) s = snd (CreateConnection c env s)"
| "run_call env (DoCreateRule r) s = snd (CreateRule r env s)"
| "run_call env (DoUpdateRule r) s = snd (UpdateRule r env s)"
| "run_call env (DoSetRuleEnabled i b t) s = snd (SetRuleEnabled i b t env s)"
| "run_call env (DoUpsertRule r) s = snd (UpsertStepperRuleToRules r env s)"
| "run_call env (DoDeleteRule i) s = snd (DeleteRule i env s)"
| "run_call env (DoAlertTreated n b) s = snd (UpdateAlertTreated n b env s)"
| "run_call env (DoCreateAlert a) s = snd (repo_CreateAlert a env s)"
| "run_call env (DoCreateUnit u) s = snd (CreateMachineUnit u env s)"
| "run_call env (DoUpdateUnit u) s = snd (UpdateMachineUnit u env s)"
| "run_call env (DoDeleteUnit i) s = snd (DeleteMachineUnit i env s)"
| "run_call env (DoUpdateRules i a r) s = snd (UpdateRules i a r env s)"
| "run_call env (DoUpdateColumns i a r) s = snd (UpdateColumns i a r env s)"
| "run_call env (DoUpdateTable i t cs k) s = snd (UpdateTable i t cs k env s)"
| "run_call env (DoUpdateConnection i c) s = snd (UpdateConnection i c env s)"
| "run_call env (DoUpdatePosition i x y) s = snd (UpdatePosition i x y env s)"
| "run_call env (DoCreateLine n) s = snd (CreateProductionLine n env s)"
| "run_call env (DoUpdateLine i n) s = snd (UpdateProductionLine i n env s)"
| "run_call env (DoDeleteLine i) s = snd (DeleteProductionLine i env s)"
| "run_call env (DoReplaceWires i ws) s = snd (ReplaceWiresForLine i ws env s)"
| "run_call env (DoUpsertStats p) s = snd (UpsertParameterStats p env s)"
| "run_call env (DoCreateStepper r) s = snd (CreateStepperRule r env s)"
| "run_call env (DoUpdateStepper r) s = snd (UpdateStepperRule r env s)"
| "run_call env (DoSetStepperEnabled i b) s = snd (SetStepperRuleEnabled i b env s)"
| "run_call env (DoDeleteStepper i) s = snd (DeleteStepperRule i env s)"

lemma run_call_keeps: "db_ok (rs_db s) \<Longrightarrow> db_ok (rs_db (run_call env c s))"
  by (cases c) (simp_all add: keeps_intros keepsD)

definition empty_db :: RuleDB where
  "empty_db = \<lparr> t_connections = [], t_rules = [], t_alerts = [], t_units = [], t_ui_rules = [], t_lines = [], t_wires = [],
     t_stats = [] \<rparr>"

definition empty_store :: RuleStore where
  "empty_store = \<lparr> rs_db = empty_db, rs_step = 0, rs_events = [] \<rparr>"

lemma empty_db_ok: "db_ok empty_db"
  by (simp add: db_ok_def keys_unique_def references_ok_def rows_readable_def empty_db_def)

text \<open>
  Whatever calls the handlers make, and whichever statements of them fail, the tables of
  the rule service keep unique keys, every reference points at a row that exists, the
  list columns of the machine units stay readable and no rule loses its JSON.
\<close>
theorem store_keeps_integrity:
  assumes "db_ok (rs_db s)"
  shows "db_ok (rs_db (fold (run_call env) calls s))"
  using assms by (induction calls arbitrary: s) (simp_all add: run_call_keeps)

definition example_env :: PgEnv where
  "example_env = \<lparr> pg_clock = (\<lambda>n. int n), pg_up = (\<lambda>_. True), pg_cut = (\<lambda>_. None), pg_fresh = (\<lambda>n. ''u'' @ nat_str n),
     pg_bus = (\<lambda>_. True), pg_uuid = Some, pg_numeric = id \<rparr>"

lemma store_keeps_integrity_witness:
  "db_ok (rs_db (fold (run_call example_env) [DoCreateLine ''l'', DoReplaceWires ''u0'' [], DoDeleteLine ''u0''] empty_store))"
  using store_keeps_integrity [of empty_store] by (simp only: empty_store_def RuleStore.select_convs empty_db_ok)


subsection \<open>List updates\<close>

lemma remdups_snoc: "remdups (zs @ [x]) = filter (\<lambda>z. z \<noteq> x) (remdups zs) @ [x]"
  by (induction zs) auto

lemma rev_filter_remdups: "rev (remdups (rev (x # ys))) = x # filter (\<lambda>z. z \<noteq> x) (rev (remdups (rev ys)))"
  by (simp add: remdups_snoc rev_filter)

lemma keep_new_cong: "set seen = set seen' \<Longrightarrow> keep_new gone seen xs = keep_new gone seen' xs"
proof (induction xs arbitrary: seen seen')
  case (Cons a xs)
  show ?case using Cons.prems Cons.IH [of "a # seen" "a # seen'"] Cons.IH [of seen seen'] by simp
qed simp

lemma keep_new_seen: "keep_new gone (x # seen) xs = filter (\<lambda>z. z \<noteq> x) (keep_new gone seen xs)"
proof (induction xs arbitrary: seen)
  case (Cons a xs)
  have "keep_new gone (a # x # seen) xs = keep_new gone (x # a # seen) xs" by (rule keep_new_cong) auto
  then show ?case using Cons.IH [of seen] Cons.IH [of "a # seen"] by auto
qed simp

lemma keep_new_eq: "keep_new gone seen xs = rev (remdups (rev (filter (\<lambda>v. v \<notin> set gone \<and> v \<notin> set seen) xs)))"
proof (induction xs)
  case (Cons a xs)
  then show ?case by (simp add: keep_new_seen remdups_snoc rev_filter)
qed simp

lemma remdups_two: "rev (remdups (rev (xs @ ys))) = rev (remdups (rev xs)) @ filter (\<lambda>y. y \<notin> set xs) (rev (remdups (rev ys)))"
proof (induction xs)
  case (Cons a xs)
  have "rev (remdups (rev (a # xs @ ys))) = a # filter (\<lambda>z. z \<noteq> a) (rev (remdups (rev (xs @ ys))))" by (rule rev_filter_remdups)
  also have "\<dots> = rev (remdups (rev (a # xs))) @ filter (\<lambda>y. y \<notin> set (a # xs)) (rev (remdups (rev ys)))"
    unfolding Cons.IH rev_filter_remdups by (auto intro: filter_cong)
  finally show ?case by simp
qed simp


text \<open>The order of the lists is the order of first occurrence.\<close>

definition first_occurrences :: "string list \<Rightarrow> string list" where
  "first_occurrences xs = rev (remdups (rev xs))"

lemma list_update_first:
  "storage_applyAddRemove current add remove = first_occurrences (filter (\<lambda>v. v \<notin> set remove) (current @ add))"
  "dedupePreserveOrder add = first_occurrences add"
proof -
  have d: "dedupe_from seen xs = keep_new [] seen xs" for seen xs by (induction xs arbitrary: seen) auto
  have f: "set (first_occurrences xs) = set xs" for xs by (simp add: first_occurrences_def)
  let ?P = "\<lambda>v. v \<notin> set remove"
  let ?c = "filter ?P current" let ?a = "filter ?P add"
  have "keep_new remove (keep_new remove [] current) add = filter (\<lambda>y. y \<notin> set ?c) (rev (remdups (rev ?a)))"
    by (simp add: keep_new_eq rev_filter remdups_filter)
  moreover have "keep_new remove [] current = rev (remdups (rev ?c))" by (simp add: keep_new_eq)
  ultimately have "storage_applyAddRemove current add remove = rev (remdups (rev (?c @ ?a)))"
    unfolding storage_applyAddRemove_def Let_def remdups_two by simp
  then have "storage_applyAddRemove current add remove = first_occurrences (filter ?P (current @ add))"
    by (simp add: first_occurrences_def)
  then show "storage_applyAddRemove current add remove = first_occurrences (filter ?P (current @ add))" .
  show "dedupePreserveOrder add = first_occurrences add"
    by (simp add: dedupePreserveOrder_def d keep_new_eq first_occurrences_def)
qed

text \<open>
  C26: Adding and removing names in a list, as the repository and the handler each do it, is
  the list of first occurrences in the old list followed by the added names, without
  the removed names; removing a name wins over adding it.
\<close>
theorem list_update_reference:
  "storage_applyAddRemove current add remove = first_occurrences (filter (\<lambda>v. v \<notin> set remove) (current @ add))
    \<and> applyAddRemove current add remove = storage_applyAddRemove current add remove
    \<and> dedupePreserveOrder add = first_occurrences add"
  by (simp add: list_update_first applyAddRemove_def storage_applyAddRemove_def [symmetric])


subsection \<open>What a call answers\<close>

lemma statement_Inr:
  "statement f env s = (Inr x, s') \<longleftrightarrow> pg_up env (rs_step s) \<and> (\<exists>d. f (rs_db s) = Inr (x, d) \<and> s' = rs_tick (s \<lparr> rs_db := d \<rparr>))"
  by (auto simp: statement_def split: sum.split)

lemma query_Inr: "query q env s = (Inr x, s') \<longleftrightarrow> pg_up env (rs_step s) \<and> q (rs_db s) = Inr x \<and> s' = rs_tick s"
  by (auto simp: query_def statement_Inr split: sum.split)

lemma s_bind_Inr: "s_bind m k env s = (Inr y, s') \<longleftrightarrow> (\<exists>x s1. m env s = (Inr x, s1) \<and> k x env s1 = (Inr y, s'))"
  by (auto simp: s_bind_def split: prod.split sum.split)

lemma scanned_Inr: "scanned m env s = (Inr u, s') \<longleftrightarrow> (\<exists>r. m env s = (Inr r, s') \<and> unit_of_row r = Inr u)"
  by (auto simp: scanned_def scanMachineUnit_def split: prod.split sum.split store_error.split)

lemma or_not_found_Inr: "or_not_found m env s = (Inr x, s') \<longleftrightarrow> m env s = (Inr x, s')"
  by (auto simp: or_not_found_def split: prod.split sum.split)

lemma transaction_Inr: "transaction m env s = (Inr x, s') \<longleftrightarrow>
  (\<exists>s2. pg_up env (rs_step s) \<and> m env (rs_tick s) = (Inr x, s2) \<and> pg_up env (rs_step s2) \<and> s' = rs_tick s2)"
  by (auto simp: transaction_def query_Inr split: prod.split sum.split) (auto simp: query_def statement_def rs_tick_def split: if_splits)

lemmas call_simps = statement_Inr query_Inr s_bind_Inr scanned_Inr or_not_found_Inr transaction_Inr s_return_def with_now_def
  with_fresh_def

lemma json_list_strings: "json_list json_string (strings_json xs) = Inr xs"
proof -
  have "fold (\<lambda>x acc. case acc of Inl e \<Rightarrow> Inl e | Inr ys \<Rightarrow> (case json_string x of Inl e \<Rightarrow> Inl e | Inr y \<Rightarrow> Inr (ys @ [y])))
    (map VStr xs) (Inr zs) = Inr (zs @ xs)" for zs
    by (induction xs arbitrary: zs) (simp_all add: json_string_def)
  from this [of "[]"] show ?thesis by (simp add: json_list_def strings_json_def)
qed

lemma decode_strings [simp]: "decodeStringArray (strings_json xs) = Inr xs"
  by (simp add: decodeStringArray_def json_list_strings)

lemma UpdateColumns_answer:
  assumes "UpdateColumns i add remove env s = (Inr u, s')" "find_unit i (rs_db s) = Inr row" "ut_columns row = strings_json current"
  shows "mu_columns u = storage_applyAddRemove current add remove"
  using assms
  by (auto simp: UpdateColumns_def updateMachineUnitJSONArrays_def call_simps get_column_def set_column_def sql_simps
      update_unit_def unit_of_row_def)

lemma on_ok_ApiOK: "fst (on_ok m fail k env s) = ApiOK st y \<longleftrightarrow>
   (\<exists>x s1. m env s = (Inr x, s1) \<and> fst (k x env s1) = ApiOK st y) \<or> (\<exists>e s1. m env s = (Inl e, s1) \<and> fail e = ApiOK st y)"
  by (auto simp: on_ok_def split: prod.split sum.split)

text \<open>
  C35: Replacing the columns of a unit does not do what it says: the columns that were selected
  before are removed last, so the answer holds the requested columns without those the unit
  already had, and asking for the columns a unit has leaves it with none.
\<close>
theorem replace_columns_drops_current:
  assumes "find_unit unitID (rs_db s) = Inr row" "ut_columns row = strings_json current"
    and "fst (handleMachineUnitColumnsReplace unitID (Inr requested) env s) = ApiOK status resp"
  shows "ma_columns resp = first_occurrences (filter (\<lambda>c. c \<notin> set current) requested)"
proof -
  have f: "filter P (first_occurrences xs) = first_occurrences (filter P xs)" for P xs
    by (simp add: first_occurrences_def rev_filter remdups_filter)
  obtain u cu s1 s2 s3 where u: "UpdateColumns unitID (first_occurrences requested) (mu_columns cu) env s1 = (Inr u, s2)"
      "GetMachineUnit unitID env s = (Inr cu, s1)" "resp = buildMachineUnitResponse u"
    using assms(3)
    by (auto simp: handleMachineUnitColumnsReplace_def with_body_def Let_def limit_exceeded_def respond_def list_update_first
      check_lists_def writeValidationError_def on_ok_ApiOK answer_unit_def unit_error_def split: if_splits)
  have g: "mu_columns cu = current" "rs_db s1 = rs_db s"
    using u(2) assms(1,2) by (auto simp: GetMachineUnit_def call_simps unit_of_row_def sql_simps)
  have d: "first_occurrences (first_occurrences xs) = first_occurrences xs" for xs
    by (simp add: first_occurrences_def distinct_remdups_id)
  have "mu_columns u = storage_applyAddRemove current (first_occurrences requested) current"
    using UpdateColumns_answer [OF u(1)] g assms(1,2) by simp
  then show ?thesis by (simp add: u(3) buildMachineUnitResponse_def list_update_first f [symmetric] d)
qed

definition example_unit :: UnitRow where
  "example_unit = \<lparr> ut_id = ''m'', ut_name = ''m'', ut_connection = ''c'', ut_table = ''t'', ut_timestamp = ''ts'',
     ut_columns = strings_json [''a'', ''b''], ut_live = VList [], ut_rules = strings_json [], ut_x = f0, ut_y = f0,
     ut_line = None, ut_created = 0, ut_updated = 0 \<rparr>"

definition unit_store :: RuleStore where
  "unit_store = empty_store \<lparr> rs_db := empty_db \<lparr> t_units := [example_unit] \<rparr> \<rparr>"

lemma replaced_example: "\<exists>resp. fst (handleMachineUnitColumnsReplace ''m'' (Inr [''b'', ''d'']) example_env unit_store) = ApiOK 200 resp"
proof -
  have "(case fst (handleMachineUnitColumnsReplace ''m'' (Inr [''b'', ''d'']) example_env unit_store) of
    ApiOK st r \<Rightarrow> st = 200 | _ \<Rightarrow> False)" by code_simp
  then show ?thesis by (auto split: api_reply.splits)
qed

lemma replace_columns_drops_current_witness:
  "\<exists>resp. fst (handleMachineUnitColumnsReplace ''m'' (Inr [''b'', ''d'']) example_env unit_store) = ApiOK 200 resp
     \<and> ma_columns resp = [''d'']"
proof -
  obtain resp where r: "fst (handleMachineUnitColumnsReplace ''m'' (Inr [''b'', ''d'']) example_env unit_store) = ApiOK 200 resp"
    using replaced_example by blast
  have "find_unit ''m'' (rs_db unit_store) = Inr example_unit"
    by (simp add: find_unit_def unit_store_def one_row_def example_unit_def)
  from replace_columns_drops_current [OF this _ r] r show ?thesis
    by (simp add: example_unit_def first_occurrences_def)
qed


subsection \<open>Replacing the wires of a line\<close>

definition stamped_wire :: "int \<Rightarrow> string \<Rightarrow> CanvasWire \<Rightarrow> CanvasWire" where
  "stamped_wire now u w = w \<lparr> wi_line := u, wi_created := now \<rparr>"

lemma as_uuid_Inr: "as_uuid env t = Inr u \<longleftrightarrow> pg_uuid env t = Some u"
  by (simp add: as_uuid_def split: option.split)

lemma insert_wires_Inr:
  assumes "insert_wires now i ws env s = (Inr x, s')" "pg_uuid env i = Some u"
  shows "rs_db s' = (rs_db s) \<lparr> t_wires := t_wires (rs_db s) @ map (stamped_wire now u) ws \<rparr>"
  using assms(1)
proof (induction ws arbitrary: s)
  case (Cons w ws)
  then obtain s1 where s1: "insert_wire now i w env s = (Inr (), s1)" "insert_wires now i ws env s1 = (Inr x, s')"
    by (auto simp: s_bind_Inr)
  then have "rs_db s1 = (rs_db s) \<lparr> t_wires := t_wires (rs_db s) @ [stamped_wire now u w] \<rparr>"
    by (auto simp: insert_wire_def statement_Inr sql_simps as_uuid_Inr assms(2) stamped_wire_def)
  then show ?case using Cons.IH [OF s1(2)] by simp
qed (simp add: s_return_def)

lemma transaction_Inl: "transaction m env s = (Inl e, s') \<Longrightarrow> rs_db s' = rs_db s"
  by (auto simp: transaction_def split: prod.splits sum.splits dest!: query_state)

definition replaced_wires :: "PgEnv \<Rightarrow> string \<Rightarrow> CanvasWire list \<Rightarrow> RuleStore \<Rightarrow> RuleDB" where
  "replaced_wires env i ws s = (let u = the (pg_uuid env i) in (rs_db s) \<lparr> t_wires :=
     filter (\<lambda>w. wi_line w \<noteq> u) (t_wires (rs_db s)) @ map (stamped_wire (pg_clock env (rs_step s)) u) ws \<rparr>)"

text \<open>
  C17: Replacing the wires of a production line is all or nothing: afterwards the tables are
  either unchanged or hold the other wires, in their order, followed by the new ones. An
  answer without an error means that they were replaced.
\<close>
theorem replace_wires_atomic:
  "case ReplaceWiresForLine i ws env s of
     (Inr saved, s') \<Rightarrow> rs_db s' = replaced_wires env i ws s
   | (Inl e, s') \<Rightarrow> rs_db s' = rs_db s \<or> rs_db s' = replaced_wires env i ws s"
proof -
  let ?del = "\<lambda>env. statement (\<lambda>d. res_bind (as_uuid env i) (\<lambda>u. Inr ((), d \<lparr> t_wires := filter (\<lambda>w. wi_line w \<noteq> u) (t_wires d) \<rparr>))) env"
  let ?now = "pg_clock env (rs_step s)"
  let ?t = "transaction (s_bind ?del (\<lambda>_. insert_wires ?now i ws))"
  obtain r s1 where t: "?t env s = (r, s1)" by fastforce
  have list: "ListWiresByLine i env s1 = (r', s2) \<Longrightarrow> rs_db s2 = rs_db s1" for r' s2
    using query_rows_db unfolding ListWiresByLine_def by (metis snd_conv)
  have ok: "rs_db s1 = replaced_wires env i ws s" if "r = Inr x" for x
  proof -
    have tr: "?t env s = (Inr x, s1)" using t that by simp
    then obtain u s3 s2 where 1: "pg_uuid env i = Some u" "insert_wires ?now i ws env s3 = (Inr x, s2)" "rs_db s1 = rs_db s2"
        "rs_db s3 = (rs_db s) \<lparr> t_wires := filter (\<lambda>w. wi_line w \<noteq> u) (t_wires (rs_db s)) \<rparr>"
      by (auto simp: transaction_Inr s_bind_Inr statement_Inr sql_simps as_uuid_Inr)
    show ?thesis using insert_wires_Inr [OF 1(2,1)] 1 by (simp add: replaced_wires_def)
  qed
  have no: "rs_db s1 = rs_db s" if "r = Inl e" for e using transaction_Inl t that by blast
  have e: "ReplaceWiresForLine i ws env s = (case r of Inl e \<Rightarrow> (Inl e, s1) | Inr _ \<Rightarrow> ListWiresByLine i env s1)"
    unfolding ReplaceWiresForLine_def by (subst s_bind_def) (simp add: with_now_def t)
  obtain r' s2 where l: "ListWiresByLine i env s1 = (r', s2)" by fastforce
  show ?thesis
  proof (cases r)
    case (Inl err)
    then show ?thesis using no by (simp add: e)
  next
    case (Inr x)
    then have "rs_db s2 = replaced_wires env i ws s" using ok list [OF l] by simp
    then show ?thesis using Inr by (simp add: e l split: sum.split)
  qed
qed

subsection \<open>Creating a machine unit\<close>

text \<open>
  C34: No machine unit is ever created: the insert always fails and changes nothing, so a request
  without an identifier is answered with its complaints, or with status 500.
\<close>
theorem create_machine_unit_fails:
  "(\<exists>e. fst (CreateMachineUnit u env s) = Inl e) \<and> rs_db (snd (CreateMachineUnit u env s)) = rs_db s
   \<and> (trim_space (mr_id req) = [] \<longrightarrow> (case fst (handleMachineUnitCreate h (Inr req) env s) of
       ApiOK status resp \<Rightarrow> False
     | ApiInvalid code message details \<Rightarrow> code = ''VALIDATION_ERROR''
     | ApiMessage status message \<Rightarrow> status = 500 \<and> message = ''failed to create machine unit''))"
proof -
  have c: "\<exists>e s'. CreateMachineUnit u env s = (Inl e, s') \<and> rs_db s' = rs_db s" for u and s :: RuleStore
    by (auto simp: CreateMachineUnit_def scanned_def with_now_def statement_def res_bind_def require_def
        unit_insert_columns_def unit_insert_values_def scanMachineUnit_def split: prod.split)
  obtain e s' where "CreateMachineUnit u env s = (Inl e, s')" "rs_db s' = rs_db s" using c by blast
  moreover have "trim_space (mr_id req) = [] \<Longrightarrow> (case fst (handleMachineUnitCreate h (Inr req) env s) of
       ApiOK status resp \<Rightarrow> False
     | ApiInvalid code message details \<Rightarrow> code = ''VALIDATION_ERROR''
     | ApiMessage status message \<Rightarrow> status = 500 \<and> message = ''failed to create machine unit'')"
  proof -
    assume r: "trim_space (mr_id req) = []"
    obtain u details s1 where v: "validateMachineUnitRequest h req env s = ((u, details), s1)" by (metis surj_pair)
    obtain e s' where "CreateMachineUnit (u \<lparr> mu_id := ''machine-'' @ pg_fresh env (rs_step s1) \<rparr>) env s1 = (Inl e, s')" using c by blast
    then show ?thesis
      using r v by (simp add: handleMachineUnitCreate_def with_body_def invalid_unit_def respond_def writeValidationError_def on_ok_def)
  qed
  ultimately show ?thesis by simp
qed


definition example_handler :: RuleHandler where
  "example_handler = \<lparr> rh_seal = (\<lambda>_ _ p. p), rh_random = (\<lambda>n. Inr (replicate n CHR 0x61)), rh_key = replicate 32 CHR 0x6B,
     rh_min_poll = 5, rh_max_poll = 3600, rh_uuid_ok = (\<lambda>_. True) \<rparr>"

definition example_connection :: DBConnection where
  "example_connection = \<lparr> dn_id = ''c'', dn_name = ''plant'', dn_type = ''postgres'', dn_host = ''db'', dn_port = 5432,
     dn_user = ''u'', dn_password = [], dn_database = ''d'', dn_created = 0 \<rparr>"

definition connected_store :: RuleStore where
  "connected_store = unit_store \<lparr> rs_db := (rs_db unit_store) \<lparr> t_connections := [example_connection] \<rparr> \<rparr>"

definition example_unit_request :: machineUnitRequest where
  "example_unit_request = \<lparr> mr_id = [], mr_name = ''press'', mr_connection = ''c'', mr_table = ''t'', mr_timestamp = ''ts'',
     mr_columns = [''v''], mr_live = None, mr_rules = [], mr_pos = None, mr_line = [] \<rparr>"

lemma create_machine_unit_fails_witness:
  "fst (handleMachineUnitCreate example_handler (Inr example_unit_request) example_env connected_store)
     = ApiMessage 500 ''failed to create machine unit''"
proof -
  have "(case fst (handleMachineUnitCreate example_handler (Inr example_unit_request) example_env connected_store) of
    ApiInvalid _ _ _ \<Rightarrow> False | _ \<Rightarrow> True)" by code_simp
  then show ?thesis
    using create_machine_unit_fails [where h = example_handler and req = example_unit_request and env = example_env
        and s = connected_store]
    by (simp add: example_unit_request_def split: api_reply.splits)
qed

end
