(* ===== verification/RuleRoutes.thy ===== *)
theory RuleRoutes
  imports Main RuleLines RulePreview RuleCatalog
begin

text \<open>
  The requests the rule service serves, as its four route tables list them
  (\<open>RegisterRoutes\<close> and its kin in \<open>internal/api\<close>). A request names the parameters of its path
  and its decoded body; the handlers answer with payloads of different types, so serving a
  request is what it does to the store. The methods of the two handlers that look at them
  are those of the route.
\<close>

datatype rule_route = PostConnection "connectionRequest res" | PostRuleValidate "rulePromptRequest res"
  | PostRule "rulePromptRequest res" | GetRules | GetRuleByID string | PutRule string "ruleUpdateRequest res"
  | PostRuleEnable string | PostRuleDisable string | GetRuleAlerts string | PostAlertTreated string "bool res"

datatype unit_route = PostUnit "machineUnitRequest res" | GetUnits | GetUnit string
  | PutUnit string "machineUnitRequest res" | DeleteUnit string | PostUnitRules string "updateListRequest res"
  | PostUnitColumns string "updateListRequest res" | PutUnitColumns string "string list res"
  | PutUnitTable string "updateTableRequest res" | PutUnitConnection string "string res"
  | PatchUnitPosition string "positionInput res" | PostUnitStats string "parameterStatInput list res" | GetUnitStats string

datatype line_route = PostLine "string res" | GetLines | GetLine string | PutLine string "string res" | DeleteLine string
  | GetLineUnits string | GetLineWires string | PutLineWires string "wireRequest list res"

datatype stepper_route = GetCatalog | PostBaselineCheck "baselineCheckRequest res" | PostPreview "previewRequest res"
  | PostStepperRule "stepperRuleRequest res" | GetStepperRules string | GetStepperRuleByID string
  | PutStepperRule string "stepperRuleRequest res" | DeleteStepperRuleByID string | PostStepperEnable string
  | PostStepperDisable string | GetUnitParameters string | GetRuleHealth string

datatype api_request = RuleRequest rule_route | UnitRequest unit_route | LineRequest line_route | StepperRequest stepper_route

definition served :: "'a handler \<Rightarrow> PgEnv \<Rightarrow> RuleStore \<Rightarrow> RuleStore" where
  "served h env s = snd (h env s)"

fun serve_rules :: "RuleHandler \<Rightarrow> rule_route \<Rightarrow> PgEnv \<Rightarrow> RuleStore \<Rightarrow> RuleStore" where
  "serve_rules h (PostConnection body) = served (handleConnections h ''POST'' body)"
| "serve_rules h (PostRuleValidate body) = served (handleRulesValidate h ''POST'' body)"
| "serve_rules h (PostRule body) = served (handleRulesCreate h body)"
| "serve_rules h GetRules = served handleRulesList"
| "serve_rules h (GetRuleByID i) = served (handleRuleGetByID i)"
| "serve_rules h (PutRule i body) = served (handleRuleUpdateByID h i body)"
| "serve_rules h (PostRuleEnable i) = served (handleRuleEnable i)"
| "serve_rules h (PostRuleDisable i) = served (handleRuleDisable i)"
| "serve_rules h (GetRuleAlerts i) = served (handleRuleAlerts i)"
| "serve_rules h (PostAlertTreated i body) = served (handleAlertUpdate i body)"

fun serve_units :: "RuleHandler \<Rightarrow> unit_route \<Rightarrow> PgEnv \<Rightarrow> RuleStore \<Rightarrow> RuleStore" where
  "serve_units h (PostUnit body) = served (handleMachineUnitCreate h body)"
| "serve_units h GetUnits = served handleMachineUnitList"
| "serve_units h (GetUnit i) = served (handleMachineUnitGet i)"
| "serve_units h (PutUnit i body) = served (handleMachineUnitUpdate h i body)"
| "serve_units h (DeleteUnit i) = served (handleMachineUnitDelete i)"
| "serve_units h (PostUnitRules i body) = served (handleMachineUnitRules h i body)"
| "serve_units h (PostUnitColumns i body) = served (handleMachineUnitColumns i body)"
| "serve_units h (PutUnitColumns i body) = served (handleMachineUnitColumnsReplace i body)"
| "serve_units h (PutUnitTable i body) = served (handleMachineUnitTable i body)"
| "serve_units h (PutUnitConnection i body) = served (handleMachineUnitConnection h i body)"
| "serve_units h (PatchUnitPosition i body) = served (handleMachineUnitPosition i body)"
| "serve_units h (PostUnitStats i body) = served (handleUpsertParameterStats i body)"
| "serve_units h (GetUnitStats i) = served (handleListParameterStats i)"

fun serve_lines :: "line_route \<Rightarrow> PgEnv \<Rightarrow> RuleStore \<Rightarrow> RuleStore" where
  "serve_lines (PostLine body) = served (handleProductionLineCreate body)"
| "serve_lines GetLines = served handleProductionLineList"
| "serve_lines (GetLine i) = served (handleProductionLineGet i)"
| "serve_lines (PutLine i body) = served (handleProductionLineUpdate i body)"
| "serve_lines (DeleteLine i) = served (handleProductionLineDelete i)"
| "serve_lines (GetLineUnits i) = served (handleProductionLineMachineUnits i)"
| "serve_lines (GetLineWires i) = served (handleProductionLineWiresList i)"
| "serve_lines (PutLineWires i body) = served (handleProductionLineWiresReplace i body)"

fun serve_stepper :: "StepperHandler \<Rightarrow> stepper_route \<Rightarrow> PgEnv \<Rightarrow> RuleStore \<Rightarrow> RuleStore" where
  "serve_stepper h GetCatalog = served handleRuleCatalog"
| "serve_stepper h (PostBaselineCheck body) = served (handleRuleBaselineCheck h body)"
| "serve_stepper h (PostPreview body) = served (handleRulePreview h body)"
| "serve_stepper h (PostStepperRule body) = served (handleStepperRuleCreate body)"
| "serve_stepper h (GetStepperRules i) = served (handleStepperRuleList i)"
| "serve_stepper h (GetStepperRuleByID i) = served (handleStepperRuleGetByID i)"
| "serve_stepper h (PutStepperRule i body) = served (handleStepperRuleUpdate i body)"
| "serve_stepper h (DeleteStepperRuleByID i) = served (handleStepperRuleDelete i)"
| "serve_stepper h (PostStepperEnable i) = served (handleStepperRuleEnable i)"
| "serve_stepper h (PostStepperDisable i) = served (handleStepperRuleDisable i)"
| "serve_stepper h (GetUnitParameters i) = served (handleUnitParameters h i)"
| "serve_stepper h (GetRuleHealth i) = served (handleRuleHealth h i)"

fun serve_request :: "StepperHandler \<Rightarrow> PgEnv \<Rightarrow> api_request \<Rightarrow> RuleStore \<Rightarrow> RuleStore" where
  "serve_request h env (RuleRequest r) = serve_rules (RuleHandler.truncate h) r env"
| "serve_request h env (UnitRequest r) = serve_units (RuleHandler.truncate h) r env"
| "serve_request h env (LineRequest r) = serve_lines r env"
| "serve_request h env (StepperRequest r) = serve_stepper h r env"

end
