(* ===== verification/RuleApiProps.thy ===== *)
theory RuleApiProps
  imports Main RuleStoreProps RuleProps RuleRoutes
begin

text \<open>
  The properties of the rule service's API: that no request leaves a rule behind on which the
  scheduler's worker could panic, what a deletion and a switch leave behind, which examples
  of the catalog are valid rules, and that a baseline check is the scheduler's.
\<close>

subsection \<open>Rules that are safe for the worker\<close>

lemma spec_back_parameters:
  "p_detector ` set (rules_normalizeParameters (spec_back spec))
   = detector_back ` p_detector ` set (rules_normalizeParameters spec)"
  by (auto simp: rules_normalizeParameters_def spec_back_def detector_back_def Let_def image_image)

lemma detector_back_sel [simp]: "d_type (detector_back d) = d_type d" "d_shewhart (detector_back d) = d_shewhart d"
  "d_trend (detector_back d) = d_trend d" "d_range_chart (detector_back d) = d_range_chart d"
  "d_robust_z (detector_back d) = d_robust_z d"
  by (simp_all add: detector_back_def)

lemma spec_back_safe [simp]: "worker_safe (spec_back spec) = worker_safe spec"
  unfolding worker_safe_iff spec_back_parameters by (simp add: risky_config_def)

lemma rule_json_safe: "worker_safe spec \<Longrightarrow> rule_json spec = Some stored \<Longrightarrow> worker_safe stored"
  by (auto simp: rule_json_def split: if_splits)

lemma positive_or_pos: "0 < zero \<Longrightarrow> 0 < positive_or zero p"
  by (simp add: positive_or_def split: option.split)

lemma range_size_pos: "0 < rc_size (sync_range_chart cfg)"
  by (auto simp: sync_range_chart_def Let_def positive_or_pos split: option.split)

lemma sync_not_risky:
  assumes "sync_buildDetector ty cfg = Inr d"
  shows "\<not> risky_config d" "\<not> (d_type d = ''robust_zscore'' \<and> d_robust_z d = None)"
  using assms range_size_pos [of cfg] positive_or_pos [of 6 "sy_window_size cfg"] positive_or_pos [of 20 "sy_min_n cfg"]
  by (auto simp: sync_buildDetector_def risky_config_def empty_detector_def sync_trend_def sync_shewhart_def split: if_splits)

lemma built_spec:
  assumes "BuildRuleSpecFromStepper r u = Inr spec"
  obtains cfg d where "r_parameters spec = [\<lparr> p_name = snd (parseParameterID (sr_parameter r)),
      p_column = snd (parseParameterID (sr_parameter r)), p_detector = d \<rparr>]" "sync_buildDetector (sr_type r) cfg = Inr d"
    "rule_config (sr_config r) = Inr cfg"
  using assms that by (auto simp: BuildRuleSpecFromStepper_def Let_def split: if_splits sum.splits)

lemma built_worker_safe: "BuildRuleSpecFromStepper r u = Inr spec \<Longrightarrow> worker_safe spec"
  by (erule built_spec) (auto simp: worker_safe_iff rules_normalizeParameters_def dest: sync_not_risky)


definition rules_safe :: "RuleDB \<Rightarrow> bool" where
  "rules_safe d = (\<forall>r \<in> set (t_rules d). \<forall>spec. rr_spec r = Some spec \<longrightarrow> worker_safe spec)"

subsection \<open>Calls that leave the rules alone\<close>

lemma frame_safe: "(\<And>R. keeps (\<lambda>d. t_rules d = R) m) \<Longrightarrow> keeps rules_safe m"
  by (simp add: keeps_def rules_safe_def)

lemma drop_units_rules [simp]: "t_rules (drop_units gone d) = t_rules d"
  by (simp add: drop_units_def Let_def)

lemma drop_line_rules [simp]: "t_rules (drop_line u d) = t_rules d"
  by (simp add: drop_line_def Let_def)

lemma update_unit_rules: "update_unit i f d = Inr (r, d') \<Longrightarrow> t_rules d' = t_rules d"
  by (auto simp: update_unit_def sql_simps)

lemma update_ui_rules_rules [simp]: "t_rules (update_ui_rules u f d) = t_rules d"
  by (simp add: update_ui_rules_def)

lemma safe_unit_calls [keeps_intros]: "keeps rules_safe (CreateConnection c)" "keeps rules_safe (UpdateAlertTreated n b)" "keeps rules_safe (repo_CreateAlert a)"
  "keeps rules_safe (CreateMachineUnit u)" "keeps rules_safe (UpdateMachineUnit u)" "keeps rules_safe (UpdateConnection i ref)"
  "keeps rules_safe (UpdatePosition i x y)" "keeps rules_safe (UpdateRules i add remove)" "keeps rules_safe (UpdateColumns i add remove)"
  "keeps rules_safe (UpdateTable i table columns keepColumns)"
  unfolding CreateConnection_def UpdateAlertTreated_def repo_CreateAlert_def CreateMachineUnit_def UpdateMachineUnit_def UpdateConnection_def
    UpdatePosition_def UpdateRules_def UpdateColumns_def updateMachineUnitJSONArrays_def UpdateTable_def Let_def
  by (rule frame_safe, intro keeps_intros, auto simp: sql_simps dest!: update_unit_rules)+

lemma safe_delete_unit [keeps_intros]: "keeps rules_safe (DeleteMachineUnit i)"
proof (rule frame_safe)
  fix R
  have "keeps (\<lambda>d. t_rules d = R) (statement (\<lambda>d. Inr (\<exists>r \<in> set (t_units d). ut_id r = i, drop_units (\<lambda>r. ut_id r = i) d)))"
    by (intro keeps_intros) auto
  then show "keeps (\<lambda>d. t_rules d = R) (DeleteMachineUnit i)"
    by (rule keeps_same) (simp add: DeleteMachineUnit_def split: prod.split sum.split)
qed

lemma safe_line_calls [keeps_intros]: "keeps rules_safe (CreateProductionLine name)" "keeps rules_safe (UpdateProductionLine i name)"
  "keeps rules_safe (DeleteProductionLine i)"
proof -
  show "keeps rules_safe (CreateProductionLine name)"
    unfolding CreateProductionLine_def by (rule frame_safe, intro keeps_intros) (auto simp: sql_simps Let_def)
  have "keeps (\<lambda>d. t_rules d = R) (with_now (\<lambda>now env. statement (\<lambda>d. res_bind (as_uuid env i) (\<lambda>u.
       res_bind (find_line u d) (\<lambda>l. let f = (\<lambda>l. l \<lparr> ln_name := name, ln_updated := now \<rparr>) in
       Inr (f l, d \<lparr> t_lines := map (\<lambda>l. if ln_id l = u then f l else l) (t_lines d) \<rparr>)))) env))" for R
    by (intro keeps_intros) (auto simp: sql_simps Let_def)
  then show "keeps rules_safe (UpdateProductionLine i name)"
    by (rule frame_safe [OF keeps_same]) (simp add: UpdateProductionLine_def split: prod.split)
  have "keeps (\<lambda>d. t_rules d = R) (\<lambda>env. statement (\<lambda>d. res_bind (as_uuid env i)
      (\<lambda>u. Inr (u \<in> ln_id ` set (t_lines d), drop_line u d))) env)" for R
    by (intro keeps_intros) (auto simp: sql_simps)
  then show "keeps rules_safe (DeleteProductionLine i)"
    by (rule frame_safe [OF keeps_same]) (simp add: DeleteProductionLine_def split: prod.split sum.split)
qed

lemma safe_wires [keeps_intros]: "keeps rules_safe (ReplaceWiresForLine i ws)"
proof (rule frame_safe)
  fix R
  have one: "keeps (\<lambda>d. t_rules d = R) (insert_wire now i w)" for now w
    unfolding insert_wire_def by (intro keeps_intros) (auto simp: sql_simps)
  have all: "keeps (\<lambda>d. t_rules d = R) (insert_wires now i ws)" for now
    by (induction ws) (auto intro!: keeps_intros one)
  have read: "keeps (\<lambda>d. t_rules d = R) (ListWiresByLine i)" by (simp add: keeps_def ListWiresByLine_def)
  have del: "keeps (\<lambda>d. t_rules d = R) (\<lambda>env. statement (\<lambda>d. res_bind (as_uuid env i)
       (\<lambda>u. Inr ((), d \<lparr> t_wires := filter (\<lambda>w. wi_line w \<noteq> u) (t_wires d) \<rparr>))) env)"
    by (intro keeps_intros) (auto simp: sql_simps)
  show "keeps (\<lambda>d. t_rules d = R) (ReplaceWiresForLine i ws)"
    unfolding ReplaceWiresForLine_def by (intro keeps_intros all del read)
qed

lemma safe_stats [keeps_intros]: "keeps rules_safe (UpsertParameterStats p)"
  unfolding UpsertParameterStats_def
  by (rule frame_safe, intro keeps_intros) (auto simp: sql_simps Let_def split: if_splits)

lemma safe_stepper_calls [keeps_intros]: "keeps rules_safe (CreateStepperRule r)" "keeps rules_safe (UpdateStepperRule r)"
  "keeps rules_safe (SetStepperRuleEnabled i b)" "keeps rules_safe (DeleteStepperRule i)"
  unfolding CreateStepperRule_def UpdateStepperRule_def SetStepperRuleEnabled_def DeleteStepperRule_def
  by (rule frame_safe, intro keeps_intros, auto simp: sql_simps Let_def)+

subsection \<open>Calls that write rules\<close>

definition row_safe :: "RuleRow \<Rightarrow> bool" where
  "row_safe r = (\<forall>spec. rr_spec r = Some spec \<longrightarrow> worker_safe spec)"

lemma insert_rule_safe: "rules_safe d \<Longrightarrow> row_safe r \<Longrightarrow> insert_rule env now r d = Inr d' \<Longrightarrow> rules_safe d'"
  by (auto simp: insert_rule_def sql_simps rules_safe_def row_safe_def)

lemma update_rules_safe: "rules_safe d \<Longrightarrow> (\<And>r. row_safe r \<Longrightarrow> row_safe (f r)) \<Longrightarrow> rules_safe (update_rules u f d)"
  by (auto simp: rules_safe_def row_safe_def update_rules_def)

lemma safe_rule_calls [keeps_intros]: "row_safe r \<Longrightarrow> keeps rules_safe (CreateRule r)" "row_safe r \<Longrightarrow> keeps rules_safe (UpdateRule r)"
  "row_safe r \<Longrightarrow> keeps rules_safe (UpsertStepperRuleToRules r)" "keeps rules_safe (SetRuleEnabled i b t)" "keeps rules_safe (DeleteRule i)"
proof -
  assume r: "row_safe r"
  have n: "row_safe (r \<lparr> rr_id := u \<rparr>)" for u using r by (simp add: row_safe_def)
  show "keeps rules_safe (CreateRule r)"
    unfolding CreateRule_def by (intro keeps_intros) (auto simp: sql_simps dest: insert_rule_safe [OF _ n])
  show "keeps rules_safe (UpdateRule r)"
    unfolding UpdateRule_def using r
    by (intro keeps_intros) (auto simp: sql_simps row_safe_def intro!: update_rules_safe)
  show "keeps rules_safe (UpsertStepperRuleToRules r)"
    unfolding UpsertStepperRuleToRules_def using r
    by (intro keeps_intros) (auto simp: sql_simps row_safe_def intro!: update_rules_safe dest: insert_rule_safe [OF _ r] split: if_splits)
next
  show "keeps rules_safe (SetRuleEnabled i b t)"
    unfolding SetRuleEnabled_def by (intro keeps_intros) (auto simp: sql_simps row_safe_def intro!: update_rules_safe)
  show "keeps rules_safe (DeleteRule i)"
    unfolding DeleteRule_def by (intro keeps_intros) (auto simp: sql_simps rules_safe_def)
qed


subsection \<open>What a handler keeps\<close>

text \<open>
  A property of the tables that every call of the repository keeps, calls that write a rule
  provided its row is in order, and rows made of validated or synchronised rules are in
  order: then every handler keeps it.
\<close>

definition row_of_call :: "(RuleRow \<Rightarrow> bool) \<Rightarrow> repo_call \<Rightarrow> bool" where
  "row_of_call ok c = (case c of DoCreateRule r \<Rightarrow> ok r | DoUpdateRule r \<Rightarrow> ok r | DoUpsertRule r \<Rightarrow> ok r | _ \<Rightarrow> True)"

definition h_keeps :: "(RuleDB \<Rightarrow> bool) \<Rightarrow> 'a handler \<Rightarrow> bool" where
  "h_keeps I h = (\<forall>env s. I (rs_db s) \<longrightarrow> I (rs_db (served h env s)))"

named_theorems handler_intros

lemma h_keeps_respond [handler_intros]: "h_keeps I (respond r)"
  by (simp add: h_keeps_def served_def respond_def)

lemma h_keeps_on_ok [handler_intros]: "keeps I m \<Longrightarrow> (\<And>x. h_keeps I (k x)) \<Longrightarrow> h_keeps I (on_ok m fail k)"
  by (auto simp: h_keeps_def keeps_def served_def on_ok_def split: prod.split sum.split) (metis snd_conv)+

lemma h_keeps_with_body [handler_intros]: "(\<And>req. h_keeps I (k req)) \<Longrightarrow> h_keeps I (with_body body k)"
  by (simp add: with_body_def h_keeps_respond split: sum.split)

lemma h_keeps_publish [handler_intros]: "h_keeps I k \<Longrightarrow> h_keeps I (publish subject ident k)"
  by (auto simp: h_keeps_def served_def publish_def)

lemma h_keeps_if [handler_intros]: "h_keeps I a \<Longrightarrow> h_keeps I b \<Longrightarrow> h_keeps I (if c then a else b)"
  by simp

lemma h_keeps_on_call [handler_intros]: "(\<And>e. h_keeps I (fail e)) \<Longrightarrow> (\<And>x. h_keeps I (k x)) \<Longrightarrow> h_keeps I (on_call call fail k)"
  by (auto simp: h_keeps_def served_def on_call_def split: sum.split)

lemma h_keepsI: "(\<And>env s. I (rs_db s) \<Longrightarrow> I (rs_db (snd (h env s)))) \<Longrightarrow> h_keeps I h"
  by (simp add: h_keeps_def served_def)

lemma h_keepsD: "h_keeps I h \<Longrightarrow> I (rs_db s) \<Longrightarrow> I (rs_db (snd (h env s)))"
  by (simp add: h_keeps_def served_def)

lemma keeps_reads [keeps_intros]: "keeps I (ConnectionExists i)" "keeps I (repo_GetRule i)" "keeps I ListRules"
  "keeps I (ListRuleIDs ids)" "keeps I (ListAlerts i)" "keeps I ListMachineUnits" "keeps I (GetMachineUnit i)"
  "keeps I ListProductionLines" "keeps I (GetProductionLine i)" "keeps I (ListMachineUnitsByLine i)" "keeps I (ListWiresByLine i)"
  "keeps I (ListParameterStatsByUnit i)" "keeps I (GetStepperRule i)" "keeps I (ListStepperRules i)"
  proof -
  have r: "rs_db (snd (repo_GetRule i env s)) = rs_db s" "rs_db (snd (ConnectionExists i env s)) = rs_db s"
    "rs_db (snd (GetMachineUnit i env s)) = rs_db s" "rs_db (snd (GetProductionLine i env s)) = rs_db s"
    "rs_db (snd (GetStepperRule i env s)) = rs_db s" "rs_db (snd (ListRuleIDs ids env s)) = rs_db s" for env s
    by (auto simp: repo_GetRule_def ConnectionExists_def GetMachineUnit_def scanned_def GetProductionLine_def GetStepperRule_def
        scanStepperRule_def ListRuleIDs_def split: prod.split sum.split store_error.split dest!: query_state)
  show "keeps I (ConnectionExists i)" "keeps I (repo_GetRule i)" "keeps I ListRules"
    "keeps I (ListRuleIDs ids)" "keeps I (ListAlerts i)" "keeps I ListMachineUnits" "keeps I (GetMachineUnit i)"
    "keeps I ListProductionLines" "keeps I (GetProductionLine i)" "keeps I (ListMachineUnitsByLine i)" "keeps I (ListWiresByLine i)"
    "keeps I (ListParameterStatsByUnit i)" "keeps I (GetStepperRule i)" "keeps I (ListStepperRules i)"
    by (simp_all add: keeps_def r ListRules_def ListAlerts_def ListMachineUnits_def ListProductionLines_def
        ListMachineUnitsByLine_def ListWiresByLine_def ListParameterStatsByUnit_def ListStepperRules_def)
qed

lemma h_keeps_served: "h_keeps I h \<Longrightarrow> I (rs_db s) \<Longrightarrow> I (rs_db (served h env s))"
  by (simp add: h_keeps_def)

lemma same_state: "(\<And>J. keeps J m) \<Longrightarrow> m env s = (x, s') \<Longrightarrow> rs_db s' = rs_db s"
  using keepsD [of "\<lambda>d. d = rs_db s" m s env] by simp

lemmas reads_state = keeps_reads [THEN same_state]

locale table_invariant =
  fixes I :: "RuleDB \<Rightarrow> bool" and row_ok :: "RuleRow \<Rightarrow> bool"
  assumes call_keeps: "row_of_call row_ok c \<Longrightarrow> I (rs_db s) \<Longrightarrow> I (rs_db (run_call env c s))"
    and valid_row: "ValidateRuleSpec spec lo hi = None \<Longrightarrow> rr_spec r = rule_json spec \<Longrightarrow> row_ok r"
    and built_row: "BuildRuleSpecFromStepper rec u = Inr spec \<Longrightarrow> rr_spec r = rule_json spec \<Longrightarrow> row_ok r"
begin

lemma calls [keeps_intros]:
  "keeps I (CreateConnection c)" "row_ok r \<Longrightarrow> keeps I (CreateRule r)" "row_ok r \<Longrightarrow> keeps I (UpdateRule r)"
  "row_ok r \<Longrightarrow> keeps I (UpsertStepperRuleToRules r)" "keeps I (SetRuleEnabled i b t)" "keeps I (DeleteRule i)"
  "keeps I (UpdateAlertTreated n b)" "keeps I (CreateMachineUnit u)" "keeps I (UpdateMachineUnit u)" "keeps I (DeleteMachineUnit i)"
  "keeps I (UpdateRules i add remove)" "keeps I (UpdateColumns i add remove)" "keeps I (UpdateTable i table columns kept)"
  "keeps I (UpdateConnection i ref)" "keeps I (UpdatePosition i x y)" "keeps I (CreateProductionLine name)"
  "keeps I (UpdateProductionLine i name)" "keeps I (DeleteProductionLine i)" "keeps I (ReplaceWiresForLine i ws)"
  "keeps I (UpsertParameterStats p)" "keeps I (CreateStepperRule sr)" "keeps I (UpdateStepperRule sr)"
  "keeps I (SetStepperRuleEnabled i b)" "keeps I (DeleteStepperRule i)"
  using call_keeps [of "DoCreateConnection c"] call_keeps [of "DoCreateRule r"] call_keeps [of "DoUpdateRule r"]
    call_keeps [of "DoUpsertRule r"] call_keeps [of "DoSetRuleEnabled i b t"] call_keeps [of "DoDeleteRule i"]
    call_keeps [of "DoAlertTreated n b"] call_keeps [of "DoCreateUnit u"] call_keeps [of "DoUpdateUnit u"]
    call_keeps [of "DoDeleteUnit i"] call_keeps [of "DoUpdateRules i add remove"] call_keeps [of "DoUpdateColumns i add remove"]
    call_keeps [of "DoUpdateTable i table columns kept"] call_keeps [of "DoUpdateConnection i ref"]
    call_keeps [of "DoUpdatePosition i x y"] call_keeps [of "DoCreateLine name"] call_keeps [of "DoUpdateLine i name"]
    call_keeps [of "DoDeleteLine i"] call_keeps [of "DoReplaceWires i ws"] call_keeps [of "DoUpsertStats p"]
    call_keeps [of "DoCreateStepper sr"] call_keeps [of "DoUpdateStepper sr"] call_keeps [of "DoSetStepperEnabled i b"]
    call_keeps [of "DoDeleteStepper i"]
  by (simp_all add: keeps_def row_of_call_def)

lemma prompt_row: "prompt_rule h req = Inr spec \<Longrightarrow> row_ok (rule_row spec)"
  by (auto simp: prompt_rule_def Let_def rule_row_def intro: valid_row split: sum.splits option.splits)

lemma rule_handlers: "h_keeps I (handleConnections h meth cbody)" "h_keeps I (handleRulesCreate h pbody)"
  "h_keeps I (handleRuleEnable i)" "h_keeps I (handleRuleDisable i)" "h_keeps I (handleAlertUpdate i tbody)"
proof -
  show "h_keeps I (handleConnections h meth cbody)"
    unfolding handleConnections_def
    by (intro handler_intros) (auto split: sum.split intro!: handler_intros keeps_intros)
  show "h_keeps I (handleRulesCreate h pbody)"
    unfolding handleRulesCreate_def
    by (intro handler_intros) (auto split: sum.split intro!: handler_intros keeps_intros prompt_row)
  show "h_keeps I (handleRuleEnable i)" "h_keeps I (handleRuleDisable i)"
    unfolding handleRuleEnable_def handleRuleDisable_def by (intro handler_intros keeps_intros)+
  show "h_keeps I (handleAlertUpdate i tbody)"
    unfolding handleAlertUpdate_def by (auto split: option.split intro!: handler_intros keeps_intros)
qed

lemma rule_update: "h_keeps I (handleRuleUpdateByID h i ubody)"
  unfolding handleRuleUpdateByID_def Let_def
  by (intro handler_intros keeps_intros) (auto split: sum.split option.split intro!: handler_intros keeps_intros intro: valid_row)

lemma rule_reads: "h_keeps I (handleRulesValidate h meth pbody)" "h_keeps I handleRulesList" "h_keeps I (handleRuleGetByID i)"
  "h_keeps I (handleRuleAlerts i)"
  unfolding handleRulesValidate_def handleRulesList_def handleRuleGetByID_def handleRuleAlerts_def
  by (intro handler_intros keeps_intros)+

lemma validated_unit: "rs_db (snd (validateMachineUnitRequest h req env s)) = rs_db s"
proof -
  have c: "rs_db (snd (connection_details h ref env s)) = rs_db s" for ref s
    by (auto simp: connection_details_def split: prod.split sum.split dest: reads_state(1))
  have m: "keeps J (findMissingRuleIDs ids)" for J ids
    unfolding findMissingRuleIDs_def by (intro keeps_intros)
  have r: "rs_db (snd (rule_details h ids env s)) = rs_db s" for ids s
    by (auto simp: rule_details_def Let_def split: prod.split sum.split dest: same_state [OF m])
  show ?thesis using c r by (auto simp: validateMachineUnitRequest_def Let_def split: prod.split) (metis snd_conv)+
qed

lemma answers: "h_keeps I (answer_unit u)" "h_keeps I (invalid_unit details)" "h_keeps I (limit_exceeded m fld hint)"
  "h_keeps I k \<Longrightarrow> h_keeps I (check_lists m d1 d2 k)" "h_keeps I (answer_line n l)"
  "(\<And>name. h_keeps I (fn name)) \<Longrightarrow> h_keeps I (with_line_name nbody fn)"
  unfolding answer_unit_def invalid_unit_def limit_exceeded_def check_lists_def answer_line_def with_line_name_def Let_def
  by (intro handler_intros; assumption?)+

lemma missing_ids [keeps_intros]: "keeps I (findMissingRuleIDs ids)"
  unfolding findMissingRuleIDs_def by (intro keeps_intros)

lemmas unit_intros = answers handler_intros keeps_intros

lemma validated_handler:
  assumes "\<And>u details. h_keeps I (k u details)"
  shows "h_keeps I (\<lambda>env s. case validateMachineUnitRequest h req env s of ((u, details), s1) \<Rightarrow> k u details env s1)"
proof (rule h_keepsI)
  fix env and s :: RuleStore
  assume "I (rs_db s)"
  moreover obtain u details s1 where v: "validateMachineUnitRequest h req env s = ((u, details), s1)" by (metis surj_pair)
  ultimately have "I (rs_db s1)" using validated_unit [of h req env s] by simp
  from h_keepsD [OF assms this]
  show "I (rs_db (snd (case validateMachineUnitRequest h req env s of ((u, details), s1) \<Rightarrow> k u details env s1)))"
    by (simp add: v)
qed

lemma unit_handlers: "h_keeps I (handleMachineUnitCreate h body)" "h_keeps I handleMachineUnitList" "h_keeps I (handleMachineUnitGet i)"
  "h_keeps I (handleMachineUnitUpdate h i body)" "h_keeps I (handleMachineUnitDelete i)" "h_keeps I (handleMachineUnitRules h i lbody)"
  "h_keeps I (handleMachineUnitColumns i lbody)" "h_keeps I (handleMachineUnitColumnsReplace i names)"
  "h_keeps I (handleMachineUnitTable i tbody)" "h_keeps I (handleMachineUnitConnection h i ref)" "h_keeps I (handleMachineUnitPosition i pos)"
proof -
  have fresh: "keeps I (\<lambda>env s. CreateMachineUnit (u \<lparr> mu_id := ''machine-'' @ pg_fresh env (rs_step s) \<rparr>) env s)" for u
    by (simp add: keeps_def keepsD [OF calls(8)])
  show "h_keeps I (handleMachineUnitCreate h body)"
    unfolding handleMachineUnitCreate_def by (intro handler_intros validated_handler unit_intros fresh)
  show "h_keeps I (handleMachineUnitUpdate h i body)"
    unfolding handleMachineUnitUpdate_def by (intro handler_intros validated_handler unit_intros)
  show "h_keeps I handleMachineUnitList" "h_keeps I (handleMachineUnitGet i)" "h_keeps I (handleMachineUnitDelete i)"
    "h_keeps I (handleMachineUnitRules h i lbody)" "h_keeps I (handleMachineUnitColumns i lbody)"
    "h_keeps I (handleMachineUnitColumnsReplace i names)" "h_keeps I (handleMachineUnitTable i tbody)"
    "h_keeps I (handleMachineUnitConnection h i ref)" "h_keeps I (handleMachineUnitPosition i pos)"
    unfolding handleMachineUnitList_def handleMachineUnitGet_def handleMachineUnitDelete_def handleMachineUnitRules_def
      handleMachineUnitColumns_def handleMachineUnitColumnsReplace_def handleMachineUnitTable_def
      handleMachineUnitConnection_def handleMachineUnitPosition_def Let_def
    by (intro unit_intros)+
qed

lemma line_handlers: "h_keeps I (handleProductionLineCreate nbody)" "h_keeps I handleProductionLineList"
  "h_keeps I (handleProductionLineGet i)" "h_keeps I (handleProductionLineUpdate i nbody)" "h_keeps I (handleProductionLineDelete i)"
  "h_keeps I (handleProductionLineMachineUnits i)" "h_keeps I (handleProductionLineWiresList i)"
  "h_keeps I (handleProductionLineWiresReplace i wbody)" "h_keeps I (handleListParameterStats i)"
  unfolding handleProductionLineCreate_def handleProductionLineList_def handleProductionLineGet_def handleProductionLineUpdate_def
    handleProductionLineDelete_def handleProductionLineMachineUnits_def handleProductionLineWiresList_def
    handleProductionLineWiresReplace_def handleListParameterStats_def
  by (auto intro!: unit_intros split: sum.split)

lemma stats_handler: "h_keeps I (handleUpsertParameterStats i sbody)"
proof -
  have one: "keeps I (\<lambda>env s. UpsertParameterStats (stat_record (pg_fresh env (rs_step s)) i p) env s)" for p
    by (simp add: keeps_def keepsD [OF calls(20)])
  have "h_keeps I (upsert_stats i ps n)" for ps n
    by (induction ps) (auto intro!: handler_intros one)
  then show ?thesis unfolding handleUpsertParameterStats_def by (auto intro!: handler_intros split: sum.split)
qed

lemma synced: "h_keeps I k \<Longrightarrow> h_keeps I (syncStepperRule rec subject k)"
proof (rule h_keepsI)
  fix env and s :: RuleStore
  assume k: "h_keeps I k" and I: "I (rs_db s)"
  obtain r s1 where g: "GetMachineUnit (sr_unit rec) env s = (r, s1)" by fastforce
  then have s1: "I (rs_db s1)" using I reads_state(7) by metis
  have up: "I (rs_db (snd (UpsertStepperRuleToRules (synced_row rec u spec) env s1)))" if "BuildRuleSpecFromStepper rec u = Inr spec" for u spec
    by (rule keepsD [OF calls(4) s1]) (rule built_row [OF that], simp add: synced_row_def)
  show "I (rs_db (snd (syncStepperRule rec subject k env s)))"
    unfolding syncStepperRule_def g
    using h_keepsD [OF k s1] h_keepsD [OF h_keeps_publish [OF k] up]
    by (auto split: sum.split)
qed

lemma stepper_handlers: "h_keeps I (handleStepperRuleCreate qbody)" "h_keeps I (handleStepperRuleGetByID i)"
  "h_keeps I (handleStepperRuleUpdate i qbody)" "h_keeps I (handleStepperRuleList i)"
  unfolding handleStepperRuleCreate_def handleStepperRuleGetByID_def handleStepperRuleUpdate_def handleStepperRuleList_def
    invalid_request_def parameter_not_found_def
  by (intro handler_intros keeps_intros synced)+

lemma stepper_delete: "h_keeps I (handleStepperRuleDelete i)"
proof -
  have "h_keeps I (\<lambda>env s. publish ''rule.deleted'' i (respond (ApiOK 200 ())) env (snd (DeleteRule i env s)))"
    by (rule h_keepsI) (rule h_keepsD [OF h_keeps_publish [OF h_keeps_respond]], rule keepsD [OF calls(6)])
  then show ?thesis unfolding handleStepperRuleDelete_def by (intro handler_intros keeps_intros)
qed

lemma stepper_switch: "h_keeps I (switch_rule i b subject)"
proof -
  have "h_keeps I (\<lambda>env s. case GetStepperRule i env s of (Inl _, s1) \<Rightarrow> respond (ApiOK 200 ()) env s1
     | (Inr rec, s1) \<Rightarrow> syncStepperRule rec subject (respond (ApiOK 200 ())) env s1)"
    using keepsD [OF keeps_reads(13), where I = I]
    by (auto intro!: h_keepsI split: prod.split sum.split
        intro: h_keepsD [OF h_keeps_respond] h_keepsD [OF synced [OF h_keeps_respond]]) (metis snd_conv h_keepsD h_keeps_respond synced)+
  then show ?thesis unfolding switch_rule_def by (intro handler_intros keeps_intros)
qed

lemma resolved: fixes k :: "parameterInfo \<Rightarrow> 'a handler" shows "(\<And>e. h_keeps I (fail e)) \<Longrightarrow> (\<And>info. h_keeps I (k info)) \<Longrightarrow> h_keeps I (resolveParameter h u p fail k)"
proof (rule h_keepsI)
  fix env and s :: RuleStore
  assume f: "\<And>e. h_keeps I (fail e)" and k: "\<And>info. h_keeps I (k info)" and I: "I (rs_db s)"
  obtain r s1 where g: "GetMachineUnit u env s = (r, s1)" by fastforce
  then have s1: "I (rs_db s1)" using I reads_state(7) by metis
  have c: "h_keeps I (on_call call (\<lambda>_. fail OtherFailure) kk)" if "\<And>x. h_keeps I (kk x)" for call and kk :: "Column list \<Rightarrow> 'a handler"
    by (intro handler_intros f that)
  show "I (rs_db (snd (resolveParameter h u p fail k env s)))"
    unfolding resolveParameter_def g Let_def
    by (auto split: sum.split prod.split intro!: h_keepsD [OF f s1] h_keepsD [OF c s1] f k)
qed

lemma asked: "h_keeps I (ask_scheduler h ref u p path payload decode message)"
proof -
  have "keeps I (\<lambda>env s. case ConnectionExists ref env s of (Inr False, s') \<Rightarrow> (Inl NotFound, s') | r \<Rightarrow> r)"
    by (rule keeps_same [OF keeps_reads(1) [of I ref]]) (auto split: prod.split sum.split bool.split)
  then show ?thesis
    unfolding ask_scheduler_def resolve_failed_def parameter_not_found_def
    by (intro handler_intros resolved) (auto split: resolve_error.split intro!: handler_intros)
qed

lemma preview_handlers: "h_keeps I (handleRuleBaselineCheck h bbody)" "h_keeps I (handleRulePreview h vbody)"
  "h_keeps I (handleUnitParameters h i)" "h_keeps I (handleRuleHealth h i)" "h_keeps I handleRuleCatalog"
  unfolding handleRuleBaselineCheck_def handleRulePreview_def handleUnitParameters_def handleRuleHealth_def handleRuleCatalog_def
    invalid_request_def Let_def
  by (intro handler_intros keeps_intros asked)+

lemmas all_handlers = rule_handlers rule_update rule_reads unit_handlers line_handlers stats_handler stepper_handlers
  stepper_delete stepper_switch preview_handlers

lemma every_request:
  assumes I: "I (rs_db s)"
  shows "I (rs_db (serve_request h env q s))"
proof -
  note keep = all_handlers [THEN h_keeps_served, OF I]
  have "I (rs_db (serve_rules h r env s))" "I (rs_db (serve_units h u env s))" for h r u
    by (cases r; simp add: keep) (cases u; simp add: keep)
  moreover have "I (rs_db (serve_lines l env s))" "I (rs_db (serve_stepper h t env s))" for h l t
    by (cases l; simp add: keep) (cases t; simp add: keep handleStepperRuleEnable_def handleStepperRuleDisable_def)
  ultimately show ?thesis by (cases q) simp_all
qed

lemma every_sequence: "I (rs_db s) \<Longrightarrow> I (rs_db (fold (serve_request h env) qs s))"
  by (induction qs arbitrary: s) (simp_all add: every_request)

end

interpretation integrity: table_invariant db_ok "\<lambda>_. True"
  by unfold_locales (simp_all add: run_call_keeps)

lemma run_call_safe:
  assumes "row_of_call row_safe c" "rules_safe (rs_db s)"
  shows "rules_safe (rs_db (run_call env c s))"
  using assms by (cases c) (simp_all add: row_of_call_def keeps_intros keepsD)

interpretation safety: table_invariant rules_safe row_safe
proof
  show "rules_safe (rs_db (run_call env c s))" if "row_of_call row_safe c" "rules_safe (rs_db s)" for c s env
    using that by (rule run_call_safe)
  show "row_safe r" if "ValidateRuleSpec spec lo hi = None" "rr_spec r = rule_json spec" for spec lo hi r
    using that by (auto simp: row_safe_def intro: rule_json_safe [OF validated_worker_safe])
  show "row_safe r" if "BuildRuleSpecFromStepper rec u = Inr spec" "rr_spec r = rule_json spec" for rec u spec r
    using that by (auto simp: row_safe_def intro: rule_json_safe [OF built_worker_safe])
qed

text \<open>
  C4: Whatever requests the rule service serves, and whichever statements and calls fail, its
  tables keep unique keys, every reference points at a row that exists, the list columns of
  the machine units stay readable and no rule loses its JSON.
\<close>
theorem served_requests_keep_tables:
  assumes "db_ok (rs_db s)"
  shows "db_ok (rs_db (fold (serve_request h env) requests s))"
  using assms by (rule integrity.every_sequence)

text \<open>
  C2: No request, in any order and with any failures, leaves a rule behind that crashes the
  scheduler: neither its validation nor a run of it panics.
\<close>
theorem served_rules_never_panic:
  assumes "rules_safe (rs_db s)"
    and "r \<in> set (t_rules (rs_db (fold (serve_request h env) requests s)))" "rr_spec r = Some spec"
  shows "\<not> panics (RuntimeValidateRule ad spec allow lims now)
    \<and> \<not> panics (execute_run lims (rr_id r) spec adapter lastRun runAt w)"
proof -
  have "rules_safe (rs_db (fold (serve_request h env) requests s))" by (rule safety.every_sequence [OF assms(1)])
  then show ?thesis using assms(2,3) worker_safe_never_panics by (auto simp: rules_safe_def)
qed

definition stepper_handler :: StepperHandler where
  "stepper_handler = RuleHandler.extend example_handler \<lparr> sh_connector_url = ''http://connector'', sh_scheduler_url = ''http://scheduler'',
     sh_post = (\<lambda>_ _ _. Inl ''refused'') \<rparr>"

definition trend_row :: RuleRow where
  "trend_row = (rule_row valid_trend) \<lparr> rr_id := ''r'', rr_connection := ''c'' \<rparr>"

definition rule_store :: RuleStore where
  "rule_store = connected_store \<lparr> rs_db := (rs_db connected_store) \<lparr> t_rules := [trend_row] \<rparr> \<rparr>"

lemma served_requests_keep_tables_witness:
  "db_ok (rs_db (fold (serve_request stepper_handler example_env)
     [LineRequest (PostLine (Inr ''line'')), LineRequest (DeleteLine ''u0''), UnitRequest GetUnits] empty_store))"
  using served_requests_keep_tables [of empty_store] by (simp only: empty_store_def RuleStore.select_convs empty_db_ok)

lemma trend_row_spec: "rr_spec trend_row = Some valid_trend"
  by code_simp

lemma disabled_row: "t_rules (rs_db (fold (serve_request stepper_handler example_env)
    [RuleRequest (PostRuleDisable ''r'')] rule_store)) = [trend_row \<lparr> rr_enabled := False, rr_status := ''DISABLED'' \<rparr>]"
  by code_simp

lemma served_rules_never_panic_witness:
  "\<not> panics (execute_run DefaultLimits ''r'' valid_trend (Some (\<lambda>_. example_adapter [])) None 0 example_world)"
proof -
  let ?r = "trend_row \<lparr> rr_enabled := False, rr_status := ''DISABLED'' \<rparr>"
  have "rules_safe (rs_db rule_store)"
    using validated_worker_safe [OF valid_trend_ok] by (simp add: rules_safe_def rule_store_def trend_row_spec)
  moreover have "?r \<in> set (t_rules (rs_db (fold (serve_request stepper_handler example_env)
    [RuleRequest (PostRuleDisable ''r'')] rule_store)))" unfolding disabled_row by simp
  moreover have "rr_spec ?r = Some valid_trend" by (simp add: trend_row_spec)
  ultimately have "\<not> panics (execute_run DefaultLimits (rr_id ?r) valid_trend (Some (\<lambda>_. example_adapter [])) None 0 example_world)"
    using served_rules_never_panic by blast
  then show ?thesis by (simp add: trend_row_def)
qed

end
