(* ===== verification/ShutdownProps.thy ===== *)
theory ShutdownProps
  imports Main MachineProps
begin

text \<open>
  How the scheduler comes to rest: without new ticks its goroutines stop after a bounded
  number of steps, but a ticker that waits for room in the queue is not woken by \<open>Stop\<close>.
\<close>

subsection \<open>Coming to rest\<close>

text \<open>The steps of tickers and workers that are not a new tick.\<close>

inductive closing :: "Registry \<Rightarrow> Registry \<Rightarrow> bool" where
  send: "i < length (g_tickers g) \<Longrightarrow> g_tickers g ! i = TSend \<Longrightarrow> length (g_queue g) < queue_capacity \<Longrightarrow>
    closing g (g \<lparr> g_queue := g_queue g @ [run_of i g], g_tickers := (g_tickers g)[i := TLoop] \<rparr>)"
| ticker_exit: "i < length (g_tickers g) \<Longrightarrow> g_tickers g ! i = TLoop \<Longrightarrow> j_stop (g_heap g ! i) \<or> g_cancelled g \<Longrightarrow>
    closing g (g \<lparr> g_tickers := (g_tickers g)[i := TDone] \<rparr>)"
| take_run: "k < length (g_workers g) \<Longrightarrow> g_workers g ! k = WIdle \<Longrightarrow> g_queue g = r # q \<Longrightarrow>
    read_clock (g_world g) = (now, w) \<Longrightarrow>
    closing g (g \<lparr> g_queue := q, g_world := w,
      g_workers := (g_workers g)[k := WBusy r now (j_last_run (g_heap g ! jr_job r))] \<rparr>)"
| finish_run: "k < length (g_workers g) \<Longrightarrow> g_workers g ! k = WBusy r now since \<Longrightarrow>
    execute_run (g_limits g) (jr_rule r) (jr_spec r) (jr_adapter r) since now (g_world g) = Ret (done_run, w) \<Longrightarrow>
    closing g ((if done_run then set_last_run (jr_job r) now g else g)
      \<lparr> g_world := w, g_workers := (g_workers g)[k := WIdle] \<rparr>)"
| worker_exit: "k < length (g_workers g) \<Longrightarrow> g_workers g ! k = WIdle \<Longrightarrow> g_cancelled g \<Longrightarrow>
    closing g (g \<lparr> g_workers := (g_workers g)[k := WDone] \<rparr>)"

lemma closing_step: "closing g h \<Longrightarrow> step g h"
  by (induction rule: closing.induct) (blast intro: step.intros)+

definition ticker_work :: "ticker \<Rightarrow> nat" where
  "ticker_work t = (case t of TSend \<Rightarrow> 5 | TLoop \<Rightarrow> 1 | TDone \<Rightarrow> 0)"

definition worker_work :: "worker \<Rightarrow> nat" where
  "worker_work w = (case w of WBusy _ _ _ \<Rightarrow> 2 | WIdle \<Rightarrow> 1 | WDone \<Rightarrow> 0)"

definition work_left :: "Registry \<Rightarrow> nat" where
  "work_left g = sum_list (map ticker_work (g_tickers g)) + 3 * length (g_queue g) + sum_list (map worker_work (g_workers g))"

lemma work_update: "i < length xs \<Longrightarrow> sum_list (map f (xs[i := x])) + f (xs ! i) = sum_list (map f xs) + (f x :: nat)"
proof (induction xs arbitrary: i)
  case (Cons a xs)
  then show ?case by (cases i) auto
qed simp

lemma closing_works: "closing g h \<Longrightarrow> work_left h < work_left g"
proof (induction rule: closing.induct)
  case (send i g)
  then show ?case using work_update [of i "g_tickers g" ticker_work TLoop] by (simp add: work_left_def ticker_work_def)
next
  case (ticker_exit i g)
  then show ?case using work_update [of i "g_tickers g" ticker_work TDone] by (simp add: work_left_def ticker_work_def)
next
  case (take_run k g r q now w)
  then show ?case using work_update [of k "g_workers g" worker_work "WBusy r now (j_last_run (g_heap g ! jr_job r))"]
    by (simp add: work_left_def worker_work_def)
next
  case (finish_run k g r now since done_run w)
  then show ?case using work_update [of k "g_workers g" worker_work WIdle] by (simp add: work_left_def worker_work_def set_last_run_def)
next
  case (worker_exit k g)
  then show ?case using work_update [of k "g_workers g" worker_work WDone] by (simp add: work_left_def worker_work_def)
qed

lemma works_bounds: "sum_list (map ticker_work ts) \<le> 5 * length ts" "sum_list (map worker_work ws) \<le> 2 * length ws"
proof -
  have "ticker_work t \<le> 5" "worker_work w \<le> 2" for t w
    by (simp_all add: ticker_work_def worker_work_def split: ticker.split worker.split)
  then show "sum_list (map ticker_work ts) \<le> 5 * length ts" "sum_list (map worker_work ws) \<le> 2 * length ws"
    using sum_list_mono [of ts ticker_work "\<lambda>_. 5"] sum_list_mono [of ws worker_work "\<lambda>_. 2"] by (simp_all add: sum_list_triv mult.commute)
qed

lemma closing_bound: "(closing ^^ n) g h \<Longrightarrow> n + work_left h \<le> work_left g"
proof (induction n arbitrary: h)
  case (Suc n)
  then obtain m where "(closing ^^ n) g m" "closing m h" by auto
  then show ?case using Suc.IH [of m] closing_works [of m h] by simp
qed simp

lemma sum_work_zero: "sum_list (map f xs) = (0 :: nat) \<longleftrightarrow> (\<forall>x \<in> set xs. f x = 0)"
  by (induction xs) auto

text \<open>
  C30: The goroutines of the scheduler come to rest: the tickers and workers of a reachable
  registry cannot make more than five steps for each job, two for each worker and three for
  each place of the queue before a ticker ticks again, and when the registry is stopped, no
  step is left only if every worker has returned or waits for a run that panicked, and every
  ticker has returned or waits for room in the queue.
\<close>
theorem scheduler_comes_to_rest:
  assumes "reachable g"
  shows "(\<forall>n h. (closing ^^ n) g h \<longrightarrow> n \<le> 5 * length (g_heap g) + 2 * length (g_workers g) + 3 * 128)
    \<and> (g_cancelled g \<and> (\<nexists>h. closing g h) \<longrightarrow>
        (\<forall>w \<in> set (g_workers g). w \<noteq> WIdle) \<and> (\<forall>t \<in> set (g_tickers g). t = TDone \<or> t = TSend \<and> length (g_queue g) = 128))"
proof (intro conjI allI impI)
  fix n h
  assume "(closing ^^ n) g h"
  then have "n \<le> work_left g" using closing_bound by fastforce
  also have "\<dots> \<le> 5 * length (g_heap g) + 2 * length (g_workers g) + 3 * 128"
    using works_bounds(1) [of "g_tickers g"] works_bounds(2) [of "g_workers g"] reachable_Inv [OF assms]
    by (simp add: work_left_def Inv_def queue_capacity_def)
  finally show "n \<le> 5 * length (g_heap g) + 2 * length (g_workers g) + 3 * 128" .
next
  assume r: "g_cancelled g \<and> (\<nexists>h. closing g h)"
  show "\<forall>w \<in> set (g_workers g). w \<noteq> WIdle"
    using r closing.worker_exit by (metis in_set_conv_nth)
  show "\<forall>t \<in> set (g_tickers g). t = TDone \<or> t = TSend \<and> length (g_queue g) = 128"
  proof
    fix t
    assume "t \<in> set (g_tickers g)"
    then obtain i where i: "i < length (g_tickers g)" "g_tickers g ! i = t" by (metis in_set_conv_nth)
    then have "t \<noteq> TLoop" using r closing.ticker_exit by blast
    moreover have "length (g_queue g) = 128" if "t = TSend"
    proof (rule antisym)
      show "length (g_queue g) \<le> 128" using reachable_Inv [OF assms] by (simp add: Inv_def queue_capacity_def)
      have "\<not> length (g_queue g) < queue_capacity" using r i that closing.send [of i g] by blast
      then show "128 \<le> length (g_queue g)" by (simp add: queue_capacity_def)
    qed
    ultimately show "t = TDone \<or> t = TSend \<and> length (g_queue g) = 128" by (cases t) auto
  qed
qed

lemma scheduler_comes_to_rest_witness: "\<not> (\<exists>h. (closing ^^ 1000) example_queued h)"
proof
  assume "\<exists>h. (closing ^^ 1000) example_queued h"
  then have "1000 \<le> 5 * length (g_heap example_queued) + 2 * length (g_workers example_queued) + 3 * (128 :: nat)"
    using scheduler_comes_to_rest [OF example_queued_reachable] by blast
  then show False by (simp add: example_queued_def)
qed

subsection \<open>A ticker that is not woken\<close>

lemma close_all_frame: "close_all ks g = Ret g' \<Longrightarrow> g_queue g' = g_queue g \<and> g_workers g' = g_workers g
    \<and> g_tickers g' = g_tickers g \<and> g_cancelled g' = g_cancelled g"
proof (induction ks arbitrary: g)
  case (Cons k ks)
  then obtain h where h: "close_stop k g = Ret h" "close_all ks h = Ret g'" by (cases "close_stop k g") auto
  have "g_queue h = g_queue g \<and> g_workers h = g_workers g \<and> g_tickers h = g_tickers g \<and> g_cancelled h = g_cancelled g"
    using h(1) by (auto simp: close_stop_def split: if_splits)
  then show ?case using Cons.IH [OF h(2)] by simp
qed simp

lemma Stop_frame: "Stop g = Ret g' \<Longrightarrow> g_queue g' = g_queue g \<and> g_workers g' = g_workers g
    \<and> g_tickers g' = g_tickers g \<and> g_cancelled g'"
  using close_all_frame [of "map snd (g_jobs g)" "g \<lparr> g_cancelled := True \<rparr>"]
  by (cases "close_all (map snd (g_jobs g)) (g \<lparr> g_cancelled := True \<rparr>)") (auto simp: Stop_def)

lemma Schedule_frame: "Schedule i spec ad g = Ret g' \<Longrightarrow> g_queue g' = g_queue g \<and> g_workers g' = g_workers g
    \<and> g_tickers g' = g_tickers g @ [TLoop] \<and> g_cancelled g' = g_cancelled g"
  by (auto simp: Schedule_def close_stop_def Let_def split: option.splits if_splits prod.splits)

lemma Unschedule_cancelled: "Unschedule i g = Ret g' \<Longrightarrow> g_cancelled g' = g_cancelled g"
  by (auto simp: Unschedule_def close_stop_def split: option.splits if_splits)

text \<open>A full queue nobody reads, and a ticker in its send.\<close>

definition hanging :: "Registry \<Rightarrow> bool" where
  "hanging g = (g_cancelled g \<and> list_all (\<lambda>w. w = WDone) (g_workers g) \<and> length (g_queue g) = queue_capacity
     \<and> g_tickers g \<noteq> [] \<and> g_tickers g ! 0 = TSend)"

lemma hanging_workers: "hanging g \<Longrightarrow> k < length (g_workers g) \<Longrightarrow> g_workers g ! k = WDone"
  by (simp add: hanging_def list_all_length)

lemma hanging_step: "step g g' \<Longrightarrow> hanging g \<Longrightarrow> hanging g'"
proof (induction rule: step.induct)
  case (tick i g)
  then show ?case by (cases "i = 0") (simp_all add: hanging_def)
next
  case (ticker_exit i g)
  then show ?case by (cases "i = 0") (simp_all add: hanging_def)
next
  case (take_run k g r q now w)
  then show ?case using hanging_workers by fastforce
next
  case (finish_run k g r now since done_run w)
  then show ?case using hanging_workers by fastforce
next
  case (worker_exit k g)
  then show ?case using hanging_workers by fastforce
next
  case (schedule spec i ad g g')
  then show ?case using Schedule_frame [of i spec ad g g'] by (simp add: hanging_def nth_append)
next
  case (unschedule i g g')
  then show ?case using Unschedule_frame [of i g g'] Unschedule_cancelled [of i g g'] by (simp add: hanging_def)
next
  case (stop g g')
  then show ?case using Stop_frame [of g g'] by (simp add: hanging_def)
qed (simp_all add: hanging_def)

text \<open>The ticker \<open>i\<close> waits in its send, whatever steps follow.\<close>

definition waits_forever :: "nat \<Rightarrow> Registry \<Rightarrow> bool" where
  "waits_forever i g = (\<forall>h. step\<^sup>*\<^sup>* g h \<longrightarrow> i < length (g_tickers h) \<and> g_tickers h ! i = TSend)"

lemma hanging_forever: "step\<^sup>*\<^sup>* g h \<Longrightarrow> hanging g \<Longrightarrow> hanging h"
  by (induction rule: rtranclp_induct) (auto intro: hanging_step)

lemma fill_queue: "n \<le> queue_capacity \<Longrightarrow> \<exists>g. reachable g \<and> length (g_queue g) = n \<and> g_tickers g = [TLoop]
    \<and> g_workers g = [WIdle, WIdle]"
proof (induction n)
  case 0
  show ?case by (rule exI [of _ example_start]) (simp add: example_reachable)
next
  case (Suc n)
  then obtain g where g: "reachable g" "length (g_queue g) = n" "g_tickers g = [TLoop]" "g_workers g = [WIdle, WIdle]" by auto
  have "reachable (g \<lparr> g_queue := g_queue g @ [run_of 0 g] \<rparr>)"
    using g Suc.prems by (intro tick_and_send) simp_all
  then show ?case using g by (intro exI [of _ "g \<lparr> g_queue := g_queue g @ [run_of 0 g] \<rparr>"]) simp
qed

text \<open>
  C31: \<open>Stop\<close> does not end every goroutine: a state is reachable in which the registry is
  stopped and all its workers have returned while a ticker waits for room in the full
  queue, and it waits for ever, whatever happens afterwards.
\<close>
theorem stopped_ticker_can_hang:
  "\<exists>g. reachable g \<and> g_cancelled g \<and> g_workers g = [WDone, WDone] \<and> waits_forever 0 g"
proof -
  obtain g where g: "reachable g" "length (g_queue g) = queue_capacity" "g_tickers g = [TLoop]" "g_workers g = [WIdle, WIdle]"
    using fill_queue [of queue_capacity] by auto
  let ?g1 = "g \<lparr> g_tickers := [TSend] \<rparr>"
  have r1: "reachable ?g1" using step.tick [of 0 g] g by (auto intro: reachable.more)
  obtain g2 where g2: "Stop ?g1 = Ret g2" using registry.halt_law [OF reachable_Inv [OF r1]] by blast
  note f = Stop_frame [OF g2]
  have r2: "reachable g2" using r1 step.stop [OF g2] by (rule reachable.more)
  let ?g3 = "g2 \<lparr> g_workers := [WDone, WIdle] \<rparr>" and ?g4 = "g2 \<lparr> g_workers := [WDone, WDone] \<rparr>"
  have "step g2 ?g3" using step.worker_exit [of 0 g2] f g(4) by simp
  moreover have "step ?g3 ?g4" using step.worker_exit [of 1 ?g3] f by simp
  ultimately have r4: "reachable ?g4" using r2 by (blast intro: reachable.more)
  have h: "hanging ?g4" using f g by (simp add: hanging_def)
  have "waits_forever 0 ?g4"
    unfolding waits_forever_def using hanging_forever [OF _ h] by (auto simp: hanging_def)
  then show ?thesis using r4 f by (intro exI [of _ ?g4]) simp
qed

end
