(* ===== verification/StatExact.thy ===== *)
theory StatExact
  imports Main SchedStats
begin

text \<open>
  Where the statistics round: on whole numbers whose sums of products stay below \<open>2 ^ 53\<close> every
  partial sum is exact, so the mean, the deviation and the regression are the exact ones, with
  the rounding of the last division only.
\<close>

definition num :: "int \<Rightarrow> f64" where
  "num k = Fin (of_int k)"

text \<open>Samples of at most \<open>K\<close> in size, few enough that \<open>(n * K) ^ 2\<close> is below \<open>2 ^ 53\<close>.\<close>

definition counts_within :: "int \<Rightarrow> int list \<Rightarrow> bool" where
  "counts_within K ks = (1 \<le> K \<and> list_all (\<lambda>k. \<bar>k\<bar> \<le> K) ks \<and> (int (length ks) * K) ^ 2 < 2 ^ 53)"

subsection \<open>Exact arithmetic\<close>

lemma num_ops:
  "\<bar>x + y\<bar> < 2 ^ 53 \<Longrightarrow> fadd (num x) (num y) = num (x + y)"
  "\<bar>x - y\<bar> < 2 ^ 53 \<Longrightarrow> fsub (num x) (num y) = num (x - y)"
  "\<bar>x * y\<bar> < 2 ^ 53 \<Longrightarrow> fmul (num x) (num y) = num (x * y)"
  using rnd_of_int [of "x + y"] rnd_of_int [of "x - y"] rnd_of_int [of "x * y"]
  by (simp_all add: num_def fsub_def)

lemma num_div: "y \<noteq> 0 \<Longrightarrow> fdiv (num x) (num y) = rnd (of_int x / of_int y)"
  by (simp add: num_def)

lemma num_zero: "feq (num z) f0 = (z = 0)"
  by (simp add: num_def feq_def)

lemma num_quotient: "d \<noteq> 0 \<Longrightarrow> \<bar>a\<bar> < 2 ^ 53 \<Longrightarrow> fdiv (num (a * d)) (num d) = num a"
  using rnd_of_int [of a] by (simp add: num_def)

lemma f_of_num: "\<bar>z\<bar> < 2 ^ 53 \<Longrightarrow> f_of_int z = num z"
  by (simp add: f_of_int_def num_def rnd_of_int)

lemma fold_exact:
  assumes "\<And>k. k \<in> set ks \<Longrightarrow> f k = num (g k)" "\<bar>a\<bar> + (\<Sum>k\<leftarrow>ks. \<bar>g k\<bar>) < 2 ^ 53"
  shows "foldl (\<lambda>s k. fadd s (f k)) (num a) ks = num (a + (\<Sum>k\<leftarrow>ks. g k))"
  using assms
proof (induction ks arbitrary: a)
  case (Cons k ks)
  have pos: "0 \<le> (\<Sum>k\<leftarrow>ks. \<bar>g k\<bar>)" by (intro sum_list_nonneg) auto
  then have "fadd (num a) (f k) = num (a + g k)" using Cons.prems by (simp add: num_ops)
  moreover have "\<bar>a + g k\<bar> + (\<Sum>k\<leftarrow>ks. \<bar>g k\<bar>) < 2 ^ 53" using Cons.prems(2) by simp
  ultimately show ?case using Cons.IH [of "a + g k"] Cons.prems(1) by (simp add: add.assoc)
qed simp

lemma sum_at_most: "list_all (\<lambda>k. g k \<le> B) ks \<Longrightarrow> (\<Sum>k\<leftarrow>ks. g k) \<le> int (length ks) * B"
  by (induction ks) (simp_all add: algebra_simps)

lemma sum_abs: "\<bar>\<Sum>k\<leftarrow>ks. g k\<bar> \<le> (\<Sum>k\<leftarrow>ks. \<bar>g k :: int\<bar>)"
  by (induction ks) (simp_all add: abs_triangle_ineq order_trans [OF abs_triangle_ineq])

lemma sum_squares: "(\<Sum>k\<leftarrow>ks. (c * k - d) ^ 2) = c ^ 2 * (\<Sum>k\<leftarrow>ks. k ^ 2) - 2 * c * d * sum_list ks + int (length ks) * d ^ 2"
  by (induction ks) (simp_all add: algebra_simps power2_eq_square)

lemma member_le_sum: "k \<in> set ks \<Longrightarrow> (\<And>x. 0 \<le> g x) \<Longrightarrow> g k \<le> (\<Sum>x\<leftarrow>ks. g x :: int)"
proof (induction ks)
  case (Cons a ks)
  have "0 \<le> (\<Sum>x\<leftarrow>ks. g x)" by (intro sum_list_nonneg) (auto simp: Cons.prems(2))
  then show ?case using Cons by (auto intro: order_trans add_increasing)
qed simp

text \<open>The sums of samples within a bound, and of the products of two such lists.\<close>

lemma counts_bounds:
  assumes "counts_within K ks" "ks \<noteq> []"
  shows "int (length ks) < 2 ^ 53" "(\<Sum>k\<leftarrow>ks. \<bar>k\<bar>) \<le> int (length ks) * K" "\<bar>sum_list ks\<bar> \<le> int (length ks) * K"
    "int (length ks) * K < 2 ^ 53" "1 \<le> K" "1 \<le> int (length ks)" "int (length ks) * (int (length ks) * K ^ 2) < 2 ^ 53"
proof -
  let ?n = "int (length ks)"
  have k: "1 \<le> K" "(?n * K) ^ 2 < 2 ^ 53" using assms(1) by (simp_all add: counts_within_def)
  show n: "1 \<le> ?n" "1 \<le> K" using assms(2) k by (cases ks; simp)+
  have p: "1 \<le> ?n * K" using n by (simp add: int_one_le_iff_zero_less)
  then show b: "?n * K < 2 ^ 53" using k(2) self_le_power [of "?n * K" 2] by simp
  show "?n < 2 ^ 53" using b n mult_left_mono [of 1 K ?n] by simp
  show "(\<Sum>k\<leftarrow>ks. \<bar>k\<bar>) \<le> ?n * K" using assms(1) by (intro sum_at_most) (simp add: counts_within_def)
  then show "\<bar>sum_list ks\<bar> \<le> ?n * K" using sum_abs [of "\<lambda>k. k" ks] by simp
  show "?n * (?n * K ^ 2) < 2 ^ 53" using k(2) by (simp add: power2_eq_square algebra_simps)
qed

lemma foldl_num: "\<bar>a\<bar> + (\<Sum>k\<leftarrow>ks. \<bar>k\<bar>) < 2 ^ 53 \<Longrightarrow> foldl fadd (num a) (map num ks) = num (a + sum_list ks)"
  using fold_exact [of ks num "\<lambda>k. k" a] by (simp add: foldl_map)

lemma f0_num: "f0 = num 0"
  by (simp add: num_def)

lemma Mean_exact:
  assumes "counts_within K ks" "ks \<noteq> []"
  shows "Mean (map num ks) = rnd (of_int (sum_list ks) / of_int (int (length ks)))"
proof -
  note b = counts_bounds [OF assms]
  have "foldl fadd f0 (map num ks) = num (sum_list ks)" using foldl_num [of 0 ks] b(2,4) by (simp add: f0_num)
  moreover have "f_len (map num ks) = num (int (length ks))" using f_of_num [of "int (length ks)"] b(1) by (simp add: f_len_def)
  ultimately show ?thesis using assms(2) by (simp add: Mean_def num_div del: of_int_of_nat_eq)
qed

lemma StdDev_exact:
  assumes "counts_within K ks" "2 \<le> length ks" "sum_list ks = int (length ks) * m"
  shows "StdDev (map num ks) population = fsqrt (rnd (of_int (\<Sum>k\<leftarrow>ks. (k - m) ^ 2)
      / of_int (if population then int (length ks) else int (length ks) - 1)))"
proof -
  let ?n = "int (length ks)" and ?q = "\<Sum>k\<leftarrow>ks. (k - m) ^ 2"
  have ne: "ks \<noteq> []" using assms(2) by auto
  note b = counts_bounds [OF assms(1) ne]
  have "?n * \<bar>m\<bar> \<le> ?n * K" using b(3) assms(3) by (simp add: abs_mult)
  then have m: "\<bar>m\<bar> \<le> K" using b(6) ne by (simp add: mult_le_cancel_left)
  have "?q = (\<Sum>k\<leftarrow>ks. k ^ 2) - ?n * m ^ 2"
    using sum_squares [of 1 m ks] assms(3) by (simp add: algebra_simps power2_eq_square)
  moreover have "(\<Sum>k\<leftarrow>ks. k ^ 2) \<le> ?n * K ^ 2"
    using assms(1) by (intro sum_at_most) (auto simp: counts_within_def list_all_iff intro: abs_le_square_iff [THEN iffD1])
  moreover have "0 \<le> ?n * m ^ 2" by simp
  moreover have "?n * K ^ 2 \<le> ?n * (?n * K ^ 2)" using b(6) by (intro mult_left_mono) (simp_all add: mult_le_cancel_right1)
  ultimately have q: "?q < 2 ^ 53" using b(7) by linarith
  have q0: "0 \<le> ?q" by (intro sum_list_nonneg) auto
  have "2 * K \<le> ?n * K" using assms(2) b(5) by (intro mult_right_mono) simp_all
  then have K: "K < 2 ^ 52" using b(4) by simp
  have mean: "Mean (map num ks) = num m"
    using Mean_exact [OF assms(1) ne] m K b(5,6) rnd_of_int [of m] assms(3) ne by (simp add: num_def)
  have d: "fmul (fsub (num k) (num m)) (fsub (num k) (num m)) = num ((k - m) ^ 2)" if "k \<in> set ks" for k
  proof -
    have "(k - m) ^ 2 < 2 ^ 53" using member_le_sum [OF that, of "\<lambda>k. (k - m) ^ 2"] q by simp
    moreover have "\<bar>k - m\<bar> < 2 ^ 53" using that assms(1) m K by (auto simp: counts_within_def list_all_iff)
    ultimately show ?thesis by (simp add: num_ops power2_eq_square)
  qed
  have "foldl (\<lambda>s k. fadd s (fmul (fsub (num k) (num m)) (fsub (num k) (num m)))) (num 0) ks = num ?q"
    using fold_exact [of ks "\<lambda>k. fmul (fsub (num k) (num m)) (fsub (num k) (num m))" "\<lambda>k. (k - m) ^ 2" 0] d q by simp
  then have s: "foldl (\<lambda>s v. let diff = fsub v (num m) in fadd s (fmul diff diff)) f0 (map num ks) = num ?q"
    by (simp add: foldl_map f0_num Let_def)
  have len: "f_len (map num ks) = num ?n" "f_of_int (?n - 1) = num (?n - 1)"
    using f_of_num [of ?n] f_of_num [of "?n - 1"] b(1) by (simp_all add: f_len_def)
  show ?thesis using assms(2) ne s len by (simp add: StdDev_def mean num_div del: of_int_of_nat_eq)
qed

subsection \<open>Regression\<close>

text \<open>The spread that the regression divides by is zero only for one repeated abscissa.\<close>

lemma spread_zero:
  assumes "int (length ks) * (\<Sum>k\<leftarrow>ks. k ^ 2) = sum_list ks * sum_list ks" "k \<in> set ks" "l \<in> set ks"
  shows "k = l"
proof -
  let ?n = "int (length ks)" and ?S = "sum_list ks"
  have "(\<Sum>x\<leftarrow>ks. (?n * x - ?S) ^ 2) = ?n * (?n * (\<Sum>k\<leftarrow>ks. k ^ 2) - ?S * ?S)"
    using sum_squares [of ?n ?S ks] by (simp add: algebra_simps power2_eq_square)
  then have z: "(\<Sum>x\<leftarrow>ks. (?n * x - ?S) ^ 2) = 0" using assms(1) by simp
  have "(?n * x - ?S) ^ 2 \<le> 0" if "x \<in> set ks" for x
    using member_le_sum [OF that, of "\<lambda>x. (?n * x - ?S) ^ 2"] z by simp
  then have "?n * k = ?S" "?n * l = ?S" using assms(2,3) by simp_all
  moreover have "?n \<noteq> 0" using assms(2) by auto
  ultimately show ?thesis by (metis mult_cancel_left)
qed

lemma line_sums:
  "(\<Sum>k\<leftarrow>ks. a * k + b) = a * sum_list ks + int (length ks) * b"
  "(\<Sum>k\<leftarrow>ks. k * (a * k + b)) = a * (\<Sum>k\<leftarrow>ks. k ^ 2) + b * sum_list ks"
  by (induction ks) (simp_all add: algebra_simps power2_eq_square)

lemma product_sum:
  assumes "list_all (\<lambda>k. \<bar>g k\<bar> \<le> K \<and> \<bar>h k\<bar> \<le> K) ks" "0 \<le> K"
  shows "(\<Sum>k\<leftarrow>ks. \<bar>g k * h k\<bar>) \<le> int (length ks) * K ^ 2"
  using assms by (intro sum_at_most) (auto simp: list_all_iff abs_mult power2_eq_square intro: mult_mono)

lemma product_le: "\<bar>x\<bar> \<le> K \<Longrightarrow> \<bar>y\<bar> \<le> K \<Longrightarrow> \<bar>x * y\<bar> \<le> (K::int) ^ 2"
  unfolding abs_mult power2_eq_square by (intro mult_mono) simp_all

lemma geometric_mean: "0 \<le> d \<Longrightarrow> d < B \<Longrightarrow> a ^ 2 * d < B \<Longrightarrow> \<bar>a * d\<bar> < (B::int)"
proof -
  assume d: "0 \<le> d" "d < B" "a ^ 2 * d < B"
  have "(a ^ 2 * d) * d < B * B" using d by (intro mult_strict_mono') simp_all
  then have "\<bar>a * d\<bar> ^ 2 < B ^ 2" by (simp add: power2_eq_square algebra_simps)
  then show ?thesis using d by (intro power2_less_imp_less [of _ B]) simp_all
qed

lemma r_squared:
  assumes "\<forall>y \<in> set ys. \<exists>q. y = Fin q" "m = Fin p"
  shows "fsub (Fin 1) (fdiv (Fin 0) (foldl (\<lambda>s y. let diff = fsub y m in fadd s (fmul diff diff)) f0 ys)) = Fin 1
    \<or> feq (foldl (\<lambda>s y. let diff = fsub y m in fadd s (fmul diff diff)) f0 ys) f0"
proof -
  let ?s = "foldl (\<lambda>s y. let diff = fsub y m in fadd s (fmul diff diff)) f0 ys"
  have "\<forall>y \<in> set ys. nonneg (fmul (fsub y m) (fsub y m))"
    using assms by (auto intro!: nonneg_sq simp: fsub_not_nan)
  then have "nonneg ?s" using nonneg_sum [of ys "\<lambda>y. fmul (fsub y m) (fsub y m)" f0] by (simp add: Let_def)
  then show ?thesis by (cases ?s) (auto simp: feq_def fsub_def float_simps)
qed

text \<open>Points on a line, and the bounds under which each step of the regression is exact.\<close>

definition on_line :: "int \<Rightarrow> int \<Rightarrow> int \<Rightarrow> int list \<Rightarrow> bool" where
  "on_line K a b ks = (counts_within K ks \<and> counts_within K (map (\<lambda>k. a * k + b) ks) \<and> \<bar>a\<bar> \<le> K \<and> 2 \<le> length ks)"

lemma line_bounds:
  assumes "on_line K a b ks"
  shows "K \<le> K ^ 2" "int (length ks) * K ^ 2 < 2 ^ 53" "2 * (int (length ks) * K ^ 2) < 2 ^ 53" "ks \<noteq> []"
    "list_all (\<lambda>k. \<bar>k\<bar> \<le> K \<and> \<bar>a * k + b\<bar> \<le> K) ks" "x \<le> K ^ 2 \<Longrightarrow> x < 2 ^ 53"
proof -
  let ?n = "int (length ks)"
  have w: "counts_within K ks" "2 \<le> length ks" and ne: "ks \<noteq> []" using assms by (auto simp: on_line_def)
  note c = counts_bounds [OF w(1) ne]
  have n2: "2 * K ^ 2 \<le> ?n * K ^ 2" "2 * (?n * K ^ 2) \<le> ?n * (?n * K ^ 2)" using w(2) by (auto intro!: mult_right_mono)
  show KK: "K \<le> K ^ 2" using c(5) self_le_power [of K 2] by simp
  show "2 * (?n * K ^ 2) < 2 ^ 53" using n2(2) c(7) by linarith
  then show "?n * K ^ 2 < 2 ^ 53" using n2(1) KK c(5) by linarith
  then show "x < 2 ^ 53" if "x \<le> K ^ 2" using that n2(1) KK c(5) by linarith
  show "list_all (\<lambda>k. \<bar>k\<bar> \<le> K \<and> \<bar>a * k + b\<bar> \<le> K) ks"
    using assms by (auto simp: on_line_def counts_within_def list_all_iff)
qed (use assms in \<open>auto simp: on_line_def\<close>)

lemma line_points:
  assumes "on_line K a b ks" "k \<in> set ks"
  shows "\<bar>k * (a * k + b)\<bar> \<le> K ^ 2" "\<bar>k * k\<bar> \<le> K ^ 2" "\<bar>a * k\<bar> \<le> K ^ 2" "\<bar>a * k + b\<bar> \<le> K ^ 2" "(a * k + b) ^ 2 \<le> K ^ 2"
proof -
  have k: "\<bar>k\<bar> \<le> K" "\<bar>a * k + b\<bar> \<le> K" "\<bar>a\<bar> \<le> K"
    using line_bounds(5) [OF assms(1)] assms by (auto simp: list_all_iff on_line_def)
  then show "\<bar>k * (a * k + b)\<bar> \<le> K ^ 2" "\<bar>k * k\<bar> \<le> K ^ 2" "\<bar>a * k\<bar> \<le> K ^ 2"
    using product_le [of k K "a * k + b"] product_le [of k K k] product_le [of a K k] by simp_all
  show "\<bar>a * k + b\<bar> \<le> K ^ 2" using k(2) line_bounds(1) [OF assms(1)] by linarith
  show "(a * k + b) ^ 2 \<le> K ^ 2" using product_le [OF k(2) k(2)] by (simp add: power2_eq_square)
qed

lemma line_totals:
  assumes "on_line K a b ks"
  defines "n \<equiv> int (length ks)" and "S \<equiv> sum_list ks" and "Q \<equiv> \<Sum>k\<leftarrow>ks. k ^ 2"
  shows "\<bar>S\<bar> \<le> n * K" "\<bar>a * S + n * b\<bar> \<le> n * K" "\<bar>Q\<bar> \<le> n * K ^ 2" "(\<Sum>k\<leftarrow>ks. \<bar>k * k\<bar>) \<le> n * K ^ 2"
    "\<bar>a * Q + b * S\<bar> \<le> n * K ^ 2" "(\<Sum>k\<leftarrow>ks. \<bar>k * (a * k + b)\<bar>) \<le> n * K ^ 2" "1 \<le> n" "n * (n * K ^ 2) < 2 ^ 53"
proof -
  have w: "counts_within K ks" "counts_within K (map (\<lambda>k. a * k + b) ks)" "map (\<lambda>k. a * k + b) ks \<noteq> []"
    using assms(1) line_bounds(4) [OF assms(1)] by (auto simp: on_line_def)
  note c = counts_bounds [OF w(1) line_bounds(4) [OF assms(1)]] and d = counts_bounds [OF w(2,3), unfolded length_map]
  note in_K = line_bounds(5) [OF assms(1)]
  show "\<bar>S\<bar> \<le> n * K" "1 \<le> n" "n * (n * K ^ 2) < 2 ^ 53" using c(3,6,7) by (simp_all add: n_def S_def)
  show "\<bar>a * S + n * b\<bar> \<le> n * K" using d(3) by (simp add: line_sums n_def S_def)
  show q: "(\<Sum>k\<leftarrow>ks. \<bar>k * k\<bar>) \<le> n * K ^ 2" unfolding n_def
    using product_sum [where g = "\<lambda>k. k" and h = "\<lambda>k. k" and K = K and ks = ks] in_K c(5) by (simp add: list_all_iff)
  show p: "(\<Sum>k\<leftarrow>ks. \<bar>k * (a * k + b)\<bar>) \<le> n * K ^ 2" unfolding n_def
    using product_sum [where g = "\<lambda>k. k" and h = "\<lambda>k. a * k + b" and K = K and ks = ks] in_K c(5) by (simp add: list_all_iff)
  show "\<bar>Q\<bar> \<le> n * K ^ 2" using sum_abs [of "\<lambda>k. k ^ 2" ks] q by (simp add: Q_def power2_eq_square)
  show "\<bar>a * Q + b * S\<bar> \<le> n * K ^ 2" using sum_abs [of "\<lambda>k. k * (a * k + b)" ks] p by (simp add: line_sums Q_def S_def)
qed

lemma zip_map_both: "zip (map f xs) (map g xs) = map (\<lambda>k. (f k, g k)) xs"
  by (induction xs) simp_all

text \<open>The five sums of the regression.\<close>

lemma line_folds:
  assumes "on_line K a b ks"
  shows "foldl fadd f0 (map num ks) = num (sum_list ks)"
    "foldl fadd f0 (map (\<lambda>k. num (a * k + b)) ks) = num (a * sum_list ks + int (length ks) * b)"
    "foldl (\<lambda>s (x, y). fadd s (fmul x y)) f0 (zip (map num ks) (map (\<lambda>k. num (a * k + b)) ks))
      = num (a * (\<Sum>k\<leftarrow>ks. k ^ 2) + b * sum_list ks)"
    "foldl (\<lambda>s x. fadd s (fmul x x)) f0 (map num ks) = num (\<Sum>k\<leftarrow>ks. k ^ 2)"
    "foldl (\<lambda>s (x, y). let res = fsub y (fadd (fmul (num a) x) (num b)) in fadd s (fmul res res)) f0
      (zip (map num ks) (map (\<lambda>k. num (a * k + b)) ks)) = Fin 0"
proof -
  have w: "counts_within K ks" "counts_within K (map (\<lambda>k. a * k + b) ks)" "map (\<lambda>k. a * k + b) ks \<noteq> []"
    using assms line_bounds(4) [OF assms] by (auto simp: on_line_def)
  note c = counts_bounds [OF w(1) line_bounds(4) [OF assms]] and d = counts_bounds [OF w(2,3), unfolded length_map]
  note p = line_points [OF assms] and t = line_totals [OF assms] and small = line_bounds(6) [OF assms] and n2 = line_bounds(2) [OF assms]
  show "foldl fadd f0 (map num ks) = num (sum_list ks)" using foldl_num [of 0 ks] c(2,4) by (simp add: f0_num)
  show "foldl fadd f0 (map (\<lambda>k. num (a * k + b)) ks) = num (a * sum_list ks + int (length ks) * b)"
    using foldl_num [of 0 "map (\<lambda>k. a * k + b) ks"] d(2,4) by (simp add: f0_num line_sums comp_def)
  show "foldl (\<lambda>s (x, y). fadd s (fmul x y)) f0 (zip (map num ks) (map (\<lambda>k. num (a * k + b)) ks))
      = num (a * (\<Sum>k\<leftarrow>ks. k ^ 2) + b * sum_list ks)"
    using fold_exact [of ks "\<lambda>k. fmul (num k) (num (a * k + b))" "\<lambda>k. k * (a * k + b)" 0] p(1) small n2 t(6)
    by (simp add: zip_map_both foldl_map f0_num num_ops line_sums)
  show "foldl (\<lambda>s x. fadd s (fmul x x)) f0 (map num ks) = num (\<Sum>k\<leftarrow>ks. k ^ 2)"
    using fold_exact [of ks "\<lambda>k. fmul (num k) (num k)" "\<lambda>k. k * k" 0] p(2) small n2 t(4)
    by (simp add: foldl_map f0_num num_ops power2_eq_square)
  have point: "fsub (num (a * k + b)) (fadd (fmul (num a) (num k)) (num b)) = num 0" if "k \<in> set ks" for k
    using p [OF that] small [of "\<bar>a * k\<bar>"] small [of "\<bar>a * k + b\<bar>"] by (simp add: num_ops)
  show "foldl (\<lambda>s (x, y). let res = fsub y (fadd (fmul (num a) x) (num b)) in fadd s (fmul res res)) f0
      (zip (map num ks) (map (\<lambda>k. num (a * k + b)) ks)) = Fin 0"
    using fold_exact [of ks "\<lambda>k. fmul (fsub (num (a * k + b)) (fadd (fmul (num a) (num k)) (num b)))
      (fsub (num (a * k + b)) (fadd (fmul (num a) (num k)) (num b)))" "\<lambda>_. 0" 0] point
    by (simp add: zip_map_both foldl_map f0_num Let_def num_ops)
qed

text \<open>The denominator and the numerator of the slope.\<close>

lemma line_spread:
  assumes "on_line K a b ks"
  defines "n \<equiv> int (length ks)" and "S \<equiv> sum_list ks" and "Q \<equiv> \<Sum>k\<leftarrow>ks. k ^ 2"
  shows "fsub (fmul (num n) (num Q)) (fmul (num S) (num S)) = num (n * Q - S * S)"
    "fsub (fmul (num n) (num (a * Q + b * S))) (fmul (num S) (num (a * S + n * b))) = num (a * (n * Q - S * S))"
proof -
  let ?D = "n * Q - S * S" and ?P = "a * Q + b * S" and ?T = "a * S + n * b" and ?R = "\<Sum>k\<leftarrow>ks. (a * k + b) ^ 2"
  note t = line_totals [OF assms(1), folded n_def S_def Q_def]
  have times: "\<bar>n * x\<bar> < 2 ^ 53" if "\<bar>x\<bar> \<le> n * K ^ 2" for x
  proof -
    have "n * \<bar>x\<bar> \<le> n * (n * K ^ 2)" using that t(7) by (intro mult_left_mono) simp_all
    moreover have "\<bar>n * x\<bar> = n * \<bar>x\<bar>" using t(7) by (simp add: abs_mult)
    ultimately show ?thesis using t(8) by linarith
  qed
  have prod: "\<bar>x * z\<bar> < 2 ^ 53" if "\<bar>x\<bar> \<le> n * K" "\<bar>z\<bar> \<le> n * K" for x z
    using mult_mono [OF that] order_trans [OF abs_ge_zero that(1)] t(8) by (simp add: abs_mult power2_eq_square algebra_simps)
  have D: "0 \<le> ?D"
  proof -
    have "n * ?D = (\<Sum>x\<leftarrow>ks. (n * x - S) ^ 2)"
      using sum_squares [of n S ks] by (simp add: n_def S_def Q_def algebra_simps power2_eq_square)
    also have "\<dots> \<ge> 0" by (intro sum_list_nonneg) auto
    finally show ?thesis using t(7) by (simp add: zero_le_mult_iff)
  qed
  have SS: "0 \<le> S * S" by simp
  have D53: "?D < 2 ^ 53" using times [OF t(3)] SS by linarith
  have "0 \<le> ?R" by (intro sum_list_nonneg) auto
  moreover have "?R \<le> n * K ^ 2" unfolding n_def using line_points(5) [OF assms(1)] by (intro sum_at_most) (simp add: list_all_iff)
  ultimately have "n * ?R < 2 ^ 53" using times [of ?R] by linarith
  moreover have "a ^ 2 * ?D = n * ?R - ?T ^ 2"
    using sum_squares [of a "- b" ks] by (simp add: n_def S_def Q_def algebra_simps power2_eq_square)
  ultimately have "a ^ 2 * ?D < 2 ^ 53" using zero_le_power2 [of ?T] by linarith
  with geometric_mean [OF D D53] have aD: "\<bar>a * ?D\<bar> < 2 ^ 53" .
  have "\<bar>?D\<bar> < 2 ^ 53" using D D53 by linarith
  then show "fsub (fmul (num n) (num Q)) (fmul (num S) (num S)) = num ?D"
    using times [OF t(3)] prod [OF t(1) t(1)] by (simp only: num_ops)
  have "n * ?P - S * ?T = a * ?D" by (simp add: algebra_simps)
  then show "fsub (fmul (num n) (num ?P)) (fmul (num S) (num ?T)) = num (a * ?D)"
    using times [OF t(5)] prod [OF t(1,2)] aD by (simp only: num_ops)
qed

text \<open>The intercept and the mean of the ordinates.\<close>

lemma line_quotients:
  assumes "on_line K a b ks"
  defines "n \<equiv> int (length ks)" and "S \<equiv> sum_list ks"
  shows "fdiv (fsub (num (a * S + n * b)) (fmul (num a) (num S))) (num n) = num b"
    "\<exists>p. fdiv (num (a * S + n * b)) (num n) = Fin p"
proof -
  let ?T = "a * S + n * b"
  note t = line_totals [OF assms(1), folded n_def S_def] and l = line_bounds [OF assms(1), folded n_def]
  have a: "\<bar>a\<bar> \<le> K" using assms(1) by (simp add: on_line_def)
  have aS: "\<bar>a * S\<bar> \<le> n * K ^ 2" using mult_mono [OF a t(1)] a by (simp add: abs_mult power2_eq_square algebra_simps)
  have "n * K \<le> n * K ^ 2" using l(1) t(7) by (intro mult_left_mono) simp_all
  then have nb: "\<bar>n * b\<bar> < 2 ^ 53" using t(2) aS l(3) by linarith
  then have b: "\<bar>b\<bar> < 2 ^ 53" using t(7) mult_right_mono [of 1 n "\<bar>b\<bar>"] by (simp add: abs_mult)
  have "\<bar>a * S\<bar> < 2 ^ 53" using aS l(2) by linarith
  with nb have "fsub (num ?T) (fmul (num a) (num S)) = num (b * n)"
    by (simp add: num_ops(3)) (simp add: num_ops algebra_simps)
  then show "fdiv (fsub (num ?T) (fmul (num a) (num S))) (num n) = num b" using num_quotient [of n b] b t(7) by simp
  have K: "\<bar>K\<bar> < 2 ^ 53" "\<bar>- K\<bar> < 2 ^ 53" using l(6) [OF l(1)] a by simp_all
  have "rat_of_int (- K) \<le> of_int ?T / of_int n" "of_int ?T / of_int n \<le> rat_of_int K"
    using t(2,7) by (simp_all add: field_simps abs_le_iff flip: of_int_mult of_int_le_iff)
  then show "\<exists>p. fdiv (num ?T) (num n) = Fin p"
    using ieee.between [OF is_f64_of_int [OF K(2)] is_f64_of_int [OF K(1)]] t(7) by (auto simp: num_div)
qed

lemma LinearRegression_exact:
  assumes "counts_within K ks" "counts_within K (map (\<lambda>k. a * k + b) ks)" "\<bar>a\<bar> \<le> K" "k \<in> set ks" "l \<in> set ks" "k \<noteq> l"
  shows "LinearRegression (map num ks) (map (\<lambda>k. num (a * k + b)) ks) = (num a, num b, Fin 1, True)"
proof -
  have two: "2 \<le> length ks" using assms(4-6) by (cases ks rule: remdups_adj.cases) auto
  with assms have o: "on_line K a b ks" by (simp add: on_line_def)
  let ?D = "int (length ks) * (\<Sum>k\<leftarrow>ks. k ^ 2) - sum_list ks * sum_list ks"
  have D: "?D \<noteq> 0" using spread_zero [OF _ assms(4,5)] assms(6) by auto
  then have den: "feq (num ?D) f0 = False" by (simp only: num_zero)
  have "\<bar>a\<bar> < 2 ^ 53" using assms(3) line_bounds(1,6) [OF o] by fastforce
  then have slope: "fdiv (num (a * ?D)) (num ?D) = num a" by (rule num_quotient [OF D])
  have len: "f_len (map num ks) = num (int (length ks))"
    using f_of_num [of "int (length ks)"] counts_bounds(1) [OF assms(1)] line_bounds(4) [OF o] by (simp add: f_len_def)
  obtain p where mean: "fdiv (num (a * sum_list ks + int (length ks) * b)) (num (int (length ks))) = Fin p"
    using line_quotients(2) [OF o] by blast
  have fin: "\<forall>y \<in> set (map (\<lambda>k. num (a * k + b)) ks). \<exists>q. y = Fin q" by (auto simp: num_def)
  note folds = line_folds(1-4) [OF o] line_folds(5) [OF o, unfolded Let_def]
  show ?thesis using two den r_squared [OF fin mean]
    by (auto simp: LinearRegression_def Let_def folds len line_spread [OF o] slope line_quotients(1) [OF o] mean)
qed

text \<open>
  C36: The statistics are the exact ones on whole numbers: for at least two samples within \<open>K\<close>, with
  \<open>(n * K) ^ 2\<close> below \<open>2 ^ 53\<close>, the mean is the sum divided by their number, rounded once; if that
  is a whole number \<open>m\<close>, the deviation is the root of the sum of the squared distances from \<open>m\<close>
  divided by \<open>n\<close>, or by \<open>n - 1\<close> for a sample, each rounded once; and the regression of points on a
  line \<open>a * x + b\<close> with two abscissas gives back \<open>a\<close> and \<open>b\<close> with the quality 1.
\<close>
theorem statistics_exact_on_counts:
  assumes "counts_within K ks" "2 \<le> length ks"
  shows "Mean (map num ks) = rnd (of_int (sum_list ks) / of_int (int (length ks)))
    \<and> (\<forall>m population. sum_list ks = int (length ks) * m \<longrightarrow> StdDev (map num ks) population
        = fsqrt (rnd (of_int (\<Sum>k\<leftarrow>ks. (k - m) ^ 2) / of_int (if population then int (length ks) else int (length ks) - 1))))
    \<and> (\<forall>a b. counts_within K (map (\<lambda>k. a * k + b) ks) \<longrightarrow> \<bar>a\<bar> \<le> K \<longrightarrow> (\<exists>k \<in> set ks. k \<noteq> hd ks) \<longrightarrow>
        LinearRegression (map num ks) (map (\<lambda>k. num (a * k + b)) ks) = (num a, num b, Fin 1, True))"
proof -
  have ne: "ks \<noteq> []" "hd ks \<in> set ks" using assms(2) by (auto intro!: hd_in_set)
  show ?thesis
    using Mean_exact [OF assms(1) ne(1)] StdDev_exact [OF assms] LinearRegression_exact [OF assms(1) _ _ _ ne(2)] by blast
qed

lemma statistics_exact_on_counts_witness:
  "Mean (map num [1, 2]) = rnd (3 / 2) \<and> StdDev (map num [1, 2, 3]) False = fsqrt (Fin 1)
    \<and> LinearRegression (map num [1, 2, 3]) (map num [3, 5, 7]) = (num 2, num 1, Fin 1, True)"
proof -
  have w: "counts_within 10 [1, 2]" "counts_within 10 [1, 2, 3]" "counts_within 10 (map (\<lambda>k. 2 * k + 1) [1, 2, 3])"
    by (simp_all add: counts_within_def)
  note a = statistics_exact_on_counts [OF w(1)] and b = statistics_exact_on_counts [OF w(2)]
  have "\<forall>population. StdDev (map num [1, 2, 3]) population
      = fsqrt (rnd (of_int (\<Sum>k\<leftarrow>[1, 2, 3]. (k - 2) ^ 2) / of_int (if population then 3 else 2)))"
    using b [THEN conjunct2, THEN conjunct1, rule_format, of 2] by simp
  then have "StdDev (map num [1, 2, 3]) False = fsqrt (Fin 1)" by (simp add: float_simps)
  moreover have "LinearRegression (map num [1, 2, 3]) (map (\<lambda>k. num (2 * k + 1)) [1, 2, 3]) = (num 2, num 1, Fin 1, True)"
    using b [THEN conjunct2, THEN conjunct2, rule_format, of 2 1] w(3) by simp
  moreover have "Mean (map num [1, 2]) = rnd (3 / 2)" using a by simp
  ultimately show ?thesis by simp
qed

end
