(* ===== verification/ResultProps.thy ===== *)
theory ResultProps
  imports Main SchedProps
begin

text \<open>
  What holds of every result the evaluation of a parameter gives, whichever of the eight
  detectors made it: how hit, status and violations go together.
\<close>

text \<open>The detectors of \<open>phase1_rules.go\<close> list what they found; the three older ones do not.\<close>

definition lists_violations :: "string \<Rightarrow> bool" where
  "lists_violations ty = (ty \<in> {''spec_limit'', ''shewhart'', ''range_chart'', ''trend'', ''tpa''})"

definition status_fits :: "string \<Rightarrow> DetectorResult \<Rightarrow> bool" where
  "status_fits ty r = ((dr_hit r \<longleftrightarrow> dr_status r = statusViolation)
     \<and> (dr_violations r \<noteq> [] \<longleftrightarrow> dr_hit r \<and> lists_violations ty))"

lemma fits_consistent: "lists_violations ty \<Longrightarrow> status_fits ty r = consistent r"
  by (auto simp: status_fits_def consistent_def)

lemma fits_silent: "\<not> lists_violations ty \<Longrightarrow> status_fits ty r = ((dr_hit r \<longleftrightarrow> dr_status r = statusViolation) \<and> dr_violations r = [])"
  by (simp add: status_fits_def)

lemma fits_empty [simp]: "status_fits ty empty_result"
  by (simp add: status_fits_def)

lemma consistent_window [simp]: "consistent (applyWindowAndBaseline samples bs be used r) = consistent r"
  by (simp add: consistent_def applyWindowAndBaseline_def Let_def)

text \<open>Every branch of the evaluation.\<close>

lemma fits_simple:
  "eval_missing spec md ad now = Inr rs \<Longrightarrow> \<not> lists_violations ty \<Longrightarrow> list_all (status_fits ty) rs"
  "eval_robust lims spec p rz ad now = Inr rs \<Longrightarrow> \<not> lists_violations ty \<Longrightarrow> list_all (status_fits ty) rs"
  "eval_threshold spec p th ad = Inr rs \<Longrightarrow> \<not> lists_violations ty \<Longrightarrow> list_all (status_fits ty) rs"
  by (auto simp: eval_missing_def eval_robust_def eval_threshold_def EvaluateMissingData_def EvaluateRobustZ_def
      EvaluateThresholdDetector_def fits_silent Let_def split: if_splits sum.splits prod.splits)

lemma fits_limits:
  "eval_spec_limit lims spec p sl ad t now = Inr rs \<Longrightarrow> lists_violations ty \<Longrightarrow> list_all (status_fits ty) rs"
  "eval_tpa lims spec p tp ad t now = Inr rs \<Longrightarrow> lists_violations ty \<Longrightarrow> list_all (status_fits ty) rs"
  by (auto simp: eval_spec_limit_def eval_tpa_def fits_consistent list_all_iff EvaluateSpecLimit_consistent EvaluateTPA_consistent Let_def
      split: sum.splits if_splits)

lemma ret_bind: "ret_all Q m \<Longrightarrow> go_bind m f = Ret y \<Longrightarrow> \<exists>x. Q x \<and> f x = Ret y"
  by (cases m) auto

lemma fits_charts:
  "eval_shewhart lims spec p sh ad t now = Ret (Inr rs) \<Longrightarrow> lists_violations ty \<Longrightarrow> list_all (status_fits ty) rs"
  "eval_trend lims spec p tn ad t now = Ret (Inr rs) \<Longrightarrow> lists_violations ty \<Longrightarrow> list_all (status_fits ty) rs"
  "eval_range_chart lims spec p rc ad t now = Ret (Inr rs) \<Longrightarrow> lists_violations ty \<Longrightarrow> list_all (status_fits ty) rs"
proof -
  assume "eval_shewhart lims spec p sh ad t now = Ret (Inr rs)" "lists_violations ty"
  then show "list_all (status_fits ty) rs"
    by (auto simp: eval_shewhart_def Let_def fits_consistent dest!: ret_bind [OF EvaluateShewhart_consistent] split: sum.splits prod.splits if_splits)
next
  assume "eval_trend lims spec p tn ad t now = Ret (Inr rs)" "lists_violations ty"
  then show "list_all (status_fits ty) rs"
    by (auto simp: eval_trend_def Let_def fits_consistent dest!: ret_bind [OF EvaluateTrend6_consistent] split: sum.splits if_splits)
next
  assume "eval_range_chart lims spec p rc ad t now = Ret (Inr rs)" "lists_violations ty"
  then show "list_all (status_fits ty) rs"
    by (auto simp: eval_range_chart_def Let_def fits_consistent go_bind_def dest!: ret_allD [OF EvaluateRangeChart_consistent]
        split: sum.splits prod.splits if_splits go.splits)
qed

text \<open>
  C19: Every result that evaluating a parameter gives is consistent, for each of the eight
  detectors: it is a hit exactly when its status is \<open>VIOLATION\<close>, and it lists violations exactly
  when it is a hit of one of the five detectors that list them (specification limits, Shewhart,
  range chart, trend and projection); threshold, robust z-score and missing data never do.
\<close>
theorem evaluated_results_consistent:
  assumes "evaluateParameterSince lims spec p ad lastRun now = Ret (Inr rs)" "r \<in> set rs"
  shows "(dr_hit r \<longleftrightarrow> dr_status r = statusViolation)
    \<and> (dr_violations r \<noteq> [] \<longleftrightarrow> dr_hit r \<and> d_type (p_detector p) \<in> {''spec_limit'', ''shewhart'', ''range_chart'', ''trend'', ''tpa''})"
proof -
  let ?ty = "d_type (p_detector p)"
  obtain a where a: "ad = Some a" using assms(1) by (cases ad) (simp_all add: evaluateParameterSince_def)
  note run = assms(1) [unfolded a evaluateParameterSince_def Let_def missing_config_def option.case]
  have "list_all (status_fits ?ty) rs"
  proof (cases "lists_violations ?ty")
    case True
    then consider "?ty = ''spec_limit''" | "?ty = ''shewhart''" | "?ty = ''range_chart''" | "?ty = ''trend''" | "?ty = ''tpa''"
      by (auto simp: lists_violations_def)
    then show ?thesis
      by cases (use run True in \<open>auto split: option.splits dest!: fits_limits fits_charts\<close>)
  next
    case False
    then have n: "?ty \<noteq> ''spec_limit''" "?ty \<noteq> ''shewhart''" "?ty \<noteq> ''range_chart''" "?ty \<noteq> ''trend''" "?ty \<noteq> ''tpa''"
      by (auto simp: lists_violations_def)
    show ?thesis
      using run unfolding if_not_P [OF n(1)] if_not_P [OF n(2)] if_not_P [OF n(3)] if_not_P [OF n(4)] if_not_P [OF n(5)]
      using fits_simple [OF _ False] by (simp split: if_splits option.splits)
  qed
  then show ?thesis using assms(2) by (simp add: list_all_iff status_fits_def lists_violations_def)
qed

text \<open>A trend over one sample is a violation, a threshold that is passed lists none.\<close>

definition one_trend :: DetectorSpec where
  "one_trend = empty_detector \<lparr> d_type := ''trend'', d_trend := Some \<lparr> tn_window = 1, tn_epsilon = f0, tn_consecutive = False \<rparr> \<rparr>"

lemma evaluated_results_consistent_witness:
  "\<exists>r. evaluateParameterSince DefaultLimits (example_rule one_trend) \<lparr> p_name = ''v'', p_column = ''v'', p_detector = one_trend \<rparr>
      (Some (example_adapter [[(''v'', VFloat (Fin 2)), (''ts'', VTime 8)]])) None 0 = Ret (Inr [r])
    \<and> dr_hit r \<and> dr_status r = statusViolation \<and> dr_violations r \<noteq> []"
proof -
  let ?p = "\<lparr> p_name = ''v'', p_column = ''v'', p_detector = one_trend \<rparr>"
  let ?a = "example_adapter [[(''v'', VFloat (Fin 2)), (''ts'', VTime 8)]]"
  have row: "sample_of_row ''v'' ''ts'' [] [(''v'', VFloat (Fin 2)), (''ts'', VTime 8)] = Some (sample_at 8 2)"
    by (simp add: sample_of_row_def toFloat_def isNaN_def isInf0_def parseTimeValue_def sample_at_def)
  have ss: "fetchSamples (Some ?a) (example_rule one_trend) ?p [] since lim [] = Inr [sample_at 8 2]" for since lim
    by (simp add: fetchSamples_def example_adapter_def example_rule_def List.map_filter_simps row)
  obtain e where e: "EvaluateTrend6 [sample_at 8 2] \<lparr> tn_window = 1, tn_epsilon = f0, tn_consecutive = False \<rparr> = Ret e" "dr_hit e"
    by (simp add: EvaluateTrend6_def Let_def)
  let ?r = "applyWindowAndBaseline [sample_at 8 2] None None False e"
  have run: "evaluateParameterSince DefaultLimits (example_rule one_trend) ?p (Some ?a) None 0 = Ret (Inr [?r])"
    by (simp add: evaluateParameterSince_def one_trend_def empty_detector_def eval_trend_def ss [unfolded one_trend_def empty_detector_def, simplified] e Let_def)
  have "dr_hit ?r" using e(2) by (simp add: applyWindowAndBaseline_def Let_def)
  moreover have "d_type one_trend = ''trend''" by (simp add: one_trend_def)
  ultimately show ?thesis using evaluated_results_consistent [OF run, of ?r] run by auto
qed

end
