(* ===== verification/RuleStepperProps.thy ===== *)
theory RuleStepperProps
  imports Main RuleApiProps
begin

text \<open>
  The properties of the stepper rules: the rule the scheduler runs mirrors the stepper rule
  after it is created or switched, and what a deletion leaves behind.
\<close>

subsection \<open>A working database\<close>

text \<open>Every statement gets through, and a UUID Postgres printed reads back as itself.\<close>

definition working :: "PgEnv \<Rightarrow> bool" where
  "working env = ((\<forall>n. pg_up env n) \<and> (\<forall>t u. pg_uuid env t = Some u \<longrightarrow> pg_uuid env u = Some u))"

definition canonical :: "PgEnv \<Rightarrow> RuleDB \<Rightarrow> bool" where
  "canonical env d = (\<forall>c \<in> set (t_connections d). pg_uuid env (dn_id c) = Some (dn_id c))"

lemma working_query: "working env \<Longrightarrow> query q env s = (q (rs_db s), rs_tick s)"
  by (simp add: working_def query_def statement_def split: sum.split)

lemma working_statement: "working env \<Longrightarrow> f (rs_db s) = Inr (x, d) \<Longrightarrow> statement f env s = (Inr x, rs_tick (s \<lparr> rs_db := d \<rparr>))"
  by (simp add: working_def statement_def)

lemma working_unit: "working env \<Longrightarrow> GetMachineUnit i env s = (scanMachineUnit (find_unit i (rs_db s)), rs_tick s)"
  by (simp add: GetMachineUnit_def scanned_def working_query)

lemma publish_db: "rs_db (snd (publish subject ident (respond r) env s)) = rs_db s" "fst (publish subject ident (respond r) env s) = r"
  by (simp_all add: publish_def respond_def)

subsection \<open>Synchronisation\<close>

text \<open>
  What a synchronisation does to the rules table: when the stepper rule makes a rule that can be
  stored, the row of the same identifier has its specification, its switch and the connection of
  the unit, and no other row changes; otherwise the table is as it was, with whatever row and
  switch the rule had before.
\<close>

definition mirrored :: "RuleDB \<Rightarrow> RuleDB \<Rightarrow> StepperRule \<Rightarrow> MachineUnit \<Rightarrow> bool" where
  "mirrored d d' rec u = (case (case BuildRuleSpecFromStepper rec u of Inl _ \<Rightarrow> None | Inr spec \<Rightarrow> rule_json spec) of
       None \<Rightarrow> t_rules d' = t_rules d
     | Some stored \<Rightarrow> sr_id rec \<in> rr_id ` set (t_rules d')
         \<and> list_all (\<lambda>r. rr_id r = sr_id rec \<longrightarrow> rr_spec r = Some stored \<and> rr_enabled r = sr_enabled rec
             \<and> rr_connection r = mu_connection u) (t_rules d')
         \<and> filter (\<lambda>r. rr_id r \<noteq> sr_id rec) (t_rules d') = filter (\<lambda>r. rr_id r \<noteq> sr_id rec) (t_rules d))"

lemma others_kept: "(\<And>r. rr_id (f r) = rr_id r) \<Longrightarrow>
    filter (\<lambda>r. rr_id r \<noteq> i) (map (\<lambda>r. if rr_id r = i then f r else r) rs) = filter (\<lambda>r. rr_id r \<noteq> i) rs"
  by (induction rs) auto

lemma upsert_rows:
  assumes "working env" "pg_uuid env (rr_id n) = Some (rr_id n)" "pg_uuid env (rr_connection n) = Some (rr_connection n)"
    "connection_known (rs_db s) (rr_connection n)" "rr_spec n \<noteq> None"
  defines "d' \<equiv> rs_db (snd (UpsertStepperRuleToRules n env s))"
  shows "rr_id n \<in> rr_id ` set (t_rules d')"
    "r \<in> set (t_rules d') \<Longrightarrow> rr_id r = rr_id n \<Longrightarrow> rr_spec r = rr_spec n \<and> rr_enabled r = rr_enabled n \<and> rr_connection r = rr_connection n"
    "filter (\<lambda>r. rr_id r \<noteq> rr_id n) (t_rules d') = filter (\<lambda>r. rr_id r \<noteq> rr_id n) (t_rules (rs_db s))"
proof -
  have "rr_id n \<in> rr_id ` set (t_rules d')
    \<and> (\<forall>r \<in> set (t_rules d'). rr_id r = rr_id n \<longrightarrow> rr_spec r = rr_spec n \<and> rr_enabled r = rr_enabled n \<and> rr_connection r = rr_connection n)
    \<and> filter (\<lambda>r. rr_id r \<noteq> rr_id n) (t_rules d') = filter (\<lambda>r. rr_id r \<noteq> rr_id n) (t_rules (rs_db s))"
  proof (cases "rr_id n \<in> rr_id ` set (t_rules (rs_db s))")
    case True
    define f where "f = (\<lambda>r :: RuleRow. r \<lparr> rw_name := rw_name n, rw_description := rw_description n, rr_connection := rr_connection n,
      rw_parameter := rw_parameter n, rr_spec := rr_spec n, rr_enabled := rr_enabled n, rr_status := rr_status n,
      rr_last_error := rr_last_error n, rr_last_validated := rr_last_validated n, rw_updated := pg_clock env (rs_step s) \<rparr>)"
    have d: "t_rules d' = map (\<lambda>r. if rr_id r = rr_id n then f r else r) (t_rules (rs_db s))"
      using assms(1-5) True unfolding d'_def f_def
      by (simp add: UpsertStepperRuleToRules_def with_now_def working_def statement_def res_bind_def as_uuid_def require_def
          update_rules_def)
    have f: "rr_id (f r) = rr_id r" "rr_spec (f r) = rr_spec n" "rr_enabled (f r) = rr_enabled n" "rr_connection (f r) = rr_connection n" for r
      by (simp_all add: f_def)
    have "rr_id ` set (t_rules d') = rr_id ` set (t_rules (rs_db s))" unfolding d set_map image_image by (intro image_cong) (simp_all add: f(1))
    then show ?thesis using True f by (auto simp: d others_kept)
  next
    case False
    then have "r \<in> set (t_rules (rs_db s)) \<Longrightarrow> rr_id r \<noteq> rr_id n" for r by (metis imageI)
    then show ?thesis using False assms(1-5)
      by (auto simp: d'_def UpsertStepperRuleToRules_def with_now_def working_def statement_def res_bind_def as_uuid_def require_def
          insert_rule_def)
  qed
  then show "rr_id n \<in> rr_id ` set (t_rules d')"
    "r \<in> set (t_rules d') \<Longrightarrow> rr_id r = rr_id n \<Longrightarrow> rr_spec r = rr_spec n \<and> rr_enabled r = rr_enabled n \<and> rr_connection r = rr_connection n"
    "filter (\<lambda>r. rr_id r \<noteq> rr_id n) (t_rules d') = filter (\<lambda>r. rr_id r \<noteq> rr_id n) (t_rules (rs_db s))"
    by blast+
qed

lemma unit_of_row_connection: "unit_of_row row = Inr u \<Longrightarrow> mu_connection u = ut_connection row"
  by (auto simp: unit_of_row_def sql_simps)

lemma unit_connection:
  assumes "references_ok d" "canonical env d" "scanMachineUnit (find_unit i d) = Inr u"
  shows "connection_known d (mu_connection u)" "pg_uuid env (mu_connection u) = Some (mu_connection u)"
proof -
  obtain row where r: "find_unit i d = Inr row" "unit_of_row row = Inr u"
    using assms(3) by (auto simp: scanMachineUnit_def split: sum.splits store_error.splits)
  then have "row \<in> set (t_units d)" by (auto simp: find_unit_def sql_simps filter_eq_Cons_iff)
  then show k: "connection_known d (mu_connection u)"
    using assms(1) unit_of_row_connection [OF r(2)] by (auto simp: references_ok_def)
  then show "pg_uuid env (mu_connection u) = Some (mu_connection u)"
    using assms(2) by (auto simp: canonical_def connection_known_def)
qed

lemma sync_mirrors:
  assumes "working env" "references_ok (rs_db s)" "canonical env (rs_db s)" "pg_uuid env (sr_id rec) = Some (sr_id rec)"
    and "scanMachineUnit (find_unit (sr_unit rec) (rs_db s)) = Inr u"
  shows "mirrored (rs_db s) (rs_db (snd (syncStepperRule rec subject (respond reply) env s))) rec u"
    "fst (syncStepperRule rec subject (respond reply) env s) = reply"
    "t_ui_rules (rs_db (snd (syncStepperRule rec subject (respond reply) env s))) = t_ui_rules (rs_db s)"
proof -
  note g = working_unit [OF assms(1), of "sr_unit rec" s, unfolded assms(5)]
  show "fst (syncStepperRule rec subject (respond reply) env s) = reply"
    by (simp add: syncStepperRule_def g publish_db respond_def split: sum.split)
  have frame: "keeps (\<lambda>d. t_ui_rules d = R) (UpsertStepperRuleToRules n)" for R n
    unfolding UpsertStepperRuleToRules_def
    by (intro keeps_intros) (auto simp: sql_simps insert_rule_def update_rules_def split: if_splits)
  show "t_ui_rules (rs_db (snd (syncStepperRule rec subject (respond reply) env s))) = t_ui_rules (rs_db s)"
    by (auto simp: syncStepperRule_def g publish_db respond_def keepsD [OF frame] split: sum.split)
  show "mirrored (rs_db s) (rs_db (snd (syncStepperRule rec subject (respond reply) env s))) rec u"
  proof (cases "BuildRuleSpecFromStepper rec u")
    case (Inr spec)
    show ?thesis
    proof (cases "rule_json spec")
      case (Some stored)
      note c = unit_connection [OF assms(2,3,5)]
      note up = upsert_rows [OF assms(1), of "synced_row rec u spec" "rs_tick s"]
      show ?thesis using up c assms(4) Inr Some
        by (simp add: mirrored_def syncStepperRule_def g publish_db synced_row_def list_all_iff)
    qed (simp add: mirrored_def syncStepperRule_def g Inr respond_def)
  qed (simp add: mirrored_def syncStepperRule_def g respond_def)
qed

lemma build_instants: "BuildRuleSpecFromStepper (fill_instants now r) u = BuildRuleSpecFromStepper r u"
  by (simp add: fill_instants_def BuildRuleSpecFromStepper_def Let_def split: sum.split)

lemma fill_instants_sel: "sr_id (fill_instants now r) = sr_id r" "sr_unit (fill_instants now r) = sr_unit r"
  "sr_enabled (fill_instants now r) = sr_enabled r"
  by (simp_all add: fill_instants_def Let_def)

lemma mirrored_cong: "BuildRuleSpecFromStepper r u = BuildRuleSpecFromStepper r' u \<Longrightarrow> sr_id r = sr_id r' \<Longrightarrow>
    sr_enabled r = sr_enabled r' \<Longrightarrow> t_rules d = t_rules e \<Longrightarrow> mirrored d d' r u = mirrored e d' r' u"
  by (simp add: mirrored_def split: option.split)

lemma mirrored_instants: "mirrored d d' (fill_instants now r) u = mirrored d d' r u"
  by (rule mirrored_cong) (simp_all add: build_instants fill_instants_sel)

lemma build_updated: "BuildRuleSpecFromStepper (r \<lparr> sr_updated := now \<rparr>) u = BuildRuleSpecFromStepper r u"
  by (simp add: BuildRuleSpecFromStepper_def Let_def split: sum.split)




definition trend_request :: stepperRuleRequest where
  "trend_request = \<lparr> sq_unit = ''m'', sq_name = ''drift'', sq_type = ''TREND_6_POINTS'', sq_parameter = ''t.a'', sq_enabled = None,
     sq_config = Some (VMap []) \<rparr>"

lemma example_working: "working example_env" "canonical example_env d"
  by (simp_all add: working_def canonical_def example_env_def)

lemma connected_references: "references_ok (rs_db connected_store)"
  by (simp add: references_ok_def connected_store_def unit_store_def empty_store_def empty_db_def example_unit_def
      example_connection_def connection_known_def line_known_def)





subsection \<open>Switching and deleting\<close>

lemma one_ui_rule:
  assumes "distinct (map sr_id (t_ui_rules d))" "r \<in> set (t_ui_rules d)"
  shows "find_ui_rule (sr_id r) d = Inr r"
proof -
  have "filter (\<lambda>x. sr_id x = sr_id r) xs = [r]" if "distinct (map sr_id xs)" "r \<in> set xs" for xs
    using that by (induction xs) (auto simp: filter_empty_conv dest: image_eqI [where f = sr_id, OF sym])
  from this [OF assms] show ?thesis by (simp add: find_ui_rule_def one_row_def)
qed

lemma set_enabled:
  assumes "working env" "pg_uuid env i = Some u"
  shows "\<exists>now. SetStepperRuleEnabled i b env s = (Inr (), rs_tick (s \<lparr> rs_db :=
    update_ui_rules u (\<lambda>r. r \<lparr> sr_enabled := b, sr_updated := now \<rparr>) (rs_db s) \<rparr>))"
  using assms by (simp add: SetStepperRuleEnabled_def with_now_def statement_def res_bind_def as_uuid_def working_def) blast

lemma get_ui_rule:
  assumes "working env" "pg_uuid env i = Some (sr_id r)" "distinct (map sr_id (t_ui_rules (rs_db s)))" "r \<in> set (t_ui_rules (rs_db s))"
  shows "\<exists>now. GetStepperRule i env s = (Inr (fill_instants now r), rs_tick s)"
  using assms by (simp add: GetStepperRule_def scanStepperRule_def working_query res_bind_def as_uuid_def one_ui_rule) blast

lemma build_switched: "BuildRuleSpecFromStepper (r \<lparr> sr_enabled := b, sr_updated := now \<rparr>) u = BuildRuleSpecFromStepper (r \<lparr> sr_enabled := b \<rparr>) u"
  using build_updated [where r = "r \<lparr> sr_enabled := b \<rparr>"] by simp

lemma switched:
  assumes "working env" "db_ok (rs_db s)" "canonical env (rs_db s)" "r \<in> set (t_ui_rules (rs_db s))"
    and "pg_uuid env ruleID = Some (sr_id r)" "scanMachineUnit (find_unit (sr_unit r) (rs_db s)) = Inr u"
  defines "r' \<equiv> \<lambda>b t. r \<lparr> sr_enabled := b, sr_updated := t \<rparr>"
  shows "fst (switch_rule ruleID b subject env s) = ApiOK 200 ()"
    "\<exists>t. r' b t \<in> set (t_ui_rules (rs_db (snd (switch_rule ruleID b subject env s))))"
    "mirrored (rs_db s) (rs_db (snd (switch_rule ruleID b subject env s))) (r \<lparr> sr_enabled := b \<rparr>) u"
proof -
  obtain now where e: "SetStepperRuleEnabled ruleID b env s = (Inr (), rs_tick (s \<lparr> rs_db :=
      update_ui_rules (sr_id r) (\<lambda>r. r \<lparr> sr_enabled := b, sr_updated := now \<rparr>) (rs_db s) \<rparr>))"
    using set_enabled [OF assms(1,5)] by blast
  let ?s = "rs_tick (s \<lparr> rs_db := update_ui_rules (sr_id r) (\<lambda>r. r \<lparr> sr_enabled := b, sr_updated := now \<rparr>) (rs_db s) \<rparr>)"
  let ?r = "r' b now"
  have d: "distinct (map sr_id (t_ui_rules (rs_db ?s)))"
    using assms(2) by (simp add: db_ok_def keys_unique_def update_ui_rules_def comp_def if_distrib cong: if_cong)
  have m: "?r \<in> set (t_ui_rules (rs_db ?s))" using assms(4) by (auto simp: r'_def update_ui_rules_def intro!: rev_image_eqI [of r])
  have sel: "sr_id ?r = sr_id r" "sr_unit ?r = sr_unit r" by (simp_all add: r'_def)
  have i: "pg_uuid env (sr_id r) = Some (sr_id r)" using assms(1,5) by (auto simp: working_def)
  obtain t where g: "GetStepperRule ruleID env ?s = (Inr (fill_instants t ?r), rs_tick ?s)"
    using get_ui_rule [OF assms(1), of ruleID ?r ?s] d m assms(5) sel by auto
  have fr: "references_ok (rs_db (rs_tick ?s))" "canonical env (rs_db (rs_tick ?s))" "t_units (rs_db (rs_tick ?s)) = t_units (rs_db s)"
    using assms(2,3) by (simp_all add: update_ui_rules_def db_ok_def references_ok_def canonical_def)
  have u: "scanMachineUnit (find_unit (sr_unit (fill_instants t ?r)) (rs_db (rs_tick ?s))) = Inr u"
    using assms(6) fr(3) by (simp add: fill_instants_sel find_unit_def sel)
  have id: "pg_uuid env (sr_id (fill_instants t ?r)) = Some (sr_id (fill_instants t ?r))" using i by (simp add: fill_instants_sel sel)
  note y = sync_mirrors [OF assms(1) fr(1,2) id u, of subject "ApiOK 200 ()"]
  have w: "switch_rule ruleID b subject env s = syncStepperRule (fill_instants t ?r) subject (respond (ApiOK 200 ())) env (rs_tick ?s)"
    by (simp add: switch_rule_def on_ok_def e g)
  show "fst (switch_rule ruleID b subject env s) = ApiOK 200 ()" using y(2) by (simp add: w)
  show "\<exists>t. r' b t \<in> set (t_ui_rules (rs_db (snd (switch_rule ruleID b subject env s))))"
    using y(3) m by (auto simp: w)
  have "mirrored (rs_db (rs_tick ?s)) d (fill_instants t ?r) u = mirrored (rs_db s) d (r \<lparr> sr_enabled := b \<rparr>) u" for d
    unfolding mirrored_instants by (rule mirrored_cong) (simp_all add: r'_def build_switched update_ui_rules_def)
  then show "mirrored (rs_db s) (rs_db (snd (switch_rule ruleID b subject env s))) (r \<lparr> sr_enabled := b \<rparr>) u"
    using y(1) by (simp add: w)
qed

text \<open>
  C27: Enabling or disabling a stepper rule, with a working database and a readable unit, answers
  200 and stores the new switch. If the rule's configuration makes a rule for the scheduler,
  that rule is stored with the new switch and no other rule of the scheduler changes; if it
  makes none (an unsupported type, say), the scheduler's rules stay as they are: a rule that
  ran goes on running after it was disabled, with the same answer.
\<close>
theorem switched_rule_is_mirrored:
  assumes "working env" "db_ok (rs_db s)" "canonical env (rs_db s)" "r \<in> set (t_ui_rules (rs_db s))"
    and "pg_uuid env ruleID = Some (sr_id r)" "scanMachineUnit (find_unit (sr_unit r) (rs_db s)) = Inr u"
  shows "fst (handleStepperRuleEnable ruleID env s) = ApiOK 200 ()
    \<and> (\<exists>t. r \<lparr> sr_enabled := True, sr_updated := t \<rparr> \<in> set (t_ui_rules (rs_db (snd (handleStepperRuleEnable ruleID env s)))))
    \<and> mirrored (rs_db s) (rs_db (snd (handleStepperRuleEnable ruleID env s))) (r \<lparr> sr_enabled := True \<rparr>) u
    \<and> fst (handleStepperRuleDisable ruleID env s) = ApiOK 200 ()
    \<and> (\<exists>t. r \<lparr> sr_enabled := False, sr_updated := t \<rparr> \<in> set (t_ui_rules (rs_db (snd (handleStepperRuleDisable ruleID env s)))))
    \<and> mirrored (rs_db s) (rs_db (snd (handleStepperRuleDisable ruleID env s))) (r \<lparr> sr_enabled := False \<rparr>) u"
  using switched [OF assms] by (auto simp: handleStepperRuleEnable_def handleStepperRuleDisable_def)

text \<open>
  C33: Deleting a stepper rule need not stop the scheduler: with a working database the stepper
  rule goes and the answer is 200, but the rule the scheduler runs stays as it is, enabled
  or not, when it ever raised an alert.
\<close>
theorem deleted_rule_stays:
  assumes "working env" "pg_uuid env ruleID = Some u"
  shows "fst (handleStepperRuleDelete ruleID env s) = ApiOK 200 ()
    \<and> t_ui_rules (rs_db (snd (handleStepperRuleDelete ruleID env s))) = filter (\<lambda>r. sr_id r \<noteq> u) (t_ui_rules (rs_db s))
    \<and> t_rules (rs_db (snd (handleStepperRuleDelete ruleID env s))) = (if u \<in> al_rule ` set (t_alerts (rs_db s))
        then t_rules (rs_db s) else filter (\<lambda>r. rr_id r \<noteq> u) (t_rules (rs_db s)))"
  using assms
  by (simp add: handleStepperRuleDelete_def on_ok_def DeleteStepperRule_def DeleteRule_def statement_def working_def res_bind_def
      as_uuid_def require_def publish_db)

definition alert_store :: RuleStore where
  "alert_store = rule_store \<lparr> rs_db := (rs_db rule_store) \<lparr> t_alerts := [\<lparr> al_rule = ''r'', al_ts = 0, al_parameter = ''v'',
     al_observed = Txt [], al_limit_expr = Txt [], al_detector = ''trend'', al_severity = ''warning'', al_score = None, al_median = None, al_mad = None,
     al_hit = True, al_treated = False, al_metadata = None, aw_id = 1 \<rparr>] \<rparr> \<rparr>"

lemma deleted_rule_stays_witness:
  "t_rules (rs_db (snd (handleStepperRuleDelete ''r'' example_env alert_store))) = [trend_row]"
  using deleted_rule_stays [OF example_working(1), of "''r''" "''r''" alert_store]
  by (simp add: example_env_def alert_store_def rule_store_def)

definition ui_store :: RuleStore where
  "ui_store = connected_store \<lparr> rs_db := (rs_db connected_store) \<lparr> t_ui_rules := [(toStepperRecord trend_request True) \<lparr> sr_id := ''r'' \<rparr>] \<rparr> \<rparr>"

lemma switched_rule_is_mirrored_witness:
  "\<exists>row \<in> set (t_rules (rs_db (snd (handleStepperRuleDisable ''r'' example_env ui_store)))). rr_id row = ''r'' \<and> \<not> rr_enabled row"
proof -
  let ?r = "(toStepperRecord trend_request True) \<lparr> sr_id := ''r'' \<rparr>"
  have ok: "db_ok (rs_db ui_store)"
    using connected_references by (auto simp: db_ok_def keys_unique_def references_ok_def rows_readable_def ui_store_def connected_store_def
      unit_store_def empty_store_def empty_db_def example_unit_def unit_readable_def connection_known_def line_known_def)
  have m: "?r \<in> set (t_ui_rules (rs_db ui_store))" by (simp add: ui_store_def)
  have "case scanMachineUnit (find_unit ''m'' (rs_db ui_store)) of Inl _ \<Rightarrow> False
    | Inr u \<Rightarrow> (case BuildRuleSpecFromStepper (?r \<lparr> sr_enabled := False \<rparr>) u of Inl _ \<Rightarrow> False | Inr spec \<Rightarrow> rule_json spec \<noteq> None)"
    by code_simp
  then obtain u spec stored where u: "scanMachineUnit (find_unit ''m'' (rs_db ui_store)) = Inr u"
      "BuildRuleSpecFromStepper (?r \<lparr> sr_enabled := False \<rparr>) u = Inr spec" "rule_json spec = Some stored"
    by (auto split: sum.splits)
  have unit: "sr_unit ?r = ''m''" by code_simp
  have "pg_uuid example_env ''r'' = Some (sr_id ?r)" by (simp add: example_env_def)
  from switched_rule_is_mirrored [OF example_working(1) ok example_working(2) m this, unfolded unit, OF u(1)]
  have "mirrored (rs_db ui_store) (rs_db (snd (handleStepperRuleDisable ''r'' example_env ui_store))) (?r \<lparr> sr_enabled := False \<rparr>) u"
    by blast
  then show ?thesis using u(2,3) by (auto simp: mirrored_def list_all_iff)
qed

end
