(* ===== verification/RulePreviewProps.thy ===== *)
theory RulePreviewProps
  imports Main RuleStepperProps McpServerProps
begin

text \<open>
  The baseline check of the rule service with the scheduler on the other side: the request it
  sends is read back as it was meant, and so is the answer.
\<close>

subsection \<open>The request\<close>

lemma json_field_absent: "to_lower name \<notin> set (map to_lower (map fst kvs)) \<Longrightarrow> json_field name kvs = None"
  unfolding json_field_def map_of_eq_None_iff by force

lemma field_exact: "distinct (map to_lower (map fst kvs)) \<Longrightarrow> (name, v) \<in> set kvs \<Longrightarrow> field_or zero f name kvs = f v"
  by (simp add: field_or_def json_field_exact)

lemma json_int_VInt: "int64 z \<Longrightarrow> json_int (VInt z) = Inr z"
  by (simp add: json_int_def)

lemma and_then_Inr [simp]: "and_then (Inr x) k = k x"
  by (simp add: and_then_def)

lemma decode_selector_json:
  assumes "int64 (se_value sel)"
  shows "decode_selectorSpec (selector_json sel) = Inr sel"
  by (cases "se_value sel = 0"; cases "se_start sel = []"; cases "se_end sel = []")
    (simp_all add: decode_selectorSpec_def selector_json_def text_field_def field_or_def int_unless_zero_def text_unless_empty_def
      keys json_int_VInt assms)

lemma decode_subgroup_json:
  assumes "int64 (su_size g)"
  shows "decode_subgroupSpec (subgroup_json g) = Inr g"
  by (cases "su_size g = 0"; cases "su_column g = []")
    (simp_all add: decode_subgroupSpec_def subgroup_json_def text_field_def field_or_def int_unless_zero_def text_unless_empty_def
      keys json_int_VInt assms)

definition sent_request :: "baselineCheckRequest \<Rightarrow> parameterInfo \<Rightarrow> StepperBaselineRequest" where
  "sent_request req info = \<lparr> bq_connection = bk_connection req, bq_table = in_table info, bq_timestamp = in_timestamp info,
     bq_value = in_value info, bq_rule_type = bk_type req, bq_selector = bk_selector req, bq_subgrouping = bk_subgrouping req \<rparr>"

lemma baseline_keys: "distinct (map to_lower [''connectionRef'', ''table'', ''timestampColumn'', ''valueColumn'', ''ruleType'',
    ''baselineSelector'', ''subgrouping''])"
  by code_simp

lemma decode_baseline_json:
  assumes "int64 (se_value (bk_selector req))" "\<forall>g. bk_subgrouping req = Some g \<longrightarrow> int64 (su_size g)"
  shows "decode_baseline_request (baseline_json req info) = Inr (sent_request req info)"
proof -
  define kvs where "kvs = source_json (bk_connection req) info (bk_type req)
     @ [(''baselineSelector'', selector_json (bk_selector req))] @ opt_json subgroup_json ''subgrouping'' (bk_subgrouping req)"
  have d: "distinct (map to_lower (map fst kvs))"
    using baseline_keys by (cases "bk_subgrouping req") (simp_all add: kvs_def source_json_def opt_json_def)
  note f = field_exact [OF d]
  have mem: "(''connectionRef'', VStr (bk_connection req)) \<in> set kvs" "(''table'', VStr (in_table info)) \<in> set kvs"
    "(''timestampColumn'', VStr (in_timestamp info)) \<in> set kvs" "(''valueColumn'', VStr (in_value info)) \<in> set kvs"
    "(''ruleType'', VStr (bk_type req)) \<in> set kvs" "(''baselineSelector'', selector_json (bk_selector req)) \<in> set kvs"
    unfolding kvs_def source_json_def by simp_all
  have sub: "field_or None (json_ptr decode_subgroupSpec) ''subgrouping'' kvs = Inr (bk_subgrouping req)"
  proof (cases "bk_subgrouping req")
    case None
    have "to_lower ''subgrouping'' \<notin> set (map to_lower (map fst kvs))"
      using baseline_keys None by (auto simp: kvs_def source_json_def opt_json_def)
    then show ?thesis using None by (simp add: field_or_def json_field_absent)
  next
    case (Some g)
    then have "(''subgrouping'', subgroup_json g) \<in> set kvs" by (simp add: kvs_def opt_json_def)
    moreover have "subgroup_json g \<noteq> VNil" by (simp add: subgroup_json_def)
    ultimately show ?thesis using Some assms(2) by (simp add: f json_ptr_def decode_subgroup_json)
  qed
  have "baseline_json req info = VMap kvs" by (simp add: baseline_json_def kvs_def)
  then show ?thesis
    by (simp add: decode_baseline_request_def text_field_def opt_field_def f [OF mem(1)] f [OF mem(2)] f [OF mem(3)] f [OF mem(4)]
        f [OF mem(5)] f [OF mem(6)] sub decode_selector_json [OF assms(1)] sent_request_def)
qed

subsection \<open>The answer\<close>

definition ints_json :: "(string \<times> int) list \<Rightarrow> goval" where
  "ints_json kvs = VMap (map (\<lambda>kv. (fst kv, VInt (snd kv))) kvs)"

text \<open>What \<open>writeAdminJSON\<close> writes for a response of the scheduler.\<close>

definition baseline_answer_json :: "StepperBaselineResponse \<Rightarrow> goval" where
  "baseline_answer_json r = VMap [(''status'', VStr (br_status r)), (''available'', ints_json (br_available r)),
     (''required'', ints_json (br_required r)),
     (''continuity'', VMap [(''gapsDetected'', VBool (cs_gaps (br_continuity r))),
        (''largestGapSeconds'', VFloat (cs_largest (br_continuity r)))]),
     (''messages'', strings_json (br_messages r))]"

lemma decode_ints:
  assumes "distinct (map fst kvs)" "\<forall>kv \<in> set kvs. int64 (snd kv)"
  shows "json_map json_int (ints_json kvs) = Inr kvs"
proof -
  have put: "mput k v m = m @ [(k, v)]" if "k \<notin> fst ` set m" for k :: string and v :: int and m
    using that by (induction m) auto
  have "fold (\<lambda>(k, x) acc. and_then acc (\<lambda>m. and_then (json_int x) (\<lambda>y. Inr (mput k y m))))
      (map (\<lambda>kv. (fst kv, VInt (snd kv))) kvs) (Inr acc) = Inr (acc @ kvs)"
    if "fst ` set acc \<inter> fst ` set kvs = {}" for acc
    using assms that
  proof (induction kvs arbitrary: acc)
    case (Cons kv kvs)
    obtain k v where kv: "kv = (k, v)" by force
    have "mput k v acc = acc @ [kv]" using Cons.prems(3) by (simp add: kv put)
    moreover have "fst ` set (acc @ [kv]) \<inter> fst ` set kvs = {}" using Cons.prems by (auto simp: kv)
    ultimately show ?case using Cons.prems Cons.IH [of "acc @ [kv]"] by (simp add: kv json_int_VInt)
  qed simp
  from this [of "[]"] show ?thesis by (simp add: json_map_def ints_json_def)
qed

definition answer_fits :: "StepperBaselineResponse \<Rightarrow> bool" where
  "answer_fits r = (distinct (map fst (br_available r)) \<and> distinct (map fst (br_required r))
     \<and> (\<forall>kv \<in> set (br_available r) \<union> set (br_required r). int64 (snd kv)))"

lemma answer_keys: "distinct (map to_lower [''status'', ''available'', ''required'', ''continuity'', ''messages''])"
  by code_simp

lemma decode_answer:
  assumes "answer_fits r"
  shows "decode_baseline_response (baseline_answer_json r) = Inr r"
proof -
  define kvs where "kvs = [(''status'', VStr (br_status r)), (''available'', ints_json (br_available r)),
     (''required'', ints_json (br_required r)),
     (''continuity'', VMap [(''gapsDetected'', VBool (cs_gaps (br_continuity r))),
        (''largestGapSeconds'', VFloat (cs_largest (br_continuity r)))]),
     (''messages'', strings_json (br_messages r))]"
  have d: "distinct (map to_lower (map fst kvs))" using answer_keys by (simp add: kvs_def)
  note f = field_exact [OF d]
  have mem: "(''status'', VStr (br_status r)) \<in> set kvs" "(''available'', ints_json (br_available r)) \<in> set kvs"
    "(''required'', ints_json (br_required r)) \<in> set kvs"
    "(''continuity'', VMap [(''gapsDetected'', VBool (cs_gaps (br_continuity r))),
        (''largestGapSeconds'', VFloat (cs_largest (br_continuity r)))]) \<in> set kvs"
    "(''messages'', strings_json (br_messages r)) \<in> set kvs"
    unfolding kvs_def by simp_all
  have c: "decode_continuity (VMap [(''gapsDetected'', VBool g), (''largestGapSeconds'', VFloat x)]) = Inr \<lparr> cs_gaps = g, cs_largest = x \<rparr>" for g x
    by (simp add: decode_continuity_def field_or_def keys json_bool_def json_float_def)
  have i: "json_map json_int (ints_json (br_available r)) = Inr (br_available r)" "json_map json_int (ints_json (br_required r)) = Inr (br_required r)"
    using assms by (auto simp: answer_fits_def intro!: decode_ints)
  have "baseline_answer_json r = VMap kvs" by (simp add: baseline_answer_json_def kvs_def)
  then show ?thesis
    by (simp add: decode_baseline_response_def text_field_def f [OF mem(1)] f [OF mem(2)] f [OF mem(3)] f [OF mem(4)] f [OF mem(5)]
        i c json_list_strings)
qed


subsection \<open>The two services together\<close>

text \<open>What the rule service's client sees of the scheduler's handler; a panic closes the connection.\<close>

definition scheduler_answer :: "(StepperBaselineResponse admin_answer \<times> World) go \<Rightarrow> (int \<times> goval res) res" where
  "scheduler_answer a = (case a of Panic _ \<Rightarrow> Inl ''EOF''
     | Ret (NoBody status, _) \<Rightarrow> Inr (status, Inl ''EOF'')
     | Ret (AdminError status e, _) \<Rightarrow> Inr (status, Inr (VMap [(''ok'', VBool False), (''error'', VStr e)]))
     | Ret (AdminOK r, _) \<Rightarrow> Inr (200, if finite_f (cs_largest (br_continuity r)) then Inr (baseline_answer_json r) else Inl ''EOF''))"

definition checked_answer :: "(StepperBaselineResponse admin_answer \<times> World) go \<Rightarrow> StepperBaselineResponse api_reply" where
  "checked_answer a = (case a of
       Ret (AdminOK r, _) \<Rightarrow> if finite_f (cs_largest (br_continuity r)) then ApiOK 200 r else ApiMessage 502 ''baseline check failed''
     | _ \<Rightarrow> ApiMessage 502 ''baseline check failed'')"

lemma admin_statuses:
  assumes "handle_baseline_check registry allowlist lims clock meth body w = Ret (a, w')"
  shows "a = NoBody n \<Longrightarrow> n = 405" "a = AdminError n e \<Longrightarrow> n = 400"
proof -
  have bind: "go_bind m f = Ret x \<longleftrightarrow> (\<exists>y. m = Ret y \<and> f y = Ret x)" for m :: "'x go" and f and x :: 'y
    by (cases m) simp_all
  show "a = NoBody n \<Longrightarrow> n = 405" "a = AdminError n e \<Longrightarrow> n = 400"
    using assms by (auto simp: handle_baseline_check_def admin_post_def bind split: if_splits option.splits prod.splits sum.splits)
      (metis sum.exhaust)+
qed

text \<open>
  C20: A baseline check that the rule service passes on is the scheduler's: when the scheduler's
  admin endpoint is the peer, its answer reaches the client unchanged, and every error of it
  is a 502; the request arrives with the table, columns and selector that were resolved.
\<close>
theorem baseline_check_through_scheduler:
  assumes peer: "\<forall>n payload. sh_post h n (trim_slashes (sh_scheduler_url h) @ ''/api/rules/baseline/check'') payload
      = scheduler_answer (handle_baseline_check registry allowlist lims clock ''POST''
          (case decode_baseline_request payload of Inl _ \<Rightarrow> None | Inr r \<Rightarrow> Some r) w)"
    and url: "trim_space (sh_scheduler_url h) \<noteq> []"
    and req: "validateBaselineCheck req = []" "int64 (se_value (bk_selector req))"
      "\<forall>g. bk_subgrouping req = Some g \<longrightarrow> int64 (su_size g)"
    and conn: "ConnectionExists (bk_connection req) env s = (Inr True, s1)"
    and info: "\<forall>k. resolveParameter h (bk_unit req) (bk_parameter req) resolve_failed k env s1
      = (k info env s2 :: StepperBaselineResponse api_reply \<times> RuleStore)"
    and fits: "\<forall>r w'. handle_baseline_check registry allowlist lims clock ''POST'' (Some (sent_request req info)) w
      = Ret (AdminOK r, w') \<longrightarrow> answer_fits r"
  shows "fst (handleRuleBaselineCheck h (Inr req) env s)
    = checked_answer (handle_baseline_check registry allowlist lims clock ''POST'' (Some (sent_request req info)) w)"
proof -
  let ?a = "handle_baseline_check registry allowlist lims clock ''POST'' (Some (sent_request req info)) w"
  have post: "sh_post h n (trim_slashes (sh_scheduler_url h) @ ''/api/rules/baseline/check'') (baseline_json req info) = scheduler_answer ?a" for n
    using peer req(2,3) by (simp add: decode_baseline_json)
  have "fst (handleRuleBaselineCheck h (Inr req) env s)
    = (case PostJSON h ''/api/rules/baseline/check'' (baseline_json req info) decode_baseline_response (rs_step s2) of
        Inl _ \<Rightarrow> ApiMessage 502 ''baseline check failed'' | Inr r \<Rightarrow> ApiOK 200 r)"
    using req(1) info by (simp add: handleRuleBaselineCheck_def with_body_def ask_scheduler_def on_ok_def conn on_call_def respond_def
        split: sum.split)
  also have "\<dots> = checked_answer ?a"
  proof (cases ?a)
    case (Ret x)
    obtain a w' where x: "x = (a, w')" by force
    then show ?thesis
      using admin_statuses [OF Ret [unfolded x]] fits Ret url decode_answer
      by (cases a) (auto simp: PostJSON_def post_json_def post scheduler_answer_def checked_answer_def)
  qed (simp add: PostJSON_def post_json_def url post scheduler_answer_def checked_answer_def)
  finally show ?thesis .
qed

definition check_request :: baselineCheckRequest where
  "check_request = \<lparr> bk_unit = ''m'', bk_parameter = ''t.a'', bk_type = ''SHEWHART_3SIGMA'', bk_connection = ''c'',
     bk_selector = \<lparr> se_kind = ''lastN'', se_value = 100, se_start = [], se_end = [] \<rparr>, bk_subgrouping = None \<rparr>"

definition check_registry :: "adapter_map option" where
  "check_registry = Some [(''postgres'', \<lambda>_. example_adapter [])]"

text \<open>A handler whose peers are the scheduler, and a connector that describes the table.\<close>

definition check_handler :: StepperHandler where
  "check_handler = stepper_handler \<lparr> sh_post := (\<lambda>n path payload.
     if path = ''http://scheduler/api/rules/baseline/check'' then scheduler_answer (handle_baseline_check check_registry [''other'']
       DefaultLimits (\<lambda>_. 0) ''POST'' (case decode_baseline_request payload of Inl _ \<Rightarrow> None | Inr r \<Rightarrow> Some r) example_world)
     else Inr (200, Inr (VMap [(''columns'', VList [VMap [(''name'', VStr ''ts''), (''type'', VStr ''timestamp'')]])]))) \<rparr>"

lemma check_paths: "trim_slashes (sh_scheduler_url check_handler) @ ''/api/rules/baseline/check'' = ''http://scheduler/api/rules/baseline/check''"
  "trim_space (sh_scheduler_url check_handler) \<noteq> []" "validateBaselineCheck check_request = []" "to_lower ''postgres'' = ''postgres''"
  by code_simp+

lemma check_answered: "handle_baseline_check check_registry [''other''] DefaultLimits (\<lambda>_. 0) ''POST'' (Some (sent_request check_request info)) example_world
    = Ret (AdminOK (invalid_baseline ''table not allowlisted''), tick example_world)" if "in_table info = ''t''"
  by (simp add: handle_baseline_check_def admin_post_def adapterForConnection_def check_registry_def GetConnectionType_def
      db_query_def example_world_def sent_request_def check_request_def AdapterFor_def check_paths(4) StepperBaselineCheck_def
      buildRuleSpec_def stepper_buildDetector_def validateStepperMetadata_def AllowsTable_def that Let_def)

lemma check_described: "DescribeTable check_handler ref table n = Inr [\<lparr> col_name = ''ts'', col_type = ''timestamp'' \<rparr>]"
proof -
  have "trim_slashes (sh_connector_url check_handler) @ ''/describe'' = ''http://connector/describe''"
    "trim_space (sh_connector_url check_handler) \<noteq> []"
    "decode_schema (VMap [(''columns'', VList [VMap [(''name'', VStr ''ts''), (''type'', VStr ''timestamp'')]])])
      = Inr [\<lparr> col_name = ''ts'', col_type = ''timestamp'' \<rparr>]" by code_simp+
  then show ?thesis by (simp add: DescribeTable_def post_json_def) (simp add: check_handler_def)
qed

lemma check_resolved: "resolveParameter check_handler ''m'' ''t.a'' fail k RuleStoreProps.example_env (rs_tick connected_store)
    = k \<lparr> in_table = ''t'', in_value = ''a'', in_timestamp = ''ts'' \<rparr> RuleStoreProps.example_env (rs_tick (rs_tick (rs_tick connected_store)))"
proof -
  obtain u where u: "GetMachineUnit ''m'' RuleStoreProps.example_env (rs_tick connected_store) = (Inr u, rs_tick (rs_tick connected_store))"
      "mu_table u = ''t''" "mu_columns u = [''a'', ''b'']" "mu_timestamp u = ''ts''"
    by (simp add: working_unit [OF example_working(1)] find_unit_def connected_store_def unit_store_def one_row_def example_unit_def
        scanMachineUnit_def unit_of_row_def res_bind_def)
  have "parseParameterID ''t.a'' = (''t'', ''a'')" "trim_space ''ts'' = ''ts''" by code_simp+
  then show ?thesis by (simp add: resolveParameter_def u Let_def on_call_def check_described column_type_def)
qed

lemma baseline_check_through_scheduler_witness:
  "fst (handleRuleBaselineCheck check_handler (Inr check_request) RuleStoreProps.example_env connected_store)
     = ApiOK 200 (invalid_baseline ''table not allowlisted'')"
proof -
  let ?info = "\<lparr> in_table = ''t'', in_value = ''a'', in_timestamp = ''ts'' \<rparr>"
  have peer: "\<forall>n payload. sh_post check_handler n (trim_slashes (sh_scheduler_url check_handler) @ ''/api/rules/baseline/check'') payload
      = scheduler_answer (handle_baseline_check check_registry [''other''] DefaultLimits (\<lambda>_. 0) ''POST''
          (case decode_baseline_request payload of Inl _ \<Rightarrow> None | Inr r \<Rightarrow> Some r) example_world)"
    unfolding check_paths(1) by (simp add: check_handler_def)
  have conn: "ConnectionExists (bk_connection check_request) RuleStoreProps.example_env connected_store = (Inr True, rs_tick connected_store)"
  proof -
    have "pg_uuid RuleStoreProps.example_env = Some" by (simp add: RuleStoreProps.example_env_def)
    then show ?thesis
      by (simp add: ConnectionExists_def working_query [OF example_working(1)] check_request_def as_uuid_def
          res_bind_def one_row_def connected_store_def example_connection_def)
  qed
  have info: "\<forall>k. resolveParameter check_handler (bk_unit check_request) (bk_parameter check_request) resolve_failed k RuleStoreProps.example_env
      (rs_tick connected_store) = (k ?info RuleStoreProps.example_env (rs_tick (rs_tick (rs_tick connected_store))) :: StepperBaselineResponse api_reply \<times> RuleStore)"
    by (simp add: check_resolved check_request_def)
  have sizes: "int64 (se_value (bk_selector check_request))" "\<forall>g. bk_subgrouping check_request = Some g \<longrightarrow> int64 (su_size g)"
    by (simp_all add: check_request_def int64_def)
  have fits: "\<forall>r w'. handle_baseline_check check_registry [''other''] DefaultLimits (\<lambda>_. 0) ''POST'' (Some (sent_request check_request ?info))
      example_world = Ret (AdminOK r, w') \<longrightarrow> answer_fits r"
    by (simp add: check_answered answer_fits_def invalid_baseline_def)
  show ?thesis
    using baseline_check_through_scheduler [OF peer check_paths(2,3) sizes conn info fits]
    by (simp add: check_answered checked_answer_def invalid_baseline_def finite_f_def)
qed

end
