(* ===== verification/SavedPreviewProps.thy ===== *)
theory SavedPreviewProps
  imports Main StepperProps RuleStepper
begin

text \<open>
  The preview of a rule and the rule that is saved. The preview builds a rule specification of
  its own from the request (\<open>scheduler/stepper.go\<close>), the rule service another one from the stored
  configuration (\<open>api/stepper_sync.go\<close>). Where the two give the detector the same settings, the
  scheduler's evaluation of the saved rule is the one the preview has shown.
\<close>

definition is_shewhart_spec :: "RuleSpec \<Rightarrow> bool" where
  "is_shewhart_spec spec = (d_type (p_detector (hd (r_parameters spec))) = ''shewhart'')"

text \<open>An evaluation of a Shewhart parameter reads the connection and the source of its rule only.\<close>

lemma shewhart_evaluation_cong:
  assumes "r_connection s = r_connection s'" "r_source s = r_source s'" "d_type (p_detector p) = ''shewhart''"
  shows "evaluateParameterSince lims s p ad lastRun now = evaluateParameterSince lims s' p ad lastRun now"
proof -
  have fetch: "fetchSamples a s p cs since l g = fetchSamples a s' p cs since l g" for a cs since l g
    by (simp only: fetchSamples_def fetch_request_def assms(1,2))
  have "eval_shewhart lims s p sh a lastRun now = eval_shewhart lims s' p sh a lastRun now" for sh a
    by (simp only: eval_shewhart_def fetch)
  then show ?thesis
    using assms(3) by (simp add: evaluateParameterSince_def split: option.split)
qed

lemma metadata_cong:
  assumes "r_connection s = r_connection s'" "r_source s = r_source s'" "r_parameters s = r_parameters s'"
  shows "validateStepperMetadata ad allow s sub = validateStepperMetadata ad allow s' sub"
  by (simp only: validateStepperMetadata_def assms)

text \<open>The two builders agree on a Shewhart rule when its settings are the request's.\<close>

lemma builders_agree:
  assumes saved: "BuildRuleSpecFromStepper rec u = Inr saved" and ty: "is_shewhart (sr_type rec)"
    and cfg: "rule_config (sr_config rec) = Inr cfg"
    and same: "(sc_shewhart config) \<lparr> sh_sigma := shewhart_sigma (sr_type rec) \<rparr> = sync_shewhart (sr_type rec) cfg"
    and spec: "buildRuleSpec (mu_connection u) (mu_table u) (mu_timestamp u) (snd (parseParameterID (sr_parameter rec)))
        (sr_type rec) config = Inr spec"
  shows "r_connection saved = r_connection spec" "r_source saved = r_source spec"
    "r_parameters saved = r_parameters spec" "is_shewhart_spec saved"
  using assms
  by (auto simp: BuildRuleSpecFromStepper_def buildRuleSpec_def sync_buildDetector_def stepper_buildDetector_def
      is_shewhart_def is_shewhart_spec_def empty_detector_def Let_def split: if_splits)

text \<open>
  C21: A preview predicts the run of the saved rule, for Shewhart rules whose baseline is the last
  \<open>n\<close> rows. Suppose a stored stepper rule has such a configuration and the multiplier of sigma of
  its type (2 or 3: the preview ignores any other), and a preview request names the connection,
  table, timestamp column and parameter of the rule, carries the same Shewhart configuration and
  selects the last \<open>n\<close> rows for the baseline and for the evaluation. If the preview answers, on
  an accessible table, then the scheduler's first evaluation of the saved rule, on the same data
  and at the same time, returns one result with the status, the computed limits, the violations
  and the window of the preview.
\<close>
theorem preview_matches_saved_rule:
  assumes saved: "BuildRuleSpecFromStepper rec u = Inr saved" and ty: "is_shewhart (sr_type rec)"
    and cfg: "rule_config (sr_config rec) = Inr cfg"
    and base: "buildBaselineSpec cfg = \<lparr> bl_last_n = Some n, bl_time_range = None \<rparr>" "0 < n"
    and names: "pq_rule_type req = sr_type rec" "pq_connection req = mu_connection u" "pq_table req = mu_table u"
        "pq_timestamp req = mu_timestamp u" "pq_value req = snd (parseParameterID (sr_parameter rec))"
    and same: "(sc_shewhart (pq_config req)) \<lparr> sh_sigma := shewhart_sigma (sr_type rec) \<rparr> = sync_shewhart (sr_type rec) cfg"
    and sel: "pq_baseline req = Some (last_n n)" "pq_eval req = Some (last_n n)" "pq_subgrouping req = None"
    and meta: "validateStepperMetadata (\<lambda>_. a) allowlist saved None = Inr ()"
    and prev: "StepperPreview (\<lambda>_. a) (\<lambda>_. now) allowlist lims req = Ret (Inr resp)"
  shows "\<exists>r. evaluateParameterSince lims saved (hd (r_parameters saved)) (Some a) None now = Ret (Inr [r])
    \<and> pr_status resp = dr_status r \<and> pr_computed resp = dr_metadata r
    \<and> pr_violations resp = map violation_item (dr_violations r)
    \<and> pr_window resp = [(''start'', formatTime (dr_window_start r)), (''end'', formatTime (dr_window_end r))]"
proof -
  obtain spec where spec: "buildRuleSpec (pq_connection req) (pq_table req) (pq_timestamp req) (pq_value req)
      (pq_rule_type req) (pq_config req) = Inr spec"
    using ty names by (auto simp: buildRuleSpec_def stepper_buildDetector_def is_shewhart_def)
  note agree = builders_agree [OF saved ty cfg same spec [unfolded names]]
  have "validateStepperMetadata (\<lambda>_. a) allowlist spec None = Inr ()"
    using meta metadata_cong [OF agree(1,2,3)] by simp
  moreover have "sh_baseline (sc_shewhart (pq_config req)) = \<lparr> bl_last_n = Some n, bl_time_range = None \<rparr>"
    using arg_cong [OF same, of sh_baseline] base by (simp add: sync_shewhart_def)
  ultimately obtain r where "evaluateParameterSince lims spec (hd (r_parameters spec)) (Some a) None now = Ret (Inr [r])"
      "pr_status resp = dr_status r \<and> pr_computed resp = dr_metadata r
        \<and> pr_violations resp = map violation_item (dr_violations r)
        \<and> pr_window resp = [(''start'', formatTime (dr_window_start r)), (''end'', formatTime (dr_window_end r))]"
    using preview_matches_evaluation [OF _ spec _ _ _ sel prev] ty names base(2) by metis
  then show ?thesis
    using shewhart_evaluation_cong [OF agree(1,2)] agree(3,4) by (metis is_shewhart_spec_def)
qed

definition saved_rule :: StepperRule where
  "saved_rule = \<lparr> sr_id = ''i'', sr_unit = ''u'', sr_name = ''n'', sr_type = ''SHEWHART_3SIGMA'', sr_parameter = ''t.v'',
     sr_config = VMap [(''baseline'', VMap [(''lastN'', VInt 50)]), (''minBaselineN'', VInt 2)],
     sr_enabled = True, sr_created = 0, sr_updated = 0 \<rparr>"

definition saved_unit :: MachineUnit where
  "saved_unit = \<lparr> mu_id = ''u'', mu_name = ''n'', mu_connection = ''c'', mu_table = ''t'', mu_timestamp = ''ts'',
     mu_columns = [''v''], mu_live = None, mu_rules = [], mu_x = f0, mu_y = f0, mu_line = [], mu_created = 0, mu_updated = 0 \<rparr>"

definition saved_config :: stepperConfig where
  "saved_config = empty_config \<lparr> sy_min_n := Some 2,
     sy_baseline := Some \<lparr> sb_selector = None, sb_last_n = Some 50, sb_range = None \<rparr> \<rparr>"

lemma saved_rule_config: "rule_config (sr_config saved_rule) = Inr saved_config"
  by code_simp

lemma preview_matches_saved_rule_witness:
  "\<exists>saved resp r. BuildRuleSpecFromStepper saved_rule saved_unit = Inr saved
    \<and> StepperPreview (\<lambda>_. two_rows) (\<lambda>_. 0) [] DefaultLimits shewhart_request = Ret (Inr resp)
    \<and> evaluateParameterSince DefaultLimits saved (hd (r_parameters saved)) (Some two_rows) None 0 = Ret (Inr [r])
    \<and> pr_status resp = dr_status r \<and> pr_computed resp = dr_metadata r"
proof -
  obtain spec resp where spec: "buildRuleSpec (pq_connection shewhart_request) (pq_table shewhart_request)
      (pq_timestamp shewhart_request) (pq_value shewhart_request) (pq_rule_type shewhart_request)
      (pq_config shewhart_request) = Inr spec" "validateStepperMetadata (\<lambda>_. two_rows) [] spec None = Inr ()"
    and prev: "StepperPreview (\<lambda>_. two_rows) (\<lambda>_. 0) [] DefaultLimits shewhart_request = Ret (Inr resp)"
    by (rule two_rows_preview)
  have names: "sr_id saved_rule = ''i''" "sr_type saved_rule = ''SHEWHART_3SIGMA''" "snd (parseParameterID (sr_parameter saved_rule)) = ''v''"
      "mu_connection saved_unit = ''c''" "mu_table saved_unit = ''t''" "mu_timestamp saved_unit = ''ts''"
    by code_simp+
  obtain saved where saved: "BuildRuleSpecFromStepper saved_rule saved_unit = Inr saved"
    using saved_rule_config names by (simp add: BuildRuleSpecFromStepper_def sync_buildDetector_def Let_def)
  have req: "pq_rule_type shewhart_request = ''SHEWHART_3SIGMA''" "pq_connection shewhart_request = ''c''"
      "pq_table shewhart_request = ''t''" "pq_timestamp shewhart_request = ''ts''" "pq_value shewhart_request = ''v''"
      "pq_baseline shewhart_request = Some (last_n 50)" "pq_eval shewhart_request = Some (last_n 50)"
      "pq_subgrouping shewhart_request = None"
    by (simp_all add: shewhart_request_def preview_request_def)
  have ty: "is_shewhart (sr_type saved_rule)" by (simp add: names is_shewhart_def)
  have base: "buildBaselineSpec saved_config = \<lparr> bl_last_n = Some 50, bl_time_range = None \<rparr>" by code_simp
  have same: "(sc_shewhart (pq_config shewhart_request)) \<lparr> sh_sigma := shewhart_sigma (sr_type saved_rule) \<rparr>
      = sync_shewhart (sr_type saved_rule) saved_config" by code_simp
  note agree = builders_agree [OF saved ty saved_rule_config same spec(1) [unfolded req names(2,3) [symmetric]
      names(4,5,6) [symmetric]]]
  have meta: "validateStepperMetadata (\<lambda>_. two_rows) [] saved None = Inr ()"
    using spec(2) metadata_cong [OF agree(1,2,3)] by simp
  from preview_matches_saved_rule [OF saved ty saved_rule_config base _ _ _ _ _ _ same _ _ _ meta prev] saved prev req names
  show ?thesis by auto
qed

end
