(* ===== verification/RuleJson.thy ===== *)
theory RuleJson
  imports Main RulePreviewProps
begin

text \<open>
  The JSON of a rule between the two services. The rule service writes a rule with the tags of
  its \<open>internal/rules/types.go\<close>, one \<open>json_\<close> function per struct; the scheduler reads it with the
  tags of its \<open>internal/scheduler/types.go\<close>, one \<open>read_\<close> function per struct. A tag
  \<open>omitempty\<close> leaves out nil pointers, empty strings and nil interfaces, never a struct.
  A nil slice is written like an empty one: both are read back as the empty list.
\<close>

subsection \<open>Structs\<close>

text \<open>The fields of a struct in their order, \<open>None\<close> for one that \<open>omitempty\<close> leaves out.\<close>

type_synonym json_fields = "(string \<times> goval option) list"

fun written :: "json_fields \<Rightarrow> (string \<times> goval) list" where
  "written [] = []"
| "written ((k, None) # fs) = written fs"
| "written ((k, Some x) # fs) = (k, x) # written fs"

definition struct_json :: "json_fields \<Rightarrow> goval" where
  "struct_json fs = VMap (written fs)"

definition text_tag :: "string \<Rightarrow> goval option" where
  "text_tag s = (if s = [] then None else Some (VStr s))"

definition any_tag :: "goval \<Rightarrow> goval option" where
  "any_tag v = (if v = VNil then None else Some v)"

text \<open>A pointer without \<open>omitempty\<close>: null for nil.\<close>

definition ptr_json :: "('a \<Rightarrow> goval) \<Rightarrow> 'a option \<Rightarrow> goval" where
  "ptr_json f p = (case p of None \<Rightarrow> VNil | Some x \<Rightarrow> f x)"

subsection \<open>What the rule service writes\<close>

definition json_ClauseSpec :: "WhereClause \<Rightarrow> goval" where
  "json_ClauseSpec c = struct_json [(''column'', Some (VStr (cl_column c))), (''op'', Some (VStr (cl_op c))),
     (''value'', Some (cl_value c))]"

definition json_WhereSpec :: "WhereSpec \<Rightarrow> goval" where
  "json_WhereSpec w = struct_json [(''type'', Some (VStr (wh_type w))),
     (''clauses'', Some (VList (map json_ClauseSpec (wh_clauses w))))]"

definition json_SourceSpec :: "SourceSpec \<Rightarrow> goval" where
  "json_SourceSpec s = struct_json [(''table'', Some (VStr (so_table s))), (''timestampColumn'', Some (VStr (so_timestamp s))),
     (''where'', Some (ptr_json json_WhereSpec (so_where s))), (''valueColumn'', text_tag (so_value_column s))]"

definition json_ThresholdSpec :: "ThresholdSpec \<Rightarrow> goval" where
  "json_ThresholdSpec t = struct_json [(''op'', Some (VStr (th_op t))), (''value'', any_tag (th_value t)),
     (''min'', map_option VFloat (th_min t)), (''max'', map_option VFloat (th_max t))]"

definition json_RobustZSpec :: "RobustZSpec \<Rightarrow> goval" where
  "json_RobustZSpec z = struct_json [(''baselineWindowSeconds'', Some (VInt (rz_baseline_window z))),
     (''evalWindowSeconds'', Some (VInt (rz_eval_window z))), (''zWarn'', Some (VFloat (rz_warn z))),
     (''zCrit'', Some (VFloat (rz_crit z))), (''minSamples'', Some (VInt (rz_min_samples z)))]"

definition json_MissingDataSpec :: "MissingDataSpec \<Rightarrow> goval" where
  "json_MissingDataSpec m = struct_json [(''maxGapSeconds'', Some (VInt (md_max_gap m)))]"

definition json_SpecLimitBounds :: "SpecLimitBounds \<Rightarrow> goval" where
  "json_SpecLimitBounds b = struct_json [(''usl'', map_option VFloat (sb_usl b)), (''lsl'', map_option VFloat (sb_lsl b))]"

definition json_ControlLimitBounds :: "ControlLimitBounds \<Rightarrow> goval" where
  "json_ControlLimitBounds b = struct_json [(''ucl'', map_option VFloat (cb_ucl b)), (''lcl'', map_option VFloat (cb_lcl b))]"

definition json_SpecLimitSpec :: "SpecLimitSpec \<Rightarrow> goval" where
  "json_SpecLimitSpec l = struct_json [(''specLimits'', map_option json_SpecLimitBounds (sl_spec l)),
     (''controlLimits'', map_option json_ControlLimitBounds (sl_control l)), (''mode'', Some (VStr (sl_mode l))),
     (''epsilon'', map_option VFloat (sl_epsilon l))]"

definition json_TimeRangeSpec :: "TimeRangeSpec \<Rightarrow> goval" where
  "json_TimeRangeSpec r = struct_json [(''start'', Some (VStr (tr_start r))), (''end'', Some (VStr (tr_end r)))]"

definition json_BaselineSpec :: "BaselineSpec \<Rightarrow> goval" where
  "json_BaselineSpec b = struct_json [(''lastN'', map_option VInt (bl_last_n b)),
     (''timeRange'', map_option json_TimeRangeSpec (bl_time_range b))]"

definition json_ShewhartSpec :: "ShewhartSpec \<Rightarrow> goval" where
  "json_ShewhartSpec h = struct_json [(''baseline'', Some (json_BaselineSpec (sh_baseline h))),
     (''sigmaMultiplier'', Some (VFloat (sh_sigma h))), (''minBaselineN'', Some (VInt (sh_min_n h))),
     (''populationSigma'', Some (VBool (sh_population h)))]"

definition json_SubgroupingSpec :: "SubgroupingSpec \<Rightarrow> goval" where
  "json_SubgroupingSpec g = struct_json [(''mode'', Some (VStr (sg_mode g))), (''column'', text_tag (sg_column g))]"

definition json_RangeChartSpec :: "RangeChartSpec \<Rightarrow> goval" where
  "json_RangeChartSpec c = struct_json [(''subgroupSize'', Some (VInt (rc_size c))),
     (''subgrouping'', Some (json_SubgroupingSpec (rc_subgrouping c))), (''baseline'', Some (json_BaselineSpec (rc_baseline c))),
     (''minBaselineSubgroups'', Some (VInt (rc_min_subgroups c)))]"

definition json_TrendSpec :: "TrendSpec \<Rightarrow> goval" where
  "json_TrendSpec t = struct_json [(''windowSize'', Some (VInt (tn_window t))), (''epsilon'', Some (VFloat (tn_epsilon t))),
     (''requireConsecutiveTimestamps'', Some (VBool (tn_consecutive t)))]"

definition json_TPASpec :: "TPASpec \<Rightarrow> goval" where
  "json_TPASpec t = struct_json [(''windowN'', Some (VInt (tp_window t))), (''regressionTimeBasis'', Some (VStr (tp_basis t))),
     (''slopeThreshold'', map_option VFloat (tp_slope t)), (''timeToSpecThreshold'', map_option VFloat (tp_time_to_spec t)),
     (''requireSpecLimits'', Some (VBool (tp_require_limits t))), (''specLimits'', map_option json_SpecLimitBounds (tp_limits t)),
     (''epsilon'', Some (VFloat (tp_epsilon t)))]"

definition json_DetectorSpec :: "DetectorSpec \<Rightarrow> goval" where
  "json_DetectorSpec d = struct_json [(''type'', Some (VStr (d_type d))),
     (''threshold'', map_option json_ThresholdSpec (d_threshold d)), (''robustZ'', map_option json_RobustZSpec (d_robust_z d)),
     (''missingData'', map_option json_MissingDataSpec (d_missing d)), (''specLimit'', map_option json_SpecLimitSpec (d_spec_limit d)),
     (''shewhart'', map_option json_ShewhartSpec (d_shewhart d)), (''rangeChart'', map_option json_RangeChartSpec (d_range_chart d)),
     (''trend'', map_option json_TrendSpec (d_trend d)), (''tpa'', map_option json_TPASpec (d_tpa d))]"

definition json_ParameterSpec :: "ParameterSpec \<Rightarrow> goval" where
  "json_ParameterSpec p = struct_json [(''parameterName'', Some (VStr (p_name p))), (''valueColumn'', Some (VStr (p_column p))),
     (''detector'', Some (json_DetectorSpec (p_detector p)))]"

definition json_ConditionSpec :: "ConditionSpec \<Rightarrow> goval" where
  "json_ConditionSpec c = struct_json [(''op'', Some (VStr (co_op c))), (''value'', Some (co_value c)),
     (''min'', Some (ptr_json VFloat (co_min c))), (''max'', Some (ptr_json VFloat (co_max c)))]"

definition json_RuleSpec :: "RuleSpec \<Rightarrow> goval" where
  "json_RuleSpec s = struct_json [(''name'', Some (VStr (r_name s))), (''description'', Some (VStr (r_description s))),
     (''connectionRef'', Some (VStr (r_connection s))), (''source'', Some (json_SourceSpec (r_source s))),
     (''parameters'', Some (VList (map json_ParameterSpec (r_parameters s)))), (''pollIntervalSeconds'', Some (VInt (r_poll s))),
     (''cooldownSeconds'', Some (ptr_json VInt (r_cooldown s))), (''enabled'', Some (VBool (r_enabled s))),
     (''parameterName'', text_tag (r_parameter_name s)), (''aggregation'', text_tag (r_aggregation s)),
     (''windowSeconds'', map_option VInt (r_window s)), (''condition'', Some (json_ConditionSpec (r_condition s)))]"

subsection \<open>What the scheduler reads\<close>

text \<open>A field by the kind of its type; each continues with the value.\<close>

definition int_field :: "string \<Rightarrow> (string \<times> goval) list \<Rightarrow> (int \<Rightarrow> 'b res) \<Rightarrow> 'b res" where
  "int_field name kvs k = and_then (field_or 0 json_int name kvs) k"

definition float_field :: "string \<Rightarrow> (string \<times> goval) list \<Rightarrow> (f64 \<Rightarrow> 'b res) \<Rightarrow> 'b res" where
  "float_field name kvs k = and_then (field_or f0 json_float name kvs) k"

definition bool_field :: "string \<Rightarrow> (string \<times> goval) list \<Rightarrow> (bool \<Rightarrow> 'b res) \<Rightarrow> 'b res" where
  "bool_field name kvs k = and_then (field_or False json_bool name kvs) k"

definition any_field :: "string \<Rightarrow> (string \<times> goval) list \<Rightarrow> (goval \<Rightarrow> 'b res) \<Rightarrow> 'b res" where
  "any_field name kvs k = and_then (field_or VNil (\<lambda>v. Inr (json_any v)) name kvs) k"

text \<open>A struct that the object lacks, or that is null, keeps its zero value.\<close>

definition struct_field :: "(goval \<Rightarrow> 'a res) \<Rightarrow> string \<Rightarrow> (string \<times> goval) list \<Rightarrow> ('a \<Rightarrow> 'b res) \<Rightarrow> 'b res" where
  "struct_field f name kvs k = and_then (case json_field name kvs of None \<Rightarrow> f VNil | Some v \<Rightarrow> f v) k"

definition slice_field :: "(goval \<Rightarrow> 'a res) \<Rightarrow> string \<Rightarrow> (string \<times> goval) list \<Rightarrow> ('a list \<Rightarrow> 'b res) \<Rightarrow> 'b res" where
  "slice_field f name kvs k = and_then (field_or [] (json_list f) name kvs) k"

definition read_ClauseSpec :: "goval \<Rightarrow> WhereClause res" where
  "read_ClauseSpec v = and_then (json_object v) (\<lambda>kvs. text_field ''column'' kvs (\<lambda>column. text_field ''op'' kvs (\<lambda>op.
     any_field ''value'' kvs (\<lambda>value. Inr \<lparr> cl_column = column, cl_op = op, cl_value = value \<rparr>))))"

definition read_WhereSpec :: "goval \<Rightarrow> WhereSpec res" where
  "read_WhereSpec v = and_then (json_object v) (\<lambda>kvs. text_field ''type'' kvs (\<lambda>ty. slice_field read_ClauseSpec ''clauses'' kvs (\<lambda>cs.
     Inr \<lparr> wh_type = ty, wh_clauses = cs \<rparr>)))"

definition read_SourceSpec :: "goval \<Rightarrow> SourceSpec res" where
  "read_SourceSpec v = and_then (json_object v) (\<lambda>kvs. text_field ''table'' kvs (\<lambda>table. text_field ''timestampColumn'' kvs (\<lambda>ts.
     opt_field read_WhereSpec ''where'' kvs (\<lambda>w. text_field ''valueColumn'' kvs (\<lambda>column.
     Inr \<lparr> so_table = table, so_timestamp = ts, so_where = w, so_value_column = column \<rparr>)))))"

definition read_ThresholdSpec :: "goval \<Rightarrow> ThresholdSpec res" where
  "read_ThresholdSpec v = and_then (json_object v) (\<lambda>kvs. text_field ''op'' kvs (\<lambda>op. any_field ''value'' kvs (\<lambda>value.
     opt_field json_float ''min'' kvs (\<lambda>lo. opt_field json_float ''max'' kvs (\<lambda>hi.
     Inr \<lparr> th_op = op, th_value = value, th_min = lo, th_max = hi \<rparr>)))))"

definition read_RobustZSpec :: "goval \<Rightarrow> RobustZSpec res" where
  "read_RobustZSpec v = and_then (json_object v) (\<lambda>kvs. int_field ''baselineWindowSeconds'' kvs (\<lambda>bw.
     int_field ''evalWindowSeconds'' kvs (\<lambda>ew. float_field ''zWarn'' kvs (\<lambda>zw. float_field ''zCrit'' kvs (\<lambda>zc.
     int_field ''minSamples'' kvs (\<lambda>n. Inr \<lparr> rz_baseline_window = bw, rz_eval_window = ew, rz_warn = zw, rz_crit = zc,
       rz_min_samples = n \<rparr>))))))"

definition read_MissingDataSpec :: "goval \<Rightarrow> MissingDataSpec res" where
  "read_MissingDataSpec v = and_then (json_object v) (\<lambda>kvs. int_field ''maxGapSeconds'' kvs (\<lambda>n. Inr \<lparr> md_max_gap = n \<rparr>))"

definition read_SpecLimitBounds :: "goval \<Rightarrow> SpecLimitBounds res" where
  "read_SpecLimitBounds v = and_then (json_object v) (\<lambda>kvs. opt_field json_float ''usl'' kvs (\<lambda>u. opt_field json_float ''lsl'' kvs (\<lambda>l.
     Inr \<lparr> sb_usl = u, sb_lsl = l \<rparr>)))"

definition read_ControlLimitBounds :: "goval \<Rightarrow> ControlLimitBounds res" where
  "read_ControlLimitBounds v = and_then (json_object v) (\<lambda>kvs. opt_field json_float ''ucl'' kvs (\<lambda>u.
     opt_field json_float ''lcl'' kvs (\<lambda>l. Inr \<lparr> cb_ucl = u, cb_lcl = l \<rparr>)))"

definition read_SpecLimitSpec :: "goval \<Rightarrow> SpecLimitSpec res" where
  "read_SpecLimitSpec v = and_then (json_object v) (\<lambda>kvs. opt_field read_SpecLimitBounds ''specLimits'' kvs (\<lambda>s.
     opt_field read_ControlLimitBounds ''controlLimits'' kvs (\<lambda>c. text_field ''mode'' kvs (\<lambda>mode.
     opt_field json_float ''epsilon'' kvs (\<lambda>e. Inr \<lparr> sl_spec = s, sl_control = c, sl_mode = mode, sl_epsilon = e \<rparr>)))))"

definition read_TimeRangeSpec :: "goval \<Rightarrow> TimeRangeSpec res" where
  "read_TimeRangeSpec v = and_then (json_object v) (\<lambda>kvs. text_field ''start'' kvs (\<lambda>a. text_field ''end'' kvs (\<lambda>b.
     Inr \<lparr> tr_start = a, tr_end = b \<rparr>)))"

definition read_BaselineSpec :: "goval \<Rightarrow> BaselineSpec res" where
  "read_BaselineSpec v = and_then (json_object v) (\<lambda>kvs. opt_field json_int ''lastN'' kvs (\<lambda>n.
     opt_field read_TimeRangeSpec ''timeRange'' kvs (\<lambda>r. Inr \<lparr> bl_last_n = n, bl_time_range = r \<rparr>)))"

definition read_ShewhartSpec :: "goval \<Rightarrow> ShewhartSpec res" where
  "read_ShewhartSpec v = and_then (json_object v) (\<lambda>kvs. struct_field read_BaselineSpec ''baseline'' kvs (\<lambda>b.
     float_field ''sigmaMultiplier'' kvs (\<lambda>s. int_field ''minBaselineN'' kvs (\<lambda>n. bool_field ''populationSigma'' kvs (\<lambda>p.
     Inr \<lparr> sh_baseline = b, sh_sigma = s, sh_min_n = n, sh_population = p \<rparr>)))))"

definition read_SubgroupingSpec :: "goval \<Rightarrow> SubgroupingSpec res" where
  "read_SubgroupingSpec v = and_then (json_object v) (\<lambda>kvs. text_field ''mode'' kvs (\<lambda>mode. text_field ''column'' kvs (\<lambda>column.
     Inr \<lparr> sg_mode = mode, sg_column = column \<rparr>)))"

definition read_RangeChartSpec :: "goval \<Rightarrow> RangeChartSpec res" where
  "read_RangeChartSpec v = and_then (json_object v) (\<lambda>kvs. int_field ''subgroupSize'' kvs (\<lambda>n.
     struct_field read_SubgroupingSpec ''subgrouping'' kvs (\<lambda>g. struct_field read_BaselineSpec ''baseline'' kvs (\<lambda>b.
     int_field ''minBaselineSubgroups'' kvs (\<lambda>m.
     Inr \<lparr> rc_size = n, rc_subgrouping = g, rc_baseline = b, rc_min_subgroups = m \<rparr>)))))"

definition read_TrendSpec :: "goval \<Rightarrow> TrendSpec res" where
  "read_TrendSpec v = and_then (json_object v) (\<lambda>kvs. int_field ''windowSize'' kvs (\<lambda>n. float_field ''epsilon'' kvs (\<lambda>e.
     bool_field ''requireConsecutiveTimestamps'' kvs (\<lambda>c. Inr \<lparr> tn_window = n, tn_epsilon = e, tn_consecutive = c \<rparr>))))"

definition read_TPASpec :: "goval \<Rightarrow> TPASpec res" where
  "read_TPASpec v = and_then (json_object v) (\<lambda>kvs. int_field ''windowN'' kvs (\<lambda>n. text_field ''regressionTimeBasis'' kvs (\<lambda>basis.
     opt_field json_float ''slopeThreshold'' kvs (\<lambda>s. opt_field json_float ''timeToSpecThreshold'' kvs (\<lambda>t.
     bool_field ''requireSpecLimits'' kvs (\<lambda>r. opt_field read_SpecLimitBounds ''specLimits'' kvs (\<lambda>l.
     float_field ''epsilon'' kvs (\<lambda>e. Inr \<lparr> tp_window = n, tp_basis = basis, tp_slope = s, tp_time_to_spec = t,
       tp_require_limits = r, tp_limits = l, tp_epsilon = e \<rparr>))))))))"

definition read_DetectorSpec :: "goval \<Rightarrow> DetectorSpec res" where
  "read_DetectorSpec v = and_then (json_object v) (\<lambda>kvs. text_field ''type'' kvs (\<lambda>ty.
     opt_field read_ThresholdSpec ''threshold'' kvs (\<lambda>t. opt_field read_RobustZSpec ''robustZ'' kvs (\<lambda>z.
     opt_field read_MissingDataSpec ''missingData'' kvs (\<lambda>m. opt_field read_SpecLimitSpec ''specLimit'' kvs (\<lambda>l.
     opt_field read_ShewhartSpec ''shewhart'' kvs (\<lambda>h. opt_field read_RangeChartSpec ''rangeChart'' kvs (\<lambda>c.
     opt_field read_TrendSpec ''trend'' kvs (\<lambda>n. opt_field read_TPASpec ''tpa'' kvs (\<lambda>p.
     Inr \<lparr> d_type = ty, d_threshold = t, d_robust_z = z, d_missing = m, d_spec_limit = l, d_shewhart = h,
       d_range_chart = c, d_trend = n, d_tpa = p \<rparr>))))))))))"

definition read_ParameterSpec :: "goval \<Rightarrow> ParameterSpec res" where
  "read_ParameterSpec v = and_then (json_object v) (\<lambda>kvs. text_field ''parameterName'' kvs (\<lambda>name.
     text_field ''valueColumn'' kvs (\<lambda>column. struct_field read_DetectorSpec ''detector'' kvs (\<lambda>d.
     Inr \<lparr> p_name = name, p_column = column, p_detector = d \<rparr>))))"

definition read_ConditionSpec :: "goval \<Rightarrow> ConditionSpec res" where
  "read_ConditionSpec v = and_then (json_object v) (\<lambda>kvs. text_field ''op'' kvs (\<lambda>op. any_field ''value'' kvs (\<lambda>value.
     opt_field json_float ''min'' kvs (\<lambda>lo. opt_field json_float ''max'' kvs (\<lambda>hi.
     Inr \<lparr> co_op = op, co_value = value, co_min = lo, co_max = hi \<rparr>)))))"

definition read_RuleSpec :: "goval \<Rightarrow> RuleSpec res" where
  "read_RuleSpec v = and_then (json_object v) (\<lambda>kvs. text_field ''name'' kvs (\<lambda>name. text_field ''description'' kvs (\<lambda>desc.
     text_field ''connectionRef'' kvs (\<lambda>conn. struct_field read_SourceSpec ''source'' kvs (\<lambda>src.
     slice_field read_ParameterSpec ''parameters'' kvs (\<lambda>ps. int_field ''pollIntervalSeconds'' kvs (\<lambda>poll.
     opt_field json_int ''cooldownSeconds'' kvs (\<lambda>cd. bool_field ''enabled'' kvs (\<lambda>en. text_field ''parameterName'' kvs (\<lambda>pn.
     text_field ''aggregation'' kvs (\<lambda>agg. opt_field json_int ''windowSeconds'' kvs (\<lambda>win.
     struct_field read_ConditionSpec ''condition'' kvs (\<lambda>cond.
     Inr \<lparr> r_name = name, r_description = desc, r_connection = conn, r_source = src, r_parameters = ps, r_poll = poll,
       r_cooldown = cd, r_enabled = en, r_parameter_name = pn, r_aggregation = agg, r_window = win,
       r_condition = cond \<rparr>)))))))))))))"

subsection \<open>A field is read back as it was written\<close>

definition wired :: "(string \<times> goval) list \<Rightarrow> (string \<times> goval) list" where
  "wired kvs = map (\<lambda>kv. (fst kv, json_wire (snd kv))) kvs"

lemma wire_struct [simp]: "json_wire (struct_json fs) = VMap (wired (written fs))"
  by (simp add: struct_json_def wired_def)

lemma wired_keys: "map fst (wired kvs) = map fst kvs"
  by (simp add: wired_def)

lemma written_iff: "(k, v) \<in> set (written fs) \<longleftrightarrow> (k, Some v) \<in> set fs"
  by (induction fs rule: written.induct) auto

lemma written_keys: "k \<in> set (map to_lower (map fst (written fs))) \<Longrightarrow> k \<in> set (map to_lower (map fst fs))"
  by (induction fs rule: written.induct) auto

lemma written_distinct: "distinct (map to_lower (map fst fs)) \<Longrightarrow> distinct (map to_lower (map fst (written fs)))"
  by (induction fs rule: written.induct) (use written_keys in auto)

lemma written_absent:
  "distinct (map to_lower (map fst fs)) \<Longrightarrow> (k, None) \<in> set fs \<Longrightarrow> to_lower k \<notin> set (map to_lower (map fst (written fs)))"
proof (induction fs rule: written.induct)
  case (2 n fs)
  then show ?case using written_keys [of "to_lower k" fs] by (cases "n = k") auto
next
  case (3 n x fs)
  then have "to_lower k \<in> set (map to_lower (map fst fs))" by force
  moreover have "to_lower n \<notin> set (map to_lower (map fst fs))" using 3(2) by simp
  ultimately have "to_lower n \<noteq> to_lower k" by metis
  then show ?case using 3 by simp
qed simp

lemma written_present: "(k, Some v) \<in> set fs \<Longrightarrow> (k, json_wire v) \<in> set (wired (written fs))"
  unfolding written_iff [symmetric] wired_def by force

declare written.simps [simp del]

text \<open>The names of the fields differ even when their case is ignored.\<close>

definition names_ok :: "json_fields \<Rightarrow> bool" where
  "names_ok fs = distinct (map to_lower (map fst fs))"

lemma written_field:
  assumes "names_ok fs" "map_of fs name = Some v"
  shows "json_field name (wired (written fs)) = map_option json_wire v"
proof (cases v)
  case None
  then have "(name, None) \<in> set fs" using assms(2) by (simp add: map_of_SomeD)
  then show ?thesis using written_absent assms(1) None wired_keys by (simp add: json_field_absent names_ok_def)
next
  case (Some x)
  then have "(name, json_wire x) \<in> set (wired (written fs))" using assms(2) by (intro written_present) (simp add: map_of_SomeD)
  moreover have "distinct (map to_lower (map fst (wired (written fs))))"
    unfolding wired_keys using assms(1) by (intro written_distinct) (simp add: names_ok_def)
  ultimately show ?thesis using Some by (simp add: json_field_exact)
qed

definition field_of :: "json_fields \<Rightarrow> string \<Rightarrow> goval option" where
  "field_of fs name = (case map_of fs name of None \<Rightarrow> None | Some v \<Rightarrow> v)"

lemma field_of_simps: "field_of ((k, v) # fs) name = (if k = name then v else field_of fs name)"
  by (simp add: field_of_def)

lemma written_field_or: "names_ok fs \<Longrightarrow> map_of fs name \<noteq> None \<Longrightarrow> field_or z f name (wired (written fs))
    = (case field_of fs name of None \<Rightarrow> Inr z | Some v \<Rightarrow> f (json_wire v))"
  using written_field [of fs name] by (auto simp: field_or_def field_of_def split: option.splits)

lemma written_struct_field: "names_ok fs \<Longrightarrow> map_of fs name \<noteq> None \<Longrightarrow> struct_field f name (wired (written fs)) k
    = and_then (case field_of fs name of None \<Rightarrow> f VNil | Some v \<Rightarrow> f (json_wire v)) k"
  using written_field [of fs name] by (auto simp: struct_field_def field_of_def split: option.splits)

lemmas read_fields = text_field_def opt_field_def int_field_def float_field_def bool_field_def any_field_def slice_field_def
  written_struct_field written_field_or field_of_simps option.map_ident

lemma json_leaves [simp]: "json_float (VFloat x) = Inr x" "json_bool (VBool b) = Inr b"
  by (simp_all add: json_float_def json_bool_def)

lemma tags [simp]:
  "(case text_tag s of None \<Rightarrow> Inr [] | Some v \<Rightarrow> json_string (json_wire v)) = Inr s"
  "(case any_tag v of None \<Rightarrow> Inr VNil | Some x \<Rightarrow> Inr (json_any (json_wire x))) = Inr (any_back v)"
  "Inr (json_any (json_wire v)) = (Inr (any_back v) :: goval res)"
  by (simp_all add: text_tag_def any_tag_def any_back_def)

lemma opt_all_True [simp]: "opt_all (\<lambda>_. True) p"
  by (simp add: opt_all_def split: option.split)

lemma list_all_True [simp]: "list_all (\<lambda>_. True) xs"
  by (simp add: list_all_iff)

text \<open>An encoder and the decoder on the other side: \<open>arrive\<close> says what comes of a value.\<close>

locale codec =
  fixes enc :: "'a \<Rightarrow> goval" and dec :: "goval \<Rightarrow> 'a res" and arrive :: "'a \<Rightarrow> 'a" and ok :: "'a \<Rightarrow> bool"
  assumes reads: "ok x \<Longrightarrow> dec (json_wire (enc x)) = Inr (arrive x)"
    and present: "json_wire (enc x) \<noteq> VNil"
begin

lemma omitted: "opt_all ok p \<Longrightarrow>
    (case p of None \<Rightarrow> Inr None | Some x \<Rightarrow> ((\<lambda>v. json_ptr dec (json_wire v)) \<circ> enc) x) = Inr (map_option arrive p)"
  by (cases p) (simp_all add: opt_all_def json_ptr_def reads present)

lemma pointer: "opt_all ok p \<Longrightarrow> json_ptr dec (json_wire (ptr_json enc p)) = Inr (map_option arrive p)"
  by (cases p) (simp_all add: opt_all_def json_ptr_def ptr_json_def reads present)

lemma slice: "list_all ok xs \<Longrightarrow> json_list dec (VList (map (json_wire \<circ> enc) xs)) = Inr (map arrive xs)"
  by (rule json_list_map) (simp add: reads list_all_iff)

end

interpretation float_leaf: codec VFloat json_float "\<lambda>x. x" "\<lambda>_. True"
  by unfold_locales simp_all

interpretation int_leaf: codec VInt json_int "\<lambda>x. x" int64
  by unfold_locales (simp_all add: json_int_VInt)

subsection \<open>The structs of a rule\<close>

text \<open>An \<open>int\<close> field holds a 64-bit integer.\<close>

definition detector_sized :: "DetectorSpec \<Rightarrow> bool" where
  "detector_sized d =
     (opt_all (\<lambda>z. int64 (rz_baseline_window z) \<and> int64 (rz_eval_window z) \<and> int64 (rz_min_samples z)) (d_robust_z d)
      \<and> opt_all (\<lambda>m. int64 (md_max_gap m)) (d_missing d)
      \<and> opt_all (\<lambda>h. int64 (sh_min_n h) \<and> opt_all int64 (bl_last_n (sh_baseline h))) (d_shewhart d)
      \<and> opt_all (\<lambda>c. int64 (rc_size c) \<and> int64 (rc_min_subgroups c) \<and> opt_all int64 (bl_last_n (rc_baseline c))) (d_range_chart d)
      \<and> opt_all (\<lambda>t. int64 (tn_window t)) (d_trend d) \<and> opt_all (\<lambda>t. int64 (tp_window t)) (d_tpa d))"

definition spec_sized :: "RuleSpec \<Rightarrow> bool" where
  "spec_sized s = (list_all (\<lambda>p. detector_sized (p_detector p)) (r_parameters s) \<and> int64 (r_poll s)
     \<and> opt_all int64 (r_cooldown s) \<and> opt_all int64 (r_window s))"

lemma clause_names: "names_ok [(''column'', a), (''op'', b), (''value'', c)]"
  by (simp only: names_ok_def list.map fst_conv) code_simp

interpretation clause_struct: codec json_ClauseSpec read_ClauseSpec "\<lambda>c. c \<lparr> cl_value := any_back (cl_value c) \<rparr>" "\<lambda>_. True"
  by unfold_locales (simp_all add: read_ClauseSpec_def json_ClauseSpec_def read_fields clause_names json_int_VInt)

lemma where_names: "names_ok [(''type'', a), (''clauses'', b)]"
  by (simp only: names_ok_def list.map fst_conv) code_simp

interpretation where_struct: codec json_WhereSpec read_WhereSpec "\<lambda>w. w \<lparr> wh_clauses := map (\<lambda>c. c \<lparr> cl_value := any_back (cl_value c) \<rparr>) (wh_clauses w) \<rparr>" "\<lambda>_. True"
  by unfold_locales (simp_all add: read_WhereSpec_def json_WhereSpec_def read_fields where_names json_int_VInt clause_struct.slice)

lemma source_names: "names_ok [(''table'', a), (''timestampColumn'', b), (''where'', c), (''valueColumn'', d)]"
  by (simp only: names_ok_def list.map fst_conv) code_simp

interpretation source_struct: codec json_SourceSpec read_SourceSpec "\<lambda>s. s \<lparr> so_where := map_option (\<lambda>w. w \<lparr> wh_clauses := map (\<lambda>c. c \<lparr> cl_value := any_back (cl_value c) \<rparr>) (wh_clauses w) \<rparr>) (so_where s) \<rparr>" "\<lambda>_. True"
  by unfold_locales (simp_all add: read_SourceSpec_def json_SourceSpec_def read_fields source_names json_int_VInt where_struct.pointer)

lemma threshold_names: "names_ok [(''op'', a), (''value'', b), (''min'', c), (''max'', d)]"
  by (simp only: names_ok_def list.map fst_conv) code_simp

interpretation threshold_struct: codec json_ThresholdSpec read_ThresholdSpec "\<lambda>t. t \<lparr> th_value := any_back (th_value t) \<rparr>" "\<lambda>_. True"
  by unfold_locales (simp_all add: read_ThresholdSpec_def json_ThresholdSpec_def read_fields threshold_names json_int_VInt float_leaf.omitted)

lemma robust_names: "names_ok [(''baselineWindowSeconds'', a), (''evalWindowSeconds'', b), (''zWarn'', c), (''zCrit'', d), (''minSamples'', e)]"
  by (simp only: names_ok_def list.map fst_conv) code_simp

interpretation robust_struct: codec json_RobustZSpec read_RobustZSpec "\<lambda>z. z" "\<lambda>z. int64 (rz_baseline_window z) \<and> int64 (rz_eval_window z) \<and> int64 (rz_min_samples z)"
  by unfold_locales (simp_all add: read_RobustZSpec_def json_RobustZSpec_def read_fields robust_names json_int_VInt)

lemma missing_names: "names_ok [(''maxGapSeconds'', a)]"
  by (simp only: names_ok_def list.map fst_conv) code_simp

interpretation missing_struct: codec json_MissingDataSpec read_MissingDataSpec "\<lambda>m. m" "\<lambda>m. int64 (md_max_gap m)"
  by unfold_locales (simp_all add: read_MissingDataSpec_def json_MissingDataSpec_def read_fields missing_names json_int_VInt)

lemma spec_bounds_names: "names_ok [(''usl'', a), (''lsl'', b)]"
  by (simp only: names_ok_def list.map fst_conv) code_simp

interpretation spec_bounds_struct: codec json_SpecLimitBounds read_SpecLimitBounds "\<lambda>b. b" "\<lambda>_. True"
  by unfold_locales (simp_all add: read_SpecLimitBounds_def json_SpecLimitBounds_def read_fields spec_bounds_names json_int_VInt float_leaf.omitted)

lemma control_bounds_names: "names_ok [(''ucl'', a), (''lcl'', b)]"
  by (simp only: names_ok_def list.map fst_conv) code_simp

interpretation control_bounds_struct: codec json_ControlLimitBounds read_ControlLimitBounds "\<lambda>b. b" "\<lambda>_. True"
  by unfold_locales (simp_all add: read_ControlLimitBounds_def json_ControlLimitBounds_def read_fields control_bounds_names json_int_VInt float_leaf.omitted)

lemma spec_limit_names: "names_ok [(''specLimits'', a), (''controlLimits'', b), (''mode'', c), (''epsilon'', d)]"
  by (simp only: names_ok_def list.map fst_conv) code_simp

interpretation spec_limit_struct: codec json_SpecLimitSpec read_SpecLimitSpec "\<lambda>l. l" "\<lambda>_. True"
  by unfold_locales (simp_all add: read_SpecLimitSpec_def json_SpecLimitSpec_def read_fields spec_limit_names json_int_VInt float_leaf.omitted spec_bounds_struct.omitted control_bounds_struct.omitted)

lemma range_names: "names_ok [(''start'', a), (''end'', b)]"
  by (simp only: names_ok_def list.map fst_conv) code_simp

interpretation range_struct: codec json_TimeRangeSpec read_TimeRangeSpec "\<lambda>r. r" "\<lambda>_. True"
  by unfold_locales (simp_all add: read_TimeRangeSpec_def json_TimeRangeSpec_def read_fields range_names json_int_VInt)

lemma baseline_names: "names_ok [(''lastN'', a), (''timeRange'', b)]"
  by (simp only: names_ok_def list.map fst_conv) code_simp

interpretation baseline_struct: codec json_BaselineSpec read_BaselineSpec "\<lambda>b. b" "\<lambda>b. opt_all int64 (bl_last_n b)"
  by unfold_locales (simp_all add: read_BaselineSpec_def json_BaselineSpec_def read_fields baseline_names json_int_VInt int_leaf.omitted range_struct.omitted)

lemma shewhart_names: "names_ok [(''baseline'', a), (''sigmaMultiplier'', b), (''minBaselineN'', c), (''populationSigma'', d)]"
  by (simp only: names_ok_def list.map fst_conv) code_simp

interpretation shewhart_struct: codec json_ShewhartSpec read_ShewhartSpec "\<lambda>h. h" "\<lambda>h. int64 (sh_min_n h) \<and> opt_all int64 (bl_last_n (sh_baseline h))"
  by unfold_locales (simp_all add: read_ShewhartSpec_def json_ShewhartSpec_def read_fields shewhart_names json_int_VInt baseline_struct.reads)

lemma subgrouping_names: "names_ok [(''mode'', a), (''column'', b)]"
  by (simp only: names_ok_def list.map fst_conv) code_simp

interpretation subgrouping_struct: codec json_SubgroupingSpec read_SubgroupingSpec "\<lambda>g. g" "\<lambda>_. True"
  by unfold_locales (simp_all add: read_SubgroupingSpec_def json_SubgroupingSpec_def read_fields subgrouping_names json_int_VInt)

lemma chart_names: "names_ok [(''subgroupSize'', a), (''subgrouping'', b), (''baseline'', c), (''minBaselineSubgroups'', d)]"
  by (simp only: names_ok_def list.map fst_conv) code_simp

interpretation chart_struct: codec json_RangeChartSpec read_RangeChartSpec "\<lambda>c. c" "\<lambda>c. int64 (rc_size c) \<and> int64 (rc_min_subgroups c) \<and> opt_all int64 (bl_last_n (rc_baseline c))"
  by unfold_locales (simp_all add: read_RangeChartSpec_def json_RangeChartSpec_def read_fields chart_names json_int_VInt baseline_struct.reads subgrouping_struct.reads)

lemma trend_names: "names_ok [(''windowSize'', a), (''epsilon'', b), (''requireConsecutiveTimestamps'', c)]"
  by (simp only: names_ok_def list.map fst_conv) code_simp

interpretation trend_struct: codec json_TrendSpec read_TrendSpec "\<lambda>t. t" "\<lambda>t. int64 (tn_window t)"
  by unfold_locales (simp_all add: read_TrendSpec_def json_TrendSpec_def read_fields trend_names json_int_VInt)

lemma tpa_names: "names_ok [(''windowN'', a), (''regressionTimeBasis'', b), (''slopeThreshold'', c), (''timeToSpecThreshold'', d), (''requireSpecLimits'', e), (''specLimits'', f), (''epsilon'', g)]"
  by (simp only: names_ok_def list.map fst_conv) code_simp

interpretation tpa_struct: codec json_TPASpec read_TPASpec "\<lambda>t. t" "\<lambda>t. int64 (tp_window t)"
  by unfold_locales (simp_all add: read_TPASpec_def json_TPASpec_def read_fields tpa_names json_int_VInt float_leaf.omitted spec_bounds_struct.omitted)

lemma detector_names: "names_ok [(''type'', a), (''threshold'', b), (''robustZ'', c), (''missingData'', d), (''specLimit'', e), (''shewhart'', f), (''rangeChart'', g), (''trend'', h), (''tpa'', i)]"
  by (simp only: names_ok_def list.map fst_conv) code_simp

interpretation detector_struct: codec json_DetectorSpec read_DetectorSpec "detector_back" "detector_sized"
  by unfold_locales (simp_all add: read_DetectorSpec_def json_DetectorSpec_def read_fields detector_names json_int_VInt threshold_struct.omitted robust_struct.omitted missing_struct.omitted spec_limit_struct.omitted
      shewhart_struct.omitted chart_struct.omitted trend_struct.omitted tpa_struct.omitted detector_back_def detector_sized_def)

lemma parameter_names: "names_ok [(''parameterName'', a), (''valueColumn'', b), (''detector'', c)]"
  by (simp only: names_ok_def list.map fst_conv) code_simp

interpretation parameter_struct: codec json_ParameterSpec read_ParameterSpec "\<lambda>p. p \<lparr> p_detector := detector_back (p_detector p) \<rparr>" "\<lambda>p. detector_sized (p_detector p)"
  by unfold_locales (simp_all add: read_ParameterSpec_def json_ParameterSpec_def read_fields parameter_names json_int_VInt detector_struct.reads)

lemma condition_names: "names_ok [(''op'', a), (''value'', b), (''min'', c), (''max'', d)]"
  by (simp only: names_ok_def list.map fst_conv) code_simp

interpretation condition_struct: codec json_ConditionSpec read_ConditionSpec "\<lambda>c. c \<lparr> co_value := any_back (co_value c) \<rparr>" "\<lambda>_. True"
  by unfold_locales (simp_all add: read_ConditionSpec_def json_ConditionSpec_def read_fields condition_names json_int_VInt float_leaf.pointer)

lemma rule_names: "names_ok [(''name'', a), (''description'', b), (''connectionRef'', c), (''source'', d), (''parameters'', e), (''pollIntervalSeconds'', f), (''cooldownSeconds'', g), (''enabled'', h), (''parameterName'', i), (''aggregation'', j), (''windowSeconds'', k), (''condition'', l)]"
  by (simp only: names_ok_def list.map fst_conv) code_simp

interpretation rule_struct: codec json_RuleSpec read_RuleSpec "spec_back" "spec_sized"
  by unfold_locales (simp_all add: read_RuleSpec_def json_RuleSpec_def read_fields rule_names json_int_VInt source_struct.reads condition_struct.reads parameter_struct.slice int_leaf.pointer int_leaf.omitted spec_back_def spec_sized_def)

subsection \<open>The round trip\<close>

lemma encodes_struct: "json_encodes (struct_json fs) = list_all (\<lambda>kv. opt_all json_encodes (snd kv)) fs"
proof -
  have "list_all (\<lambda>kv. json_encodes (snd kv)) (written fs) = list_all (\<lambda>kv. opt_all json_encodes (snd kv)) fs"
    by (induction fs rule: written.induct) (simp_all add: written.simps opt_all_def)
  then show ?thesis by (auto simp: struct_json_def json_encodes_def list_all_iff)
qed

lemma encodes_leaves: "json_encodes (VStr t)" "json_encodes (VInt z)" "json_encodes (VBool b)" "json_encodes VNil"
  "json_encodes (VFloat x) = finite_f x" "json_encodes (VList vs) = list_all json_encodes vs"
  "opt_all json_encodes (text_tag t)" "opt_all json_encodes (any_tag v) = json_encodes v"
  "opt_all json_encodes (map_option f p) = opt_all (\<lambda>x. json_encodes (f x)) p"
  "json_encodes (ptr_json f p) = opt_all (\<lambda>x. json_encodes (f x)) p"
  by (auto simp: json_encodes_def list_all_iff text_tag_def any_tag_def opt_all_def ptr_json_def finite_f_def isNaN_def isInf0_def
      split: f64.split option.split)

lemma finite_opt_all: "opt_all finite_f p = finite_opt p"
  by (simp add: opt_all_def finite_opt_def)

lemmas encodes = encodes_struct encodes_leaves finite_opt_all list.pred_map comp_def opt_all_def [of _ "Some _"]

lemma detector_json_encodes: "json_encodes (json_DetectorSpec d) = detector_encodes d"
  unfolding detector_encodes_def
  by (simp add: json_DetectorSpec_def json_ThresholdSpec_def json_RobustZSpec_def json_MissingDataSpec_def json_SpecLimitSpec_def
      json_SpecLimitBounds_def json_ControlLimitBounds_def json_ShewhartSpec_def json_BaselineSpec_def json_TimeRangeSpec_def
      json_RangeChartSpec_def json_SubgroupingSpec_def json_TrendSpec_def json_TPASpec_def encodes conj_ac)

lemma rule_json_encodes: "json_encodes (json_RuleSpec s) = spec_encodes s"
  unfolding spec_encodes_def
  by (simp add: json_RuleSpec_def json_SourceSpec_def json_WhereSpec_def json_ClauseSpec_def json_ParameterSpec_def
      json_ConditionSpec_def detector_json_encodes encodes conj_ac)

text \<open>What JSON gave back is given back as it is.\<close>

lemma any_back_idem [simp]: "any_back (any_back v) = any_back v"
proof -
  have "json_wire (json_any (json_wire v)) = json_any (json_wire v)" for v
    by (induction v rule: json_wire.induct) auto
  moreover have "json_any (json_any v) = json_any v" for v by (induction v rule: json_any.induct) auto
  ultimately show ?thesis by (simp add: any_back_def)
qed

lemma detector_back_idem [simp]: "detector_back (detector_back d) = detector_back d"
  by (simp add: detector_back_def option.map_comp comp_def)

lemma spec_back_idem: "spec_back (spec_back s) = spec_back s"
  by (simp add: spec_back_def option.map_comp comp_def)

lemma spec_back_sized: "spec_sized (spec_back s) = spec_sized s"
  by (simp add: spec_sized_def spec_back_def list_all_length detector_sized_def detector_back_def)

text \<open>
  C8: A rule the rule service writes is a rule the scheduler reads: decoding its JSON gives the
  specification that storing it promises, every field and every detector included, the JSON
  fails exactly when the rule is stored without one, and writing what was read and reading
  it again changes nothing.
\<close>
theorem stored_rule_is_read_back:
  assumes "spec_sized spec"
  shows "\<exists>stored. read_RuleSpec (json_wire (json_RuleSpec spec)) = Inr stored
    \<and> rule_json spec = (if json_encodes (json_RuleSpec spec) then Some stored else None)
    \<and> read_RuleSpec (json_wire (json_RuleSpec stored)) = Inr stored"
proof (intro exI conjI)
  show "read_RuleSpec (json_wire (json_RuleSpec spec)) = Inr (spec_back spec)" using assms by (rule rule_struct.reads)
  show "rule_json spec = (if json_encodes (json_RuleSpec spec) then Some (spec_back spec) else None)"
    by (simp add: rule_json_def rule_json_encodes)
  show "read_RuleSpec (json_wire (json_RuleSpec (spec_back spec))) = Inr (spec_back spec)"
    using rule_struct.reads [of "spec_back spec"] assms by (simp add: spec_back_sized spec_back_idem)
qed

lemma stored_rule_is_read_back_witness:
  "\<exists>stored. read_RuleSpec (json_wire (json_RuleSpec valid_trend)) = Inr stored \<and> rule_json valid_trend = Some stored"
proof -
  have "spec_sized valid_trend" by code_simp
  moreover have "json_encodes (json_RuleSpec valid_trend)" unfolding rule_json_encodes by code_simp
  ultimately show ?thesis using stored_rule_is_read_back [of valid_trend] by auto
qed

end
