(* ===== verification/Composition.thy ===== *)
theory Composition
  imports Main Startup RuleApiProps WorkerProps ShutdownProps McpServerProps
begin

text \<open>
  The two services on one database. The rule service changes the tables and publishes events;
  the worker hears the events, reloads, and its goroutines run the rules, reading and writing
  the same tables. A step of the system is one request, one message, one reload or one step of
  a goroutine, in any order and any number of times: a message may be lost, late or repeated.
\<close>

lemma go_bind_Ret: "go_bind m f = Ret y \<longleftrightarrow> (\<exists>x. m = Ret x \<and> f x = Ret y)"
  by (cases m) simp_all

subsection \<open>What the worker writes\<close>

text \<open>The columns of a rule the worker never writes.\<close>

definition frozen :: "RuleRecord \<Rightarrow> string \<times> string \<times> RuleSpec option \<times> bool" where
  "frozen r = (rr_id r, rr_connection r, rr_spec r, rr_enabled r)"

definition worker_wrote :: "DB \<Rightarrow> DB \<Rightarrow> bool" where
  "worker_wrote d d' = (map frozen (db_rules d') = map frozen (db_rules d) \<and> db_connections d' = db_connections d
     \<and> (\<exists>new. db_alerts d' = db_alerts d @ new))"

lemma wrote_refl [simp]: "worker_wrote d d"
  by (simp add: worker_wrote_def)

lemma wrote_trans: "worker_wrote a b \<Longrightarrow> worker_wrote b c \<Longrightarrow> worker_wrote a c"
  by (auto simp: worker_wrote_def)

lemma wrote_update: "(\<And>r. frozen (f r) = frozen r) \<Longrightarrow> worker_wrote d (update_rule i f d)"
  by (simp add: worker_wrote_def update_rule_def comp_def if_distrib)

lemma wrote_status: "worker_wrote (w_db w) (w_db (snd (UpdateRuleStatus i st e w)))"
  by (auto simp: UpdateRuleStatus_def db_exec_def frozen_def intro!: wrote_update)

lemma wrote_run:
  assumes "execute_run lims rule spec adapter since now w = Ret (reached, w')"
  shows "worker_wrote (w_db w) (w_db w')"
  using assms
proof (cases rule: execute_run_cases)
  case (2 w1)
  have "worker_wrote (w_db w) (w_db w1)"
    using run_params_appends [OF 2(2)] by (auto simp: appends_def worker_wrote_def)
  moreover have "worker_wrote (w_db w1) (w_db w')"
    by (auto simp: 2(3) UpdateLastRunAt_world frozen_def intro!: wrote_update)
  ultimately show ?thesis by (rule wrote_trans)
qed simp

subsection \<open>What the worker keeps\<close>

definition heap_specs :: "Registry \<Rightarrow> RuleSpec set" where
  "heap_specs g = j_spec ` set (g_heap g)"

definition specs_safe :: "DB \<Rightarrow> bool" where
  "specs_safe d = (\<forall>r \<in> set (db_rules d). \<forall>spec. rr_spec r = Some spec \<longrightarrow> worker_safe spec)"

text \<open>The registry is in order and holds no specification that crashes it.\<close>

definition worker_ok :: "Registry \<Rightarrow> bool" where
  "worker_ok g = (Inv g \<and> sane_limits (g_limits g) \<and> (\<forall>spec \<in> heap_specs g. worker_safe spec))"

text \<open>How an operation of the registry may change it: it takes in at most one specification.\<close>

definition takes_in :: "RuleSpec set \<Rightarrow> Registry \<Rightarrow> Registry \<Rightarrow> bool" where
  "takes_in S g g' = (heap_specs g' \<subseteq> heap_specs g \<union> S \<and> g_limits g' = g_limits g
     \<and> length (g_workers g') = length (g_workers g) \<and> worker_wrote (w_db (g_world g)) (w_db (g_world g')))"

lemma takes_in_trans: "takes_in S a b \<Longrightarrow> takes_in S b c \<Longrightarrow> takes_in S a c"
  by (auto simp: takes_in_def intro: wrote_trans)

lemma takes_in_mono: "takes_in S a b \<Longrightarrow> S \<subseteq> T \<Longrightarrow> takes_in T a b"
  by (auto simp: takes_in_def)

lemma takes_in_world: "w_db w = w_db (g_world g) \<Longrightarrow> takes_in S g (set_world w g)"
  by (simp add: takes_in_def heap_specs_def set_world_def)

lemma takes_in_mark: "takes_in S g (mark_rule i st e g)"
  by (simp add: takes_in_def heap_specs_def mark_rule_def set_world_def wrote_status)

lemma heap_update_specs: "k < length h \<Longrightarrow> j_spec j = j_spec (h ! k) \<Longrightarrow> j_spec ` set (h[k := j]) = j_spec ` set h"
  by (metis length_map list_update_id map_update nth_map set_map)

lemma takes_in_refl [simp]: "takes_in S g g"
  by (auto simp: takes_in_def)

lemma takes_in_close: "close_stop k g = Ret g' \<Longrightarrow> takes_in S g g'"
proof -
  assume "close_stop k g = Ret g'"
  then have "k < length (g_heap g)" "g' = stop_job k g" by (auto simp: close_stop_def stop_job_def split: if_splits)
  then show ?thesis by (simp add: takes_in_def heap_specs_def stop_job_def heap_update_specs)
qed

lemma takes_in_Unschedule: "Unschedule i g = Ret g' \<Longrightarrow> takes_in S g g'"
proof (cases "map_of (g_jobs g) i")
  case (Some k)
  assume "Unschedule i g = Ret g'"
  then obtain h where "close_stop k g = Ret h" "g' = h \<lparr> g_jobs := delete_key i (g_jobs h) \<rparr>"
    using Some by (cases "close_stop k g") (auto simp: Unschedule_def)
  then show ?thesis using takes_in_close [of k g h S] by (simp add: takes_in_def heap_specs_def)
qed (simp add: Unschedule_def)

lemma takes_in_Schedule: "Schedule i spec ad g = Ret g' \<Longrightarrow> takes_in {spec} g g'"
proof -
  assume s: "Schedule i spec ad g = Ret g'"
  let ?close = "case map_of (g_jobs g) i of None \<Rightarrow> Ret g | Some k \<Rightarrow> close_stop k g"
  from s obtain h where h: "?close = Ret h" by (cases ?close) (auto simp: Schedule_def)
  have t: "takes_in {spec} g h" using h takes_in_close by (cases "map_of (g_jobs g) i") simp_all
  obtain rec where w: "GetRule i (g_world h) = (rec, tick (g_world h))" using lookup_world(1) by (metis prod.collapse)
  from s h have "takes_in {spec} h g'"
    by (auto simp: Schedule_def Let_def takes_in_def heap_specs_def w split: if_splits)
  with t show ?thesis by (rule takes_in_trans)
qed

text \<open>An event takes in the specification of a row of the table, or nothing.\<close>

definition table_specs :: "DB \<Rightarrow> RuleSpec set" where
  "table_specs d = {spec. \<exists>r \<in> set (db_rules d). rr_spec r = Some spec}"

lemma specs_safe_iff: "specs_safe d = (\<forall>spec \<in> table_specs d. worker_safe spec)"
  by (auto simp: specs_safe_def table_specs_def)

lemma wrote_specs: "worker_wrote d d' \<Longrightarrow> table_specs d' = table_specs d"
proof -
  have t: "table_specs d = {spec. Some spec \<in> (\<lambda>(_, _, s, _). s) ` set (map frozen (db_rules d))}" for d
    by (force simp: table_specs_def frozen_def)
  assume "worker_wrote d d'"
  then show ?thesis by (simp add: t worker_wrote_def)
qed

lemma found_spec: "fst (GetRule i w) = Inr r \<Longrightarrow> rr_spec r = Some spec \<Longrightarrow> spec \<in> table_specs (w_db w)"
  by (auto simp: GetRule_def db_query_def table_specs_def split: if_splits option.splits dest!: find_rule_id)

lemma takes_in_event:
  assumes "processRule registry allow i g = Ret (result, g')"
  shows "takes_in (table_specs (w_db (g_world g))) g g'"
  using assms
proof (cases rule: processRule_cases)
  case (error e)
  then show ?thesis by (simp add: takes_in_world)
next
  case (disabled r)
  show ?thesis by (rule takes_in_trans [OF takes_in_world takes_in_Unschedule [OF disabled(4)]]) simp
next
  case (bad_json r)
  show ?thesis unfolding bad_json(5) by (rule takes_in_trans [OF takes_in_world takes_in_mark]) simp
next
  case (rejected r spec m e n)
  let ?h = "set_world ((tick ^^ n) (g_world g)) g"
  obtain k where k: "Unschedule i (mark_rule i ''INVALID'' (Some m) ?h) = Ret k" "g' = k"
    using rejected(4) by (cases "Unschedule i (mark_rule i ''INVALID'' (Some m) ?h)") (auto simp: reject_rule_def)
  show ?thesis
    unfolding k(2) by (rule takes_in_trans [OF takes_in_trans [OF takes_in_world takes_in_mark] takes_in_Unschedule [OF k(1)]]) simp
next
  case (activated r spec ad ad' now n)
  let ?h = "set_world ((tick ^^ n) (g_world g)) g"
  obtain k where k: "Schedule i spec (Some ad) (mark_rule i ''ACTIVE'' None ?h) = Ret k" "g' = k"
    using activated(5) by (cases "Schedule i spec (Some ad) (mark_rule i ''ACTIVE'' None ?h)") (auto simp: activate_rule_def)
  have "{spec} \<subseteq> table_specs (w_db (g_world g))" using found_spec [OF activated(1,3)] by simp
  with takes_in_Schedule [OF k(1)] have "takes_in (table_specs (w_db (g_world g))) (mark_rule i ''ACTIVE'' None ?h) g'"
    unfolding k(2) by (rule takes_in_mono)
  from takes_in_trans [OF takes_in_trans [OF takes_in_world takes_in_mark] this] show ?thesis by simp
qed

lemma worker_ok_takes_in: "worker_ok g \<Longrightarrow> specs_safe (w_db (g_world g)) \<Longrightarrow> takes_in (table_specs (w_db (g_world g))) g g' \<Longrightarrow> Inv g'
    \<Longrightarrow> worker_ok g' \<and> specs_safe (w_db (g_world g'))"
  using wrote_specs [of "w_db (g_world g)" "w_db (g_world g')"]
  by (auto simp: worker_ok_def specs_safe_iff takes_in_def)

lemma event_ok:
  assumes ok: "worker_ok g" and safe: "specs_safe (w_db (g_world g))"
  shows "\<exists>result g'. processRule registry allow i g = Ret (result, g') \<and> worker_ok g' \<and> specs_safe (w_db (g_world g'))
    \<and> takes_in (table_specs (w_db (g_world g))) g g'"
proof -
  have inv: "Inv g" "sane_limits (g_limits g)" using ok by (simp_all add: worker_ok_def)
  have "\<not> panics (processRule registry allow i g)"
  proof
    assume "panics (processRule registry allow i g)"
    then obtain r spec where "fst (GetRule i (g_world g)) = Inr r" "rr_spec r = Some spec" "robust_without_config spec"
      using processRule_panics [OF inv] by blast
    then show False using safe found_spec by (fastforce simp: specs_safe_iff worker_safe_def)
  qed
  then obtain result g' where run: "processRule registry allow i g = Ret (result, g')" by (auto simp: not_panics_iff)
  have "Inv g'" using processRule_table_aux [OF inv run] by simp
  with worker_ok_takes_in [OF ok safe takes_in_event [OF run]] takes_in_event [OF run] run show ?thesis by blast
qed

lemma all_events_ok:
  "worker_ok g \<Longrightarrow> specs_safe (w_db (g_world g)) \<Longrightarrow> \<exists>g'. process_all registry allow ids g = Ret g' \<and> worker_ok g'
    \<and> specs_safe (w_db (g_world g')) \<and> takes_in (table_specs (w_db (g_world g))) g g'"
proof (induction ids arbitrary: g)
  case (Cons i ids)
  obtain result g1 where e: "processRule registry allow i g = Ret (result, g1)" "worker_ok g1" "specs_safe (w_db (g_world g1))"
    "takes_in (table_specs (w_db (g_world g))) g g1" using event_ok [OF Cons.prems] by blast
  obtain g2 where r: "process_all registry allow ids g1 = Ret g2" "worker_ok g2" "specs_safe (w_db (g_world g2))"
    "takes_in (table_specs (w_db (g_world g1))) g1 g2" using Cons.IH [OF e(2,3)] by blast
  have "table_specs (w_db (g_world g1)) = table_specs (w_db (g_world g))" using e(4) wrote_specs by (simp add: takes_in_def)
  with e r takes_in_trans [OF e(4)] show ?case by simp
qed simp

lemma reconcile_ok:
  assumes "worker_ok g" "specs_safe (w_db (g_world g))"
  shows "\<exists>result g'. reconcile registry allow g = Ret (result, g') \<and> worker_ok g' \<and> specs_safe (w_db (g_world g'))
    \<and> takes_in (table_specs (w_db (g_world g))) g g'"
proof -
  obtain rs where l: "ListEnabledRules (g_world g) = (rs, tick (g_world g))" using lookup_world(5) by (metis prod.collapse)
  let ?g = "set_world (tick (g_world g)) g"
  have k: "takes_in (table_specs (w_db (g_world g))) g ?g" by (simp add: takes_in_world)
  then have ok: "worker_ok ?g" "specs_safe (w_db (g_world ?g))" using worker_ok_takes_in [OF assms k] assms(1) by (auto simp: worker_ok_def)
  show ?thesis
  proof (cases rs)
    case (Inl e)
    then show ?thesis using l k ok by (simp add: reconcile_def)
  next
    case (Inr recs)
    obtain g' where "process_all registry allow (map rr_id recs) ?g = Ret g'" "worker_ok g'" "specs_safe (w_db (g_world g'))"
      "takes_in (table_specs (w_db (g_world ?g))) ?g g'" using all_events_ok [OF ok] by blast
    then show ?thesis using l Inr takes_in_trans [OF k, of g'] by (simp add: reconcile_def)
  qed
qed

text \<open>A step of a goroutine takes in nothing.\<close>

lemma takes_in_goroutine: "closing g g' \<Longrightarrow> takes_in {} g g'"
proof (induction rule: closing.induct)
  case (finish_run k g r now since done_run w)
  have "heap_specs (set_last_run (jr_job r) now g) = heap_specs g"
    by (cases "jr_job r < length (g_heap g)") (simp_all add: heap_specs_def set_last_run_def heap_update_specs list_update_beyond)
  then show ?case using wrote_run [OF finish_run(3)]
    by (auto simp: takes_in_def heap_specs_def set_last_run_def)
next
  case (take_run k g r q now w)
  then have "w_db w = w_db (g_world g)" by (auto simp: read_clock_def)
  then show ?case by (simp add: takes_in_def heap_specs_def)
qed (simp_all add: takes_in_def heap_specs_def)

lemma worker_ok_same: "worker_ok g \<Longrightarrow> Inv g' \<Longrightarrow> heap_specs g' \<subseteq> heap_specs g \<Longrightarrow> g_limits g' = g_limits g \<Longrightarrow> worker_ok g'"
  by (auto simp: worker_ok_def)

lemma goroutine_ok:
  assumes "worker_ok g" "closing g g'"
  shows "worker_ok g'" "worker_wrote (w_db (g_world g)) (w_db (g_world g'))"
proof -
  have "Inv g'" using assms step_Inv closing_step by (auto simp: worker_ok_def)
  then show "worker_ok g'" "worker_wrote (w_db (g_world g)) (w_db (g_world g'))"
    using takes_in_goroutine [OF assms(2)] worker_ok_same [OF assms(1)] by (auto simp: takes_in_def)
qed

lemma queued_run_safe: "worker_ok g \<Longrightarrow> r \<in> set (runs_of g) \<Longrightarrow> worker_safe (jr_spec r)"
  using Inv_runs [of g r] by (auto simp: worker_ok_def run_ok_def heap_specs_def)

subsection \<open>One database\<close>

text \<open>The tables as the scheduler's queries see them.\<close>

definition shared_db :: "RuleDB \<Rightarrow> DB" where
  "shared_db d = \<lparr> db_rules = map RuleRecord.truncate (t_rules d),
     db_connections = map (\<lambda>c. (dn_id c, dn_type c)) (t_connections d), db_alerts = map AlertRecord.truncate (t_alerts d) \<rparr>"

text \<open>What the worker wrote, as rows of the tables: four columns of a rule, and new alerts with the next numbers.\<close>

definition put_record :: "RuleRecord \<Rightarrow> RuleRow \<Rightarrow> RuleRow" where
  "put_record rec row = row \<lparr> rr_status := rr_status rec, rr_last_error := rr_last_error rec,
     rr_last_validated := rr_last_validated rec, rr_last_run := rr_last_run rec \<rparr>"

definition next_alert :: "AlertRow list \<Rightarrow> int" where
  "next_alert rows = fold max (map aw_id rows) 0 + 1"

fun number_alerts :: "int \<Rightarrow> AlertRecord list \<Rightarrow> AlertRow list" where
  "number_alerts n [] = []"
| "number_alerts n (a # as) = AlertRecord.extend a (AlertRow.fields n) # number_alerts (n + 1) as"

definition store_back :: "DB \<Rightarrow> RuleDB \<Rightarrow> RuleDB" where
  "store_back db d = d \<lparr> t_rules := map2 put_record (db_rules db) (t_rules d),
     t_alerts := t_alerts d @ number_alerts (next_alert (t_alerts d)) (drop (length (t_alerts d)) (db_alerts db)) \<rparr>"

lemma truncate_number: "map AlertRecord.truncate (number_alerts n as) = as"
  by (induction as arbitrary: n) (simp_all add: AlertRecord.defs)

lemma truncate_put: "map frozen rs = map (\<lambda>r. frozen (RuleRecord.truncate r)) rows \<Longrightarrow>
    map RuleRecord.truncate (map2 put_record rs rows) = rs"
proof (induction rs arbitrary: rows)
  case (Cons r rs)
  then obtain row rest where rows: "rows = row # rest" by (cases rows) auto
  have "RuleRecord.truncate (put_record r row) = r"
    using Cons.prems by (simp add: rows frozen_def put_record_def RuleRecord.defs)
  then show ?case using Cons by (simp add: rows)
qed simp

text \<open>The worker reads what it wrote, and the rest of the row is as it was.\<close>

lemma shared_back: "worker_wrote (shared_db d) db \<Longrightarrow> shared_db (store_back db d) = db"
proof -
  assume w: "worker_wrote (shared_db d) db"
  then have r: "map frozen (db_rules db) = map (\<lambda>r. frozen (RuleRecord.truncate r)) (t_rules d)"
    by (simp add: worker_wrote_def shared_db_def comp_def)
  obtain new where a: "db_alerts db = map AlertRecord.truncate (t_alerts d) @ new"
    using w by (auto simp: worker_wrote_def shared_db_def)
  have "db_rules (shared_db (store_back db d)) = db_rules db"
    using truncate_put [OF r] by (simp add: shared_db_def store_back_def)
  moreover have "db_alerts (shared_db (store_back db d)) = db_alerts db"
    by (simp add: shared_db_def store_back_def a truncate_number)
  moreover have "db_connections (shared_db (store_back db d)) = db_connections db"
    using w by (simp add: shared_db_def store_back_def worker_wrote_def)
  ultimately show ?thesis by simp
qed

lemma put_record_spec [simp]: "rr_spec (put_record rec row) = rr_spec row" "rr_id (put_record rec row) = rr_id row"
  by (simp_all add: put_record_def)

lemma stored_rules_safe: "rules_safe d \<Longrightarrow> rules_safe (store_back db d)"
  by (auto simp: rules_safe_def store_back_def dest!: set_zip_rightD)

lemma shared_specs_safe: "rules_safe d \<Longrightarrow> specs_safe (shared_db d)"
  by (auto simp: rules_safe_def specs_safe_def shared_db_def RuleRecord.defs)

subsection \<open>The system\<close>

record System =
  sy_store :: RuleStore
  sy_reg :: Registry

text \<open>The registry with the tables as they are now, and the store after the worker has written.\<close>

definition seen :: "System \<Rightarrow> Registry" where
  "seen S = set_world ((g_world (sy_reg S)) \<lparr> w_db := shared_db (rs_db (sy_store S)) \<rparr>) (sy_reg S)"

definition joined :: "System \<Rightarrow> Registry \<Rightarrow> System" where
  "joined S g = \<lparr> sy_store = (sy_store S) \<lparr> rs_db := store_back (w_db (g_world g)) (rs_db (sy_store S)) \<rparr>, sy_reg = g \<rparr>"

inductive system_step :: "StepperHandler \<Rightarrow> PgEnv \<Rightarrow> adapter_map option \<Rightarrow> string list \<Rightarrow> System \<Rightarrow> System \<Rightarrow> bool"
  for h env registry allow where
  request: "system_step h env registry allow S (S \<lparr> sy_store := serve_request h env q (sy_store S) \<rparr>)"
| message: "(name, ident) \<in> set (rs_events (sy_store S)) \<Longrightarrow>
    deliver registry allow name (json_wire (event_payload ident)) (seen S) = Ret (result, g) \<Longrightarrow>
    system_step h env registry allow S (joined S g)"
| reload: "reconcile registry allow (seen S) = Ret (result, g) \<Longrightarrow> system_step h env registry allow S (joined S g)"
| ticked: "i < length (g_tickers (sy_reg S)) \<Longrightarrow> g_tickers (sy_reg S) ! i = TLoop \<Longrightarrow>
    system_step h env registry allow S (S \<lparr> sy_reg := (sy_reg S) \<lparr> g_tickers := (g_tickers (sy_reg S))[i := TSend] \<rparr> \<rparr>)"
| goroutine: "closing (seen S) g \<Longrightarrow> system_step h env registry allow S (joined S g)"

inductive_cases system_step_cases: "system_step h env registry allow S S'"

definition system_ok :: "System \<Rightarrow> bool" where
  "system_ok S = (rules_safe (rs_db (sy_store S)) \<and> worker_ok (sy_reg S))"

lemma seen_ok: "system_ok S \<Longrightarrow> worker_ok (seen S) \<and> specs_safe (w_db (g_world (seen S)))"
  by (auto simp: system_ok_def seen_def shared_specs_safe worker_ok_def heap_specs_def set_world_def
      intro: Inv_set_world [THEN iffD2, unfolded set_world_def])

lemma joined_ok: "system_ok S \<Longrightarrow> worker_ok g \<Longrightarrow> system_ok (joined S g)"
  by (simp add: system_ok_def joined_def stored_rules_safe)

lemma deliver_ok:
  assumes "worker_ok g" "specs_safe (w_db (g_world g))"
  shows "\<exists>result g'. deliver registry allow name msg g = Ret (result, g') \<and> worker_ok g'"
proof (cases "find (\<lambda>s. subject_name s = name) subscribed")
  case (Some s)
  then show ?thesis using event_ok [OF assms, of registry allow "event_of msg"] by (auto simp: deliver_def handle_event_def)
qed (use assms(1) in \<open>simp add: deliver_def\<close>)

lemma system_step_ok: "system_step h env registry allow S S' \<Longrightarrow> system_ok S \<Longrightarrow> system_ok S'"
proof (induction rule: system_step.induct)
  case (request S q)
  then show ?case using safety.every_request by (simp add: system_ok_def)
next
  case (message name ident S result g)
  then show ?case using deliver_ok seen_ok joined_ok by (metis go.inject(1) prod.inject)
next
  case (reload S result g)
  then show ?case using reconcile_ok seen_ok joined_ok by (metis go.inject(1) prod.inject)
next
  case (ticked i S)
  have "Inv ((sy_reg S) \<lparr> g_tickers := (g_tickers (sy_reg S))[i := TSend] \<rparr>)"
    using ticked step.tick step_Inv by (auto simp: system_ok_def worker_ok_def)
  with ticked(3) show ?case by (simp add: system_ok_def worker_ok_def heap_specs_def)
next
  case (goroutine S g)
  then show ?case using goroutine_ok(1) seen_ok joined_ok by blast
qed

lemma system_ok_always: "(system_step h env registry allow)\<^sup>*\<^sup>* S S' \<Longrightarrow> system_ok S \<Longrightarrow> system_ok S'"
  by (induction rule: rtranclp_induct) (auto intro: system_step_ok)

definition system_start :: "RuleStore \<Rightarrow> nat \<Rightarrow> World \<Rightarrow> System" where
  "system_start st workers w = \<lparr> sy_store = st, sy_reg = NewRegistry DefaultLimits workers w \<rparr>"

lemma start_ok: "rules_safe (rs_db st) \<Longrightarrow> system_ok (system_start st workers w)"
  using Inv_NewRegistry [of DefaultLimits workers w]
  by (simp add: system_ok_def system_start_def worker_ok_def heap_specs_def NewRegistry_def sane_DefaultLimits)

text \<open>
  C1: Nothing the two services do together brings the worker down: from tables without a
  dangerous rule and a fresh registry, after any requests, messages (lost, late or repeated),
  reloads and runs in any order, with any failures of the database, the bus and the data
  sources, the next message, the next reload and the shutdown end without a panic, and so does
  every run that is queued or under way.
\<close>
theorem system_never_panics:
  assumes "rules_safe (rs_db st)"
    and "(system_step h env registry allow)\<^sup>*\<^sup>* (system_start st workers w) S"
  shows "\<not> panics (deliver registry allow name msg (seen S)) \<and> \<not> panics (reconcile registry allow (seen S))
    \<and> \<not> panics (worker_stop (sy_reg S))
    \<and> list_all (\<lambda>r. \<not> panics (execute_run lims (jr_rule r) (jr_spec r) (jr_adapter r) since now w')) (runs_of (sy_reg S))"
proof -
  have ok: "system_ok S" using system_ok_always [OF assms(2)] start_ok [OF assms(1)] by blast
  note s = seen_ok [OF ok]
  have inv: "Inv (sy_reg S)" using ok by (simp add: system_ok_def worker_ok_def)
  have "\<not> panics (worker_stop (sy_reg S))" using registry.halt_law [OF inv] by (auto simp: worker_stop_def)
  moreover have "\<not> panics (deliver registry allow name msg (seen S))" "\<not> panics (reconcile registry allow (seen S))"
    using deliver_ok [of "seen S" registry allow name msg] reconcile_ok [of "seen S" registry allow] s by auto
  ultimately show ?thesis
    using ok worker_safe_never_panics(2) queued_run_safe by (auto simp: list_all_iff system_ok_def)
qed

subsection \<open>From a request to a job\<close>

lemma created_row:
  assumes "CreateRule r env s = (Inr ident, s')" "pg_uuid env ident = Some ident"
  shows "\<exists>row. t_rules (rs_db s') = t_rules (rs_db s) @ [row] \<and> rr_id row = ident \<and> rr_spec row = rr_spec r \<and> rr_spec r \<noteq> None
    \<and> rr_enabled row = rr_enabled r \<and> ident \<notin> rr_id ` set (t_rules (rs_db s))"
proof -
  from assms(1) obtain d where d: "insert_rule env (pg_clock env (rs_step s)) (r \<lparr> rr_id := ident \<rparr>) (rs_db s) = Inr d"
    and s': "rs_db s' = d"
    by (auto simp: CreateRule_def with_fresh_def with_now_def statement_def res_bind_def rs_tick_def split: if_splits sum.splits)
  from d assms(2) have "\<exists>row. t_rules d = t_rules (rs_db s) @ [row] \<and> rr_id row = ident \<and> rr_spec row = rr_spec r \<and> rr_spec r \<noteq> None
    \<and> rr_enabled row = rr_enabled r \<and> ident \<notin> rr_id ` set (t_rules (rs_db s))"
    by (auto simp: insert_rule_def sql_simps as_uuid_def)
  then show ?thesis by (simp add: s')
qed

lemma created_reply:
  assumes "handleRulesCreate h (Inr req) env s = (ApiOK 200 (ident, spec), s')"
  shows "\<exists>s1. prompt_rule h req = Inr spec \<and> CreateRule (rule_row spec) env s = (Inr ident, s1) \<and> rs_db s' = rs_db s1
    \<and> rs_events s' = rs_events s1 @ (if pg_bus env (rs_step s' - 1) then [(''rule.created'', ident)] else [])"
  using assms
  by (auto simp: handleRulesCreate_def with_body_def on_ok_def respond_def publish_def rs_tick_def writeRuleError_def
      split: sum.splits prod.splits if_splits)

lemma insert_keeps_events: "CreateRule r env s = (result, s') \<Longrightarrow> rs_events s' = rs_events s"
  by (auto simp: CreateRule_def with_fresh_def with_now_def statement_def res_bind_def rs_tick_def split: if_splits sum.splits)

lemma created_connections:
  assumes "handleRulesCreate h (Inr req) env s = (ApiOK 200 (ident, spec), s')"
  shows "t_connections (rs_db s') = t_connections (rs_db s)"
proof -
  obtain s1 where "CreateRule (rule_row spec) env s = (Inr ident, s1)" "rs_db s' = rs_db s1"
    using created_reply [OF assms] by blast
  then show ?thesis
    by (auto simp: CreateRule_def with_fresh_def with_now_def statement_def res_bind_def rs_tick_def insert_rule_def sql_simps
        split: if_splits sum.splits)
qed

lemma find_last_rule:
  assumes "t_rules d = rows @ [row]" "rr_id row \<notin> rr_id ` set rows"
  shows "find_rule (rr_id row) (shared_db d) = Some (RuleRecord.truncate row)"
proof -
  have "find (\<lambda>r. rr_id r = rr_id row) (map RuleRecord.truncate rows @ [RuleRecord.truncate row]) = Some (RuleRecord.truncate row)"
    using assms(2) by (induction rows) (auto simp: RuleRecord.defs)
  then show ?thesis by (simp add: find_rule_def shared_db_def assms(1))
qed

lemma event_round_trip [simp]: "event_of (json_wire (event_payload ident)) = ident"
  by (simp add: event_of_def event_payload_def field_or_def json_field_simps to_lower_def)

lemma deliver_subject: "deliver registry allow (subject_name s) msg g = processRule registry allow (event_of msg) g"
  by (cases s) (simp_all add: deliver_def subscribed_def subject_name_def handle_event_def)

text \<open>What a request may change of a rule and the worker may not: a step of the worker keeps it.\<close>

definition rule_columns :: "System \<Rightarrow> (string \<times> string \<times> RuleSpec option \<times> bool) list" where
  "rule_columns S = map frozen (db_rules (shared_db (rs_db (sy_store S))))"

lemma joined_columns: "worker_wrote (w_db (g_world (seen S))) (w_db (g_world g)) \<Longrightarrow> rule_columns (joined S g) = rule_columns S"
  using shared_back [of "rs_db (sy_store S)"] by (simp add: rule_columns_def joined_def seen_def worker_wrote_def)

lemma find_frozen: "map_option frozen (find_rule i d) = find (\<lambda>t. fst t = i) (map frozen (db_rules d))"
proof -
  have "map_option frozen (find (\<lambda>r. rr_id r = i) rs) = find (\<lambda>t. fst t = i) (map frozen rs)" for rs
    by (induction rs) (auto simp: frozen_def)
  then show ?thesis by (simp add: find_rule_def)
qed

lemma found_columns:
  assumes "rule_columns S' = rule_columns S" "find_rule i (shared_db (rs_db (sy_store S))) = Some r"
  shows "\<exists>r'. find_rule i (shared_db (rs_db (sy_store S'))) = Some r' \<and> frozen r' = frozen r"
proof -
  have "map_option frozen (find_rule i (shared_db (rs_db (sy_store S')))) = Some (frozen r)"
    using assms find_frozen [of i "shared_db (rs_db (sy_store S))"] by (simp add: find_frozen rule_columns_def)
  then show ?thesis by (auto simp: map_option_eq_Some)
qed

text \<open>What the worker asks before it schedules a rule: the connection, its adapter and the validation.\<close>

definition accepts :: "adapter_map option \<Rightarrow> string list \<Rightarrow> RuleSpec \<Rightarrow> Limits \<Rightarrow> World \<Rightarrow> bool" where
  "accepts registry allow spec lims w = (case GetConnectionType (r_connection spec) w of (Inl _, _) \<Rightarrow> False
     | (Inr connType, w2) \<Rightarrow> (case AdapterFor registry connType of Inl _ \<Rightarrow> False
       | Inr ad \<Rightarrow> RuntimeValidateRule (ad (w_step w2)) spec allow lims (fst (read_clock w2)) = Ret (Inr ())))"

lemma processRule_accepts:
  assumes inv: "Inv g" "sane_limits (g_limits g)" and run: "processRule registry allow i g = Ret (result, g')"
    and r: "GetRule i (g_world g) = (Inr r, w1)" "rr_enabled r" "rr_spec r = Some spec"
  shows "(result = Inr ()) = accepts registry allow spec (g_limits g) w1"
proof -
  obtain ct w2 where ct: "GetConnectionType (r_connection spec) w1 = (ct, w2)" by fastforce
  have rej: "reject_rule i m e (set_world w g) = Ret (result, g') \<Longrightarrow> result = Inl e" for m e w
    using reject_rule_ret [of "set_world w g" i m e] inv(1) by simp
  obtain now w3 where clock: "read_clock w2 = (now, w3)" by fastforce
  note run = run [unfolded processRule_def] r ct clock
  show ?thesis
  proof (cases ct)
    case (Inl e)
    then have "reject_rule i ''connection not found'' e (set_world w2 g) = Ret (result, g')" using run by simp
    then show ?thesis using rej Inl ct by (auto simp: accepts_def)
  next
    case c: (Inr connType)
    show ?thesis
    proof (cases "AdapterFor registry connType")
      case (Inl e)
      then have "reject_rule i e e (set_world w2 g) = Ret (result, g')" using run c by simp
      then show ?thesis using rej Inl c ct by (auto simp: accepts_def)
    next
      case a: (Inr ad)
      let ?v = "RuntimeValidateRule (ad (w_step w2)) spec allow (g_limits g) now"
      have b: "go_bind ?v (\<lambda>v. case v of Inl e \<Rightarrow> reject_rule i e e (set_world w3 g)
          | Inr _ \<Rightarrow> activate_rule i spec ad (set_world w3 g)) = Ret (result, g')"
        using run c a by (simp add: Let_def)
      then obtain v where v: "?v = Ret v" by (auto simp: go_bind_Ret)
      have "(result = Inr ()) = (v = Inr ())"
      proof (cases v)
        case (Inr u)
        then have "schedulable spec" using validated_schedulable v inv(2) by simp
        then show ?thesis using activate_rule_ret [of "set_world w3 g" spec i ad] inv(1) b v Inr by simp
      qed (use b v rej in auto)
      then show ?thesis using a c ct clock v by (simp add: accepts_def)
    qed
  qed
qed

text \<open>A rule of the table is looked up and processed without a panic.\<close>

lemma stored_rule_event:
  assumes ok: "system_ok S" "w_up (g_world (sy_reg S)) (w_step (g_world (sy_reg S)))"
    and r: "find_rule ident (shared_db (rs_db (sy_store S))) = Some r" "rr_spec r = Some stored"
  shows "\<exists>result g'. deliver registry allow ''rule.created'' (json_wire (event_payload ident)) (seen S) = Ret (result, g')
    \<and> (if \<not> rr_enabled r then result = Inr () \<and> scheduled g' = (scheduled (sy_reg S))(ident := None)
       else if accepts registry allow stored (g_limits (sy_reg S)) (tick (g_world (seen S)))
         then result = Inr () \<and> scheduled g' = (scheduled (sy_reg S))(ident \<mapsto> stored)
         else is_err result \<and> scheduled g' = (scheduled (sy_reg S))(ident := None))"
proof -
  obtain result g' where run: "processRule registry allow ident (seen S) = Ret (result, g')"
    using event_ok seen_ok [OF ok(1)] by blast
  have d: "deliver registry allow ''rule.created'' (json_wire (event_payload ident)) (seen S) = Ret (result, g')"
    using run deliver_subject [of registry allow RuleCreated] by (simp add: subject_name_def)
  have found: "fst (GetRule ident (g_world (seen S))) = Inr r"
    using fst_GetRule [of "g_world (seen S)" ident] r(1) ok(2) by (simp add: seen_def)
  then have g: "GetRule ident (g_world (seen S)) = (Inr r, tick (g_world (seen S)))"
    by (simp add: prod_eq_iff)
  have inv: "Inv (seen S)" "sane_limits (g_limits (seen S))" using seen_ok [OF ok(1)] by (simp_all add: worker_ok_def)
  have t: "table_after (Inr r) ident (scheduled (seen S)) result (scheduled g')"
    using processRule_table_aux [OF inv run] found by simp
  have sel: "scheduled (seen S) = scheduled (sy_reg S)" "g_limits (seen S) = g_limits (sy_reg S)" by (simp_all add: seen_def)
  have "(result = Inr ()) = accepts registry allow stored (g_limits (sy_reg S)) (tick (g_world (seen S)))" if "rr_enabled r"
    using processRule_accepts [OF inv run g that r(2)] by (simp add: sel)
  then show ?thesis using d t r(2) by (auto simp: table_after_def sel)
qed

text \<open>
  C3: A rule that the rule service accepts reaches the scheduler. In any state of the system that
  starts from safe tables, a creation that is answered with 200 stores the JSON of the rule and
  publishes \<open>rule.created\<close> with the rule's id when the bus takes it (a refusal is ignored, then
  nothing is published). When a message it published is delivered, now or after further steps in
  which no request changed the rules, and the database answers the lookup, the worker does not
  panic and: a rule created disabled has no job; an enabled rule has a job with exactly the
  stored specification when the worker finds the adapter of its connection and validates the
  rule; otherwise it has no job and the worker returns an error. All other jobs are as before.
  The id that PostgreSQL generated is read as canonical.
\<close>
theorem created_rule_is_scheduled:
  assumes start: "rules_safe (rs_db st)" "(system_step h env registry allow)\<^sup>*\<^sup>* (system_start st workers w) S"
    and reply: "handleRulesCreate (RuleHandler.truncate h) (Inr req) env (sy_store S) = (ApiOK 200 (ident, spec), s')"
    and uuid: "pg_uuid env ident = Some ident"
    and later: "(system_step h env registry allow)\<^sup>*\<^sup>* (S \<lparr> sy_store := s' \<rparr>) S'"
      "rule_columns S' = rule_columns (S \<lparr> sy_store := s' \<rparr>)"
    and up: "w_up (g_world (sy_reg S')) (w_step (g_world (sy_reg S')))"
  shows "\<exists>stored. rule_json spec = Some stored
    \<and> rs_events s' = rs_events (sy_store S) @ (if pg_bus env (rs_step s' - 1) then [(''rule.created'', ident)] else [])
    \<and> list_all (\<lambda>(name, i). \<exists>result g'. deliver registry allow name (json_wire (event_payload i)) (seen S') = Ret (result, g')
        \<and> (if \<not> r_enabled spec then result = Inr () \<and> scheduled g' = (scheduled (sy_reg S'))(ident := None)
           else if accepts registry allow stored (g_limits (sy_reg S')) (tick (g_world (seen S')))
             then result = Inr () \<and> scheduled g' = (scheduled (sy_reg S'))(ident \<mapsto> stored)
             else is_err result \<and> scheduled g' = (scheduled (sy_reg S'))(ident := None)))
      (drop (length (rs_events (sy_store S))) (rs_events s'))"
proof -
  obtain s1 where c: "CreateRule (rule_row spec) env (sy_store S) = (Inr ident, s1)" "rs_db s' = rs_db s1"
    and ev: "rs_events s' = rs_events (sy_store S) @ (if pg_bus env (rs_step s' - 1) then [(''rule.created'', ident)] else [])"
    using created_reply [OF reply] insert_keeps_events by metis
  obtain row stored where row: "t_rules (rs_db s') = t_rules (rs_db (sy_store S)) @ [row]" "rr_id row = ident" "rr_spec row = Some stored"
    "rule_json spec = Some stored" "rr_enabled row = r_enabled spec" "ident \<notin> rr_id ` set (t_rules (rs_db (sy_store S)))"
    using created_row [OF c(1) uuid] unfolding c(2) by (auto simp: rule_row_def)
  have "system_ok S" using system_ok_always [OF start(2)] start_ok [OF start(1)] by blast
  moreover have "rules_safe (rs_db s')"
    using h_keepsD [OF safety.rule_handlers(2)] reply \<open>system_ok S\<close> by (metis snd_conv system_ok_def)
  ultimately have ok: "system_ok S'" using system_ok_always [OF later(1)] by (simp add: system_ok_def)
  obtain r where r: "find_rule ident (shared_db (rs_db (sy_store S'))) = Some r" "frozen r = frozen (RuleRecord.truncate row)"
    using found_columns [OF later(2), of ident "RuleRecord.truncate row"] find_last_rule [OF row(1)] row(2,6) by auto
  then have "rr_spec r = Some stored" "rr_enabled r = r_enabled spec"
    using row(3,5) by (simp_all add: frozen_def RuleRecord.defs)
  with stored_rule_event [OF ok up r(1), of stored registry allow] row(4) ev show ?thesis by auto
qed

subsection \<open>The start of the worker\<close>

definition listed :: "DB \<Rightarrow> string \<Rightarrow> RuleSpec \<Rightarrow> bool" where
  "listed d i spec = (\<exists>r \<in> set (db_rules d). rr_id r = i \<and> rr_enabled r \<and> rr_spec r = Some spec)"

lemma wrote_listed: "worker_wrote d d' \<Longrightarrow> listed d' i spec = listed d i spec"
proof -
  have t: "listed d i spec = ((i, Some spec, True) \<in> (\<lambda>(k, _, s, e). (k, s, e)) ` set (map frozen (db_rules d)))" for d
    by (force simp: listed_def frozen_def)
  assume "worker_wrote d d'"
  then show ?thesis by (simp add: t worker_wrote_def)
qed

text \<open>Every job belongs to an enabled rule of the table and runs the specification stored there.\<close>

definition jobs_listed :: "DB \<Rightarrow> Registry \<Rightarrow> bool" where
  "jobs_listed d g = (\<forall>i spec. scheduled g i = Some spec \<longrightarrow> listed d i spec)"

lemma event_listed:
  assumes "Inv g" "sane_limits (g_limits g)" "jobs_listed (w_db (g_world g)) g"
    and run: "processRule registry allow i g = Ret (result, g')"
  shows "jobs_listed (w_db (g_world g)) g'"
proof (cases "fst (GetRule i (g_world g))")
  case (Inl e)
  then show ?thesis using processRule_table_aux [OF assms(1,2) run] assms(3) by (simp add: table_after_def jobs_listed_def)
next
  case (Inr r)
  then have "r \<in> set (db_rules (w_db (g_world g)))" "rr_id r = i"
    by (auto simp: GetRule_def db_query_def split: if_splits option.splits dest!: find_rule_id)
  then have "rr_enabled r \<Longrightarrow> rr_spec r = Some spec \<Longrightarrow> listed (w_db (g_world g)) i spec" for spec
    by (auto simp: listed_def)
  then show ?thesis using processRule_table_aux [OF assms(1,2) run] assms(3) Inr
    by (auto simp: table_after_def jobs_listed_def split: if_splits option.splits)
qed

lemma all_events_listed:
  "Inv g \<Longrightarrow> sane_limits (g_limits g) \<Longrightarrow> jobs_listed (w_db (g_world g)) g \<Longrightarrow> process_all registry allow ids g = Ret g' \<Longrightarrow>
    jobs_listed (w_db (g_world g)) g' \<and> Inv g'"
proof (induction ids arbitrary: g)
  case (Cons i ids)
  then obtain result g1 where e: "processRule registry allow i g = Ret (result, g1)" and r: "process_all registry allow ids g1 = Ret g'"
    by (cases "processRule registry allow i g") auto
  have t: "takes_in (table_specs (w_db (g_world g))) g g1" using takes_in_event [OF e] .
  then have same: "jobs_listed (w_db (g_world g1)) = jobs_listed (w_db (g_world g))"
    using wrote_listed by (auto simp: takes_in_def jobs_listed_def fun_eq_iff)
  have "Inv g1" using processRule_table_aux [OF Cons.prems(1,2) e] by simp
  moreover have "sane_limits (g_limits g1)" using t Cons.prems(2) by (simp add: takes_in_def)
  moreover have "jobs_listed (w_db (g_world g1)) g1" using event_listed [OF Cons.prems(1-3) e] same by simp
  ultimately show ?case using Cons.IH [OF _ _ _ r] same by simp
qed simp

lemma all_events_take_in: "process_all registry allow ids g = Ret g' \<Longrightarrow> takes_in (table_specs (w_db (g_world g))) g g'"
proof (induction ids arbitrary: g)
  case (Cons i ids)
  then obtain result g1 where e: "processRule registry allow i g = Ret (result, g1)" and r: "process_all registry allow ids g1 = Ret g'"
    by (cases "processRule registry allow i g") auto
  have t: "takes_in (table_specs (w_db (g_world g))) g g1" using takes_in_event [OF e] .
  then have "table_specs (w_db (g_world g1)) = table_specs (w_db (g_world g))" using wrote_specs by (simp add: takes_in_def)
  with Cons.IH [OF r] t show ?case using takes_in_trans by simp
qed simp

lemma reconcile_listed:
  assumes "Inv g" "sane_limits (g_limits g)" "jobs_listed (w_db (g_world g)) g" "reconcile registry allow g = Ret (result, g')"
  shows "jobs_listed (w_db (g_world g)) g' \<and> length (g_workers g') = length (g_workers g)"
proof -
  obtain rs where l: "ListEnabledRules (g_world g) = (rs, tick (g_world g))" using lookup_world(5) by (metis prod.collapse)
  let ?g = "set_world (tick (g_world g)) g"
  have g: "Inv ?g" "sane_limits (g_limits ?g)" "jobs_listed (w_db (g_world ?g)) ?g" "length (g_workers ?g) = length (g_workers g)"
    using assms(1-3) by (simp_all add: jobs_listed_def) (simp add: set_world_def)
  show ?thesis
  proof (cases rs)
    case (Inl e)
    then have "g' = ?g" using assms(4) l by (simp add: reconcile_def)
    then show ?thesis using g by simp
  next
    case (Inr recs)
    then have "process_all registry allow (map rr_id recs) ?g = Ret g'" using assms(4) l by (auto simp: reconcile_def go_bind_Ret)
    with all_events_listed [OF g(1-3)] all_events_take_in show ?thesis using g(4) by (fastforce simp: takes_in_def)
  qed
qed

text \<open>
  C10: However the worker starts, and whatever fails on the way, it starts with jobs for enabled
  rules of the table only, each with the specification stored for it; its workers are as many
  as \<open>WORKER_COUNT\<close> says, none when that is zero or negative.
\<close>
theorem worker_starts_with_enabled_rules:
  assumes "worker_main pf peers readYaml w = Ret (WorkerRuns adapters allow reg actions)"
  shows "(\<forall>i spec. scheduled reg i = Some spec \<longrightarrow> listed (w_db w) i spec)
    \<and> length (g_workers reg) = nat (getenvInt (pf_env pf) ''WORKER_COUNT'' 4)"
proof -
  let ?g = "NewRegistry DefaultLimits (nat (getenvInt (pf_env pf) ''WORKER_COUNT'' 4)) w"
  obtain result where r: "reconcile (Some adapters) allow ?g = Ret (result, reg)"
    using assms unfolding worker_main_def Let_def by (auto simp: go_bind_Ret split: prod.splits sum.splits)
  have g: "Inv ?g" "sane_limits (g_limits ?g)" "g_world ?g = w" "heap_specs ?g = {}" "scheduled ?g = (\<lambda>_. None)"
    "length (g_workers ?g) = nat (getenvInt (pf_env pf) ''WORKER_COUNT'' 4)"
    using Inv_NewRegistry sane_DefaultLimits by (auto simp: NewRegistry_def heap_specs_def scheduled_def)
  show ?thesis using reconcile_listed [OF g(1,2) _ r] g(3,5,6) by (simp add: jobs_listed_def)
qed

text \<open>A rule created from a prompt, in a store with its connection.\<close>

definition quiet_request :: rulePromptRequest where
  "quiet_request = \<lparr> rq_prompt = example_prompt, rq_connection = ''c'', rq_name = ''gaps'', rq_description = [],
     rq_enabled = None, rq_table = [], rq_column = [], rq_timestamp = [], rq_parameters = [], rq_draft = None \<rparr>"

definition quiet_spec :: RuleSpec where
  "quiet_spec = empty_rule \<lparr> r_name := ''gaps'', r_connection := ''c'',
     r_source := \<lparr> so_table = ''t'', so_timestamp = ''u'', so_where = None, so_value_column = ''v'' \<rparr>,
     r_parameters := [\<lparr> p_name = ''v'', p_column = ''v'',
       p_detector = empty_detector \<lparr> d_type := ''missing_data'', d_missing := Some \<lparr> md_max_gap = 120 \<rparr> \<rparr> \<rparr>],
     r_poll := 60, r_enabled := True, r_parameter_name := ''v'' \<rparr>"

lemma number_needs_digit:
  assumes "FindStringSubmatch r s = Some c" "2 \<in> must r" "\<And>a. (2, a) \<in> set (groups_of r) \<Longrightarrow> a = number_re"
  shows "\<exists>d \<in> set s. is_digit d"
proof -
  obtain i j where "spans s number_re i j"
    using match_group [OF FindStringSubmatch_sound [OF assms(1)] assms(2)] assms(3) by blast
  then have "i < length s" "is_digit (s ! i)" by (auto simp: number_re_def digits1_def some_of_def)
  then show ?thesis by auto
qed

lemma quiet_numbers: "FindStringSubmatch betweenRe example_prompt = None" "FindStringSubmatch rangeRe example_prompt = None"
  "FindStringSubmatch compareRe example_prompt = None"
proof -
  have d: "\<not> (\<exists>d \<in> set example_prompt. is_digit d)" by (simp add: example_prompt_def is_digit_def)
  have n: "groups_of number_re = []" by (simp add: number_re_def digits1_def some_of_def optional_def)
  have g: "2 \<in> must betweenRe" "2 \<in> must rangeRe" "2 \<in> must compareRe"
    "(2, a) \<in> set (groups_of betweenRe) \<Longrightarrow> a = number_re" "(2, a) \<in> set (groups_of rangeRe) \<Longrightarrow> a = number_re"
    "(2, a) \<in> set (groups_of compareRe) \<Longrightarrow> a = number_re" for a
    by (simp_all add: betweenRe_def rangeRe_def compareRe_def spaces1_def spaces0_def some_of_def lit_def optional_def n)
  show "FindStringSubmatch betweenRe example_prompt = None" "FindStringSubmatch rangeRe example_prompt = None"
    "FindStringSubmatch compareRe example_prompt = None"
    using number_needs_digit [of betweenRe example_prompt] number_needs_digit [of rangeRe example_prompt]
      number_needs_digit [of compareRe example_prompt] d g by (metis not_None_eq)+
qed

lemma quiet_threshold: "prompt_threshold example_prompt = None"
  by (simp add: prompt_threshold_def quiet_numbers)

lemma quiet_clauses: "prompt_clauses example_prompt = []"
  by (simp add: prompt_clauses_def whereClause_def andClause_def clause_tail_def re_eval FindAllStringSubmatch_def example_prompt_def)

lemma quiet_groups: "group_text example_prompt [(1, 6, 7)] 1 = ''t''" "group_text example_prompt [(1, 16, 20), (2, 21, 22)] 2 = ''u''"
  "group_text example_prompt [(1, 8, 13), (2, 14, 15)] 2 = ''v''"
  by (simp_all add: group_text_def example_prompt_def numeral_eq_Suc span_def)

lemma quiet_parsed: "ParsePromptWithDraft example_prompt ''c'' None = Inr (quiet_spec \<lparr> r_name := [] \<rparr>)"
proof -
  have t: "prompt_table example_prompt None = Some ''t''" "prompt_timestamp example_prompt None = Some ''u''"
    by (simp_all add: prompt_table_def prompt_timestamp_def example_table example_timestamp quiet_groups [unfolded One_nat_def])
  have d: "prompt_detector_type example_prompt th = ''missing_data''" for th
    by (simp add: prompt_detector_type_def example_missing)
  have i: "prompt_interval example_prompt = 60" by (simp add: prompt_interval_def example_interval)
  have w: "prompt_where example_prompt None = None" by (simp add: prompt_where_def quiet_clauses)
  have k: "wrap64 120 = 120" by (simp add: wrap64_id int64_def)
  have n: "example_prompt \<noteq> []" by (simp add: example_prompt_def)
  show ?thesis
    by (simp add: ParsePromptWithDraft_def example_trim t d i w n example_column quiet_groups [unfolded One_nat_def] draft_parameters_def Let_def
        rules_buildDetector_def quiet_threshold ConditionSpecFromThreshold_def quiet_spec_def empty_rule_def k)
qed

lemma quiet_valid: "ValidateRuleSpec quiet_spec 5 3600 = None" "rule_json quiet_spec = Some quiet_spec"
  by code_simp+

lemma quiet_rule: "prompt_rule example_handler quiet_request = Inr quiet_spec"
proof -
  have "buildDraft quiet_request = None" by (simp add: buildDraft_def quiet_request_def)
  then show ?thesis using quiet_valid(1)
    by (simp add: prompt_rule_def quiet_request_def quiet_parsed quiet_spec_def empty_rule_def example_handler_def Let_def)
qed

lemma quiet_created: "\<exists>s'. handleRulesCreate example_handler (Inr quiet_request) RuleStoreProps.example_env connected_store
    = (ApiOK 200 (''u0'', quiet_spec), s')"
proof -
  have "(case CreateRule (rule_row quiet_spec) RuleStoreProps.example_env connected_store of (Inr i, _) \<Rightarrow> i = ''u0'' | _ \<Rightarrow> False)"
    by code_simp
  then obtain s1 where "CreateRule (rule_row quiet_spec) RuleStoreProps.example_env connected_store = (Inr ''u0'', s1)"
    by (auto split: prod.splits sum.splits)
  then show ?thesis by (simp add: handleRulesCreate_def with_body_def quiet_rule on_ok_def publish_def respond_def)
qed

text \<open>The table of the rule, and the worker's adapter for it.\<close>

definition quiet_adapter :: DbMcpAdapter where
  "quiet_adapter = (example_adapter []) \<lparr> ad_list_columns := (\<lambda>_ _. Inr [\<lparr> col_name = ''u'', col_type = ''timestamp'' \<rparr>,
     \<lparr> col_name = ''v'', col_type = ''numeric'' \<rparr>]) \<rparr>"

lemma quiet_validates: "RuntimeValidateRule quiet_adapter quiet_spec [] DefaultLimits now = Ret (Inr ())"
proof -
  have ids: "IsSafeIdentifier ''t''" "IsSafeIdentifier ''u''" "IsSafeIdentifier ''v''" by code_simp+
  show ?thesis
    using ids
    by (simp add: RuntimeValidateRule_def validate_shape_def quiet_spec_def empty_rule_def DefaultLimits_def
        validation_parameters_def AllowsTable_def quiet_adapter_def example_adapter_def colTypes_def type_of_column_def
        validate_param_def uses_aggregate_def empty_detector_def Let_def)
qed

lemma created_rule_is_scheduled_witness:
  "\<exists>s' g'. handleRulesCreate example_handler (Inr quiet_request) RuleStoreProps.example_env connected_store = (ApiOK 200 (''u0'', quiet_spec), s')
    \<and> rs_events s' = [(''rule.created'', ''u0'')]
    \<and> deliver (Some [(''postgres'', \<lambda>_. quiet_adapter)]) [] ''rule.created'' (json_wire (event_payload ''u0''))
        (seen ((system_start connected_store 2 example_world) \<lparr> sy_store := s' \<rparr>)) = Ret (Inr (), g')
    \<and> scheduled g' ''u0'' = Some quiet_spec"
proof -
  let ?reg = "Some [(''postgres'', \<lambda>_::nat. quiet_adapter)]" and ?env = RuleStoreProps.example_env
  let ?S = "system_start connected_store 2 example_world"
  obtain s' where c: "handleRulesCreate example_handler (Inr quiet_request) ?env connected_store = (ApiOK 200 (''u0'', quiet_spec), s')"
    using quiet_created by blast
  let ?T = "?S \<lparr> sy_store := s' \<rparr>"
  have h: "handleRulesCreate (RuleHandler.truncate stepper_handler) (Inr quiet_request) ?env (sy_store ?S) = (ApiOK 200 (''u0'', quiet_spec), s')"
    using c by (simp add: system_start_def stepper_handler_def RuleHandler.defs example_handler_def)
  have safe: "rules_safe (rs_db connected_store)"
    by (simp add: rules_safe_def connected_store_def unit_store_def empty_store_def empty_db_def)
  have up: "pg_uuid ?env ''u0'' = Some ''u0''" "\<And>n. pg_bus ?env n" "w_up (g_world (sy_reg ?T)) (w_step (g_world (sy_reg ?T)))"
    by (simp_all add: RuleStoreProps.example_env_def system_start_def NewRegistry_def example_world_def)
  have e: "rs_events (sy_store ?S) = []" "r_enabled quiet_spec" "r_connection quiet_spec = ''c''"
    by (simp_all add: system_start_def connected_store_def unit_store_def empty_store_def quiet_spec_def empty_rule_def)
  have conn: "t_connections (rs_db s') = [example_connection]"
    using created_connections [OF c] by (simp add: connected_store_def)
  have p: "to_lower ''postgres'' = ''postgres''" by code_simp
  have acc: "accepts ?reg [] quiet_spec (g_limits (sy_reg ?T)) (tick (g_world (seen ?T)))"
    using quiet_validates
    by (simp add: accepts_def GetConnectionType_def db_query_def seen_def system_start_def NewRegistry_def example_world_def set_world_def
        tick_def shared_db_def conn e(3) example_connection_def AdapterFor_def p)
  from created_rule_is_scheduled [where registry = ?reg and allow = "[]", OF safe rtranclp.rtrancl_refl h up(1) rtranclp.rtrancl_refl refl up(3)]
  show ?thesis using c acc up(2) e quiet_valid(2) by auto
qed

text \<open>A worker without workers, on tables without rules.\<close>

definition idle_platform :: Platform where
  "idle_platform = \<lparr> pf_env = (\<lambda>key. if key = ''WORKER_COUNT'' then ''0'' else if key = ''MCP_POSTGRES_HTTP'' then ''http://mcp'' else []),
     pf_pool = (\<lambda>_. Inr ()), pf_ping = (\<lambda>_. Inr ()), pf_files = Inr [], pf_read = (\<lambda>_. Inl ''no file''), pf_exec = (\<lambda>_ _. Inr ()),
     pf_nats = (\<lambda>_. Inr ()), pf_listen = (\<lambda>_. Inr ()), pf_shutdown = Inr () \<rparr>"

lemma worker_starts_with_enabled_rules_witness:
  "\<exists>adapters reg actions. worker_main idle_platform \<lparr> pe_http = (\<lambda>_ _ _. Inl ''refused''), pe_stdio = (\<lambda>_ _ _ _. Inl ''refused'') \<rparr>
      (\<lambda>_. Inl ''no file'') empty_world = Ret (WorkerRuns adapters [] reg actions) \<and> scheduled reg ''r'' = None \<and> g_workers reg = []"
proof -
  have n: "getenvInt (pf_env idle_platform) ''WORKER_COUNT'' 4 = 0"
    by (simp add: getenvInt_def idle_platform_def) code_simp
  obtain adapters reg actions where r: "worker_main idle_platform \<lparr> pe_http = (\<lambda>_ _ _. Inl ''refused''), pe_stdio = (\<lambda>_ _ _ _. Inl ''refused'') \<rparr>
      (\<lambda>_. Inl ''no file'') empty_world = Ret (WorkerRuns adapters [] reg actions)"
    by (auto simp: worker_main_def n) (simp add: idle_platform_def worker_NewStore_def NewSubscriber_def getenv_def splitCSV_def
        buildAdapterRegistry_def reconcile_def ListEnabledRules_def db_query_def empty_world_def example_world_def NewRegistry_def set_world_def)
  have "\<not> listed (w_db empty_world) ''r'' spec" for spec by (simp add: listed_def empty_world_def)
  then show ?thesis using worker_starts_with_enabled_rules [OF r] r n by (cases "scheduled reg ''r''") auto
qed

lemma system_never_panics_witness:
  "\<not> panics (reconcile None [] (seen ((system_start rule_store 4 example_world)
      \<lparr> sy_store := serve_request stepper_handler RuleStoreProps.example_env (RuleRequest (PostRuleDisable ''r'')) rule_store \<rparr>)))"
proof -
  let ?S = "system_start rule_store 4 example_world"
  have "rules_safe (rs_db rule_store)"
    using validated_worker_safe [OF valid_trend_ok] by (simp add: rules_safe_def rule_store_def trend_row_spec)
  moreover have "sy_store ?S = rule_store" by (simp add: system_start_def)
  ultimately show ?thesis
    using system_never_panics [of rule_store stepper_handler RuleStoreProps.example_env None "[]" 4 example_world]
      system_step.request [of stepper_handler RuleStoreProps.example_env None "[]" ?S "RuleRequest (PostRuleDisable ''r'')"]
    by (metis r_into_rtranclp)
qed

end
