(* ===== verification/Spec2Isabelle.thy ===== *)
theory Spec2Isabelle
  imports Main Prelude GoFloat GoText GoTime GoValue SchedTypes SchedStats SchedEval SchedRules SchedSamples
    SchedStore SchedEvaluate SchedValidation SchedRegistry SchedMachine McpAdapter SchedWorker DetectorProps
    SchedRunFacts SchedProps MachineProps WorkerProps Stepper StepperProps Connector Connectors ConnectorProps
    Crypto McpServer McpServerProps Service ServiceProps RuleValidator GoRegexp RuleParser RuleProps
    RuleStorage RuleApi RuleUnits RuleLines RuleStepper RulePreview RuleCatalog
    RuleStoreProps RuleRoutes RuleApiProps ShutdownProps StatExact ResultProps RuleStepperProps RulePreviewProps
    SavedPreviewProps
    RuleJson Startup StartupProps Composition
begin

text \<open>
  A verification library for the predixaAI backend: a fleet of Go services that watch the rows
  machines write into databases. A user describes a rule (by a prompt, by a form or in full);
  the rule service stores it and announces it on a message bus; the scheduler keeps one job per
  rule, evaluates the rule on the newest rows at each tick and raises alerts; an MCP server and
  a connector service reach the databases of the plants.

  Which theory models what.

  The language. \<open>Prelude\<close> has results (\<open>Inl\<close> an error, \<open>Inr\<close> a value), panics (\<open>go\<close>: \<open>Ret\<close> or
  \<open>Panic\<close>) and Go maps as association lists. \<open>GoFloat\<close> has float64 with rounding to nearest even
  over rationals and a square root; \<open>GoText\<close> byte strings; \<open>GoTime\<close> int64, durations and RFC 3339;
  \<open>GoValue\<close> the values of type \<open>any\<close>, the printing and the reading of numbers; \<open>GoRegexp\<close> a
  backtracking matcher that follows Go's leftmost-first rule.

  The scheduler (services/scheduler-service). \<open>SchedTypes\<close> (types.go), \<open>SchedStats\<close> (stats.go, the
  median of detectors.go), \<open>SchedEval\<close> (detectors.go), \<open>SchedRules\<close> (phase1_rules.go), \<open>SchedSamples\<close>
  (samples.go, baseline.go), \<open>SchedStore\<close> (internal/storage, internal/security), \<open>SchedEvaluate\<close>
  (evaluator.go, the evaluation half of scheduler.go, the cooldown), \<open>SchedValidation\<close>
  (internal/validation), \<open>SchedRegistry\<close> (the job registry of scheduler.go), \<open>SchedMachine\<close> (its
  goroutines as a step relation), \<open>McpAdapter\<close> (internal/mcp), \<open>SchedWorker\<close> (cmd/worker, events) and
  \<open>Stepper\<close> (stepper.go and the admin endpoints).

  Connections to plants. \<open>Connector\<close> and \<open>Connectors\<close> (the connector package and its three
  dialects), \<open>Crypto\<close> (password encryption in the three places it is written), \<open>McpServer\<close>
  (cmd/mcp-server), \<open>Service\<close> (cmd/service).

  The rule service (services/rule-service). \<open>RuleValidator\<close> and \<open>RuleParser\<close> (internal/rules),
  \<open>RuleStorage\<close> (internal/storage: tables, and each method as statements over them), \<open>RuleApi\<close>
  (handlers.go), \<open>RuleUnits\<close> (machine_units.go), \<open>RuleLines\<close> (statistics and production lines),
  \<open>RuleStepper\<close> (stored stepper rules and their synchronisation), \<open>RulePreview\<close> (the requests
  passed on to other services), \<open>RuleCatalog\<close> (the catalog), \<open>RuleRoutes\<close> (the route tables),
  \<open>RuleJson\<close> (types.go: the JSON of every struct as the rule service writes it and as the
  scheduler reads it).

  The processes. \<open>Startup\<close> has the \<open>main\<close> functions of the five commands, the pools, the migrations,
  the two ends of the bus and how each stops. \<open>Composition\<close> puts the rule service and the worker on
  one database: \<open>shared_db\<close> is what the scheduler's queries see of the tables, \<open>store_back\<close> puts what
  the worker wrote back into them, and \<open>system_step\<close> interleaves requests, messages (lost, late or
  repeated), reloads and the goroutines.

  How it is modelled. A function of the source is a function of the same name, with a prefix
  where two packages share a name; a method gets its receiver as an argument and gives it back
  when it changes it. An int is an \<open>int\<close>, with \<open>wrap64\<close> where the code multiplies seconds into
  nanoseconds; a float64 does not keep the sign of zero or the payload of a NaN; strings are
  bytes and letter case is that of ASCII; an instant is a number of nanoseconds and is printed
  in UTC. The text of an error is kept without the operands \<open>%q\<close> quotes. Texts that \<open>Sprintf\<close>
  builds from any value stay symbolic (\<open>gotext\<close>). A pointer is an option, and a nil slice is not
  told from an empty one. JSON is a tree in which \<open>VInt\<close> is a literal without a fraction; where an
  object repeats a key the last one counts. A time is encoded whatever
  its year. HTTP is left out: a handler takes the decoded body,
  or the error of decoding it, and gives a status with a payload.

  State. The scheduler's world (\<open>World\<close>) has the rules, connections and alerts tables, a clock and
  an availability of the database by the number of the step. Its registry keeps the jobs in a
  heap, since Go shares them by pointer, with a queue of 128 runs; \<open>step\<close> interleaves tickers,
  workers and operations, and a run is taken and finished in two steps, so that runs overlap as
  they do in the program. \<open>processRule\<close> is one step of the registry,
  together with the message it answers, and \<open>RuntimeValidateRule\<close> asks one state of the adapter and one
  reading of the clock for all parameters. The rule service's store
  (\<open>RuleStore\<close>) has the eight tables of its migrations, with keys, references and cascades. A
  statement can fail at any step and then changes nothing; a commit that reports an error has
  not happened; a read can be cut short, since the code never asks \<open>rows.Err\<close>. How Postgres reads
  a UUID and rounds a numeric column, fresh identifiers and whether the bus takes a message are
  parameters (\<open>PgEnv\<close>). Rows with one instant keep the order of the table, and a \<open>jsonb\<close> column
  gives back what was stored; that PostgreSQL refuses a NUL character there is left out. The
  column \<open>updated_at\<close> is written by the rule service only, since the worker never reads what its own
  statements write there.

  Parameters of the model. The drivers of the databases (\<open>Driver\<close>, \<open>TargetDB\<close>; what a driver gives for
  a row is scanned into the destination types by the rules of database/sql), the transports of
  the MCP clients (\<open>Peers\<close>), AES-GCM (\<open>sealing\<close>, \<open>unsealing\<close>), the HTTP client of the rule service
  (\<open>sh_post\<close>), \<open>uuid.Parse\<close>, and what the environment, the pool, the embedded files, the broker and
  the listening socket answer at the start (\<open>Platform\<close>). Where a property needs one of them it names what it assumes: that
  opening undoes sealing, that a UUID Postgres printed reads back as itself, that the peer is
  the service it should be.

  What is shown.
  The scheduler: the detectors against references (\<open>DetectorProps\<close>); that a run changes its own
  rule only, keeps the cooldown and panics only on a risky configuration (\<open>SchedRunFacts\<close>,
  \<open>SchedProps\<close>); that the registry is a finite map with one live job per rule in every reachable
  state, that its queue drains, and that its goroutines come to rest although a ticker can be
  left behind (\<open>MachineProps\<close>, \<open>ShutdownProps\<close>); what an event leaves (\<open>WorkerProps\<close>); that mean,
  deviation and regression are exact on whole numbers of moderate size (\<open>StatExact\<close>); that status,
  hit and violations of every result agree, for each of the eight detectors (\<open>ResultProps\<close>).
  The connections: that what is sent to a database is parameterised and quoted, round trips of
  identifiers and passwords, that the adapter and the server together are the fetch, and that
  errors of the store do not leak (\<open>ConnectorProps\<close>, \<open>McpServerProps\<close>, \<open>Crypto\<close>, \<open>ServiceProps\<close>).
  The rule service: what the prompt parser and the validation accept (\<open>RuleProps\<close>); the integrity
  of the tables, the list updates and the transactions (\<open>RuleStoreProps\<close>); that every sequence of
  requests keeps that integrity and leaves only rules the scheduler survives (\<open>RuleApiProps\<close>);
  that creating and switching a stepper rule changes the scheduler's rule when the configuration
  makes one and leaves it alone when it does not (\<open>RuleStepperProps\<close>); that a baseline check asked
  of the rule service is the scheduler's (\<open>RulePreviewProps\<close>); that the preview of a Shewhart rule
  gives what a run of the saved rule with the same settings gives (\<open>SavedPreviewProps\<close>); that a rule written as JSON
  is read back whole (\<open>RuleJson\<close>).
  The services together: that nothing they do brings the worker down, that the creation of a
  rule announces it and the worker that hears it has a job with exactly the stored specification
  when the rule is enabled and passes the worker's checks (\<open>accepts\<close>), and no job otherwise, that the worker starts with enabled rules only
  (\<open>Composition\<close>); that migrations run in order and the rule service listens only on a complete
  database (\<open>StartupProps\<close>).

  Interfaces are locales, interpreted on the model: rounding (\<open>rounding\<close>, in \<open>GoFloat\<close>), the registry
  as a map (\<open>job_table\<close> and \<open>stoppable_table\<close>, in \<open>SchedRegistry\<close>), and \<open>table_invariant\<close> in \<open>RuleApiProps\<close>, a property that the calls of
  the repository keep and every handler therefore keeps, interpreted for the integrity of the
  tables and for the safety of the stored rules, and \<open>codec\<close> in \<open>RuleJson\<close>, a writer and a reader of
  JSON that undo each other, interpreted for each struct of a rule and each field type.

  Bounds. Every definition is a total function. The matcher recurses over the pattern; a search
  tries one start for each position and a search for all matches at most one more than the text
  has bytes, which is enough because every match moves on. The search of the square root halves
  its interval. No other recursion is bounded by a number.
  \<open>closing\<close> bounds the steps of the goroutines by the jobs, the workers and the queue.

  Not modelled: the insides of the libraries (pgx, NATS, database/sql, chi, the sockets), the
  encoding of HTTP, the time limit of a job and of a request beyond statements that fail, logging,
  and that a shutdown of the rule service does not wait for requests. A message names a rule in
  the spelling in which Postgres prints its identifier; another spelling of the same UUID finds
  no row in the worker's tables of the model. The values of a simulation job in models.go have no
  operation.
\<close>

end
